(* ===== verification/Prelude.thy ===== *)
theory Prelude
  imports Main "HOL-Library.Word" "HOL-Library.Signed_Division"
begin

text \<open>
  Shared vocabulary of the development: the C integer types as words, undefined behaviour as a
  value of a sum type, little-endian byte strings, and the generic lemmas on bits, lists and
  words that the component theories use through the simplifier.
\<close>

unbundle bit_operations_syntax

section \<open>C integer types\<close>

type_synonym u8 = "8 word"
type_synonym u16 = "16 word"
type_synonym u32 = "32 word"
type_synonym u64 = "64 word"

section \<open>Undefined behaviour and fatal errors as values\<close>

text \<open>
  An access outside the memory that the caller allocated is undefined behaviour in C
  (\<open>Out_Of_Bounds\<close>), as are a shift by the width of its operand or a second \<open>fclose\<close>
  (\<open>Undefined\<close>), and the \<open>RSP_FATAL\<close> macro ends the program. All are left injections of a sum; a
  call that returns normally is a right injection.
\<close>

datatype fault = Out_Of_Bounds | Undefined | Fatal string

type_synonym 'a run = "fault + 'a"

definition bind_run :: "'a run \<Rightarrow> ('a \<Rightarrow> 'b run) \<Rightarrow> 'b run" where
  "bind_run m f = (case m of Inl e \<Rightarrow> Inl e | Inr x \<Rightarrow> f x)"

lemma bind_run_simps [simp]:
  "bind_run (Inl e) f = Inl e"
  "bind_run (Inr x) f = f x"
  by (simp_all add: bind_run_def)

lemma bind_run_InrE:
  assumes "bind_run m f = Inr y"
  obtains x where "m = Inr x" "f x = Inr y"
  using assms by (cases m) auto

lemma bind_run_assoc: "bind_run (bind_run m f) g = bind_run m (\<lambda>x. bind_run (f x) g)"
  by (cases m) auto

definition run_ok :: "'a run \<Rightarrow> ('a \<Rightarrow> bool) \<Rightarrow> bool" where
  "run_ok m P = (case m of Inl e \<Rightarrow> False | Inr x \<Rightarrow> P x)"

lemma run_ok_simps [simp]:
  "run_ok (Inl e) P \<longleftrightarrow> False"
  "run_ok (Inr x) P \<longleftrightarrow> P x"
  by (simp_all add: run_ok_def)

lemma run_ok_bind:
  "run_ok m P \<Longrightarrow> (\<And>x. P x \<Longrightarrow> run_ok (f x) Q) \<Longrightarrow> run_ok (bind_run m f) Q"
  by (cases m) auto

lemma run_ok_mono: "run_ok m P \<Longrightarrow> (\<And>x. P x \<Longrightarrow> Q x) \<Longrightarrow> run_ok m Q"
  by (cases m) auto

lemma run_okE:
  assumes "run_ok m P"
  obtains x where "m = Inr x" "P x"
  using assms by (cases m) auto

section \<open>Bits of 32-bit words\<close>

text \<open>
  A field of an instruction is compared bit by bit: every bit position of a 32-bit word is one
  numeral, at which the simplifier decides the bit of each mask, shift and cast.
\<close>

lemma not_bit_beyond: "LENGTH('a::len) \<le> n \<Longrightarrow> bit (w :: 'a word) n \<longleftrightarrow> False"
  by (auto dest: bit_imp_le_length)

lemma less_32E:
  assumes "n < (32::nat)"
    and "P 0" "P 1" "P 2" "P 3" "P 4" "P 5" "P 6" "P 7"
    and "P 8" "P 9" "P 10" "P 11" "P 12" "P 13" "P 14" "P 15"
    and "P 16" "P 17" "P 18" "P 19" "P 20" "P 21" "P 22" "P 23"
    and "P 24" "P 25" "P 26" "P 27" "P 28" "P 29" "P 30" "P 31"
  shows "P n"
proof -
  have "n \<in> {0,1,2,3,4,5,6,7,8,9,10,11,12,13,14,15,16,17,18,19,20,21,22,23,24,25,26,27,28,29,30,31}"
    using assms(1) by simp presburger
  then show ?thesis using assms(2-) by auto
qed

lemma word32_eqI:
  fixes a b :: u32
  assumes "bit a 0 = bit b 0" "bit a 1 = bit b 1" "bit a 2 = bit b 2" "bit a 3 = bit b 3"
    and "bit a 4 = bit b 4" "bit a 5 = bit b 5" "bit a 6 = bit b 6" "bit a 7 = bit b 7"
    and "bit a 8 = bit b 8" "bit a 9 = bit b 9" "bit a 10 = bit b 10" "bit a 11 = bit b 11"
    and "bit a 12 = bit b 12" "bit a 13 = bit b 13" "bit a 14 = bit b 14" "bit a 15 = bit b 15"
    and "bit a 16 = bit b 16" "bit a 17 = bit b 17" "bit a 18 = bit b 18" "bit a 19 = bit b 19"
    and "bit a 20 = bit b 20" "bit a 21 = bit b 21" "bit a 22 = bit b 22" "bit a 23 = bit b 23"
    and "bit a 24 = bit b 24" "bit a 25 = bit b 25" "bit a 26 = bit b 26" "bit a 27 = bit b 27"
    and "bit a 28 = bit b 28" "bit a 29 = bit b 29" "bit a 30 = bit b 30" "bit a 31 = bit b 31"
  shows "a = b"
proof (rule bit_word_eqI)
  fix n assume "n < LENGTH(32)"
  then have "n < 32" by simp
  then show "bit a n = bit b n" by (rule less_32E) (fact assms)+
qed

lemma mask_test [simp]:
  fixes x :: "'a::len word"
  shows "x AND push_bit n 1 = 0 \<longleftrightarrow> \<not> bit x n" "x AND 2 ^ n = 0 \<longleftrightarrow> \<not> bit x n"
  by (simp_all add: bit_iff_and_push_bit_not_eq_0 flip: push_bit_of_1)

lemma bit_times_2: "bit (x * 2) n \<longleftrightarrow> n < LENGTH('a) \<and> 0 < n \<and> bit x (n - 1)"
  for x :: "'a::len word"
  by (cases n) (auto simp: mult.commute [of x] bit_double_iff dest: bit_imp_le_length)

lemma unat_u32_less: "unat (x :: u32) < 4294967296"
  using unsigned_less [of x] by simp

lemma plus_one_small: "unat (a :: u32) + 1 < 2 ^ 32 \<Longrightarrow> unat (a + 1) = unat a + 1"
  by (subst unat_add_lem [THEN iffD1]) simp_all

lemma unat_u64_of_u32 [simp]: "unat (ucast (x :: u32) :: u64) = unat x"
proof -
  have "unat x < 2 ^ 64" using unat_u32_less [of x] by simp
  then show ?thesis by (simp add: unsigned_ucast_eq take_bit_nat_eq_self)
qed

section \<open>Little-endian byte strings\<close>

text \<open>
  The multi-byte accesses of the source are pointer casts; on the little-endian hosts it is
  written for, the byte at the lowest address is the least significant one.
\<close>

primrec le_word :: "u8 list \<Rightarrow> 'a::len word" where
  "le_word [] = 0"
| "le_word (b # bs) = ucast b OR push_bit 8 (le_word bs)"

primrec le_bytes :: "nat \<Rightarrow> 'a::len word \<Rightarrow> u8 list" where
  "le_bytes 0 w = []"
| "le_bytes (Suc n) w = ucast w # le_bytes n (drop_bit 8 w)"

lemma length_le_bytes [simp]: "length (le_bytes n w) = n"
  by (induction n arbitrary: w) auto

lemma le_word_le_bytes: "le_word (le_bytes n w) = take_bit (8 * n) (w :: 'a::len word)"
proof (induction n arbitrary: w)
  case 0
  show ?case by simp
next
  case (Suc n)
  have "ucast (ucast w :: u8) OR push_bit 8 (take_bit (8 * n) (drop_bit 8 w))
      = take_bit (8 + 8 * n) w"
    by (rule bit_word_eqI) (auto simp: bit_simps not_less dest: bit_imp_le_length)
  with Suc.IH show ?case by simp
qed

lemma le_word_le_bytes_full: "LENGTH('a) \<le> 8 * n \<Longrightarrow> le_word (le_bytes n w) = (w :: 'a::len word)"
  by (simp add: le_word_le_bytes take_bit_word_eq_self)

lemma le_bytes_le_word:
  "8 * length bs \<le> LENGTH('a::len) \<Longrightarrow> le_bytes (length bs) (le_word bs :: 'a word) = bs"
proof (induction bs)
  case Nil
  show ?case by simp
next
  case (Cons b bs)
  have 1: "ucast (ucast b OR push_bit 8 (le_word bs) :: 'a word) = b"
    using Cons.prems by (intro bit_word_eqI) (auto simp: bit_simps)
  have "length bs < LENGTH('a) - 8 + 1" using Cons.prems by simp
  have hi: "\<not> bit (le_word bs :: 'a word) k" if "8 * length bs \<le> k" for k
    using that
  proof (induction bs arbitrary: k)
    case Nil
    then show ?case by simp
  next
    case (Cons c cs)
    then show ?case by (auto simp: bit_simps dest: bit_imp_le_length)
  qed
  have 2: "drop_bit 8 (ucast b OR push_bit 8 (le_word bs) :: 'a word) = le_word bs"
    using Cons.prems hi
    by (intro bit_word_eqI) (force simp: bit_simps dest: bit_imp_le_length)
  from Cons 1 2 show ?case by simp
qed

lemma bit_le_word:
  "bit (le_word bs :: 'a::len word) n \<longleftrightarrow>
     n < LENGTH('a) \<and> n div 8 < length bs \<and> bit (bs ! (n div 8)) (n mod 8)"
proof (induction bs arbitrary: n)
  case Nil
  show ?case by simp
next
  case (Cons b bs)
  show ?case
  proof (cases "n < 8")
    case True
    then show ?thesis by (auto simp: bit_simps)
  next
    case False
    then obtain m where "n = m + 8" by (metis add.commute le_Suc_ex not_less)
    moreover have "(m + 8) div 8 = Suc (m div 8)" "(m + 8) mod 8 = m mod 8" by simp_all
    ultimately show ?thesis by (auto simp: bit_simps Cons.IH dest: bit_imp_le_length)
  qed
qed

lemma ucast_le_word:
  assumes "8 * length bs \<le> LENGTH('a)"
  shows "ucast (le_word bs :: 'a::len word) = (le_word bs :: 'b::len word)"
  using assms by (intro bit_word_eqI) (auto simp: bit_simps bit_le_word)

end
