(* ===== verification/Decode.thy ===== *)
theory Decode
  imports Prelude
begin

text \<open>
  The decoding macros of \<open>src/src/rv32.h\<close> (\<open>SEXT\<close>, the register fields and the immediates)
  and the five instruction formats they read. An encoder places typed fields at the positions
  of the RISC-V formats; the lemmas say that every macro reads its field back from every
  encoding, and what the sign extensions compute.
\<close>

section \<open>The macros\<close>

definition SEXT :: "u32 \<Rightarrow> nat \<Rightarrow> u32" where
  "SEXT x n = (if x AND push_bit (n - 1) 1 \<noteq> 0 then x OR push_bit n 0xFFFFFFFF else x)"

definition OPCODE :: "u32 \<Rightarrow> u32" where "OPCODE instr = instr AND 0x7f"
definition FUNCT3 :: "u32 \<Rightarrow> u32" where "FUNCT3 instr = drop_bit 12 instr AND 0x7"
definition FUNCT7 :: "u32 \<Rightarrow> u32" where "FUNCT7 instr = drop_bit 25 instr AND 0x7f"
definition RD :: "u32 \<Rightarrow> u32" where "RD instr = drop_bit 7 instr AND 0x1f"
definition RS1 :: "u32 \<Rightarrow> u32" where "RS1 instr = drop_bit 15 instr AND 0x1f"
definition RS2 :: "u32 \<Rightarrow> u32" where "RS2 instr = drop_bit 20 instr AND 0x1f"

definition IMM_I :: "u32 \<Rightarrow> u32" where "IMM_I instr = drop_bit 20 instr AND 0xfff"
definition SEXT_IMM_I :: "u32 \<Rightarrow> u32" where "SEXT_IMM_I instr = SEXT (IMM_I instr) 12"

definition IMM_S :: "u32 \<Rightarrow> u32" where
  "IMM_S instr = drop_bit 7 (instr AND 0xf80) OR drop_bit 20 (instr AND 0xfe000000)"
definition SEXT_IMM_S :: "u32 \<Rightarrow> u32" where "SEXT_IMM_S instr = SEXT (IMM_S instr) 12"

definition IMM_B :: "u32 \<Rightarrow> u32" where
  "IMM_B instr =
     drop_bit 7 (instr AND 0xf00) OR drop_bit 20 (instr AND 0x7e000000) OR
     push_bit 4 (instr AND 0x80) OR drop_bit 19 (instr AND 0x80000000)"
definition SEXT_IMM_B :: "u32 \<Rightarrow> u32" where "SEXT_IMM_B instr = SEXT (IMM_B instr) 13"

definition IMM_U :: "u32 \<Rightarrow> u32" where "IMM_U instr = drop_bit 12 instr"
definition SEXT_IMM_U :: "u32 \<Rightarrow> u32" where "SEXT_IMM_U instr = SEXT (IMM_U instr) 20"

definition IMM_J :: "u32 \<Rightarrow> u32" where
  "IMM_J instr =
     drop_bit 20 (instr AND 0x7fe00000) OR drop_bit 9 (instr AND 0x100000) OR
     (instr AND 0xff000) OR drop_bit 11 (instr AND 0x80000000)"
definition SEXT_IMM_J :: "u32 \<Rightarrow> u32" where "SEXT_IMM_J instr = SEXT (IMM_J instr) 20"

section \<open>Sign extension\<close>

lemma bit_all_ones_shifted: "bit (push_bit n (0xFFFFFFFF :: u32)) k \<longleftrightarrow> n \<le> k \<and> k < 32"
proof -
  have "(0xFFFFFFFF :: u32) = - 1" by simp
  then show ?thesis by (simp only: bit_simps) auto
qed

lemma bit_SEXT:
  assumes "0 < n" "n \<le> 32"
  shows "bit (SEXT x n) k \<longleftrightarrow> k < 32 \<and> (bit x k \<or> n \<le> k \<and> bit x (n - 1))"
  using assms by (auto simp: SEXT_def bit_or_iff bit_all_ones_shifted dest: bit_imp_le_length)

text \<open>On a field of \<open>n\<close> bits the macro is two's complement sign extension.\<close>

lemma SEXT_signed_take_bit:
  assumes "0 < n" "n \<le> 32" "take_bit n x = x"
  shows "SEXT x n = signed_take_bit (n - 1) x"
proof (rule bit_word_eqI)
  fix k assume "k < LENGTH(32)"
  then have k: "k < 32" by simp
  have hi: "\<not> bit x k" if "n \<le> k"
    using assms(3) that by (metis bit_take_bit_iff not_less)
  show "bit (SEXT x n) k \<longleftrightarrow> bit (signed_take_bit (n - 1) x) k"
  proof (cases "n \<le> k")
    case True
    with k hi assms(1,2) show ?thesis
      by (simp add: bit_SEXT bit_signed_take_bit_iff min_absorb2)
  next
    case False
    then have "k = n - 1 \<or> k < n - 1" by arith
    with False k assms(1,2) show ?thesis
      by (auto simp: bit_SEXT bit_signed_take_bit_iff)
  qed
qed

section \<open>The instruction formats\<close>

definition r_type :: "7 word \<Rightarrow> 5 word \<Rightarrow> 3 word \<Rightarrow> 5 word \<Rightarrow> 5 word \<Rightarrow> 7 word \<Rightarrow> u32" where
  "r_type opc rd f3 rs1 rs2 f7 =
     ucast opc OR push_bit 7 (ucast rd) OR push_bit 12 (ucast f3) OR push_bit 15 (ucast rs1) OR
     push_bit 20 (ucast rs2) OR push_bit 25 (ucast f7)"

definition i_type :: "7 word \<Rightarrow> 5 word \<Rightarrow> 3 word \<Rightarrow> 5 word \<Rightarrow> 12 word \<Rightarrow> u32" where
  "i_type opc rd f3 rs1 imm =
     ucast opc OR push_bit 7 (ucast rd) OR push_bit 12 (ucast f3) OR push_bit 15 (ucast rs1) OR
     push_bit 20 (ucast imm)"

definition s_type :: "7 word \<Rightarrow> 3 word \<Rightarrow> 5 word \<Rightarrow> 5 word \<Rightarrow> 12 word \<Rightarrow> u32" where
  "s_type opc f3 rs1 rs2 imm =
     ucast opc OR push_bit 12 (ucast f3) OR push_bit 15 (ucast rs1) OR push_bit 20 (ucast rs2) OR
     push_bit 7 (take_bit 5 (ucast imm)) OR push_bit 25 (drop_bit 5 (ucast imm))"

text \<open>
  Branch and jump offsets are even: the formats hold bits 1 to 12 and 1 to 20 of the offset.
\<close>

definition b_type :: "7 word \<Rightarrow> 3 word \<Rightarrow> 5 word \<Rightarrow> 5 word \<Rightarrow> 12 word \<Rightarrow> u32" where
  "b_type opc f3 rs1 rs2 imm =
     ucast opc OR push_bit 12 (ucast f3) OR push_bit 15 (ucast rs1) OR push_bit 20 (ucast rs2) OR
     push_bit 7 (take_bit 1 (drop_bit 10 (ucast imm))) OR push_bit 8 (take_bit 4 (ucast imm)) OR
     push_bit 25 (take_bit 6 (drop_bit 4 (ucast imm))) OR push_bit 31 (drop_bit 11 (ucast imm))"

definition u_type :: "7 word \<Rightarrow> 5 word \<Rightarrow> 20 word \<Rightarrow> u32" where
  "u_type opc rd imm = ucast opc OR push_bit 7 (ucast rd) OR push_bit 12 (ucast imm)"

definition j_type :: "7 word \<Rightarrow> 5 word \<Rightarrow> 20 word \<Rightarrow> u32" where
  "j_type opc rd imm =
     ucast opc OR push_bit 7 (ucast rd) OR
     push_bit 12 (take_bit 8 (drop_bit 11 (ucast imm))) OR
     push_bit 20 (take_bit 1 (drop_bit 10 (ucast imm))) OR
     push_bit 21 (take_bit 10 (ucast imm)) OR push_bit 31 (drop_bit 19 (ucast imm))"

lemmas format_defs = r_type_def i_type_def s_type_def b_type_def u_type_def j_type_def
lemmas field_defs = OPCODE_def FUNCT3_def FUNCT7_def RD_def RS1_def RS2_def
lemmas imm_defs = IMM_I_def IMM_S_def IMM_B_def IMM_U_def IMM_J_def
lemmas sext_imm_defs =
  SEXT_IMM_I_def SEXT_IMM_S_def SEXT_IMM_B_def SEXT_IMM_U_def SEXT_IMM_J_def

named_theorems decode "what the decoding macros read from an encoded instruction"

subsection \<open>Register and function fields\<close>

lemma r_type_fields [decode]:
  "OPCODE (r_type opc rd f3 rs1 rs2 f7) = ucast opc"
  "FUNCT3 (r_type opc rd f3 rs1 rs2 f7) = ucast f3"
  "FUNCT7 (r_type opc rd f3 rs1 rs2 f7) = ucast f7"
  "RD (r_type opc rd f3 rs1 rs2 f7) = ucast rd"
  "RS1 (r_type opc rd f3 rs1 rs2 f7) = ucast rs1"
  "RS2 (r_type opc rd f3 rs1 rs2 f7) = ucast rs2"
  unfolding field_defs r_type_def
  by (rule word32_eqI; simp add: bit_simps not_bit_beyond)+

lemma i_type_fields [decode]:
  "OPCODE (i_type opc rd f3 rs1 imm) = ucast opc"
  "FUNCT3 (i_type opc rd f3 rs1 imm) = ucast f3"
  "RD (i_type opc rd f3 rs1 imm) = ucast rd"
  "RS1 (i_type opc rd f3 rs1 imm) = ucast rs1"
  "IMM_I (i_type opc rd f3 rs1 imm) = ucast imm"
  unfolding field_defs i_type_def IMM_I_def
  by (rule word32_eqI; simp add: bit_simps not_bit_beyond)+

lemma i_type_FUNCT7 [decode]:
  "FUNCT7 (i_type opc rd f3 rs1 imm) = ucast (drop_bit 5 imm)"
  unfolding field_defs i_type_def
  by (rule word32_eqI; simp add: bit_simps not_bit_beyond)

lemma s_type_fields [decode]:
  "OPCODE (s_type opc f3 rs1 rs2 imm) = ucast opc"
  "FUNCT3 (s_type opc f3 rs1 rs2 imm) = ucast f3"
  "RS1 (s_type opc f3 rs1 rs2 imm) = ucast rs1"
  "RS2 (s_type opc f3 rs1 rs2 imm) = ucast rs2"
  "IMM_S (s_type opc f3 rs1 rs2 imm) = ucast imm"
  unfolding field_defs s_type_def IMM_S_def
  by (rule word32_eqI; simp add: bit_simps not_bit_beyond)+

lemma b_type_fields [decode]:
  "OPCODE (b_type opc f3 rs1 rs2 imm) = ucast opc"
  "FUNCT3 (b_type opc f3 rs1 rs2 imm) = ucast f3"
  "RS1 (b_type opc f3 rs1 rs2 imm) = ucast rs1"
  "RS2 (b_type opc f3 rs1 rs2 imm) = ucast rs2"
  "IMM_B (b_type opc f3 rs1 rs2 imm) = push_bit 1 (ucast imm)"
  unfolding field_defs b_type_def IMM_B_def
  by (rule word32_eqI; simp add: bit_simps not_bit_beyond bit_times_2 flip: bit_iff_odd_drop_bit)+

lemma u_type_fields [decode]:
  "OPCODE (u_type opc rd imm) = ucast opc"
  "RD (u_type opc rd imm) = ucast rd"
  "IMM_U (u_type opc rd imm) = ucast imm"
  unfolding field_defs u_type_def IMM_U_def
  by (rule word32_eqI; simp add: bit_simps not_bit_beyond)+

lemma j_type_fields [decode]:
  "OPCODE (j_type opc rd imm) = ucast opc"
  "RD (j_type opc rd imm) = ucast rd"
  "IMM_J (j_type opc rd imm) = push_bit 1 (ucast imm)"
  unfolding field_defs j_type_def IMM_J_def
  by (rule word32_eqI; simp add: bit_simps not_bit_beyond bit_times_2 flip: bit_iff_odd_drop_bit)+

subsection \<open>Signed immediates\<close>

text \<open>
  The signed value of each immediate. A branch or jump offset is twice the signed value of the
  field. \<open>SEXT_IMM_J\<close> extends from bit 19 of a 21-bit offset, so it is the offset only when bits
  19 and 20 of the offset (18 and 19 of the field) agree.
\<close>

lemma i_type_SEXT [decode]: "SEXT_IMM_I (i_type opc rd f3 rs1 imm) = scast imm"
  unfolding SEXT_IMM_I_def i_type_fields
  by (rule word32_eqI; simp add: bit_SEXT bit_simps not_bit_beyond)

lemma s_type_SEXT [decode]: "SEXT_IMM_S (s_type opc f3 rs1 rs2 imm) = scast imm"
  unfolding SEXT_IMM_S_def s_type_fields
  by (rule word32_eqI; simp add: bit_SEXT bit_simps not_bit_beyond)

lemma b_type_SEXT [decode]: "SEXT_IMM_B (b_type opc f3 rs1 rs2 imm) = push_bit 1 (scast imm)"
  unfolding SEXT_IMM_B_def b_type_fields
  by (rule word32_eqI; simp add: bit_SEXT bit_simps bit_times_2 not_bit_beyond)

lemma u_type_SEXT [decode]: "push_bit 12 (SEXT_IMM_U (u_type opc rd imm)) = push_bit 12 (ucast imm)"
  unfolding SEXT_IMM_U_def u_type_fields
  by (rule word32_eqI; simp add: bit_SEXT bit_simps not_bit_beyond)

lemma j_type_SEXT_bit:
  "bit (SEXT_IMM_J (j_type opc rd imm)) 20 \<longleftrightarrow> bit imm 18 \<or> bit imm 19"
  "bit (SEXT_IMM_J (j_type opc rd imm)) 31 \<longleftrightarrow> bit imm 18"
  unfolding SEXT_IMM_J_def j_type_fields
  by (auto simp: bit_SEXT bit_simps bit_times_2 not_bit_beyond)

lemma j_type_SEXT_iff:
  "SEXT_IMM_J (j_type opc rd imm) = push_bit 1 (scast imm) \<longleftrightarrow> (bit imm 18 \<longleftrightarrow> bit imm 19)"
proof
  assume *: "SEXT_IMM_J (j_type opc rd imm) = push_bit 1 (scast imm)"
  have "bit (push_bit 1 (scast imm) :: u32) 31 \<longleftrightarrow> bit imm 19"
    by (simp add: bit_simps bit_times_2)
  then show "bit imm 18 \<longleftrightarrow> bit imm 19"
    using j_type_SEXT_bit(2) [of opc rd imm] by (simp only: *)
next
  assume *: "bit imm 18 \<longleftrightarrow> bit imm 19"
  show "SEXT_IMM_J (j_type opc rd imm) = push_bit 1 (scast imm)"
    unfolding SEXT_IMM_J_def j_type_fields
    by (rule word32_eqI; simp add: bit_SEXT bit_simps bit_times_2 not_bit_beyond *)
qed

subsection \<open>Bounds\<close>

lemma mask_less:
  fixes x :: "'a::len word"
  shows "unat (x AND mask n) < 2 ^ n"
  by (simp add: unsigned_take_bit_eq flip: take_bit_eq_mask)

lemma field_bounds [simp]:
  "unat (RD instr) < 32" "unat (RS1 instr) < 32" "unat (RS2 instr) < 32"
  using mask_less [of "drop_bit 7 instr" 5] mask_less [of "drop_bit 15 instr" 5]
    mask_less [of "drop_bit 20 instr" 5]
  by (simp_all add: RD_def RS1_def RS2_def mask_eq_exp_minus_1)

end
