(* ===== verification/Machine.thy ===== *)
theory Machine
  imports Prelude
begin

text \<open>
  The data of \<open>src/src/rv32.h\<close>: the status enumeration, the register names, the \<open>RV32\<close>
  structure with its layout in memory, and the life cycle of a machine (\<open>rv32_new\<close>,
  \<open>rv32_reset\<close>, \<open>rv32_resume\<close>). The invariant \<open>wf_rv32\<close> says that the arrays have
  the sizes of the C declarations and that the caller allocated \<open>RV32_NEEDED_MEMORY\<close> bytes.
\<close>

section \<open>Status\<close>

datatype rv32_status =
  RV32_RUNNING
| RV32_HALTED
| RV32_PAUSED
| RV32_EBREAK
| RV32_INVALID_INSTRUCTION
| RV32_INVALID_MEMORY_ACCESS

primrec status_code :: "rv32_status \<Rightarrow> nat" where
  "status_code RV32_RUNNING = 0"
| "status_code RV32_HALTED = 1"
| "status_code RV32_PAUSED = 2"
| "status_code RV32_EBREAK = 3"
| "status_code RV32_INVALID_INSTRUCTION = 4"
| "status_code RV32_INVALID_MEMORY_ACCESS = 5"

lemma status_code_inject: "status_code a = status_code b \<longleftrightarrow> a = b"
  by (cases a; cases b) simp_all

text \<open>The C enumeration orders its constants by their codes.\<close>

instantiation rv32_status :: linorder
begin

definition less_eq_rv32_status :: "rv32_status \<Rightarrow> rv32_status \<Rightarrow> bool" where
  "less_eq_rv32_status a b \<longleftrightarrow> status_code a \<le> status_code b"

definition less_rv32_status :: "rv32_status \<Rightarrow> rv32_status \<Rightarrow> bool" where
  "less_rv32_status a b \<longleftrightarrow> status_code a < status_code b"

instance
  by standard (auto simp: less_eq_rv32_status_def less_rv32_status_def status_code_inject)

end

definition rv32_status_name :: "string list" where
  "rv32_status_name =
     [''RV32_RUNNING'', ''RV32_HALTED'', ''RV32_PAUSED'', ''RV32_EBREAK'',
      ''RV32_INVALID_INSTRUCTION'', ''RV32_INVALID_MEMORY_ACCESS'']"

section \<open>Registers\<close>

datatype rv32_register =
  REG_ZERO | REG_RA | REG_SP | REG_GP | REG_TP | REG_T0 | REG_T1 | REG_T2
| REG_S0 | REG_S1 | REG_A0 | REG_A1 | REG_A2 | REG_A3 | REG_A4 | REG_A5
| REG_A6 | REG_A7 | REG_S2 | REG_S3 | REG_S4 | REG_S5 | REG_S6 | REG_S7
| REG_S8 | REG_S9 | REG_S10 | REG_S11 | REG_T3 | REG_T4 | REG_T5 | REG_T6

definition all_registers :: "rv32_register list" where
  "all_registers =
     [REG_ZERO, REG_RA, REG_SP, REG_GP, REG_TP, REG_T0, REG_T1, REG_T2,
      REG_S0, REG_S1, REG_A0, REG_A1, REG_A2, REG_A3, REG_A4, REG_A5,
      REG_A6, REG_A7, REG_S2, REG_S3, REG_S4, REG_S5, REG_S6, REG_S7,
      REG_S8, REG_S9, REG_S10, REG_S11, REG_T3, REG_T4, REG_T5, REG_T6]"

primrec reg_index :: "rv32_register \<Rightarrow> nat" where
  "reg_index REG_ZERO = 0" | "reg_index REG_RA = 1" | "reg_index REG_SP = 2"
| "reg_index REG_GP = 3" | "reg_index REG_TP = 4" | "reg_index REG_T0 = 5"
| "reg_index REG_T1 = 6" | "reg_index REG_T2 = 7" | "reg_index REG_S0 = 8"
| "reg_index REG_S1 = 9" | "reg_index REG_A0 = 10" | "reg_index REG_A1 = 11"
| "reg_index REG_A2 = 12" | "reg_index REG_A3 = 13" | "reg_index REG_A4 = 14"
| "reg_index REG_A5 = 15" | "reg_index REG_A6 = 16" | "reg_index REG_A7 = 17"
| "reg_index REG_S2 = 18" | "reg_index REG_S3 = 19" | "reg_index REG_S4 = 20"
| "reg_index REG_S5 = 21" | "reg_index REG_S6 = 22" | "reg_index REG_S7 = 23"
| "reg_index REG_S8 = 24" | "reg_index REG_S9 = 25" | "reg_index REG_S10 = 26"
| "reg_index REG_S11 = 27" | "reg_index REG_T3 = 28" | "reg_index REG_T4 = 29"
| "reg_index REG_T5 = 30" | "reg_index REG_T6 = 31"

text \<open>The constant \<open>REG_FP = 8\<close> of the enumeration is a second name of \<open>REG_S0\<close>.\<close>

abbreviation "REG_FP \<equiv> REG_S0"

definition rname :: "string list" where
  "rname =
     [''zero'', ''ra'', ''sp'', ''gp'', ''tp'', ''t0'', ''t1'', ''t2'',
      ''s0'', ''s1'', ''a0'', ''a1'', ''a2'', ''a3'', ''a4'', ''a5'',
      ''a6'', ''a7'', ''s2'', ''s3'', ''s4'', ''s5'', ''s6'', ''s7'',
      ''s8'', ''s9'', ''s10'', ''s11'', ''t3'', ''t4'', ''t5'', ''t6'']"

lemma reg_index_less [simp]: "reg_index x < 32"
  by (cases x) simp_all

lemma all_registers_index: "map reg_index all_registers = [0..<32]"
  by (simp add: all_registers_def upt_conv_Cons)

section \<open>The machine\<close>

record interrupt_controller =
  ie :: u32
  ip :: u32

record rv32 =
  mem_size :: u32
  status :: rv32_status
  bp_mask :: u8
  bp :: "u32 list"
  r :: "u32 list"
  pc :: u32
  mstatus :: u32
  mie :: u32
  mip :: u32
  mtvec :: u32
  mepc :: u32
  mcause :: u32
  wfi :: u8
  interrupt_controller :: interrupt_controller
  mem :: "u8 list"

text \<open>
  The layout of the structure: each member is placed at the next multiple of its alignment, and
  the size is rounded up to the largest alignment. The members are given as (size, alignment).
\<close>

definition align_up :: "nat \<Rightarrow> nat \<Rightarrow> nat" where
  "align_up n a = (n + (a - 1)) div a * a"

fun struct_end :: "nat \<Rightarrow> (nat \<times> nat) list \<Rightarrow> nat" where
  "struct_end n [] = n"
| "struct_end n ((sz, al) # ms) = struct_end (align_up n al + sz) ms"

definition RV32_members :: "(nat \<times> nat) list" where
  "RV32_members =
     [(4, 4), (4, 4), (1, 1), (8 * 4, 4), (32 * 4, 4), (4, 4),
      (4, 4), (4, 4), (4, 4), (4, 4), (4, 4), (4, 4), (1, 1), (2 * 4, 4), (1, 1)]"

definition sizeof_RV32 :: nat where
  "sizeof_RV32 = align_up (struct_end 0 RV32_members) 4"

definition offsetof_mem :: nat where
  "offsetof_mem = align_up (struct_end 0 (butlast RV32_members)) 1"

lemma RV32_layout: "sizeof_RV32 = 216" "offsetof_mem = 212"
  by (code_simp, code_simp)

definition RV32_NEEDED_MEMORY :: "nat \<Rightarrow> nat" where
  "RV32_NEEDED_MEMORY bytes = sizeof_RV32 + bytes"

section \<open>The invariant\<close>

text \<open>
  \<open>mem\<close> holds every byte from the start of the member \<open>mem\<close> to the end of the caller's
  allocation, so it is longer than \<open>mem_size\<close> by the tail of the structure.
\<close>

definition wf_rv32 :: "rv32 \<Rightarrow> bool" where
  "wf_rv32 s \<longleftrightarrow> length (r s) = 32 \<and> length (bp s) = 8
     \<and> RV32_NEEDED_MEMORY (unat (mem_size s)) \<le> offsetof_mem + length (mem s)"

lemma wf_rv32_mem: "wf_rv32 s \<Longrightarrow> unat (mem_size s) + 4 \<le> length (mem s)"
  by (simp add: wf_rv32_def RV32_NEEDED_MEMORY_def RV32_layout)

lemma wf_rv32_lengths:
  assumes "wf_rv32 s"
  shows "length (r s) = 32" "length (bp s) = 8"
  using assms by (simp_all add: wf_rv32_def)

text \<open>Two machines have the same shape when their arrays have the same sizes.\<close>

definition same_shape :: "rv32 \<Rightarrow> rv32 \<Rightarrow> bool" where
  "same_shape s t \<longleftrightarrow> length (r s) = length (r t) \<and> length (bp s) = length (bp t)
     \<and> length (mem s) = length (mem t) \<and> mem_size s = mem_size t"

lemma same_shape_refl [simp]: "same_shape s s"
  by (simp add: same_shape_def)

lemma same_shape_trans [trans]: "same_shape s t \<Longrightarrow> same_shape t u \<Longrightarrow> same_shape s u"
  by (simp add: same_shape_def)

lemma same_shape_sym: "same_shape s t \<Longrightarrow> same_shape t s"
  by (simp add: same_shape_def)

lemma same_shape_wf: "same_shape s t \<Longrightarrow> wf_rv32 s \<longleftrightarrow> wf_rv32 t"
  by (simp add: same_shape_def wf_rv32_def)

lemma same_shape_keeps:
  assumes "same_shape s t" "wf_rv32 s"
  shows "wf_rv32 t" "mem_size t = mem_size s"
  using assms same_shape_wf [of s t] by (simp_all add: same_shape_def)

text \<open>A machine that is about to run the program in its RAM, with everything else zero.\<close>

definition boot :: "u8 list \<Rightarrow> rv32" where
  "boot ms =
     \<lparr>mem_size = word_of_nat (length ms), status = RV32_RUNNING, bp_mask = 0, bp = replicate 8 0,
      r = replicate 32 0, pc = 0, mstatus = 0, mie = 0, mip = 0, mtvec = 0, mepc = 0, mcause = 0,
      wfi = 0, interrupt_controller = \<lparr>ie = 0, ip = 0\<rparr>, mem = ms @ [0, 0, 0, 0]\<rparr>"

lemma boot_wf:
  assumes "length ms < 2 ^ 32"
  shows "wf_rv32 (boot ms)"
proof -
  have "unat (word_of_nat (length ms) :: u32) = length ms"
    using assms by (simp add: unsigned_of_nat take_bit_nat_eq_self)
  then show ?thesis
    by (simp add: wf_rv32_def boot_def RV32_NEEDED_MEMORY_def RV32_layout)
qed

section \<open>Life cycle\<close>

definition zeroed :: "rv32 \<Rightarrow> rv32" where
  "zeroed s =
     \<lparr>mem_size = 0, status = RV32_RUNNING, bp_mask = 0, bp = replicate (length (bp s)) 0,
      r = replicate (length (r s)) 0, pc = 0, mstatus = 0, mie = 0, mip = 0, mtvec = 0,
      mepc = 0, mcause = 0, wfi = 0, interrupt_controller = \<lparr>ie = 0, ip = 0\<rparr>,
      mem = replicate (sizeof_RV32 - offsetof_mem) 0
              @ drop (sizeof_RV32 - offsetof_mem) (mem s)\<rparr>"

text \<open>
  \<open>rv32_new\<close> receives a pointer to raw memory and reads it through the type \<open>RV32\<close>; its loop
  clears \<open>sizeof(RV32)\<close> bytes, which covers every member and the bytes of \<open>mem\<close> that lie
  within the structure and its padding, and nothing of \<open>mem\<close> beyond them.
\<close>

definition rv32_new :: "rv32 \<Rightarrow> u32 \<Rightarrow> rv32 run" where
  "rv32_new memory n =
     (if sizeof_RV32 \<le> offsetof_mem + length (mem memory)
      then Inr ((zeroed memory)\<lparr>mem_size := n, status := RV32_PAUSED\<rparr>)
      else Inl Out_Of_Bounds)"

definition rv32_reset :: "rv32 \<Rightarrow> rv32 run" where
  "rv32_reset s = rv32_new s (mem_size s)"

definition rv32_resume :: "rv32 \<Rightarrow> rv32" where
  "rv32_resume s = (if status s = RV32_PAUSED then s\<lparr>status := RV32_RUNNING\<rparr> else s)"

lemma zeroed_lengths:
  "length (r (zeroed s)) = length (r s)" "length (bp (zeroed s)) = length (bp s)"
  "4 \<le> length (mem s) \<Longrightarrow> length (mem (zeroed s)) = length (mem s)"
  by (simp_all add: zeroed_def RV32_layout)

lemma rv32_new_Inr:
  "4 \<le> length (mem m) \<Longrightarrow>
   rv32_new m n = Inr ((zeroed m)\<lparr>mem_size := n, status := RV32_PAUSED\<rparr>)"
  by (simp add: rv32_new_def RV32_layout)

lemma rv32_new_wf:
  assumes "length (r m) = 32" "length (bp m) = 8"
    and "RV32_NEEDED_MEMORY (unat n) \<le> offsetof_mem + length (mem m)"
  shows "run_ok (rv32_new m n) wf_rv32"
  using assms
  by (simp add: rv32_new_def wf_rv32_def RV32_NEEDED_MEMORY_def RV32_layout zeroed_def)

lemma rv32_reset_eq:
  assumes "wf_rv32 s"
  shows "rv32_reset s = Inr ((zeroed s)\<lparr>mem_size := mem_size s, status := RV32_PAUSED\<rparr>)"
  unfolding rv32_reset_def by (rule rv32_new_Inr) (use wf_rv32_mem [OF assms] in simp)

lemma rv32_reset_shape:
  assumes "wf_rv32 s"
  shows "run_ok (rv32_reset s) (same_shape s)"
  using wf_rv32_mem [OF assms]
  by (simp add: rv32_reset_eq [OF assms] same_shape_def zeroed_lengths)

lemma rv32_resume_shape [simp]: "same_shape s (rv32_resume s)"
  by (simp add: rv32_resume_def same_shape_def)

lemma rv32_resume_wf [simp]: "wf_rv32 (rv32_resume s) \<longleftrightarrow> wf_rv32 s"
  using same_shape_wf [OF rv32_resume_shape] by blast

end
