(* ===== verification/Memory.thy ===== *)
theory Memory
  imports Machine
begin

text \<open>
  Memory accesses of \<open>src/src/rv32.h\<close>: \<open>rv32_load8/16/32\<close> and \<open>rv32_store8/16/32\<close>, which
  serve RAM and the interrupt controller themselves and hand every other address to the
  embedder's \<open>mmio_*\<close> functions. The locale \<open>byte_cell\<close> is the contract of a read and a write
  of a fixed width on a byte array; the three widths of the source are its interpretations.
\<close>

section \<open>Reads and writes of a byte array\<close>

definition mem_get :: "nat \<Rightarrow> u8 list \<Rightarrow> nat \<Rightarrow> 'a::len word option" where
  "mem_get n ms a = (if a + n \<le> length ms then Some (le_word (take n (drop a ms))) else None)"

definition mem_put :: "nat \<Rightarrow> u8 list \<Rightarrow> nat \<Rightarrow> 'a::len word \<Rightarrow> u8 list option" where
  "mem_put n ms a v =
     (if a + n \<le> length ms then Some (take a ms @ le_bytes n v @ drop (a + n) ms) else None)"

locale byte_cell =
  fixes get :: "u8 list \<Rightarrow> nat \<Rightarrow> 'a option"
    and put :: "u8 list \<Rightarrow> nat \<Rightarrow> 'a \<Rightarrow> u8 list option"
    and width :: nat
  assumes get_defined: "get ms a \<noteq> None \<longleftrightarrow> a + width \<le> length ms"
    and put_defined: "put ms a v \<noteq> None \<longleftrightarrow> a + width \<le> length ms"
    and put_length: "put ms a v = Some ms' \<Longrightarrow> length ms' = length ms"
    and get_put: "put ms a v = Some ms' \<Longrightarrow> get ms' a = Some v"
    and put_get: "get ms a = Some v \<Longrightarrow> put ms a v = Some ms"
    and put_elsewhere:
      "put ms a v = Some ms' \<Longrightarrow> i < length ms \<Longrightarrow> i < a \<or> a + width \<le> i \<Longrightarrow> ms' ! i = ms ! i"
    and get_local:
      "length ms = length ms' \<Longrightarrow> (\<And>i. a \<le> i \<Longrightarrow> i < a + width \<Longrightarrow> i < length ms \<Longrightarrow> ms ! i = ms' ! i)
       \<Longrightarrow> get ms a = get ms' a"
begin

lemma get_put_disjoint:
  assumes "put ms a v = Some ms'" "b + width \<le> a \<or> a + width \<le> b"
  shows "get ms' b = get ms b"
proof (rule get_local)
  show "length ms' = length ms" using assms(1) by (rule put_length)
  fix i assume "b \<le> i" "i < b + width" "i < length ms'"
  with assms show "ms' ! i = ms ! i"
    by (intro put_elsewhere [OF assms(1)]) (auto simp: put_length [OF assms(1)])
qed

lemma put_total: "a + width \<le> length ms \<Longrightarrow> \<exists>ms'. put ms a v = Some ms' \<and> length ms' = length ms"
  using put_defined put_length by fastforce

lemma get_total: "a + width \<le> length ms \<Longrightarrow> \<exists>v. get ms a = Some v"
  using get_defined by fastforce

end

lemma mem_get_defined: "mem_get n ms a \<noteq> None \<longleftrightarrow> a + n \<le> length ms"
  by (simp add: mem_get_def)

lemma mem_put_defined: "mem_put n ms a v \<noteq> None \<longleftrightarrow> a + n \<le> length ms"
  by (simp add: mem_put_def)

lemma mem_put_length: "mem_put n ms a v = Some ms' \<Longrightarrow> length ms' = length ms"
  by (auto simp: mem_put_def split: if_splits)

lemma mem_put_nth_outside:
  "mem_put n ms a v = Some ms' \<Longrightarrow> i < length ms \<Longrightarrow> i < a \<or> a + n \<le> i \<Longrightarrow> ms' ! i = ms ! i"
  by (auto simp: mem_put_def nth_append split: if_splits)

lemma mem_put_drop: "mem_put n ms a v = Some ms' \<Longrightarrow> a + n \<le> k \<Longrightarrow> drop k ms' = drop k ms"
  by (auto simp: mem_put_def drop_append split: if_splits)

lemma mem_put_nth_inside:
  "mem_put n ms a v = Some ms' \<Longrightarrow> i < n \<Longrightarrow> ms' ! (a + i) = le_bytes n v ! i"
  by (auto simp: mem_put_def nth_append split: if_splits)

lemma mem_get_put:
  assumes "LENGTH('a) \<le> 8 * n" "mem_put n ms a (v :: 'a::len word) = Some ms'"
  shows "mem_get n ms' a = Some v"
  using assms by (auto simp: mem_put_def mem_get_def le_word_le_bytes_full split: if_splits)

lemma mem_put_get:
  assumes "8 * n \<le> LENGTH('a)" "mem_get n ms a = Some (v :: 'a::len word)"
  shows "mem_put n ms a v = Some ms"
proof -
  from assms(2) have le: "a + n \<le> length ms" and v: "v = le_word (take n (drop a ms))"
    by (auto simp: mem_get_def split: if_splits)
  have len: "length (take n (drop a ms)) = n" using le by simp
  have "le_bytes (length (take n (drop a ms))) (le_word (take n (drop a ms)) :: 'a word)
      = take n (drop a ms)"
    by (rule le_bytes_le_word) (use assms(1) len in simp)
  then have bytes: "le_bytes n v = take n (drop a ms)"
    unfolding len by (simp add: v)
  have "drop (a + n) ms = drop n (drop a ms)" by (simp add: add.commute)
  then have "take a ms @ take n (drop a ms) @ drop (a + n) ms = ms"
    by (metis append_take_drop_id)
  with le show ?thesis by (simp add: mem_put_def bytes)
qed

lemma mem_get_local:
  assumes "length ms = length ms'"
    and "\<And>i. a \<le> i \<Longrightarrow> i < a + n \<Longrightarrow> i < length ms \<Longrightarrow> ms ! i = ms' ! i"
  shows "mem_get n ms a = mem_get n ms' a"
proof -
  have "take n (drop a ms) = take n (drop a ms')"
    by (rule nth_equalityI) (use assms in auto)
  with assms(1) show ?thesis by (simp add: mem_get_def)
qed

lemma byte_cell_mem:
  assumes "LENGTH('a::len) = 8 * n"
  shows "byte_cell (mem_get n :: u8 list \<Rightarrow> nat \<Rightarrow> 'a word option) (mem_put n) n"
proof
  show "mem_get n ms a \<noteq> (None :: 'a word option) \<longleftrightarrow> a + n \<le> length ms" for ms a
    by (rule mem_get_defined)
  show "mem_put n ms a v \<noteq> None \<longleftrightarrow> a + n \<le> length ms" for ms a and v :: "'a word"
    by (rule mem_put_defined)
  show "length ms' = length ms" if "mem_put n ms a v = Some ms'" for ms ms' a and v :: "'a word"
    using that by (rule mem_put_length)
  show "mem_get n ms' a = Some v" if "mem_put n ms a v = Some ms'" for ms ms' a and v :: "'a word"
    using that by (intro mem_get_put) (simp_all add: assms)
  show "mem_put n ms a v = Some ms" if "mem_get n ms a = Some v" for ms a and v :: "'a word"
    using that by (intro mem_put_get) (simp_all add: assms)
  show "ms' ! i = ms ! i"
    if "mem_put n ms a v = Some ms'" "i < length ms" "i < a \<or> a + n \<le> i"
    for ms ms' a i and v :: "'a word"
    using that by (rule mem_put_nth_outside)
  show "mem_get n ms a = (mem_get n ms' a :: 'a word option)"
    if "length ms = length ms'" "\<And>i. a \<le> i \<Longrightarrow> i < a + n \<Longrightarrow> i < length ms \<Longrightarrow> ms ! i = ms' ! i"
    for ms ms' a
    using that by (rule mem_get_local)
qed

interpretation cell8: byte_cell "mem_get 1 :: u8 list \<Rightarrow> nat \<Rightarrow> u8 option" "mem_put 1" 1
  by (rule byte_cell_mem) simp

interpretation cell16: byte_cell "mem_get 2 :: u8 list \<Rightarrow> nat \<Rightarrow> u16 option" "mem_put 2" 2
  by (rule byte_cell_mem) simp

interpretation cell32: byte_cell "mem_get 4 :: u8 list \<Rightarrow> nat \<Rightarrow> u32 option" "mem_put 4" 4
  by (rule byte_cell_mem) simp

section \<open>The embedder\<close>

text \<open>
  \<open>rv32.h\<close> declares \<open>mmio_load*\<close>, \<open>mmio_store*\<close> and \<open>ecall\<close>, and the program that embeds the
  machine defines them. They receive the machine itself, so they may change it, and act on a
  world of the embedder's own (\<open>'w\<close>: output, a screen, a device).
\<close>

datatype 'a rv32_result = RV32_OK 'a | RV32_ERR

type_synonym 'w vm = "rv32 \<times> 'w"

record 'w platform =
  mmio_load8 :: "'w vm \<Rightarrow> u32 \<Rightarrow> u8 rv32_result \<times> 'w vm"
  mmio_load16 :: "'w vm \<Rightarrow> u32 \<Rightarrow> u16 rv32_result \<times> 'w vm"
  mmio_load32 :: "'w vm \<Rightarrow> u32 \<Rightarrow> u32 rv32_result \<times> 'w vm"
  mmio_store8 :: "'w vm \<Rightarrow> u32 \<Rightarrow> u8 \<Rightarrow> unit rv32_result \<times> 'w vm"
  mmio_store16 :: "'w vm \<Rightarrow> u32 \<Rightarrow> u16 \<Rightarrow> unit rv32_result \<times> 'w vm"
  mmio_store32 :: "'w vm \<Rightarrow> u32 \<Rightarrow> u32 \<Rightarrow> unit rv32_result \<times> 'w vm"
  ecall :: "'w vm \<Rightarrow> 'w vm"

section \<open>Loads and stores\<close>

definition RV32_INTERRUPT_CONTROLLER_ADDRESS :: u32 where
  "RV32_INTERRUPT_CONTROLLER_ADDRESS = 0x90000000"

text \<open>
  The guard \<open>addr <= rv32->mem_size - sizeof(T)\<close>: \<open>sizeof\<close> has the type \<open>size_t\<close>, 64 bits wide on
  the hosts of the Makefile, so both sides are converted to 64 bits and the subtraction wraps.
\<close>

definition in_ram :: "nat \<Rightarrow> rv32 \<Rightarrow> u32 \<Rightarrow> bool" where
  "in_ram n s addr \<longleftrightarrow> (ucast addr :: u64) \<le> ucast (mem_size s) - word_of_nat n"

definition ram_read :: "nat \<Rightarrow> 'w vm \<Rightarrow> u32 \<Rightarrow> ('a::len word rv32_result \<times> 'w vm) run" where
  "ram_read n v addr =
     (case mem_get n (mem (fst v)) (unat addr) of
        None \<Rightarrow> Inl Out_Of_Bounds
      | Some x \<Rightarrow> Inr (RV32_OK x, v))"

definition ram_write :: "nat \<Rightarrow> 'w vm \<Rightarrow> u32 \<Rightarrow> 'a::len word \<Rightarrow> (unit rv32_result \<times> 'w vm) run" where
  "ram_write n v addr x =
     (case mem_put n (mem (fst v)) (unat addr) x of
        None \<Rightarrow> Inl Out_Of_Bounds
      | Some ms \<Rightarrow> Inr (RV32_OK (), ((fst v)\<lparr>mem := ms\<rparr>, snd v)))"

definition rv32_load8 :: "'w platform \<Rightarrow> 'w vm \<Rightarrow> u32 \<Rightarrow> (u8 rv32_result \<times> 'w vm) run" where
  "rv32_load8 p v addr =
     (if in_ram 1 (fst v) addr then ram_read 1 v addr else Inr (mmio_load8 p v addr))"

definition rv32_load16 :: "'w platform \<Rightarrow> 'w vm \<Rightarrow> u32 \<Rightarrow> (u16 rv32_result \<times> 'w vm) run" where
  "rv32_load16 p v addr =
     (if in_ram 2 (fst v) addr then ram_read 2 v addr else Inr (mmio_load16 p v addr))"

definition rv32_load32 :: "'w platform \<Rightarrow> 'w vm \<Rightarrow> u32 \<Rightarrow> (u32 rv32_result \<times> 'w vm) run" where
  "rv32_load32 p v addr =
     (if in_ram 4 (fst v) addr then ram_read 4 v addr
      else if addr = RV32_INTERRUPT_CONTROLLER_ADDRESS
      then Inr (RV32_OK (ie (interrupt_controller (fst v))), v)
      else Inr (mmio_load32 p v addr))"

definition rv32_store8 :: "'w platform \<Rightarrow> 'w vm \<Rightarrow> u32 \<Rightarrow> u8 \<Rightarrow> (unit rv32_result \<times> 'w vm) run" where
  "rv32_store8 p v addr x =
     (if in_ram 1 (fst v) addr then ram_write 1 v addr x else Inr (mmio_store8 p v addr x))"

definition rv32_store16 :: "'w platform \<Rightarrow> 'w vm \<Rightarrow> u32 \<Rightarrow> u16 \<Rightarrow> (unit rv32_result \<times> 'w vm) run" where
  "rv32_store16 p v addr x =
     (if in_ram 2 (fst v) addr then ram_write 2 v addr x else Inr (mmio_store16 p v addr x))"

definition rv32_store32 :: "'w platform \<Rightarrow> 'w vm \<Rightarrow> u32 \<Rightarrow> u32 \<Rightarrow> (unit rv32_result \<times> 'w vm) run" where
  "rv32_store32 p v addr x =
     (if in_ram 4 (fst v) addr then ram_write 4 v addr x
      else if addr = RV32_INTERRUPT_CONTROLLER_ADDRESS
      then Inr (RV32_OK (), ((fst v)\<lparr>interrupt_controller := (interrupt_controller (fst v))\<lparr>ie := x\<rparr>\<rparr>, snd v))
      else Inr (mmio_store32 p v addr x))"

section \<open>The RAM guard\<close>

lemma in_ram_iff:
  assumes "n \<le> unat (mem_size s)"
  shows "in_ram n s addr \<longleftrightarrow> unat addr + n \<le> unat (mem_size s)"
proof -
  have lt: "unat (mem_size s) < 2 ^ 32" using unat_u32_less [of "mem_size s"] by simp
  then have n: "unat (word_of_nat n :: u64) = n"
    using assms by (simp add: unsigned_of_nat take_bit_nat_eq_self)
  have m: "unat (ucast (mem_size s) :: u64) = unat (mem_size s)"
    and a: "unat (ucast addr :: u64) = unat addr"
    by simp_all
  have "(word_of_nat n :: u64) \<le> ucast (mem_size s)"
    using assms n m by (simp add: word_le_nat_alt)
  then have "unat (ucast (mem_size s) - word_of_nat n :: u64) = unat (mem_size s) - n"
    using n m by (simp add: unat_sub)
  with a assms show ?thesis
    by (simp add: in_ram_def word_le_nat_alt le_diff_conv2)
qed

text \<open>
  With less RAM than the access is wide, the subtraction wraps and the guard holds at every
  address.
\<close>

lemma in_ram_wraps:
  assumes "unat (mem_size s) < n" "n \<le> 8"
  shows "in_ram n s addr"
proof -
  have n: "unat (word_of_nat n :: u64) = n"
    using assms by (simp add: unsigned_of_nat take_bit_nat_eq_self)
  have m: "unat (ucast (mem_size s) :: u64) = unat (mem_size s)"
    and a: "unat (ucast addr :: u64) = unat addr"
    by simp_all
  have "unat addr < 2 ^ 32" using unat_u32_less [of addr] by simp
  then have le: "unat addr \<le> unat (mem_size s) + 2 ^ 64 - n"
    using assms(2) by simp
  have "unat (ucast (mem_size s) - word_of_nat n :: u64) = unat (mem_size s) + 2 ^ 64 - n"
    using assms(1) n m by (simp add: unat_sub_if_size word_size)
  with le a show ?thesis
    by (simp only: in_ram_def word_le_nat_alt)
qed

lemma ram_read_Inr:
  "unat addr + n \<le> length (mem (fst v)) \<Longrightarrow>
   ram_read n v addr = Inr (RV32_OK (le_word (take n (drop (unat addr) (mem (fst v))))), v)"
  by (simp add: ram_read_def mem_get_def)

lemma ram_write_Inr:
  assumes "unat addr + n \<le> length (mem (fst v))"
  obtains ms where "mem_put n (mem (fst v)) (unat addr) x = Some ms"
    and "length ms = length (mem (fst v))"
    and "ram_write n v addr x = Inr (RV32_OK (), ((fst v)\<lparr>mem := ms\<rparr>, snd v))"
proof -
  from assms obtain ms where put: "mem_put n (mem (fst v)) (unat addr) x = Some ms"
    by (simp add: mem_put_def)
  from that [OF this] show thesis
    by (simp add: ram_write_def put mem_put_length [OF put])
qed

lemma in_ram_bound:
  assumes "wf_rv32 s" "n \<le> unat (mem_size s)" "in_ram n s addr"
  shows "unat addr + n \<le> length (mem s)"
  using assms wf_rv32_mem [OF assms(1)] by (simp add: in_ram_iff)

section \<open>The contract of the embedder\<close>

text \<open>
  The callbacks may change everything in the machine but the sizes of its arrays, which C does
  not let them change, and \<open>mem_size\<close>, which describes the allocation.
\<close>

lemma shape_set_ie: "same_shape s (s\<lparr>interrupt_controller := c\<rparr>)"
  by (simp add: same_shape_def)

locale platform_contract =
  fixes p :: "'w platform"
  assumes load8_shape: "wf_rv32 (fst v) \<Longrightarrow> same_shape (fst v) (fst (snd (mmio_load8 p v a)))"
    and load16_shape: "wf_rv32 (fst v) \<Longrightarrow> same_shape (fst v) (fst (snd (mmio_load16 p v a)))"
    and load32_shape: "wf_rv32 (fst v) \<Longrightarrow> same_shape (fst v) (fst (snd (mmio_load32 p v a)))"
    and store8_shape: "wf_rv32 (fst v) \<Longrightarrow> same_shape (fst v) (fst (snd (mmio_store8 p v a x8)))"
    and store16_shape: "wf_rv32 (fst v) \<Longrightarrow> same_shape (fst v) (fst (snd (mmio_store16 p v a x16)))"
    and store32_shape: "wf_rv32 (fst v) \<Longrightarrow> same_shape (fst v) (fst (snd (mmio_store32 p v a x32)))"
    and ecall_shape: "wf_rv32 (fst v) \<Longrightarrow> same_shape (fst v) (fst (ecall p v))"
begin

text \<open>
  Every access terminates without a fault and keeps the shape of the machine, as soon as the
  RAM is at least as large as the access is wide.
\<close>

lemma ram_read_shape:
  assumes "wf_rv32 (fst v)" "n \<le> unat (mem_size (fst v))" "in_ram n (fst v) a"
  shows "run_ok (ram_read n v a) (\<lambda>(_, v'). same_shape (fst v) (fst v'))"
  using in_ram_bound [OF assms] by (simp add: ram_read_Inr)

lemma ram_write_shape:
  assumes "wf_rv32 (fst v)" "n \<le> unat (mem_size (fst v))" "in_ram n (fst v) a"
  shows "run_ok (ram_write n v a x) (\<lambda>(_, v'). same_shape (fst v) (fst v'))"
  by (rule ram_write_Inr [OF in_ram_bound [OF assms], where x = x]) (simp add: same_shape_def)

lemma rv32_load8_shape:
  assumes "wf_rv32 (fst v)" "1 \<le> unat (mem_size (fst v))"
  shows "run_ok (rv32_load8 p v a) (\<lambda>(_, v'). same_shape (fst v) (fst v'))"
  using ram_read_shape [OF assms, of a] load8_shape [OF assms(1), of a]
  by (auto simp: rv32_load8_def case_prod_unfold)

lemma rv32_load16_shape:
  assumes "wf_rv32 (fst v)" "2 \<le> unat (mem_size (fst v))"
  shows "run_ok (rv32_load16 p v a) (\<lambda>(_, v'). same_shape (fst v) (fst v'))"
  using ram_read_shape [OF assms, of a] load16_shape [OF assms(1), of a]
  by (auto simp: rv32_load16_def case_prod_unfold)

lemma rv32_load32_shape:
  assumes "wf_rv32 (fst v)" "4 \<le> unat (mem_size (fst v))"
  shows "run_ok (rv32_load32 p v a) (\<lambda>(_, v'). same_shape (fst v) (fst v'))"
  using ram_read_shape [OF assms, of a] load32_shape [OF assms(1), of a]
  by (auto simp: rv32_load32_def case_prod_unfold)

lemma rv32_store8_shape:
  assumes "wf_rv32 (fst v)" "1 \<le> unat (mem_size (fst v))"
  shows "run_ok (rv32_store8 p v a x) (\<lambda>(_, v'). same_shape (fst v) (fst v'))"
  using ram_write_shape [OF assms, of a x] store8_shape [OF assms(1), of a x]
  by (auto simp: rv32_store8_def case_prod_unfold)

lemma rv32_store16_shape:
  assumes "wf_rv32 (fst v)" "2 \<le> unat (mem_size (fst v))"
  shows "run_ok (rv32_store16 p v a x) (\<lambda>(_, v'). same_shape (fst v) (fst v'))"
  using ram_write_shape [OF assms, of a x] store16_shape [OF assms(1), of a x]
  by (auto simp: rv32_store16_def case_prod_unfold)

lemma rv32_store32_shape:
  assumes "wf_rv32 (fst v)" "4 \<le> unat (mem_size (fst v))"
  shows "run_ok (rv32_store32 p v a x) (\<lambda>(_, v'). same_shape (fst v) (fst v'))"
  using ram_write_shape [OF assms, of a x] store32_shape [OF assms(1), of a x]
  by (auto simp: rv32_store32_def case_prod_unfold shape_set_ie)

end

end
