(* ===== verification/Interrupts.thy ===== *)
theory Interrupts
  imports Machine
begin

text \<open>
  Control and status registers and interrupts of \<open>src/src/rv32.h\<close>: the \<open>CSR_*\<close> macros, the CSR
  file (\<open>rv32_read_csr\<close>, \<open>rv32_write_csr\<close>), the interrupt controller
  (\<open>rv32_trigger_external_interrupt\<close>, \<open>rv32_claim_irq\<close>) and the entry of a trap handler
  (\<open>rv32_handle_interrupt\<close>).
\<close>

section \<open>Bits of a CSR\<close>

definition CSR_CLEAR_BIT :: "u32 \<Rightarrow> nat \<Rightarrow> u32" where
  "CSR_CLEAR_BIT csr b = csr AND NOT (push_bit b 1)"

definition CSR_SET_BIT :: "u32 \<Rightarrow> nat \<Rightarrow> u32 \<Rightarrow> u32" where
  "CSR_SET_BIT csr b val = (csr AND NOT (push_bit b 1)) OR push_bit b (of_bool (val \<noteq> 0))"

definition CSR_GET_BIT :: "u32 \<Rightarrow> nat \<Rightarrow> u32" where
  "CSR_GET_BIT csr b = drop_bit b csr AND 1"

definition CSR_MSTATUS_MIE :: nat where "CSR_MSTATUS_MIE = 3"
definition CSR_MSTATUS_MPIE :: nat where "CSR_MSTATUS_MPIE = 7"
definition CSR_MIE_MSIE :: nat where "CSR_MIE_MSIE = 3"
definition CSR_MIE_MTIE :: nat where "CSR_MIE_MTIE = 7"
definition CSR_MIE_MEIE :: nat where "CSR_MIE_MEIE = 11"
definition CSR_MIP_MEIP :: nat where "CSR_MIP_MEIP = 11"
definition CSR_MCAUSE_INTERRUPT :: u32 where "CSR_MCAUSE_INTERRUPT = push_bit 31 1"
definition CSR_MCAUSE_MSI :: u32 where "CSR_MCAUSE_MSI = 0x80000003"
definition CSR_MCAUSE_MTI :: u32 where "CSR_MCAUSE_MTI = 0x80000007"

lemmas csr_bit_defs =
  CSR_MSTATUS_MIE_def CSR_MSTATUS_MPIE_def CSR_MIE_MSIE_def CSR_MIE_MTIE_def CSR_MIE_MEIE_def
  CSR_MIP_MEIP_def CSR_MCAUSE_INTERRUPT_def CSR_MCAUSE_MSI_def CSR_MCAUSE_MTI_def

lemma bit_CSR_CLEAR_BIT:
  "bit (CSR_CLEAR_BIT c b) k \<longleftrightarrow> bit c k \<and> k \<noteq> b"
  by (auto simp: CSR_CLEAR_BIT_def bit_simps dest: bit_imp_le_length)

lemma bit_CSR_SET_BIT:
  "b < 32 \<Longrightarrow> bit (CSR_SET_BIT c b v) k \<longleftrightarrow> (if k = b then v \<noteq> 0 else bit c k)"
  by (auto simp: CSR_SET_BIT_def bit_simps dest: bit_imp_le_length)

lemma CSR_GET_BIT_eq: "CSR_GET_BIT c b = of_bool (bit c b)"
  by (rule bit_word_eqI) (auto simp: CSR_GET_BIT_def bit_simps)

lemma CSR_GET_BIT_zero [simp]: "CSR_GET_BIT c b = 0 \<longleftrightarrow> \<not> bit c b"
  by (simp add: CSR_GET_BIT_eq)

section \<open>The CSR file\<close>

definition rv32_read_csr :: "rv32 \<Rightarrow> u32 \<Rightarrow> u32" where
  "rv32_read_csr s csr =
     (if csr = 0x300 then mstatus s
      else if csr = 0x304 then mie s
      else if csr = 0x305 then mtvec s
      else if csr = 0x341 then mepc s
      else if csr = 0x342 then mcause s
      else if csr = 0x344 then mip s
      else 0)"

definition rv32_write_csr :: "rv32 \<Rightarrow> u32 \<Rightarrow> u32 \<Rightarrow> rv32" where
  "rv32_write_csr s csr val =
     (if csr = 0x300 then s\<lparr>mstatus := val\<rparr>
      else if csr = 0x304 then s\<lparr>mie := val\<rparr>
      else if csr = 0x305 then s\<lparr>mtvec := val\<rparr>
      else if csr = 0x341 then s\<lparr>mepc := val\<rparr>
      else if csr = 0x342 then s\<lparr>mcause := val\<rparr>
      else if csr = 0x344 then s\<lparr>mip := val\<rparr>
      else s)"

definition implemented_csrs :: "u32 list" where
  "implemented_csrs = [0x300, 0x304, 0x305, 0x341, 0x342, 0x344]"

text \<open>A register file: what a read returns after a write.\<close>

locale register_file =
  fixes get :: "'s \<Rightarrow> 'k \<Rightarrow> 'v"
    and put :: "'s \<Rightarrow> 'k \<Rightarrow> 'v \<Rightarrow> 's"
    and valid :: "'k \<Rightarrow> bool"
  assumes get_put: "valid k \<Longrightarrow> get (put s k v) k = v"
    and get_put_other: "k \<noteq> k' \<Longrightarrow> get (put s k v) k' = get s k'"
    and put_invalid: "\<not> valid k \<Longrightarrow> put s k v = s"
    and put_put: "put (put s k v) k u = put s k u"
    and put_get: "put s k (get s k) = s"
begin

lemma get_put_if: "get (put s k v) k' = (if k' = k \<and> valid k then v else get s k')"
  by (cases "valid k") (auto simp: get_put get_put_other put_invalid)

lemma modify_idem:
  assumes "\<And>x. f (f x) = f x"
  shows "put (put s k (f (get s k))) k (f (get (put s k (f (get s k))) k)) = put s k (f (get s k))"
  by (cases "valid k") (simp_all add: get_put put_put assms put_invalid)

end

interpretation csr: register_file rv32_read_csr rv32_write_csr "\<lambda>k. k \<in> set implemented_csrs"
  by unfold_locales
    (auto simp: rv32_read_csr_def rv32_write_csr_def implemented_csrs_def)

lemma rv32_write_csr_shape [simp]: "same_shape s (rv32_write_csr s k v)"
  by (simp add: rv32_write_csr_def same_shape_def)

section \<open>The interrupt controller\<close>

definition rv32_trigger_external_interrupt :: "rv32 \<Rightarrow> u32 \<Rightarrow> rv32" where
  "rv32_trigger_external_interrupt s irq =
     (if irq \<ge> 4 then s
      else s\<lparr>mip := CSR_SET_BIT (mip s) CSR_MIP_MEIP 1,
             interrupt_controller := (interrupt_controller s)
               \<lparr>ip := ip (interrupt_controller s) OR push_bit (unat irq) 1\<rparr>\<rparr>)"

text \<open>The body of the loop of \<open>rv32_claim_irq\<close> at a pending interrupt \<open>i\<close>.\<close>

definition claim_pending :: "rv32 \<Rightarrow> nat \<Rightarrow> rv32" where
  "claim_pending s i =
     (let ip' = ip (interrupt_controller s) AND NOT (push_bit i 1);
          s' = s\<lparr>interrupt_controller := (interrupt_controller s)\<lparr>ip := ip'\<rparr>\<rparr>
      in if ip' = 0 then s'\<lparr>mip := CSR_CLEAR_BIT (mip s') CSR_MIP_MEIP\<rparr> else s')"

function claim_loop :: "nat \<Rightarrow> rv32 \<Rightarrow> (u32 \<times> rv32) option" where
  "claim_loop i s =
     (if i < 32
      then if ip (interrupt_controller s) AND push_bit i 1 \<noteq> 0
           then Some (word_of_nat i, claim_pending s i)
           else claim_loop (Suc i) s
      else None)"
  by pat_completeness auto
termination
  by (relation "measure (\<lambda>(i, s). 32 - i)") auto

declare claim_loop.simps [simp del]

text \<open>\<open>None\<close> is the return value 0: no interrupt was claimed and the machine is unchanged.\<close>

definition rv32_claim_irq :: "rv32 \<Rightarrow> (u32 \<times> rv32) option" where
  "rv32_claim_irq s =
     (if ie (interrupt_controller s) AND ip (interrupt_controller s) \<noteq> 0
      then claim_loop 0 s else None)"

section \<open>Entering a trap handler\<close>

definition enter_trap :: "rv32 \<Rightarrow> rv32" where
  "enter_trap s =
     (let s1 = s\<lparr>mepc := pc s\<rparr>;
          s2 = s1\<lparr>mstatus :=
                 CSR_SET_BIT (mstatus s1) CSR_MSTATUS_MPIE (CSR_GET_BIT (mstatus s1) CSR_MSTATUS_MIE)\<rparr>;
          s3 = s2\<lparr>mstatus := CSR_SET_BIT (mstatus s2) CSR_MSTATUS_MIE 0\<rparr>;
          base_addr = mtvec s3 AND NOT 3;
          vectored = mtvec s3 AND 1
      in if vectored \<noteq> 0
         then s3\<lparr>pc := base_addr + 4 * (mcause s3 AND NOT (push_bit 31 1)), wfi := 0\<rparr>
         else s3\<lparr>pc := mtvec s3, wfi := 0\<rparr>)"

definition rv32_handle_interrupt :: "rv32 \<Rightarrow> rv32" where
  "rv32_handle_interrupt s =
     (if CSR_GET_BIT (mstatus s) CSR_MSTATUS_MIE = 0 then s
      else let active = mie s AND mip s in
        if active = push_bit CSR_MIE_MSIE 1 then enter_trap (s\<lparr>mcause := CSR_MCAUSE_MSI\<rparr>)
        else if active = push_bit CSR_MIE_MTIE 1 then enter_trap (s\<lparr>mcause := CSR_MCAUSE_MTI\<rparr>)
        else if active = push_bit CSR_MIE_MEIE 1 then
          (case rv32_claim_irq s of
             None \<Rightarrow> s
           | Some (irq, s') \<Rightarrow> enter_trap (s'\<lparr>mcause := CSR_MCAUSE_INTERRUPT OR (16 + irq)\<rparr>))
        else s)"

end
