(* ===== verification/Execute.thy ===== *)
theory Execute
  imports Decode Memory Interrupts
begin

text \<open>
  One machine cycle, \<open>rv32_cycle\<close> of \<open>src/src/rv32.h\<close>: interrupt delivery, the wait and status
  gates, breakpoints, instruction fetch, and the switch over the opcodes, one definition per
  \<open>case\<close> of the switch.
\<close>

section \<open>Register and status updates\<close>

definition write_reg :: "u32 \<Rightarrow> u32 \<Rightarrow> rv32 \<Rightarrow> rv32" where
  "write_reg d x s = s\<lparr>r := (r s)[unat d := x]\<rparr>"

definition read_reg :: "rv32 \<Rightarrow> u32 \<Rightarrow> u32" where
  "read_reg s i = r s ! unat i"

definition advance :: "u32 \<Rightarrow> rv32 \<Rightarrow> rv32" where
  "advance d s = s\<lparr>pc := pc s + d\<rparr>"

definition stop :: "rv32_status \<Rightarrow> rv32 \<Rightarrow> rv32" where
  "stop st s = s\<lparr>status := st\<rparr>"

section \<open>Arithmetic\<close>

text \<open>
  The multiply extension (opcode \<open>0x33\<close>, \<open>funct7 = 1\<close>). The casts to \<open>int64_t\<close> and
  \<open>uint64_t\<close> widen with or without the sign; the products are taken modulo \<open>2 ^ 64\<close>
  (that of \<open>mul\<close> can overflow \<open>int64_t\<close>, which C leaves undefined: its value here is the one of the
  compiled multiplication).
\<close>

definition mul_ext :: "u32 \<Rightarrow> u32 \<Rightarrow> u32 \<Rightarrow> u32 option" where
  "mul_ext funct3 a b =
     (if funct3 = 0 then Some (ucast ((ucast a * ucast b :: u64) AND 0xFFFFFFFF))
      else if funct3 = 1 then Some (ucast (signed_drop_bit 32 (scast a * scast b :: u64)))
      else if funct3 = 2 then Some (ucast (signed_drop_bit 32 (scast a * ucast b :: u64)))
      else if funct3 = 3 then Some (ucast (drop_bit 32 (ucast a * ucast b :: u64)))
      else if funct3 = 4 then
        Some (if b = 0 then 0xFFFFFFFF
              else if a = 0x80000000 \<and> b = - 1 then a
              else word_of_int (sint a sdiv sint b))
      else if funct3 = 5 then Some (if b = 0 then 0xFFFFFFFF else a div b)
      else if funct3 = 6 then
        Some (if b = 0 then a
              else if a = 0x80000000 \<and> b = - 1 then 0
              else word_of_int (sint a smod sint b))
      else if funct3 = 7 then Some (if b = 0 then a else a mod b)
      else None)"

definition op_alu :: "u32 \<Rightarrow> u32 \<Rightarrow> u32 \<Rightarrow> u32 \<Rightarrow> u32 option" where
  "op_alu funct3 funct7 a b =
     (if funct3 = 0 then
        (if funct7 = 0 then Some (a + b) else if funct7 = 0x20 then Some (a - b) else None)
      else if funct3 = 4 then Some (a XOR b)
      else if funct3 = 6 then Some (a OR b)
      else if funct3 = 7 then Some (a AND b)
      else if funct3 = 1 then Some (push_bit (unat (b AND 0x1f)) a)
      else if funct3 = 5 then
        (if funct7 = 0 then Some (drop_bit (unat (b AND 0x1f)) a)
         else if funct7 = 0x20 then Some (signed_drop_bit (unat (b AND 0x1f)) a)
         else None)
      else if funct3 = 2 then Some (if sint a < sint b then 1 else 0)
      else if funct3 = 3 then Some (if a < b then 1 else 0)
      else None)"

definition exec_op :: "u32 \<Rightarrow> rv32 \<Rightarrow> rv32" where
  "exec_op instr s =
     (let a = read_reg s (RS1 instr); b = read_reg s (RS2 instr)
      in case (if FUNCT7 instr = 1 then mul_ext (FUNCT3 instr) a b
               else op_alu (FUNCT3 instr) (FUNCT7 instr) a b) of
           None \<Rightarrow> stop RV32_INVALID_INSTRUCTION s
         | Some x \<Rightarrow> advance 4 (write_reg (RD instr) x s))"

definition op_imm :: "u32 \<Rightarrow> u32 \<Rightarrow> u32 option" where
  "op_imm instr a =
     (let funct3 = FUNCT3 instr; funct7 = FUNCT7 instr
      in if funct3 = 0 then Some (a + SEXT_IMM_I instr)
         else if funct3 = 4 then Some (a XOR SEXT_IMM_I instr)
         else if funct3 = 6 then Some (a OR SEXT_IMM_I instr)
         else if funct3 = 7 then Some (a AND SEXT_IMM_I instr)
         else if funct3 = 1 then Some (push_bit (unat (IMM_I instr AND 0x1f)) a)
         else if funct3 = 5 then
           (if funct7 = 0 then Some (drop_bit (unat (IMM_I instr AND 0x1f)) a)
            else if funct7 = 0x20 then Some (signed_drop_bit (unat (IMM_I instr AND 0x1f)) a)
            else None)
         else if funct3 = 2 then Some (if sint a < sint (SEXT_IMM_I instr) then 1 else 0)
         else if funct3 = 3 then Some (if a < IMM_I instr then 1 else 0)
         else None)"

definition exec_op_imm :: "u32 \<Rightarrow> rv32 \<Rightarrow> rv32" where
  "exec_op_imm instr s =
     (case op_imm instr (read_reg s (RS1 instr)) of
        None \<Rightarrow> stop RV32_INVALID_INSTRUCTION s
      | Some x \<Rightarrow> advance 4 (write_reg (RD instr) x s))"

section \<open>Loads and stores\<close>

definition finish_load :: "u32 \<Rightarrow> ('a \<Rightarrow> u32) \<Rightarrow> 'a rv32_result \<times> 'w vm \<Rightarrow> 'w vm run" where
  "finish_load instr ext res =
     (case res of
        (RV32_ERR, (s, w)) \<Rightarrow> Inr (stop RV32_INVALID_MEMORY_ACCESS s, w)
      | (RV32_OK x, (s, w)) \<Rightarrow> Inr (advance 4 (write_reg (RD instr) (ext x) s), w))"

definition exec_load :: "'w platform \<Rightarrow> u32 \<Rightarrow> 'w vm \<Rightarrow> 'w vm run" where
  "exec_load p instr v =
     (let addr = read_reg (fst v) (RS1 instr) + SEXT_IMM_I instr; funct3 = FUNCT3 instr
      in if funct3 = 0 then
           bind_run (rv32_load8 p v addr) (finish_load instr (\<lambda>x. SEXT (ucast x) 8))
         else if funct3 = 1 then
           bind_run (rv32_load16 p v addr) (finish_load instr (\<lambda>x. SEXT (ucast x) 16))
         else if funct3 = 2 then bind_run (rv32_load32 p v addr) (finish_load instr (\<lambda>x. x))
         else if funct3 = 4 then bind_run (rv32_load8 p v addr) (finish_load instr ucast)
         else if funct3 = 5 then bind_run (rv32_load16 p v addr) (finish_load instr ucast)
         else Inr (stop RV32_INVALID_INSTRUCTION (fst v), snd v))"

definition finish_store :: "unit rv32_result \<times> 'w vm \<Rightarrow> 'w vm run" where
  "finish_store res =
     (case res of
        (RV32_ERR, (s, w)) \<Rightarrow> Inr (stop RV32_INVALID_MEMORY_ACCESS s, w)
      | (RV32_OK _, (s, w)) \<Rightarrow> Inr (advance 4 s, w))"

definition exec_store :: "'w platform \<Rightarrow> u32 \<Rightarrow> 'w vm \<Rightarrow> 'w vm run" where
  "exec_store p instr v =
     (let addr = read_reg (fst v) (RS1 instr) + SEXT_IMM_S instr; funct3 = FUNCT3 instr;
          x = read_reg (fst v) (RS2 instr)
      in if funct3 = 0 then bind_run (rv32_store8 p v addr (ucast (x AND 0xff))) finish_store
         else if funct3 = 1 then bind_run (rv32_store16 p v addr (ucast (x AND 0xffff))) finish_store
         else if funct3 = 2 then bind_run (rv32_store32 p v addr x) finish_store
         else Inr (stop RV32_INVALID_INSTRUCTION (fst v), snd v))"

section \<open>Control transfer\<close>

definition branch_taken :: "u32 \<Rightarrow> u32 \<Rightarrow> u32 \<Rightarrow> bool option" where
  "branch_taken funct3 a b =
     (if funct3 = 0 then Some (a = b)
      else if funct3 = 1 then Some (a \<noteq> b)
      else if funct3 = 4 then Some (sint a < sint b)
      else if funct3 = 5 then Some (sint a \<ge> sint b)
      else if funct3 = 6 then Some (a < b)
      else if funct3 = 7 then Some (a \<ge> b)
      else None)"

definition exec_branch :: "u32 \<Rightarrow> rv32 \<Rightarrow> rv32" where
  "exec_branch instr s =
     (case branch_taken (FUNCT3 instr) (read_reg s (RS1 instr)) (read_reg s (RS2 instr)) of
        None \<Rightarrow> stop RV32_INVALID_INSTRUCTION s
      | Some taken \<Rightarrow> advance (if taken then SEXT_IMM_B instr else 4) s)"

definition exec_jal :: "u32 \<Rightarrow> rv32 \<Rightarrow> rv32" where
  "exec_jal instr s = advance (SEXT_IMM_J instr) (write_reg (RD instr) (pc s + 4) s)"

definition exec_jalr :: "u32 \<Rightarrow> rv32 \<Rightarrow> rv32" where
  "exec_jalr instr s =
     (let tmp32 = pc s + 4;
          s' = s\<lparr>pc := (read_reg s (RS1 instr) + SEXT_IMM_I instr) AND NOT 1\<rparr>
      in write_reg (RD instr) tmp32 s')"

definition exec_lui :: "u32 \<Rightarrow> rv32 \<Rightarrow> rv32" where
  "exec_lui instr s = advance 4 (write_reg (RD instr) (push_bit 12 (SEXT_IMM_U instr)) s)"

definition exec_auipc :: "u32 \<Rightarrow> rv32 \<Rightarrow> rv32" where
  "exec_auipc instr s =
     advance 4 (write_reg (RD instr) (pc s + push_bit 12 (SEXT_IMM_U instr)) s)"

section \<open>The SYSTEM opcode\<close>

definition exec_mret :: "rv32 \<Rightarrow> rv32" where
  "exec_mret s =
     s\<lparr>pc := mepc s,
       mstatus := CSR_SET_BIT (mstatus s) CSR_MSTATUS_MIE (CSR_GET_BIT (mstatus s) CSR_MSTATUS_MPIE)\<rparr>"

definition csr_value :: "u32 \<Rightarrow> u32 \<Rightarrow> u32 \<Rightarrow> u32 \<Rightarrow> u32 option" where
  "csr_value funct3 r_val rs1 imm =
     (if funct3 = 1 then Some rs1
      else if funct3 = 2 then Some (r_val OR rs1)
      else if funct3 = 3 then Some (r_val AND NOT rs1)
      else if funct3 = 5 then Some imm
      else if funct3 = 6 then Some (r_val OR imm)
      else if funct3 = 7 then Some (r_val AND NOT imm)
      else None)"

definition exec_csr :: "u32 \<Rightarrow> rv32 \<Rightarrow> rv32" where
  "exec_csr instr s =
     (let r_val = rv32_read_csr s (IMM_I instr)
      in case csr_value (FUNCT3 instr) r_val (read_reg s (RS1 instr)) (RS1 instr) of
           None \<Rightarrow> stop RV32_INVALID_INSTRUCTION s
         | Some w_val \<Rightarrow>
             advance 4 (write_reg (RD instr) r_val (rv32_write_csr s (IMM_I instr) w_val)))"

definition exec_ecall :: "'w platform \<Rightarrow> 'w vm \<Rightarrow> 'w vm" where
  "exec_ecall p v =
     (let v' = ecall p v
      in if status (fst v') \<noteq> RV32_RUNNING then v' else (advance 4 (fst v'), snd v'))"

definition exec_system :: "'w platform \<Rightarrow> u32 \<Rightarrow> 'w vm \<Rightarrow> 'w vm" where
  "exec_system p instr v =
     (let s = fst v; w = snd v
      in if FUNCT3 instr = 0 then
           (if IMM_I instr = 0 then exec_ecall p v
            else if IMM_I instr = 1 then (advance 4 (stop RV32_EBREAK s), w)
            else if IMM_I instr = 0x302 then (exec_mret s, w)
            else if IMM_I instr = 0x105 then (advance 4 (s\<lparr>wfi := 1\<rparr>), w)
            else (stop RV32_INVALID_INSTRUCTION s, w))
         else if FUNCT3 instr AND 0x3 \<noteq> 0 then (exec_csr instr s, w)
         else (stop RV32_INVALID_INSTRUCTION s, w))"

section \<open>The switch and the cycle\<close>

definition rv32_execute :: "'w platform \<Rightarrow> u32 \<Rightarrow> 'w vm \<Rightarrow> 'w vm run" where
  "rv32_execute p instr v =
     (let s = fst v; w = snd v; opcode = OPCODE instr
      in if opcode = 0x33 then Inr (exec_op instr s, w)
         else if opcode = 0x13 then Inr (exec_op_imm instr s, w)
         else if opcode = 0x03 then exec_load p instr v
         else if opcode = 0x23 then exec_store p instr v
         else if opcode = 0x63 then Inr (exec_branch instr s, w)
         else if opcode = 0x6f then Inr (exec_jal instr s, w)
         else if opcode = 0x67 then Inr (exec_jalr instr s, w)
         else if opcode = 0x37 then Inr (exec_lui instr s, w)
         else if opcode = 0x17 then Inr (exec_auipc instr s, w)
         else if opcode = 0x73 then Inr (exec_system p instr v)
         else Inr (stop RV32_INVALID_INSTRUCTION s, w))"

definition deliver_interrupt :: "rv32 \<Rightarrow> rv32" where
  "deliver_interrupt s =
     (if CSR_GET_BIT (mstatus s) CSR_MSTATUS_MIE \<noteq> 0 \<and> mie s AND mip s \<noteq> 0
      then rv32_handle_interrupt s else s)"

definition breakpoint_hit :: "rv32 \<Rightarrow> bool" where
  "breakpoint_hit s \<longleftrightarrow>
     bp_mask s \<noteq> 0 \<and>
     list_ex (\<lambda>i. bp_mask s AND push_bit i 1 \<noteq> 0 \<and> pc s = bp s ! i) [0..<8]"

definition rv32_cycle :: "'w platform \<Rightarrow> 'w vm \<Rightarrow> 'w vm run" where
  "rv32_cycle p v =
     (let s = deliver_interrupt (fst v); w = snd v
      in if wfi s \<noteq> 0 then Inr (s, w)
         else if status s \<noteq> RV32_RUNNING then Inr (s, w)
         else if breakpoint_hit s then Inr (stop RV32_PAUSED s, w)
         else bind_run (rv32_load32 p (s, w) (pc s))
           (\<lambda>(res, (s', w')).
              case res of
                RV32_ERR \<Rightarrow> Inr (stop RV32_INVALID_MEMORY_ACCESS s', w')
              | RV32_OK instr \<Rightarrow> rv32_execute p instr (write_reg 0 0 s', w')))"

end
