(* ===== verification/Delivery.thy ===== *)
theory Delivery
  imports Execute
begin

text \<open>
  What the interrupt machinery does: which request \<open>rv32_claim_irq\<close> claims, when
  \<open>rv32_handle_interrupt\<close> enters the handler and in which state, how \<open>mret\<close> returns from it, and
  the agreement between the pending bits of the controller and the external-interrupt bit of
  \<open>mip\<close>.
\<close>

section \<open>Claiming a request\<close>

abbreviation pending :: "rv32 \<Rightarrow> u32" where "pending s \<equiv> ip (interrupt_controller s)"
abbreviation enabled :: "rv32 \<Rightarrow> u32" where "enabled s \<equiv> ie (interrupt_controller s)"

lemma claim_loop_find:
  "claim_loop i s =
     map_option (\<lambda>k. (word_of_nat k, claim_pending s k)) (find (\<lambda>k. bit (pending s) k) [i..<32])"
proof (induction i s rule: claim_loop.induct)
  case (1 i s)
  then show ?case
    by (cases "i < 32") (simp_all add: claim_loop.simps [of i s] upt_rec [of i])
qed

lemma find_upt_Some:
  "find P [i..<n] = Some k \<longleftrightarrow> i \<le> k \<and> k < n \<and> P k \<and> (\<forall>j. i \<le> j \<and> j < k \<longrightarrow> \<not> P j)"
proof (induction "n - i" arbitrary: i)
  case 0
  then show ?case by auto
next
  case (Suc d)
  then have "i < n" and IH: "find P [Suc i..<n] = Some k \<longleftrightarrow>
      Suc i \<le> k \<and> k < n \<and> P k \<and> (\<forall>j. Suc i \<le> j \<and> j < k \<longrightarrow> \<not> P j)"
    by simp_all
  then have unroll: "find P [i..<n] = (if P i then Some i else find P [Suc i..<n])"
    by (simp add: upt_conv_Cons)
  show ?case
  proof (cases "P i")
    case True
    then show ?thesis using \<open>i < n\<close> by (auto simp: unroll not_less)
  next
    case False
    then show ?thesis
      by (auto simp: unroll IH) (metis Suc_leI le_eq_less_or_eq, metis not_less_eq_eq le_antisym)
  qed
qed

lemma claim_pending_fields:
  "pending (claim_pending s k) = pending s AND NOT (push_bit k 1)"
  "enabled (claim_pending s k) = enabled s"
  "mip (claim_pending s k) =
     (if pending (claim_pending s k) = 0 then CSR_CLEAR_BIT (mip s) CSR_MIP_MEIP else mip s)"
  "pc (claim_pending s k) = pc s" "mstatus (claim_pending s k) = mstatus s"
  "mtvec (claim_pending s k) = mtvec s" "mie (claim_pending s k) = mie s"
  by (simp_all add: claim_pending_def Let_def)

lemma word_nonzero_bit: "x \<noteq> 0 \<Longrightarrow> \<exists>k < LENGTH('a). bit x k" for x :: "'a::len word"
  by (metis bit_0_eq bit_imp_le_length bit_word_eqI bot_apply bot_bool_def)

lemma claim_irq_None: "rv32_claim_irq s = None \<longleftrightarrow> enabled s AND pending s = 0"
proof -
  have "claim_loop 0 s \<noteq> None" if nz: "enabled s AND pending s \<noteq> 0"
  proof -
    obtain k where k: "k < 32" "bit (enabled s AND pending s) k"
      using word_nonzero_bit [OF nz] by auto
    then have "find (\<lambda>k. bit (pending s) k) [0..<32] \<noteq> None"
      by (auto simp: find_None_iff bit_and_iff)
    then show ?thesis by (auto simp: claim_loop_find)
  qed
  then show ?thesis by (auto simp: rv32_claim_irq_def)
qed

lemma claim_irq_Some:
  assumes "rv32_claim_irq s = Some (q, s')"
  shows "unat q < 32" "bit (pending s) (unat q)" "\<forall>j < unat q. \<not> bit (pending s) j"
    and "s' = claim_pending s (unat q)"
proof -
  from assms obtain k where k: "find (\<lambda>k. bit (pending s) k) [0..<32] = Some k"
      "q = word_of_nat k" "s' = claim_pending s k"
    by (auto simp: rv32_claim_irq_def claim_loop_find split: if_splits)
  then have "k < 32" "bit (pending s) k" "\<forall>j < k. \<not> bit (pending s) j"
    by (auto simp: find_upt_Some)
  moreover have "unat q = k"
    using \<open>k < 32\<close> k(2) by (simp add: unsigned_of_nat take_bit_nat_eq_self)
  ultimately show "unat q < 32" "bit (pending s) (unat q)" "\<forall>j < unat q. \<not> bit (pending s) j"
    and "s' = claim_pending s (unat q)"
    using k(3) by simp_all
qed

section \<open>Entering and leaving the handler\<close>

lemma enter_trap_fields:
  "mepc (enter_trap s) = pc s" "wfi (enter_trap s) = 0" "mcause (enter_trap s) = mcause s"
  "mie (enter_trap s) = mie s" "mip (enter_trap s) = mip s" "mtvec (enter_trap s) = mtvec s"
  "r (enter_trap s) = r s" "mem (enter_trap s) = mem s" "status (enter_trap s) = status s"
  "interrupt_controller (enter_trap s) = interrupt_controller s"
  by (simp_all add: enter_trap_def Let_def)

lemma bit_enter_trap_mstatus:
  "bit (mstatus (enter_trap s)) k \<longleftrightarrow>
     (if k = 3 then False else if k = 7 then bit (mstatus s) 3 else bit (mstatus s) k)"
  by (simp add: enter_trap_def Let_def bit_CSR_SET_BIT csr_bit_defs)

lemma low_bit_test: "x AND 1 = 0 \<longleftrightarrow> \<not> bit x 0" for x :: u32
  using mask_test(1) [of x 0] by simp

lemma enter_trap_pc:
  "pc (enter_trap s) =
     (if bit (mtvec s) 0 then (mtvec s AND NOT 3) + 4 * (mcause s AND NOT (push_bit 31 1))
      else mtvec s)"
  unfolding enter_trap_def Let_def by (simp add: low_bit_test del: push_bit_of_1)

lemma bit_exec_mret_mstatus:
  "bit (mstatus (exec_mret s)) k \<longleftrightarrow> (if k = 3 then bit (mstatus s) 7 else bit (mstatus s) k)"
  by (simp add: exec_mret_def bit_CSR_SET_BIT csr_bit_defs)

section \<open>When an interrupt is taken\<close>

definition external_only :: "rv32 \<Rightarrow> bool" where
  "external_only s \<longleftrightarrow> mie s AND mip s = push_bit CSR_MIE_MEIE 1"

lemma handle_interrupt_disabled:
  "\<not> bit (mstatus s) CSR_MSTATUS_MIE \<Longrightarrow> rv32_handle_interrupt s = s"
  by (simp add: rv32_handle_interrupt_def)

lemma handle_interrupt_external:
  assumes "bit (mstatus s) CSR_MSTATUS_MIE" "external_only s"
  shows "rv32_handle_interrupt s =
    (case rv32_claim_irq s of
       None \<Rightarrow> s
     | Some (q, s') \<Rightarrow> enter_trap (s'\<lparr>mcause := CSR_MCAUSE_INTERRUPT OR (16 + q)\<rparr>))"
  using assms by (simp add: rv32_handle_interrupt_def external_only_def Let_def csr_bit_defs)

text \<open>
  The switch compares the whole mask: as soon as two kinds of interrupt are pending and enabled,
  no case matches and none is taken.
\<close>

lemma handle_interrupt_two:
  assumes "bit (mie s AND mip s) i" "bit (mie s AND mip s) j" "i \<noteq> j"
  shows "rv32_handle_interrupt s = s"
proof -
  have ne: "mie s AND mip s \<noteq> push_bit k 1" for k
  proof
    assume "mie s AND mip s = push_bit k 1"
    with assms(1,2) have "bit (push_bit k 1 :: u32) i" "bit (push_bit k 1 :: u32) j" by simp_all
    then have "i = k" "j = k" by (auto simp: bit_simps)
    with assms(3) show False by simp
  qed
  show ?thesis unfolding rv32_handle_interrupt_def Let_def by (simp only: ne if_False if_cancel)
qed

section \<open>The controller as a state machine\<close>

text \<open>
  Devices raise requests and the hart claims them. As long as the guest does not write \<open>mip\<close>
  itself, its external-interrupt bit says whether a request is pending.
\<close>

inductive irq_step :: "rv32 \<Rightarrow> rv32 \<Rightarrow> bool" where
  raise: "irq_step s (rv32_trigger_external_interrupt s q)"
| claim: "rv32_claim_irq s = Some (q, s') \<Longrightarrow> irq_step s s'"

inductive_cases irq_stepE: "irq_step s t"

definition irq_coherent :: "rv32 \<Rightarrow> bool" where
  "irq_coherent s \<longleftrightarrow> (bit (mip s) CSR_MIP_MEIP \<longleftrightarrow> pending s \<noteq> 0)"

lemma trigger_coherent: "irq_coherent s \<Longrightarrow> irq_coherent (rv32_trigger_external_interrupt s q)"
proof -
  assume co: "irq_coherent s"
  have "pending s OR push_bit (unat q) 1 \<noteq> 0" if "q < 4"
  proof -
    from that have "unat q < 4" by (simp add: word_less_nat_alt)
    then have "bit (pending s OR push_bit (unat q) 1) (unat q)" by (simp add: bit_simps)
    then show ?thesis by (metis bit_0_eq bot_apply bot_bool_def)
  qed
  with co show ?thesis
    by (auto simp: irq_coherent_def rv32_trigger_external_interrupt_def bit_CSR_SET_BIT
        csr_bit_defs not_le simp del: push_bit_of_1)
qed

lemma claim_coherent:
  assumes "irq_coherent s" "rv32_claim_irq s = Some (q, s')"
  shows "irq_coherent s'"
proof -
  note c = claim_irq_Some [OF assms(2)]
  have "pending s \<noteq> 0" using c(2) by (metis bit_0_eq bot_apply bot_bool_def)
  with assms(1) c(4) show ?thesis
    by (simp add: irq_coherent_def claim_pending_fields bit_CSR_CLEAR_BIT del: push_bit_of_1)
qed

lemma irq_step_coherent: "irq_step s t \<Longrightarrow> irq_coherent s \<Longrightarrow> irq_coherent t"
  by (erule irq_stepE) (simp_all add: trigger_coherent claim_coherent)

end
