(* ===== verification/Breakpoints.thy ===== *)
theory Breakpoints
  imports Execute "HOL-Library.Multiset"
begin

text \<open>
  The eight breakpoint slots of \<open>src/src/rv32.h\<close> (\<open>rv32_set_breakpoint\<close>,
  \<open>rv32_clear_breakpoint\<close>, \<open>rv32_clear_all_breakpoints\<close>). The slots implement a bag of at most
  eight addresses: the locale \<open>bounded_bag\<close> is that contract, with the facts the debugger stub
  relies on, and the slots are its interpretation.
\<close>

section \<open>The operations\<close>

function set_breakpoint_loop :: "nat \<Rightarrow> rv32 \<Rightarrow> u32 \<Rightarrow> bool \<times> rv32" where
  "set_breakpoint_loop i s addr =
     (if i < 8
      then if bp_mask s AND push_bit i 1 = 0
           then (True, s\<lparr>bp_mask := bp_mask s OR push_bit i 1, bp := (bp s)[i := addr]\<rparr>)
           else set_breakpoint_loop (Suc i) s addr
      else (False, s))"
  by pat_completeness auto
termination
  by (relation "measure (\<lambda>(i, s, a). 8 - i)") auto

definition rv32_set_breakpoint :: "rv32 \<Rightarrow> u32 \<Rightarrow> bool \<times> rv32" where
  "rv32_set_breakpoint s addr = set_breakpoint_loop 0 s addr"

function clear_breakpoint_loop :: "nat \<Rightarrow> rv32 \<Rightarrow> u32 \<Rightarrow> bool \<times> rv32" where
  "clear_breakpoint_loop i s addr =
     (if i < 8
      then if bp_mask s AND push_bit i 1 \<noteq> 0 \<and> bp s ! i = addr
           then (True, s\<lparr>bp_mask := bp_mask s AND NOT (push_bit i 1), bp := (bp s)[i := 0]\<rparr>)
           else clear_breakpoint_loop (Suc i) s addr
      else (False, s))"
  by pat_completeness auto
termination
  by (relation "measure (\<lambda>(i, s, a). 8 - i)") auto

definition rv32_clear_breakpoint :: "rv32 \<Rightarrow> u32 \<Rightarrow> bool \<times> rv32" where
  "rv32_clear_breakpoint s addr = clear_breakpoint_loop 0 s addr"

definition rv32_clear_all_breakpoints :: "rv32 \<Rightarrow> rv32" where
  "rv32_clear_all_breakpoints s = s\<lparr>bp_mask := 0, bp := map (\<lambda>_. 0) (bp s)\<rparr>"

declare set_breakpoint_loop.simps [simp del] clear_breakpoint_loop.simps [simp del]

section \<open>The contract\<close>

locale bounded_bag =
  fixes inv :: "'s \<Rightarrow> bool"
    and bag :: "'s \<Rightarrow> 'a multiset"
    and add :: "'s \<Rightarrow> 'a \<Rightarrow> bool \<times> 's"
    and del :: "'s \<Rightarrow> 'a \<Rightarrow> bool \<times> 's"
    and wipe :: "'s \<Rightarrow> 's"
    and capacity :: nat
  assumes bag_size: "inv s \<Longrightarrow> size (bag s) \<le> capacity"
    and add_room: "inv s \<Longrightarrow> fst (add s a) \<longleftrightarrow> size (bag s) < capacity"
    and add_bag: "inv s \<Longrightarrow> bag (snd (add s a)) = (if fst (add s a) then add_mset a (bag s) else bag s)"
    and add_inv: "inv s \<Longrightarrow> inv (snd (add s a))"
    and del_found: "inv s \<Longrightarrow> fst (del s a) \<longleftrightarrow> a \<in># bag s"
    and del_bag: "inv s \<Longrightarrow> bag (snd (del s a)) = bag s - {#a#}"
    and del_inv: "inv s \<Longrightarrow> inv (snd (del s a))"
    and wipe_bag: "inv s \<Longrightarrow> bag (wipe s) = {#}"
    and wipe_inv: "inv s \<Longrightarrow> inv (wipe s)"
begin

lemma add_then_del:
  assumes "inv s" "fst (add s a)"
  shows "fst (del (snd (add s a)) a)" "bag (snd (del (snd (add s a)) a)) = bag s"
  using assms by (simp_all add: del_found del_bag add_bag add_inv)

lemma full_refuses: "inv s \<Longrightarrow> size (bag s) = capacity \<Longrightarrow> \<not> fst (add s a)"
  by (simp add: add_room)

fun add_list :: "'s \<Rightarrow> 'a list \<Rightarrow> 's" where
  "add_list s [] = s"
| "add_list s (a # as) = add_list (snd (add s a)) as"

lemma add_list_bag:
  "inv s \<Longrightarrow> size (bag s) + length as \<le> capacity \<Longrightarrow> bag (add_list s as) = bag s + mset as"
proof (induction as arbitrary: s)
  case Nil
  then show ?case by simp
next
  case (Cons a as)
  then have "fst (add s a)" by (simp add: add_room)
  with Cons.prems have "bag (snd (add s a)) = add_mset a (bag s)" by (simp add: add_bag)
  with Cons.IH [of "snd (add s a)"] Cons.prems show ?case by (simp add: add_inv)
qed

end

section \<open>The slots\<close>

definition slots :: "rv32 \<Rightarrow> nat set" where
  "slots s = {i. i < 8 \<and> bit (bp_mask s) i}"

definition breakpoints :: "rv32 \<Rightarrow> u32 multiset" where
  "breakpoints s = image_mset (\<lambda>i. bp s ! i) (mset_set (slots s))"

definition bp_inv :: "rv32 \<Rightarrow> bool" where
  "bp_inv s \<longleftrightarrow> length (bp s) = 8"

lemma slots_finite [simp]: "finite (slots s)" "slots s \<subseteq> {..<8}"
proof -
  show "slots s \<subseteq> {..<8}" by (auto simp: slots_def)
  then show "finite (slots s)" by (rule finite_subset) simp
qed

lemma set_loop_find:
  "set_breakpoint_loop i s addr =
     (case find (\<lambda>k. k \<notin> slots s) [i..<8] of
        None \<Rightarrow> (False, s)
      | Some k \<Rightarrow> (True, s\<lparr>bp_mask := bp_mask s OR push_bit k 1, bp := (bp s)[k := addr]\<rparr>))"
proof (induction i s addr rule: set_breakpoint_loop.induct)
  case (1 i s addr)
  then show ?case
    by (cases "i < 8")
      (simp_all add: set_breakpoint_loop.simps [of i s addr] upt_rec [of i] slots_def)
qed

lemma clear_loop_find:
  "clear_breakpoint_loop i s addr =
     (case find (\<lambda>k. k \<in> slots s \<and> bp s ! k = addr) [i..<8] of
        None \<Rightarrow> (False, s)
      | Some k \<Rightarrow> (True, s\<lparr>bp_mask := bp_mask s AND NOT (push_bit k 1), bp := (bp s)[k := 0]\<rparr>))"
proof (induction i s addr rule: clear_breakpoint_loop.induct)
  case (1 i s addr)
  then show ?case
    by (cases "i < 8")
      (simp_all add: clear_breakpoint_loop.simps [of i s addr] upt_rec [of i] slots_def)
qed

lemma find_Some_mem: "find P xs = Some x \<Longrightarrow> x \<in> set xs \<and> P x"
  by (induction xs) (auto split: if_splits)

lemma set_breakpoint_cases:
  obtains (room) k where "k < 8" "k \<notin> slots s"
      "rv32_set_breakpoint s addr =
        (True, s\<lparr>bp_mask := bp_mask s OR push_bit k 1, bp := (bp s)[k := addr]\<rparr>)"
  | (full) "slots s = {..<8}" "rv32_set_breakpoint s addr = (False, s)"
proof (cases "find (\<lambda>k. k \<notin> slots s) [0..<8]")
  case None
  then have "slots s = {..<8}" using slots_finite(2) [of s] by (auto simp: find_None_iff slots_def)
  with None full show thesis by (simp add: rv32_set_breakpoint_def set_loop_find)
next
  case (Some k)
  from find_Some_mem [OF this] have "k < 8" "k \<notin> slots s" by simp_all
  moreover from Some have "rv32_set_breakpoint s addr =
      (True, s\<lparr>bp_mask := bp_mask s OR push_bit k 1, bp := (bp s)[k := addr]\<rparr>)"
    by (simp add: rv32_set_breakpoint_def set_loop_find)
  ultimately show thesis by (rule room)
qed

lemma clear_breakpoint_cases:
  obtains (found) k where "k \<in> slots s" "bp s ! k = addr"
      "rv32_clear_breakpoint s addr =
        (True, s\<lparr>bp_mask := bp_mask s AND NOT (push_bit k 1), bp := (bp s)[k := 0]\<rparr>)"
  | (absent) "\<forall>k \<in> slots s. bp s ! k \<noteq> addr" "rv32_clear_breakpoint s addr = (False, s)"
proof (cases "find (\<lambda>k. k \<in> slots s \<and> bp s ! k = addr) [0..<8]")
  case None
  then have "\<forall>k \<in> slots s. bp s ! k \<noteq> addr" by (auto simp: find_None_iff slots_def)
  with None absent show thesis by (simp add: rv32_clear_breakpoint_def clear_loop_find)
next
  case (Some k)
  from find_Some_mem [OF this] have "k \<in> slots s" "bp s ! k = addr" by simp_all
  moreover from Some have "rv32_clear_breakpoint s addr =
      (True, s\<lparr>bp_mask := bp_mask s AND NOT (push_bit k 1), bp := (bp s)[k := 0]\<rparr>)"
    by (simp add: rv32_clear_breakpoint_def clear_loop_find)
  ultimately show thesis by (rule found)
qed

lemma slots_set:
  "k < 8 \<Longrightarrow> slots (s\<lparr>bp_mask := bp_mask s OR push_bit k 1, bp := b\<rparr>) = insert k (slots s)"
  by (auto simp: slots_def bit_simps)

lemma slots_clear:
  "slots (s\<lparr>bp_mask := bp_mask s AND NOT (push_bit k 1), bp := b\<rparr>) = slots s - {k}"
  by (auto simp: slots_def bit_simps)

lemma image_mset_set_cong:
  "finite A \<Longrightarrow> (\<And>i. i \<in> A \<Longrightarrow> f i = g i) \<Longrightarrow> image_mset f (mset_set A) = image_mset g (mset_set A)"
  by (rule image_mset_cong) simp

lemma breakpoints_set:
  assumes "bp_inv s" "k < 8" "k \<notin> slots s"
  shows "breakpoints (s\<lparr>bp_mask := bp_mask s OR push_bit k 1, bp := (bp s)[k := a]\<rparr>)
    = add_mset a (breakpoints s)"
proof -
  have "image_mset (\<lambda>i. (bp s)[k := a] ! i) (mset_set (slots s))
      = image_mset (\<lambda>i. bp s ! i) (mset_set (slots s))"
    by (rule image_mset_set_cong [OF slots_finite(1)]) (metis assms(3) nth_list_update_neq)
  moreover have "(bp s)[k := a] ! k = a" using assms(1,2) by (simp add: bp_inv_def)
  ultimately show ?thesis
    by (simp add: breakpoints_def slots_set [OF assms(2)] assms(3) del: push_bit_of_1)
qed

lemma breakpoints_clear:
  assumes "k \<in> slots s"
  shows "breakpoints (s\<lparr>bp_mask := bp_mask s AND NOT (push_bit k 1), bp := (bp s)[k := b]\<rparr>)
    = breakpoints s - {#bp s ! k#}"
proof -
  have "image_mset (\<lambda>i. (bp s)[k := b] ! i) (mset_set (slots s - {k}))
      = image_mset (\<lambda>i. bp s ! i) (mset_set (slots s - {k}))"
    by (rule image_mset_set_cong) (auto simp: nth_list_update)
  moreover have "mset_set (slots s) = add_mset k (mset_set (slots s - {k}))"
    using assms by (simp add: mset_set.remove)
  ultimately show ?thesis
    by (simp add: breakpoints_def slots_clear del: push_bit_of_1)
qed

lemma size_breakpoints: "size (breakpoints s) = card (slots s)"
  by (simp add: breakpoints_def)

lemma card_slots: "card (slots s) \<le> 8" "card (slots s) = 8 \<longleftrightarrow> slots s = {..<8}"
proof -
  show "card (slots s) \<le> 8" using card_mono [OF _ slots_finite(2), of s] by simp
  show "card (slots s) = 8 \<longleftrightarrow> slots s = {..<8}"
  proof
    assume "card (slots s) = 8"
    with card_subset_eq [OF _ slots_finite(2), of s] show "slots s = {..<8}" by simp
  qed simp
qed

interpretation bps: bounded_bag bp_inv breakpoints rv32_set_breakpoint rv32_clear_breakpoint
  rv32_clear_all_breakpoints 8
proof
  fix s addr
  assume inv: "bp_inv s"
  show "size (breakpoints s) \<le> 8" by (simp add: size_breakpoints card_slots)
  show "fst (rv32_set_breakpoint s addr) \<longleftrightarrow> size (breakpoints s) < 8"
  proof (cases rule: set_breakpoint_cases [where s = s and addr = addr])
    case (room k)
    then have "slots s \<noteq> {..<8}" by auto
    with room(3) card_slots [of s] show ?thesis by (auto simp: size_breakpoints)
  next
    case full
    then show ?thesis by (simp add: size_breakpoints)
  qed
  show "breakpoints (snd (rv32_set_breakpoint s addr)) =
      (if fst (rv32_set_breakpoint s addr) then add_mset addr (breakpoints s) else breakpoints s)"
    by (cases rule: set_breakpoint_cases [where s = s and addr = addr])
      (simp_all add: breakpoints_set inv del: push_bit_of_1)
  show "bp_inv (snd (rv32_set_breakpoint s addr))"
    by (cases rule: set_breakpoint_cases [where s = s and addr = addr])
      (use inv in \<open>simp_all add: bp_inv_def\<close>)
  show "fst (rv32_clear_breakpoint s addr) \<longleftrightarrow> addr \<in># breakpoints s"
    by (cases rule: clear_breakpoint_cases [where s = s and addr = addr])
      (auto simp: breakpoints_def)
  show "breakpoints (snd (rv32_clear_breakpoint s addr)) = breakpoints s - {#addr#}"
  proof (cases rule: clear_breakpoint_cases [where s = s and addr = addr])
    case (found k)
    then show ?thesis by (simp add: breakpoints_clear del: push_bit_of_1)
  next
    case absent
    then have "addr \<notin># breakpoints s" by (auto simp: breakpoints_def)
    with absent show ?thesis by (simp add: diff_single_trivial)
  qed
  show "bp_inv (snd (rv32_clear_breakpoint s addr))"
    by (cases rule: clear_breakpoint_cases [where s = s and addr = addr])
      (use inv in \<open>simp_all add: bp_inv_def\<close>)
  show "breakpoints (rv32_clear_all_breakpoints s) = {#}"
    by (simp add: breakpoints_def rv32_clear_all_breakpoints_def slots_def)
  show "bp_inv (rv32_clear_all_breakpoints s)"
    using inv by (simp add: rv32_clear_all_breakpoints_def bp_inv_def)
qed

section \<open>Hitting a breakpoint\<close>

lemma breakpoint_hit_iff: "breakpoint_hit s \<longleftrightarrow> pc s \<in># breakpoints s"
proof -
  have "breakpoint_hit s \<longleftrightarrow> (\<exists>i \<in> slots s. pc s = bp s ! i)"
    by (auto simp: breakpoint_hit_def slots_def list_ex_iff)
  then show ?thesis by (auto simp: breakpoints_def)
qed

lemma breakpoint_shape [simp]:
  "same_shape s (snd (rv32_set_breakpoint s a))" "same_shape s (snd (rv32_clear_breakpoint s a))"
  "same_shape s (rv32_clear_all_breakpoints s)"
proof -
  show "same_shape s (snd (rv32_set_breakpoint s a))"
    by (cases rule: set_breakpoint_cases [where s = s and addr = a])
      (simp_all add: same_shape_def)
  show "same_shape s (snd (rv32_clear_breakpoint s a))"
    by (cases rule: clear_breakpoint_cases [where s = s and addr = a])
      (simp_all add: same_shape_def)
  show "same_shape s (rv32_clear_all_breakpoints s)"
    by (simp add: rv32_clear_all_breakpoints_def same_shape_def)
qed

end
