(* ===== verification/Safety.thy ===== *)
theory Safety
  imports Execute
begin

text \<open>
  Memory safety and termination of a cycle: on a well-formed machine with at least one word of
  RAM, whose embedder keeps its contract, a cycle returns, never leaves the allocated memory, and
  keeps the machine well-formed.
\<close>

section \<open>Every step keeps the shape of the machine\<close>

named_theorems shape "operations keep the sizes of the arrays and of the RAM"

lemma write_reg_shape [shape, simp]: "same_shape s (write_reg d x s)"
  by (simp add: write_reg_def same_shape_def)

lemma advance_shape [shape, simp]: "same_shape s (advance d s)"
  by (simp add: advance_def same_shape_def)

lemma stop_shape [shape, simp]: "same_shape s (stop st s)"
  by (simp add: stop_def same_shape_def)

lemma field_shapes [shape, simp]:
  "same_shape s (s\<lparr>pc := a\<rparr>)" "same_shape s (s\<lparr>wfi := b\<rparr>)" "same_shape s (s\<lparr>mcause := c\<rparr>)"
  "same_shape s (s\<lparr>pc := a, mstatus := c\<rparr>)"
  by (simp_all add: same_shape_def)

lemma advance_write_shape [shape, simp]: "same_shape s (advance d (write_reg e x s))"
  by (rule same_shape_trans [OF write_reg_shape advance_shape])

lemma exec_op_shape [shape]: "same_shape s (exec_op instr s)"
  unfolding exec_op_def Let_def by (split option.split) simp

lemma exec_op_imm_shape [shape]: "same_shape s (exec_op_imm instr s)"
  unfolding exec_op_imm_def by (split option.split) simp

lemma exec_branch_shape [shape]: "same_shape s (exec_branch instr s)"
  unfolding exec_branch_def by (split option.split) simp

lemma exec_jump_shapes [shape]:
  "same_shape s (exec_jal instr s)" "same_shape s (exec_jalr instr s)"
  "same_shape s (exec_lui instr s)" "same_shape s (exec_auipc instr s)"
  unfolding exec_jal_def exec_jalr_def exec_lui_def exec_auipc_def Let_def
  by (simp_all add: same_shape_trans [OF field_shapes(1) write_reg_shape])

lemma exec_csr_shape [shape]: "same_shape s (exec_csr instr s)"
proof -
  have "same_shape s (advance 4 (write_reg d x (rv32_write_csr s k y)))" for d x k y
    by (rule same_shape_trans [OF rv32_write_csr_shape advance_write_shape])
  then show ?thesis unfolding exec_csr_def Let_def by (split option.split) simp
qed

lemma exec_mret_shape [shape]: "same_shape s (exec_mret s)"
  by (simp add: exec_mret_def)

lemma claim_pending_shape [shape]: "same_shape s (claim_pending s i)"
  by (simp add: claim_pending_def same_shape_def Let_def)

lemma claim_loop_shape: "claim_loop i s = Some (k, s') \<Longrightarrow> same_shape s s'"
proof (induction i s rule: claim_loop.induct)
  case (1 i s)
  then show ?case
    by (subst (asm) (2) claim_loop.simps) (auto simp: claim_pending_shape split: if_splits)
qed

lemma enter_trap_shape [shape]: "same_shape s (enter_trap s)"
  by (simp add: enter_trap_def same_shape_def Let_def)

lemma handle_interrupt_shape [shape]: "same_shape s (rv32_handle_interrupt s)"
proof -
  have trap: "same_shape s (enter_trap (t\<lparr>mcause := c\<rparr>))" if "same_shape s t" for t c
    using that same_shape_trans same_shape_trans [OF field_shapes(3) enter_trap_shape] by blast
  have "same_shape s t" if "rv32_claim_irq s = Some (k, t)" for k t
    using that claim_loop_shape by (auto simp: rv32_claim_irq_def split: if_splits)
  then show ?thesis
    unfolding rv32_handle_interrupt_def Let_def
    by (auto intro: trap split: option.split)
qed

lemma deliver_interrupt_shape [shape]: "same_shape s (deliver_interrupt s)"
  by (simp add: deliver_interrupt_def handle_interrupt_shape)

section \<open>A whole cycle\<close>

context platform_contract
begin

lemma finish_load_ok:
  "same_shape s (fst (snd res)) \<Longrightarrow> run_ok (finish_load instr ext res) (\<lambda>v. same_shape s (fst v))"
  unfolding finish_load_def
  by (cases res; cases "fst res")
    (auto intro: same_shape_trans [OF _ advance_write_shape] same_shape_trans [OF _ stop_shape])

lemma finish_store_ok:
  "same_shape s (fst (snd res)) \<Longrightarrow> run_ok (finish_store res) (\<lambda>v. same_shape s (fst v))"
  unfolding finish_store_def
  by (cases res; cases "fst res")
    (auto intro: same_shape_trans [OF _ advance_shape] same_shape_trans [OF _ stop_shape])

lemma exec_load_ok:
  assumes "wf_rv32 (fst v)" "4 \<le> unat (mem_size (fst v))"
  shows "run_ok (exec_load p instr v) (\<lambda>v'. same_shape (fst v) (fst v'))"
proof -
  have m: "1 \<le> unat (mem_size (fst v))" "2 \<le> unat (mem_size (fst v))" using assms(2) by simp_all
  note ok = run_ok_bind [OF rv32_load8_shape [OF assms(1) m(1)]]
    run_ok_bind [OF rv32_load16_shape [OF assms(1) m(2)]] run_ok_bind [OF rv32_load32_shape [OF assms]]
  show ?thesis
    unfolding exec_load_def Let_def
    by (auto intro!: ok finish_load_ok)
qed

lemma exec_store_ok:
  assumes "wf_rv32 (fst v)" "4 \<le> unat (mem_size (fst v))"
  shows "run_ok (exec_store p instr v) (\<lambda>v'. same_shape (fst v) (fst v'))"
proof -
  have m: "1 \<le> unat (mem_size (fst v))" "2 \<le> unat (mem_size (fst v))" using assms(2) by simp_all
  note ok = run_ok_bind [OF rv32_store8_shape [OF assms(1) m(1)]]
    run_ok_bind [OF rv32_store16_shape [OF assms(1) m(2)]] run_ok_bind [OF rv32_store32_shape [OF assms]]
  show ?thesis
    unfolding exec_store_def Let_def
    by (auto intro!: ok finish_store_ok)
qed

lemma exec_system_shape:
  assumes "wf_rv32 (fst v)"
  shows "same_shape (fst v) (fst (exec_system p instr v))"
proof -
  have "same_shape (fst v) (fst (exec_ecall p v))"
    using ecall_shape [OF assms] same_shape_trans [OF ecall_shape [OF assms] advance_shape]
    by (simp add: exec_ecall_def Let_def)
  then show ?thesis
    by (simp add: exec_system_def Let_def shape same_shape_trans [OF stop_shape advance_shape]
        same_shape_trans [OF field_shapes(2) advance_shape])
qed

lemma execute_ok:
  assumes "wf_rv32 (fst v)" "4 \<le> unat (mem_size (fst v))"
  shows "run_ok (rv32_execute p instr v) (\<lambda>v'. same_shape (fst v) (fst v'))"
  unfolding rv32_execute_def Let_def
  by (simp add: shape exec_load_ok [OF assms] exec_store_ok [OF assms] exec_system_shape [OF assms(1)])

lemma cycle_ok:
  assumes "wf_rv32 (fst v)" "4 \<le> unat (mem_size (fst v))"
  shows "run_ok (rv32_cycle p v) (\<lambda>v'. same_shape (fst v) (fst v'))"
proof -
  let ?s = "deliver_interrupt (fst v)"
  have sh: "same_shape (fst v) ?s" by (rule deliver_interrupt_shape)
  have wf: "wf_rv32 ?s" and size: "4 \<le> unat (mem_size ?s)"
    using same_shape_keeps [OF sh assms(1)] assms(2) by simp_all
  have fetch: "run_ok (rv32_load32 p (?s, snd v) (pc ?s)) (\<lambda>(_, v'). same_shape ?s (fst v'))"
    using rv32_load32_shape [of "(?s, snd v)"] wf size by simp
  have step: "run_ok (case res of RV32_ERR \<Rightarrow> Inr (stop RV32_INVALID_MEMORY_ACCESS s', w')
      | RV32_OK instr \<Rightarrow> rv32_execute p instr (write_reg 0 0 s', w')) (\<lambda>v'. same_shape (fst v) (fst v'))"
    if s': "same_shape ?s s'" for res s' w'
  proof (cases res)
    case RV32_ERR
    from same_shape_trans [OF same_shape_trans [OF sh s'] stop_shape] RV32_ERR show ?thesis by simp
  next
    case (RV32_OK instr)
    let ?t = "write_reg 0 0 s'"
    have t: "same_shape ?s ?t" by (rule same_shape_trans [OF s' write_reg_shape])
    then have "wf_rv32 ?t" "4 \<le> unat (mem_size ?t)"
      using same_shape_keeps [OF t wf] size by simp_all
    then have "run_ok (rv32_execute p instr (?t, w')) (\<lambda>v'. same_shape ?t (fst v'))"
      using execute_ok [of "(?t, w')"] by simp
    then show ?thesis
      unfolding RV32_OK rv32_result.case
      by (rule run_ok_mono) (rule same_shape_trans [OF same_shape_trans [OF sh t]])
  qed
  have "run_ok (bind_run (rv32_load32 p (?s, snd v) (pc ?s))
      (\<lambda>(res, (s', w')). case res of RV32_ERR \<Rightarrow> Inr (stop RV32_INVALID_MEMORY_ACCESS s', w')
        | RV32_OK instr \<Rightarrow> rv32_execute p instr (write_reg 0 0 s', w')))
      (\<lambda>v'. same_shape (fst v) (fst v'))"
    by (rule run_ok_bind [OF fetch]) (simp add: case_prod_unfold step)
  then show ?thesis
    unfolding rv32_cycle_def Let_def
    by (simp add: sh same_shape_trans [OF sh stop_shape])
qed

end

section \<open>Runs\<close>

fun rv32_run :: "'w platform \<Rightarrow> nat \<Rightarrow> 'w vm \<Rightarrow> 'w vm run" where
  "rv32_run p 0 v = Inr v"
| "rv32_run p (Suc n) v = bind_run (rv32_cycle p v) (rv32_run p n)"

context platform_contract
begin

lemma run_ok_cycles:
  assumes "wf_rv32 (fst v)" "4 \<le> unat (mem_size (fst v))"
  shows "run_ok (rv32_run p n v) (\<lambda>v'. same_shape (fst v) (fst v'))"
  using assms
proof (induction n arbitrary: v)
  case 0
  then show ?case by simp
next
  case (Suc n)
  have "run_ok (rv32_run p n v') (\<lambda>v''. same_shape (fst v) (fst v''))"
    if sh: "same_shape (fst v) (fst v')" for v'
  proof -
    have "wf_rv32 (fst v')" "4 \<le> unat (mem_size (fst v'))"
      using same_shape_keeps [OF sh Suc.prems(1)] Suc.prems(2) by simp_all
    then have "run_ok (rv32_run p n v') (\<lambda>v''. same_shape (fst v') (fst v''))" by (rule Suc.IH)
    then show ?thesis by (rule run_ok_mono) (rule same_shape_trans [OF sh])
  qed
  from run_ok_bind [OF cycle_ok [OF Suc.prems] this] show ?case by simp
qed

end

end
