(* ===== verification/Emulator.thy ===== *)
theory Emulator
  imports Safety
begin

text \<open>
  The command-line emulator of \<open>src/examples/embedding\<close>: the platform it gives the machine
  (\<open>mmio_*\<close> of \<open>emulator.c\<close>, \<open>ecall\<close> of \<open>ecall.c\<close>), the loading of a program and the main
  loop. Its world is what it wrote to standard output and standard error.
\<close>

section \<open>Formatted output\<close>

definition digit_char :: "nat \<Rightarrow> char" where
  "digit_char d = (if d < 10 then char_of (48 + d) else char_of (87 + d))"

fun decimal_nat :: "nat \<Rightarrow> string" where
  "decimal_nat n =
     (if n < 10 then [digit_char n] else decimal_nat (n div 10) @ [digit_char (n mod 10)])"

declare decimal_nat.simps [simp del]

text \<open>The conversions \<open>%d\<close>, \<open>%08x\<close> and \<open>%c\<close> of \<open>printf\<close>.\<close>

definition format_d :: "u32 \<Rightarrow> string" where
  "format_d x = (if sint x < 0 then CHR ''-'' # decimal_nat (nat (- sint x)) else decimal_nat (unat x))"

definition format_08x :: "u32 \<Rightarrow> string" where
  "format_08x x = map (\<lambda>i. digit_char (unat (drop_bit (4 * i) x AND 0xf))) [7, 6, 5, 4, 3, 2, 1, 0]"

definition format_c :: "u32 \<Rightarrow> string" where
  "format_c x = [char_of (unat (x AND 0xff))]"

definition newline :: string where "newline = [CHR 0x0A]"

section \<open>The platform\<close>

record host =
  std_out :: string
  std_err :: string

definition print_out :: "string \<Rightarrow> host \<Rightarrow> host" where
  "print_out t w = w\<lparr>std_out := std_out w @ t\<rparr>"

definition print_err :: "string \<Rightarrow> host \<Rightarrow> host" where
  "print_err t w = w\<lparr>std_err := std_err w @ t\<rparr>"

definition emulator_store8 :: "host vm \<Rightarrow> u32 \<Rightarrow> u8 \<Rightarrow> unit rv32_result \<times> host vm" where
  "emulator_store8 v addr val =
     (if addr = 0x80000000
      then (RV32_OK (), (fst v, print_out (format_c (ucast val)) (snd v)))
      else (RV32_ERR, v))"

definition emulator_ecall :: "host vm \<Rightarrow> host vm" where
  "emulator_ecall v =
     (let s = fst v; w = snd v; a7 = r s ! reg_index REG_A7; a0 = r s ! reg_index REG_A0
      in if a7 = 1 then (s, print_out (format_c a0) w)
         else if a7 = 2 then (s, print_out (format_d a0 @ newline) w)
         else if a7 = 93 then (stop RV32_HALTED s, w)
         else v)"

definition emulator_platform :: "host platform" where
  "emulator_platform =
     \<lparr>mmio_load8 = (\<lambda>v a. (RV32_ERR, v)), mmio_load16 = (\<lambda>v a. (RV32_ERR, v)),
      mmio_load32 = (\<lambda>v a. (RV32_ERR, v)), mmio_store8 = emulator_store8,
      mmio_store16 = (\<lambda>v a x. (RV32_ERR, v)), mmio_store32 = (\<lambda>v a x. (RV32_ERR, v)),
      ecall = emulator_ecall\<rparr>"

lemma emulator_platform_simps [simp]:
  "mmio_load8 emulator_platform v a = (RV32_ERR, v)"
  "mmio_load16 emulator_platform v a = (RV32_ERR, v)"
  "mmio_load32 emulator_platform v a = (RV32_ERR, v)"
  "mmio_store8 emulator_platform = emulator_store8"
  "mmio_store16 emulator_platform v a x16 = (RV32_ERR, v)"
  "mmio_store32 emulator_platform v a x32 = (RV32_ERR, v)"
  "ecall emulator_platform = emulator_ecall"
  by (simp_all add: emulator_platform_def)

interpretation emulator: platform_contract emulator_platform
  by unfold_locales (simp_all add: emulator_store8_def emulator_ecall_def Let_def)

section \<open>The main loop\<close>

definition status_name :: "rv32_status \<Rightarrow> string" where
  "status_name st = rv32_status_name ! status_code st"

text \<open>
  The switch after a cycle. The default branch prints the word at \<open>mem[pc]\<close> without looking at
  the bounds.
\<close>

definition emulator_report :: "host vm \<Rightarrow> host vm run" where
  "emulator_report v =
     (let s = fst v; w = snd v
      in case status s of
           RV32_RUNNING \<Rightarrow> Inr v
         | RV32_HALTED \<Rightarrow> Inr v
         | RV32_EBREAK \<Rightarrow> Inr (s, print_err (''ebreak at pc='' @ format_08x (pc s) @ newline) w)
         | st \<Rightarrow>
             (case mem_get 4 (mem s) (unat (pc s)) of
                None \<Rightarrow> Inl Out_Of_Bounds
              | Some instr \<Rightarrow> Inr (s, print_err
                  (''Error '' @ status_name st @ '' at pc='' @ format_08x (pc s) @ newline
                   @ ''instruction = 0x'' @ format_08x instr @ newline) w)))"

definition emulator_turn :: "host vm \<Rightarrow> host vm run" where
  "emulator_turn v = bind_run (rv32_cycle emulator_platform v) emulator_report"

partial_function (option) emulator_loop :: "host vm \<Rightarrow> host vm run option" where
  "emulator_loop v =
     (if status (fst v) = RV32_RUNNING
      then (case emulator_turn v of Inl e \<Rightarrow> Some (Inl e) | Inr v' \<Rightarrow> emulator_loop v')
      else Some (Inr v))"

text \<open>The same loop with a bound on the number of turns; \<open>None\<close> when the bound is reached.\<close>

fun emulator_turns :: "nat \<Rightarrow> host vm \<Rightarrow> host vm run option" where
  "emulator_turns n v =
     (if status (fst v) \<noteq> RV32_RUNNING then Some (Inr v)
      else case n of
             0 \<Rightarrow> None
           | Suc m \<Rightarrow> (case emulator_turn v of Inl e \<Rightarrow> Some (Inl e) | Inr v' \<Rightarrow> emulator_turns m v'))"

declare emulator_turns.simps [simp del]

lemma emulator_turns_loop: "emulator_turns n v = Some x \<Longrightarrow> emulator_loop v = Some x"
proof (induction n arbitrary: v)
  case 0
  then show ?case
    by (simp add: emulator_turns.simps [of 0 v] emulator_loop.simps [of v] split: if_splits)
next
  case (Suc n)
  then show ?case
    by (auto simp: emulator_turns.simps [of "Suc n" v] emulator_loop.simps [of v]
        split: if_splits sum.splits)
qed

lemma emulator_loop_turns: "emulator_loop v = Some x \<Longrightarrow> \<exists>n. emulator_turns n v = Some x"
proof (rule emulator_loop.raw_induct [where P = "\<lambda>v x. \<exists>n. emulator_turns n v = Some x"])
  fix f v x
  assume IH: "\<And>v x. f v = Some x \<Longrightarrow> \<exists>n. emulator_turns n v = Some x"
    and eq: "(if status (fst v) = RV32_RUNNING
      then (case emulator_turn v of Inl e \<Rightarrow> Some (Inl e) | Inr v' \<Rightarrow> f v')
      else Some (Inr v)) = Some x"
  show "\<exists>n. emulator_turns n v = Some x"
  proof (cases "status (fst v) = RV32_RUNNING")
    case False
    with eq have "emulator_turns 0 v = Some x" by (simp add: emulator_turns.simps [of 0 v])
    then show ?thesis ..
  next
    case True
    show ?thesis
    proof (cases "emulator_turn v")
      case (Inl e)
      with True eq have "emulator_turns (Suc 0) v = Some x"
        by (auto simp: emulator_turns.simps [of "Suc 0" v])
      then show ?thesis ..
    next
      case (Inr v')
      with True eq have "f v' = Some x" by simp
      then obtain n where "emulator_turns n v' = Some x" using IH by blast
      with True Inr have "emulator_turns (Suc n) v = Some x"
        by (simp add: emulator_turns.simps [of "Suc n" v])
      then show ?thesis ..
    qed
  qed
qed

lemma emulator_turns_stopped: "emulator_turns n v = Some (Inr v') \<Longrightarrow> status (fst v') \<noteq> RV32_RUNNING"
proof (induction n arbitrary: v)
  case 0
  then show ?case by (auto simp: emulator_turns.simps [of 0 v] split: if_splits)
next
  case (Suc n)
  then show ?case
    by (auto simp: emulator_turns.simps [of "Suc n" v] split: if_splits sum.splits)
qed

section \<open>Loading and running a program\<close>

definition emulator_ram_size :: u32 where "emulator_ram_size = 0x20000004"

text \<open>
  The bytes of the program file replace the start of RAM; \<open>None\<close> is the error return of \<open>fread\<close>,
  which reads no element of an empty file.
\<close>

definition load_program :: "u8 list \<Rightarrow> rv32 \<Rightarrow> rv32 option" where
  "load_program file s =
     (if file = [] then None
      else Some (s\<lparr>mem := file @ drop (length file) (mem s)\<rparr>))"

definition exit_code :: "rv32 \<Rightarrow> u32" where
  "exit_code s = (if status s = RV32_HALTED then r s ! reg_index REG_A0 else 1)"

text \<open>
  \<open>main\<close>: \<open>files\<close> is the file system, \<open>malloc\<close> the block that \<open>malloc\<close> returned, read as the
  structure (\<open>None\<close> when there is no memory). The result is the exit code and the final world.
\<close>

definition emulator_error :: "string \<Rightarrow> host \<Rightarrow> (u32 \<times> host) run option" where
  "emulator_error msg w = Some (Inr (1, print_err (msg @ newline) w))"

definition emulator_main ::
  "string list \<Rightarrow> (string \<Rightarrow> u8 list option) \<Rightarrow> rv32 option \<Rightarrow> host \<Rightarrow> (u32 \<times> host) run option" where
  "emulator_main argv files malloc w =
     (if length argv < 2 then emulator_error ''Please provide a program to run.'' w
      else case files (argv ! 1) of
        None \<Rightarrow> emulator_error (''Failed to open program '' @ argv ! 1) w
      | Some file \<Rightarrow>
        (case malloc of
           None \<Rightarrow> emulator_error ''Failed to allocate memory.'' w
         | Some memory \<Rightarrow>
           (case rv32_new memory emulator_ram_size of
              Inl e \<Rightarrow> Some (Inl e)
            | Inr s \<Rightarrow>
              (if unat emulator_ram_size < length file then emulator_error ''Program too big.'' w
               else case load_program file s of
                 None \<Rightarrow> emulator_error ''Failed to read program'' w
               | Some s' \<Rightarrow>
                   map_option (\<lambda>res. bind_run res (\<lambda>(t, w'). Inr (exit_code t, w')))
                     (emulator_loop (s'\<lparr>status := RV32_RUNNING\<rparr>, w))))))"

end
