(* ===== verification/Api.thy ===== *)
theory Api
  imports Delivery Breakpoints Emulator
begin

text \<open>
  The interface that \<open>src/src/rv32.h\<close> offers to the program that embeds it, as calls that can follow
  each other in any order, and the type of the machines it hands around: beyond the shape of
  \<open>wf_rv32\<close>, the wait flag is a truth value and the controller holds only requests that exist.
\<close>

section \<open>Calls\<close>

text \<open>
  The functions declared at the head of the file, with \<open>rv32_trigger_external_interrupt\<close>, which is
  defined but not declared, and the assignment to the status that the embedders make themselves.
\<close>

datatype api_call =
  Cycle
| Reset
| Resume
| Set_breakpoint u32
| Clear_breakpoint u32
| Clear_all_breakpoints
| Trigger_external_interrupt u32
| Set_status rv32_status

text \<open>The effect of a call on the machine and the world; the results of the calls are dropped.\<close>

fun api_apply :: "'w platform \<Rightarrow> api_call \<Rightarrow> 'w vm \<Rightarrow> 'w vm run" where
  "api_apply p Cycle v = rv32_cycle p v"
| "api_apply p Reset (s, w) = bind_run (rv32_reset s) (\<lambda>s'. Inr (s', w))"
| "api_apply p Resume (s, w) = Inr (rv32_resume s, w)"
| "api_apply p (Set_breakpoint a) (s, w) = Inr (snd (rv32_set_breakpoint s a), w)"
| "api_apply p (Clear_breakpoint a) (s, w) = Inr (snd (rv32_clear_breakpoint s a), w)"
| "api_apply p Clear_all_breakpoints (s, w) = Inr (rv32_clear_all_breakpoints s, w)"
| "api_apply p (Trigger_external_interrupt q) (s, w) = Inr (rv32_trigger_external_interrupt s q, w)"
| "api_apply p (Set_status st) (s, w) = Inr (stop st s, w)"

fun api_run :: "'w platform \<Rightarrow> api_call list \<Rightarrow> 'w vm \<Rightarrow> 'w vm run" where
  "api_run p [] v = Inr v"
| "api_run p (c # cs) v = bind_run (api_apply p c v) (api_run p cs)"

section \<open>The type of a machine\<close>

definition device_state :: "rv32 \<Rightarrow> bool" where
  "device_state s \<longleftrightarrow> (wfi s = 0 \<or> wfi s = 1) \<and> (\<forall>k \<ge> 4. \<not> bit (pending s) k)"

definition well_typed :: "u32 \<Rightarrow> rv32 \<Rightarrow> bool" where
  "well_typed n s \<longleftrightarrow> wf_rv32 s \<and> mem_size s = n \<and> device_state s"

lemma well_typedI: "same_shape s t \<Longrightarrow> well_typed n s \<Longrightarrow> device_state t \<Longrightarrow> well_typed n t"
  using same_shape_keeps [of s t] by (simp add: well_typed_def)

text \<open>Most operations leave the wait flag and the controller alone.\<close>

named_theorems devices "operations that keep the device state"

lemma device_state_cong:
  "wfi t = wfi s \<Longrightarrow> pending t = pending s \<Longrightarrow> device_state s \<Longrightarrow> device_state t"
  by (simp add: device_state_def)

lemma device_fields [devices, simp]:
  "device_state (write_reg d x s) = device_state s" "device_state (advance d s) = device_state s"
  "device_state (stop st s) = device_state s" "device_state (s\<lparr>pc := a\<rparr>) = device_state s"
  "device_state (s\<lparr>mem := ms\<rparr>) = device_state s" "device_state (s\<lparr>mcause := c\<rparr>) = device_state s"
  "device_state (s\<lparr>mip := c\<rparr>) = device_state s"
  by (simp_all add: device_state_def write_reg_def advance_def stop_def)

lemma device_write_csr [devices, simp]: "device_state (rv32_write_csr s k x) = device_state s"
  by (simp add: rv32_write_csr_def device_state_def)

lemma device_exec [devices]:
  "device_state (exec_op instr s) = device_state s" "device_state (exec_op_imm instr s) = device_state s"
  "device_state (exec_branch instr s) = device_state s" "device_state (exec_jal instr s) = device_state s"
  "device_state (exec_jalr instr s) = device_state s" "device_state (exec_lui instr s) = device_state s"
  "device_state (exec_auipc instr s) = device_state s" "device_state (exec_csr instr s) = device_state s"
  by (simp_all add: exec_op_def exec_op_imm_def exec_branch_def exec_jal_def exec_jalr_def exec_lui_def
      exec_auipc_def exec_csr_def Let_def split: option.split)

lemma device_exec_mret [devices]: "device_state (exec_mret s) = device_state s"
  by (simp add: exec_mret_def device_state_def)

lemma device_claim: "rv32_claim_irq s = Some (q, s') \<Longrightarrow> device_state s \<Longrightarrow> device_state s'"
  by (frule claim_irq_Some(4)) (simp add: device_state_def claim_pending_def Let_def bit_simps)

lemma device_enter_trap: "device_state s \<Longrightarrow> device_state (enter_trap s)"
  by (simp add: device_state_def enter_trap_fields)

lemma device_deliver: "device_state s \<Longrightarrow> device_state (deliver_interrupt s)"
  by (auto simp: deliver_interrupt_def rv32_handle_interrupt_def Let_def device_enter_trap
      dest: device_claim split: option.split)


section \<open>The contract of the embedder\<close>

text \<open>The callbacks keep the type of the machine as well as its shape.\<close>

locale typed_platform = platform_contract +
  assumes load8_device: "device_state (fst v) \<Longrightarrow> device_state (fst (snd (mmio_load8 p v a)))"
    and load16_device: "device_state (fst v) \<Longrightarrow> device_state (fst (snd (mmio_load16 p v a)))"
    and load32_device: "device_state (fst v) \<Longrightarrow> device_state (fst (snd (mmio_load32 p v a)))"
    and store8_device: "device_state (fst v) \<Longrightarrow> device_state (fst (snd (mmio_store8 p v a x8)))"
    and store16_device: "device_state (fst v) \<Longrightarrow> device_state (fst (snd (mmio_store16 p v a x16)))"
    and store32_device: "device_state (fst v) \<Longrightarrow> device_state (fst (snd (mmio_store32 p v a x32)))"
    and ecall_device: "device_state (fst v) \<Longrightarrow> device_state (fst (ecall p v))"
begin

lemma ram_device:
  "ram_read n v a = Inr (res, v') \<Longrightarrow> device_state (fst v) \<Longrightarrow> device_state (fst v')"
  "ram_write n v a x = Inr (res', v') \<Longrightarrow> device_state (fst v) \<Longrightarrow> device_state (fst v')"
  by (auto simp: ram_read_def ram_write_def split: option.splits)

lemma load_device:
  "rv32_load8 p v a = Inr (r8, v') \<Longrightarrow> device_state (fst v) \<Longrightarrow> device_state (fst v')"
  "rv32_load16 p v a = Inr (r16, v') \<Longrightarrow> device_state (fst v) \<Longrightarrow> device_state (fst v')"
  "rv32_load32 p v a = Inr (r32, v') \<Longrightarrow> device_state (fst v) \<Longrightarrow> device_state (fst v')"
  using load8_device [of v a] load16_device [of v a] load32_device [of v a]
  by (auto simp: rv32_load8_def rv32_load16_def rv32_load32_def dest: ram_device split: if_splits)

lemma store_device:
  "rv32_store8 p v a x8 = Inr (u, v') \<Longrightarrow> device_state (fst v) \<Longrightarrow> device_state (fst v')"
  "rv32_store16 p v a x16 = Inr (u, v') \<Longrightarrow> device_state (fst v) \<Longrightarrow> device_state (fst v')"
  "rv32_store32 p v a x32 = Inr (u, v') \<Longrightarrow> device_state (fst v) \<Longrightarrow> device_state (fst v')"
  using store8_device [of v a x8] store16_device [of v a x16] store32_device [of v a x32]
  by (auto simp: rv32_store8_def rv32_store16_def rv32_store32_def device_state_def [of "_\<lparr>interrupt_controller := _\<rparr>"]
      dest: ram_device split: if_splits) (simp_all add: device_state_def)

lemma finish_device:
  "finish_load instr ext (res, v) = Inr v' \<Longrightarrow> device_state (fst v) \<Longrightarrow> device_state (fst v')"
  "finish_store (res', v) = Inr v' \<Longrightarrow> device_state (fst v) \<Longrightarrow> device_state (fst v')"
  by (auto simp: finish_load_def finish_store_def split: prod.splits rv32_result.splits)

lemma access_device:
  "exec_load p instr v = Inr v' \<Longrightarrow> device_state (fst v) \<Longrightarrow> device_state (fst v')"
  "exec_store p instr v = Inr v' \<Longrightarrow> device_state (fst v) \<Longrightarrow> device_state (fst v')"
  unfolding exec_load_def exec_store_def Let_def
  by (auto elim!: bind_run_InrE dest: load_device store_device finish_device split: if_splits)

lemma system_device: "device_state (fst v) \<Longrightarrow> device_state (fst (exec_system p instr v))"
  using ecall_device [of v]
  by (simp add: exec_system_def exec_ecall_def Let_def device_exec device_exec_mret device_state_def [of "_\<lparr>wfi := 1\<rparr>"])
    (simp add: device_state_def)

lemma execute_device:
  "rv32_execute p instr v = Inr v' \<Longrightarrow> device_state (fst v) \<Longrightarrow> device_state (fst v')"
  unfolding rv32_execute_def Let_def
  by (auto simp: device_exec dest: access_device system_device split: if_splits)

lemma cycle_device:
  assumes "rv32_cycle p v = Inr v'" "device_state (fst v)"
  shows "device_state (fst v')"
proof -
  have d: "device_state (deliver_interrupt (fst v))" using assms(2) by (rule device_deliver)
  have fetch: "device_state s'"
    if "rv32_load32 p (deliver_interrupt (fst v), snd v) a = Inr (res, s', w')" for a res s' w'
    using load_device(3) [OF that] d by simp
  have exec: "device_state (fst v')" if "rv32_execute p instr (write_reg 0 0 s', w') = Inr v'" "device_state s'"
    for instr s' w'
    using execute_device [OF that(1)] that(2) by simp
  from assms(1) d show ?thesis
    unfolding rv32_cycle_def Let_def
    by (auto elim!: bind_run_InrE dest: exec dest!: fetch split: if_splits rv32_result.splits)
qed

text \<open>Preservation and progress of a call.\<close>

lemma cycle_typed:
  assumes "well_typed n (fst v)" "4 \<le> unat n"
  shows "run_ok (rv32_cycle p v) (\<lambda>v'. well_typed n (fst v'))"
proof -
  have "run_ok (rv32_cycle p v) (\<lambda>v'. same_shape (fst v) (fst v'))"
    using cycle_ok [of v] assms by (simp add: well_typed_def)
  then obtain v' where "rv32_cycle p v = Inr v'" "same_shape (fst v) (fst v')" by (rule run_okE)
  with cycle_device [of v v'] assms well_typedI [of "fst v" "fst v'" n] show ?thesis
    by (simp add: well_typed_def)
qed

end


section \<open>Sequences of calls\<close>

lemma device_trigger: "device_state s \<Longrightarrow> device_state (rv32_trigger_external_interrupt s q)"
proof (cases "q < 4")
  case True
  then have "unat q < 4" by (simp add: word_less_nat_alt)
  moreover assume "device_state s"
  ultimately show ?thesis
    by (auto simp: device_state_def rv32_trigger_external_interrupt_def bit_simps simp del: push_bit_of_1)
qed (simp add: device_state_def rv32_trigger_external_interrupt_def not_less)

lemma trigger_shape [simp]: "same_shape s (rv32_trigger_external_interrupt s q)"
  by (simp add: rv32_trigger_external_interrupt_def same_shape_def)

lemma device_breakpoint [devices, simp]:
  "device_state (snd (rv32_set_breakpoint s a)) = device_state s"
  "device_state (snd (rv32_clear_breakpoint s a)) = device_state s"
  "device_state (rv32_clear_all_breakpoints s) = device_state s"
proof -
  show "device_state (snd (rv32_set_breakpoint s a)) = device_state s"
    by (cases rule: set_breakpoint_cases [where s = s and addr = a]) (simp_all add: device_state_def)
  show "device_state (snd (rv32_clear_breakpoint s a)) = device_state s"
    by (cases rule: clear_breakpoint_cases [where s = s and addr = a]) (simp_all add: device_state_def)
qed (simp add: device_state_def rv32_clear_all_breakpoints_def)

lemma device_resume [devices, simp]: "device_state (rv32_resume s) = device_state s"
  by (simp add: rv32_resume_def device_state_def)

lemma new_typed:
  assumes "length (r m) = 32" "length (bp m) = 8"
    and "RV32_NEEDED_MEMORY (unat n) \<le> offsetof_mem + length (mem m)"
  shows "run_ok (rv32_new m n) (well_typed n)"
  using rv32_new_wf [OF assms] assms(3)
  by (simp add: rv32_new_Inr RV32_NEEDED_MEMORY_def RV32_layout well_typed_def device_state_def zeroed_def)

context typed_platform
begin

lemma apply_typed:
  assumes "well_typed n (fst v)" "4 \<le> unat n"
  shows "run_ok (api_apply p c v) (\<lambda>v'. well_typed n (fst v'))"
proof -
  have s: "wf_rv32 (fst v)" "mem_size (fst v) = n" "device_state (fst v)"
    using assms(1) by (simp_all add: well_typed_def)
  have reset: "run_ok (rv32_reset (fst v)) (well_typed n)"
    using new_typed [of "fst v" n] s by (simp add: rv32_reset_def wf_rv32_def)
  have typed: "well_typed n t" if "same_shape (fst v) t" "device_state t" for t
    using that(1) assms(1) that(2) by (rule well_typedI)
  obtain s0 w where v: "v = (s0, w)" by (cases v)
  show ?thesis
    using assms reset typed s cycle_typed
    by (cases c) (simp_all add: v device_trigger run_ok_bind [OF reset [unfolded v fst_conv]])
qed

lemma run_typed:
  assumes "well_typed n (fst v)" "4 \<le> unat n"
  shows "run_ok (api_run p cs v) (\<lambda>v'. well_typed n (fst v'))"
  using assms(1)
proof (induction cs arbitrary: v)
  case (Cons c cs)
  from run_ok_bind [OF apply_typed [OF Cons.prems assms(2)] Cons.IH] show ?case by simp
qed simp

end

end
