(* ===== verification/Isa.thy ===== *)
theory Isa
  imports Prelude
begin

text \<open>
  The instruction set that \<open>rv32_cycle\<close> implements, stated independently of the C code: RV32I
  with the M and Zicsr extensions and \<open>mret\<close>, over integers and a register file in which \<open>x0\<close>
  reads as zero. The arithmetic is written with \<open>int\<close> operations; nothing here is translated
  from the source. Where the manual leaves a choice to the platform the choice of this one is taken:
  accesses need no alignment, machine mode is the only mode, and a CSR is there or is not, as
  \<open>implemented_csr\<close> says.
\<close>

section \<open>Instructions\<close>

datatype alu_op =
  Add | Sub | Sll | Slt | Sltu | Xor' | Srl | Sra | Or' | And'
| Mul | Mulh | Mulhsu | Mulhu | Div' | Divu | Rem' | Remu

datatype imm_op = Addi | Slti | Sltiu | Xori | Ori | Andi
datatype shift_op = Slli | Srli | Srai
datatype load_op = Lb | Lh | Lw | Lbu | Lhu
datatype store_op = Sb | Sh | Sw
datatype branch_op = Beq | Bne | Blt | Bge | Bltu | Bgeu
datatype csr_op = Csrrw | Csrrs | Csrrc

text \<open>Branch and jump offsets are given in halfwords, as the formats hold them.\<close>

datatype instr =
  Op alu_op "5 word" "5 word" "5 word"
| OpImm imm_op "5 word" "5 word" "12 word"
| ShiftImm shift_op "5 word" "5 word" "5 word"
| Load load_op "5 word" "5 word" "12 word"
| Store store_op "5 word" "5 word" "12 word"
| Branch branch_op "5 word" "5 word" "12 word"
| Jal "5 word" "20 word"
| Jalr "5 word" "5 word" "12 word"
| Lui "5 word" "20 word"
| Auipc "5 word" "20 word"
| Csr csr_op "5 word" "5 word" "12 word"
| CsrImm csr_op "5 word" "5 word" "12 word"
| Mret

section \<open>Arithmetic\<close>

definition shamt :: "u32 \<Rightarrow> nat" where "shamt b = unat b mod 32"

primrec isa_alu :: "alu_op \<Rightarrow> u32 \<Rightarrow> u32 \<Rightarrow> u32" where
  "isa_alu Add a b = word_of_int (uint a + uint b)"
| "isa_alu Sub a b = word_of_int (uint a - uint b)"
| "isa_alu Sll a b = word_of_int (uint a * 2 ^ shamt b)"
| "isa_alu Slt a b = of_bool (sint a < sint b)"
| "isa_alu Sltu a b = of_bool (uint a < uint b)"
| "isa_alu Xor' a b = a XOR b"
| "isa_alu Srl a b = word_of_int (uint a div 2 ^ shamt b)"
| "isa_alu Sra a b = word_of_int (sint a div 2 ^ shamt b)"
| "isa_alu Or' a b = a OR b"
| "isa_alu And' a b = a AND b"
| "isa_alu Mul a b = word_of_int (sint a * sint b)"
| "isa_alu Mulh a b = word_of_int (sint a * sint b div 2 ^ 32)"
| "isa_alu Mulhsu a b = word_of_int (sint a * uint b div 2 ^ 32)"
| "isa_alu Mulhu a b = word_of_int (uint a * uint b div 2 ^ 32)"
| "isa_alu Div' a b = (if b = 0 then - 1 else word_of_int (sint a sdiv sint b))"
| "isa_alu Divu a b = (if b = 0 then - 1 else word_of_int (uint a div uint b))"
| "isa_alu Rem' a b = word_of_int (sint a smod sint b)"
| "isa_alu Remu a b = word_of_int (uint a mod uint b)"

primrec imm_alu :: "imm_op \<Rightarrow> alu_op" where
  "imm_alu Addi = Add"
| "imm_alu Slti = Slt"
| "imm_alu Sltiu = Sltu"
| "imm_alu Xori = Xor'"
| "imm_alu Ori = Or'"
| "imm_alu Andi = And'"

primrec shift_alu :: "shift_op \<Rightarrow> alu_op" where
  "shift_alu Slli = Sll"
| "shift_alu Srli = Srl"
| "shift_alu Srai = Sra"

primrec isa_branch :: "branch_op \<Rightarrow> u32 \<Rightarrow> u32 \<Rightarrow> bool" where
  "isa_branch Beq a b \<longleftrightarrow> a = b"
| "isa_branch Bne a b \<longleftrightarrow> a \<noteq> b"
| "isa_branch Blt a b \<longleftrightarrow> sint a < sint b"
| "isa_branch Bge a b \<longleftrightarrow> \<not> sint a < sint b"
| "isa_branch Bltu a b \<longleftrightarrow> uint a < uint b"
| "isa_branch Bgeu a b \<longleftrightarrow> \<not> uint a < uint b"

primrec isa_csr :: "csr_op \<Rightarrow> u32 \<Rightarrow> u32 \<Rightarrow> u32" where
  "isa_csr Csrrw old x = x"
| "isa_csr Csrrs old x = old OR x"
| "isa_csr Csrrc old x = old AND NOT x"

section \<open>The state of a hart\<close>

text \<open>
  Memory maps an address to a byte where there is RAM. The CSR map is total: a register that is
  not implemented reads as zero and ignores writes.
\<close>

record hart =
  gpr :: "5 word \<Rightarrow> u32"
  ipc :: u32
  ram :: "u32 \<Rightarrow> u8 option"
  csrs :: "u32 \<Rightarrow> u32"

definition set_gpr :: "5 word \<Rightarrow> u32 \<Rightarrow> hart \<Rightarrow> hart" where
  "set_gpr d x h = h\<lparr>gpr := (\<lambda>i. if i = 0 then 0 else if i = d then x else gpr h i)\<rparr>"

definition goto :: "u32 \<Rightarrow> hart \<Rightarrow> hart" where
  "goto a h = h\<lparr>ipc := a\<rparr>"

definition next_instr :: "hart \<Rightarrow> hart" where
  "next_instr h = goto (ipc h + 4) h"

text \<open>The bytes at \<open>n\<close> successive addresses, if all of them are RAM; addresses do not wrap.\<close>

fun fetch_bytes :: "nat \<Rightarrow> (u32 \<Rightarrow> u8 option) \<Rightarrow> nat \<Rightarrow> u8 list option" where
  "fetch_bytes 0 m a = Some []"
| "fetch_bytes (Suc n) m a =
     (if a < 2 ^ 32
      then case m (word_of_nat a) of
             None \<Rightarrow> None
           | Some b \<Rightarrow> map_option (\<lambda>bs. b # bs) (fetch_bytes n m (Suc a))
      else None)"

fun store_bytes :: "u8 list \<Rightarrow> (u32 \<Rightarrow> u8 option) \<Rightarrow> nat \<Rightarrow> (u32 \<Rightarrow> u8 option)" where
  "store_bytes [] m a = m"
| "store_bytes (b # bs) m a = store_bytes bs (m(word_of_nat a \<mapsto> b)) (Suc a)"

primrec load_width :: "load_op \<Rightarrow> nat" where
  "load_width Lb = 1" | "load_width Lh = 2" | "load_width Lw = 4"
| "load_width Lbu = 1" | "load_width Lhu = 2"

primrec load_value :: "load_op \<Rightarrow> u8 list \<Rightarrow> u32" where
  "load_value Lb bs = scast (le_word bs :: u8)"
| "load_value Lh bs = scast (le_word bs :: u16)"
| "load_value Lw bs = le_word bs"
| "load_value Lbu bs = ucast (le_word bs :: u8)"
| "load_value Lhu bs = ucast (le_word bs :: u16)"

primrec store_width :: "store_op \<Rightarrow> nat" where
  "store_width Sb = 1" | "store_width Sh = 2" | "store_width Sw = 4"

definition implemented_csr :: "u32 \<Rightarrow> bool" where
  "implemented_csr k \<longleftrightarrow> k \<in> {0x300, 0x304, 0x305, 0x341, 0x342, 0x344}"

definition set_csr :: "u32 \<Rightarrow> u32 \<Rightarrow> hart \<Rightarrow> hart" where
  "set_csr k x h = (if implemented_csr k then h\<lparr>csrs := (csrs h)(k := x)\<rparr> else h)"

section \<open>One step\<close>

text \<open>
  \<open>None\<close>: a load or store outside RAM, which the machine hands to its environment. \<open>mret\<close> moves
  \<open>mstatus.MPIE\<close> to \<open>MIE\<close> and sets \<open>MPIE\<close>.
\<close>

fun isa_step :: "instr \<Rightarrow> hart \<Rightarrow> hart option" where
  "isa_step (Op f rd rs1 rs2) h =
     Some (next_instr (set_gpr rd (isa_alu f (gpr h rs1) (gpr h rs2)) h))"
| "isa_step (OpImm f rd rs1 imm) h =
     Some (next_instr (set_gpr rd (isa_alu (imm_alu f) (gpr h rs1) (scast imm)) h))"
| "isa_step (ShiftImm f rd rs1 sh) h =
     Some (next_instr (set_gpr rd (isa_alu (shift_alu f) (gpr h rs1) (ucast sh)) h))"
| "isa_step (Load f rd rs1 imm) h =
     (case fetch_bytes (load_width f) (ram h) (unat (gpr h rs1 + scast imm)) of
        None \<Rightarrow> None
      | Some bs \<Rightarrow> Some (next_instr (set_gpr rd (load_value f bs) h)))"
| "isa_step (Store f rs1 rs2 imm) h =
     (let a = unat (gpr h rs1 + scast imm)
      in case fetch_bytes (store_width f) (ram h) a of
           None \<Rightarrow> None
         | Some _ \<Rightarrow>
             Some (next_instr
               (h\<lparr>ram := store_bytes (le_bytes (store_width f) (gpr h rs2)) (ram h) a\<rparr>)))"
| "isa_step (Branch f rs1 rs2 imm) h =
     Some (if isa_branch f (gpr h rs1) (gpr h rs2)
           then goto (ipc h + word_of_int (2 * sint imm)) h
           else next_instr h)"
| "isa_step (Jal rd imm) h =
     Some (goto (ipc h + word_of_int (2 * sint imm)) (set_gpr rd (ipc h + 4) h))"
| "isa_step (Jalr rd rs1 imm) h =
     Some (goto ((gpr h rs1 + scast imm) AND NOT 1) (set_gpr rd (ipc h + 4) h))"
| "isa_step (Lui rd imm) h =
     Some (next_instr (set_gpr rd (word_of_int (uint imm * 2 ^ 12)) h))"
| "isa_step (Auipc rd imm) h =
     Some (next_instr (set_gpr rd (ipc h + word_of_int (uint imm * 2 ^ 12)) h))"
| "isa_step (Csr f rd rs1 k) h =
     (let old = csrs h (ucast k)
      in Some (next_instr (set_gpr rd old (set_csr (ucast k) (isa_csr f old (gpr h rs1)) h))))"
| "isa_step (CsrImm f rd z k) h =
     (let old = csrs h (ucast k)
      in Some (next_instr (set_gpr rd old (set_csr (ucast k) (isa_csr f old (ucast z)) h))))"
| "isa_step Mret h =
     Some (goto (csrs h 0x341)
       (set_csr 0x300
          (let m = csrs h 0x300 in (if bit m 7 then m OR 8 else m AND NOT 8) OR 0x80) h))"

end
