(* ===== verification/Alu.thy ===== *)
theory Alu
  imports Execute Isa
begin

text \<open>
  The arithmetic of the code (casts to 64 bits, shifts with a masked amount, the special cases of
  the divisions) computes the operations of the instruction set.
\<close>

section \<open>Signed and unsigned ranges\<close>

lemma sint_u32_bounds: "- 2147483648 \<le> sint (a :: u32)" "sint (a :: u32) < 2147483648"
  using sint_ge [of a] sint_lt [of a] by simp_all

lemma uint_u32_bounds: "0 \<le> uint (a :: u32)" "uint (a :: u32) < 4294967296"
  using uint_lt2p [of a] by simp_all

lemma abs_sint_u32: "\<bar>sint (a :: u32)\<bar> \<le> 2147483648"
  using sint_u32_bounds [of a] by linarith

lemma abs_uint_u32: "\<bar>uint (a :: u32)\<bar> \<le> 4294967295"
  using uint_u32_bounds [of a] by linarith

lemma ucast_word_of_int: "ucast (word_of_int k :: u64) = (word_of_int k :: u32)"
  by (rule bit_word_eqI) (simp add: bit_simps)

lemma sint_u64_exact: "- (2 ^ 63) \<le> k \<Longrightarrow> k < 2 ^ 63 \<Longrightarrow> sint (word_of_int k :: u64) = k"
  by (simp add: sint_sbintrunc' signed_take_bit_int_eq_self)

lemma uint_u64_exact: "0 \<le> k \<Longrightarrow> k < 2 ^ 64 \<Longrightarrow> uint (word_of_int k :: u64) = k"
  by (simp add: uint_word_of_int)

lemma abs_mult_bounds: "\<bar>a\<bar> \<le> m \<Longrightarrow> \<bar>b\<bar> \<le> n \<Longrightarrow> \<bar>a * b\<bar> \<le> m * n" for a b :: int
  by (simp add: abs_mult mult_mono')

lemma sint_eqD: "sint w = k \<Longrightarrow> w = word_of_int k" for w :: "'a::len word"
  by (drule sym) simp

lemma uint_eqD: "uint w = k \<Longrightarrow> w = word_of_int k" for w :: "'a::len word"
  by (drule sym) simp

lemma uint_drop_bit: "uint (drop_bit n w) = uint w div 2 ^ n" for w :: "'a::len word"
  by (simp add: unsigned_drop_bit_eq take_bit_int_eq_self flip: drop_bit_eq_div)

section \<open>The high words of products\<close>

lemma high_word_signed:
  assumes "\<bar>i\<bar> \<le> 2147483648" "\<bar>j\<bar> \<le> 4294967295"
  shows "ucast (signed_drop_bit 32 (word_of_int i * word_of_int j :: u64))
    = (word_of_int (i * j div 2 ^ 32) :: u32)"
proof -
  have "\<bar>i * j\<bar> \<le> 2147483648 * 4294967295" using assms by (rule abs_mult_bounds)
  then have b: "- (2 ^ 63) \<le> i * j" "i * j < 2 ^ 63" by simp_all
  have "signed_drop_bit 32 (word_of_int (i * j) :: u64) = word_of_int (i * j div 2 ^ 32)"
    by (rule sint_eqD) (simp only: sint_signed_drop_bit_eq sint_u64_exact [OF b] drop_bit_eq_div)
  then show ?thesis by (simp only: ucast_word_of_int of_int_mult [symmetric])
qed

lemma mulh_code:
  "ucast (signed_drop_bit 32 (scast a * scast b :: u64))
    = (word_of_int (sint a * sint b div 2 ^ 32) :: u32)" for a b :: u32
  using high_word_signed [OF abs_sint_u32, of "sint b" a] abs_sint_u32 [of b] by simp

lemma mulhsu_code:
  "ucast (signed_drop_bit 32 (scast a * ucast b :: u64))
    = (word_of_int (sint a * uint b div 2 ^ 32) :: u32)" for a b :: u32
  using high_word_signed [OF abs_sint_u32 abs_uint_u32, of a b] by simp

lemma mulhu_code:
  "ucast (drop_bit 32 (ucast a * ucast b :: u64))
    = (word_of_int (uint a * uint b div 2 ^ 32) :: u32)" for a b :: u32
proof -
  have "\<bar>uint a * uint b\<bar> \<le> 4294967295 * 4294967295"
    by (intro abs_mult_bounds abs_uint_u32)
  then have "uint (word_of_int (uint a * uint b) :: u64) = uint a * uint b"
    using uint_u32_bounds [of a] uint_u32_bounds [of b] by (intro uint_u64_exact) simp_all
  then have "drop_bit 32 (word_of_int (uint a * uint b) :: u64)
      = word_of_int (uint a * uint b div 2 ^ 32)"
    by (intro uint_eqD) (simp only: uint_drop_bit)
  moreover have "(ucast a * ucast b :: u64) = word_of_int (uint a * uint b)" by simp
  ultimately show ?thesis by (simp only: ucast_word_of_int)
qed

lemma mul_code:
  "ucast ((ucast a * ucast b :: u64) AND 0xFFFFFFFF) = (word_of_int (sint a * sint b) :: u32)"
  for a b :: u32
proof -
  have m: "(0xFFFFFFFF :: u64) = mask 32" by (simp add: mask_eq_exp_minus_1)
  have "ucast (w AND 0xFFFFFFFF) = (ucast w :: u32)" for w :: u64
    unfolding m by (rule bit_word_eqI) (simp add: bit_simps)
  then have "ucast ((ucast a * ucast b :: u64) AND 0xFFFFFFFF) = (ucast (ucast a * ucast b :: u64) :: u32)" .
  also have "\<dots> = word_of_int (uint a * uint b)"
    using ucast_word_of_int [of "uint a * uint b"] by simp
  also have "\<dots> = a * b" by simp
  also have "\<dots> = word_of_int (sint a * sint b)" by simp
  finally show ?thesis .
qed

section \<open>Divisions\<close>

lemma div_code:
  "(if b = 0 then 0xFFFFFFFF
    else if a = 0x80000000 \<and> b = - 1 then a
    else word_of_int (sint a sdiv sint b))
   = (if b = 0 then - 1 else word_of_int (sint a sdiv sint b))" for a b :: u32
  by simp

lemma rem_code:
  "(if b = 0 then a
    else if a = 0x80000000 \<and> b = - 1 then 0
    else word_of_int (sint a smod sint b))
   = word_of_int (sint a smod sint b)" for a b :: u32
proof (cases "b = 0")
  case True
  then show ?thesis by simp
next
  case False
  then show ?thesis by (simp add: signed_modulo_int_def)
qed

section \<open>Shifts\<close>

lemma shift_amount: "unat (b AND 0x1f) = shamt b" for b :: u32
proof -
  have m: "(0x1f :: u32) = mask 5" by (simp add: mask_eq_exp_minus_1)
  have "unat (take_bit 5 b) = unat b mod 2 ^ 5"
    by (simp only: unsigned_take_bit_eq) (simp only: take_bit_eq_mod)
  then show ?thesis by (simp add: m shamt_def take_bit_eq_mask)
qed

lemma sll_code: "push_bit n a = word_of_int (uint a * 2 ^ n)" for a :: u32
  by (simp add: push_bit_eq_mult)

lemma srl_code: "drop_bit n a = word_of_int (uint a div 2 ^ n)" for a :: u32
  by (intro uint_eqD uint_drop_bit)

lemma sra_code: "signed_drop_bit n a = word_of_int (sint a div 2 ^ n)" for a :: u32
  by (intro sint_eqD) (simp only: sint_signed_drop_bit_eq drop_bit_eq_div)

section \<open>The tables\<close>

text \<open>Comparisons of the code return the integers 1 and 0.\<close>

lemma bool_code: "(if P then 1 else 0) = (of_bool P :: u32)"
  by simp

lemma divu_code:
  "(if b = 0 then 0xFFFFFFFF else a div b) = (if b = 0 then - 1 else word_of_int (uint a div uint b))"
  "(if b = 0 then a else a mod b) = word_of_int (uint a mod uint b)" for a b :: u32
  by (simp_all add: word_div_def word_mod_def)

lemmas alu_codes =
  mul_code mulh_code mulhsu_code mulhu_code div_code rem_code divu_code
  shift_amount sll_code srl_code sra_code bool_code word_less_def

lemma mul_ext_isa:
  "mul_ext 0 a b = Some (isa_alu Mul a b)"
  "mul_ext 1 a b = Some (isa_alu Mulh a b)"
  "mul_ext 2 a b = Some (isa_alu Mulhsu a b)"
  "mul_ext 3 a b = Some (isa_alu Mulhu a b)"
  "mul_ext 4 a b = Some (isa_alu Div' a b)"
  "mul_ext 5 a b = Some (isa_alu Divu a b)"
  "mul_ext 6 a b = Some (isa_alu Rem' a b)"
  "mul_ext 7 a b = Some (isa_alu Remu a b)"
  unfolding mul_ext_def isa_alu.simps alu_codes by simp_all

lemma op_alu_isa:
  "op_alu 0 0 a b = Some (isa_alu Add a b)"
  "op_alu 0 0x20 a b = Some (isa_alu Sub a b)"
  "op_alu 1 f7 a b = Some (isa_alu Sll a b)"
  "op_alu 2 f7 a b = Some (isa_alu Slt a b)"
  "op_alu 3 f7 a b = Some (isa_alu Sltu a b)"
  "op_alu 4 f7 a b = Some (isa_alu Xor' a b)"
  "op_alu 5 0 a b = Some (isa_alu Srl a b)"
  "op_alu 5 0x20 a b = Some (isa_alu Sra a b)"
  "op_alu 6 f7 a b = Some (isa_alu Or' a b)"
  "op_alu 7 f7 a b = Some (isa_alu And' a b)"
  unfolding op_alu_def isa_alu.simps alu_codes by simp_all

lemma branch_taken_isa:
  "branch_taken 0 a b = Some (isa_branch Beq a b)"
  "branch_taken 1 a b = Some (isa_branch Bne a b)"
  "branch_taken 4 a b = Some (isa_branch Blt a b)"
  "branch_taken 5 a b = Some (isa_branch Bge a b)"
  "branch_taken 6 a b = Some (isa_branch Bltu a b)"
  "branch_taken 7 a b = Some (isa_branch Bgeu a b)"
  by (auto simp: branch_taken_def word_less_def word_le_def)

end
