(* ===== verification/Encode.thy ===== *)
theory Encode
  imports Isa Decode
begin

text \<open>
  The binary encoding of the instructions of \<open>Isa\<close>, over the formats of \<open>Decode\<close>.
\<close>

primrec alu_funct3 :: "alu_op \<Rightarrow> 3 word" where
  "alu_funct3 Add = 0" | "alu_funct3 Sub = 0" | "alu_funct3 Sll = 1" | "alu_funct3 Slt = 2"
| "alu_funct3 Sltu = 3" | "alu_funct3 Xor' = 4" | "alu_funct3 Srl = 5" | "alu_funct3 Sra = 5"
| "alu_funct3 Or' = 6" | "alu_funct3 And' = 7"
| "alu_funct3 Mul = 0" | "alu_funct3 Mulh = 1" | "alu_funct3 Mulhsu = 2" | "alu_funct3 Mulhu = 3"
| "alu_funct3 Div' = 4" | "alu_funct3 Divu = 5" | "alu_funct3 Rem' = 6" | "alu_funct3 Remu = 7"

primrec alu_funct7 :: "alu_op \<Rightarrow> 7 word" where
  "alu_funct7 Add = 0" | "alu_funct7 Sub = 0x20" | "alu_funct7 Sll = 0" | "alu_funct7 Slt = 0"
| "alu_funct7 Sltu = 0" | "alu_funct7 Xor' = 0" | "alu_funct7 Srl = 0" | "alu_funct7 Sra = 0x20"
| "alu_funct7 Or' = 0" | "alu_funct7 And' = 0"
| "alu_funct7 Mul = 1" | "alu_funct7 Mulh = 1" | "alu_funct7 Mulhsu = 1" | "alu_funct7 Mulhu = 1"
| "alu_funct7 Div' = 1" | "alu_funct7 Divu = 1" | "alu_funct7 Rem' = 1" | "alu_funct7 Remu = 1"

primrec imm_funct3 :: "imm_op \<Rightarrow> 3 word" where
  "imm_funct3 Addi = 0" | "imm_funct3 Slti = 2" | "imm_funct3 Sltiu = 3"
| "imm_funct3 Xori = 4" | "imm_funct3 Ori = 6" | "imm_funct3 Andi = 7"

primrec shift_funct3 :: "shift_op \<Rightarrow> 3 word" where
  "shift_funct3 Slli = 1" | "shift_funct3 Srli = 5" | "shift_funct3 Srai = 5"

definition shift_imm :: "shift_op \<Rightarrow> 5 word \<Rightarrow> 12 word" where
  "shift_imm f sh = (case f of Srai \<Rightarrow> 0x400 OR ucast sh | _ \<Rightarrow> ucast sh)"

primrec load_funct3 :: "load_op \<Rightarrow> 3 word" where
  "load_funct3 Lb = 0" | "load_funct3 Lh = 1" | "load_funct3 Lw = 2"
| "load_funct3 Lbu = 4" | "load_funct3 Lhu = 5"

primrec store_funct3 :: "store_op \<Rightarrow> 3 word" where
  "store_funct3 Sb = 0" | "store_funct3 Sh = 1" | "store_funct3 Sw = 2"

primrec branch_funct3 :: "branch_op \<Rightarrow> 3 word" where
  "branch_funct3 Beq = 0" | "branch_funct3 Bne = 1" | "branch_funct3 Blt = 4"
| "branch_funct3 Bge = 5" | "branch_funct3 Bltu = 6" | "branch_funct3 Bgeu = 7"

primrec csr_funct3 :: "csr_op \<Rightarrow> 3 word" where
  "csr_funct3 Csrrw = 1" | "csr_funct3 Csrrs = 2" | "csr_funct3 Csrrc = 3"

primrec encode :: "instr \<Rightarrow> u32" where
  "encode (Op f rd rs1 rs2) = r_type 0x33 rd (alu_funct3 f) rs1 rs2 (alu_funct7 f)"
| "encode (OpImm f rd rs1 imm) = i_type 0x13 rd (imm_funct3 f) rs1 imm"
| "encode (ShiftImm f rd rs1 sh) = i_type 0x13 rd (shift_funct3 f) rs1 (shift_imm f sh)"
| "encode (Load f rd rs1 imm) = i_type 0x03 rd (load_funct3 f) rs1 imm"
| "encode (Store f rs1 rs2 imm) = s_type 0x23 (store_funct3 f) rs1 rs2 imm"
| "encode (Branch f rs1 rs2 imm) = b_type 0x63 (branch_funct3 f) rs1 rs2 imm"
| "encode (Jal rd imm) = j_type 0x6f rd imm"
| "encode (Jalr rd rs1 imm) = i_type 0x67 rd 0 rs1 imm"
| "encode (Lui rd imm) = u_type 0x37 rd imm"
| "encode (Auipc rd imm) = u_type 0x17 rd imm"
| "encode (Csr f rd rs1 k) = i_type 0x73 rd (csr_funct3 f) rs1 k"
| "encode (CsrImm f rd z k) = i_type 0x73 rd (csr_funct3 f OR 4) z k"
| "encode Mret = i_type 0x73 0 0 0 0x302"

end
