(* ===== verification/Refinement.thy ===== *)
theory Refinement
  imports Alu Encode Safety
begin

text \<open>
  The C machine implements the instruction set: the abstraction \<open>abs_hart\<close> reads a hart out of
  the \<open>RV32\<close> structure, and executing the encoding of an instruction simulates one step of it.
\<close>

section \<open>The abstraction\<close>

definition abs_gpr :: "rv32 \<Rightarrow> 5 word \<Rightarrow> u32" where
  "abs_gpr s = (\<lambda>i. if i = 0 then 0 else r s ! unat i)"

definition abs_ram :: "rv32 \<Rightarrow> u32 \<Rightarrow> u8 option" where
  "abs_ram s = (\<lambda>a. if unat a < unat (mem_size s) then Some (mem s ! unat a) else None)"

definition abs_hart :: "rv32 \<Rightarrow> hart" where
  "abs_hart s = \<lparr>gpr = abs_gpr s, ipc = pc s, ram = abs_ram s, csrs = rv32_read_csr s\<rparr>"

text \<open>
  What an instruction leaves alone: the status, the debugger's and the controller's state, and the
  bytes of the allocation behind the RAM.
\<close>

definition beyond :: "rv32 \<Rightarrow> u8 list" where
  "beyond s = drop (unat (mem_size s)) (mem s)"

definition frame :: "rv32 \<Rightarrow> rv32 \<Rightarrow> bool" where
  "frame s t \<longleftrightarrow> same_shape s t \<and> status t = status s \<and> wfi t = wfi s
     \<and> bp_mask t = bp_mask s \<and> bp t = bp s \<and> interrupt_controller t = interrupt_controller s
     \<and> beyond t = beyond s"

lemma frame_refl [simp]: "frame s s"
  by (simp add: frame_def)

lemma frame_trans: "frame s t \<Longrightarrow> frame t u \<Longrightarrow> frame s u"
  by (auto simp: frame_def intro: same_shape_trans)

lemma hart_eqI:
  "gpr h = gpr k \<Longrightarrow> ipc h = ipc k \<Longrightarrow> ram h = ram k \<Longrightarrow> csrs h = csrs k \<Longrightarrow> h = (k :: hart)"
  by simp

lemma abs_hart_simps [simp]:
  "gpr (abs_hart s) = abs_gpr s" "ipc (abs_hart s) = pc s"
  "ram (abs_hart s) = abs_ram s" "csrs (abs_hart s) = rv32_read_csr s"
  by (simp_all add: abs_hart_def)

section \<open>Registers\<close>

lemma unat_5_less [simp]: "unat (i :: 5 word) < 32"
  using unsigned_less [of i] by simp

lemma unat_ucast_5 [simp]: "unat (ucast (i :: 5 word) :: u32) = unat i"
proof -
  have "unat i < 2 ^ 32" by (rule less_trans [OF unat_5_less]) simp
  then show ?thesis by (simp add: unsigned_ucast_eq take_bit_nat_eq_self)
qed

lemma read_reg_abs: "r s ! 0 = 0 \<Longrightarrow> read_reg s (ucast i) = abs_gpr s i"
  by (simp add: read_reg_def abs_gpr_def)

lemma read_csr_other_fields [simp]:
  "rv32_read_csr (s\<lparr>r := a\<rparr>) = rv32_read_csr s"
  "rv32_read_csr (s\<lparr>pc := b\<rparr>) = rv32_read_csr s"
  "rv32_read_csr (s\<lparr>mem := c\<rparr>) = rv32_read_csr s"
  by (simp_all add: rv32_read_csr_def fun_eq_iff)

lemma abs_write_reg:
  assumes "length (r s) = 32"
  shows "abs_hart (write_reg (ucast d) x s) = set_gpr d x (abs_hart s)"
proof (rule hart_eqI)
  show "gpr (abs_hart (write_reg (ucast d) x s)) = gpr (set_gpr d x (abs_hart s))"
    using assms
    by (auto simp: fun_eq_iff abs_gpr_def write_reg_def set_gpr_def nth_list_update
        word_unat_eq_iff [symmetric])
qed (simp_all add: write_reg_def set_gpr_def abs_ram_def fun_eq_iff)

lemma abs_clear_zero: "abs_hart (write_reg 0 0 s) = abs_hart s"
  by (rule hart_eqI)
    (auto simp: write_reg_def abs_gpr_def abs_ram_def fun_eq_iff unat_eq_zero nth_list_update)

lemma abs_advance: "abs_hart (advance d s) = goto (pc s + d) (abs_hart s)"
  by (rule hart_eqI) (simp_all add: advance_def goto_def abs_gpr_def abs_ram_def fun_eq_iff)

lemma abs_set_pc: "abs_hart (s\<lparr>pc := a\<rparr>) = goto a (abs_hart s)"
  by (rule hart_eqI) (simp_all add: goto_def abs_gpr_def abs_ram_def fun_eq_iff)

lemma pc_write_reg [simp]: "pc (write_reg d x s) = pc s"
  by (simp add: write_reg_def)

lemma set_gpr_goto: "set_gpr d x (goto a h) = goto a (set_gpr d x h)"
  by (rule hart_eqI) (simp_all add: set_gpr_def goto_def fun_eq_iff)

lemma ipc_set_gpr [simp]: "ipc (set_gpr d x h) = ipc h"
  by (simp add: set_gpr_def)

lemma write_reg_frame [simp]: "frame s (write_reg d x s)"
  by (simp add: frame_def write_reg_def same_shape_def beyond_def)

lemma advance_frame [simp]: "frame s (advance d s)"
  by (simp add: frame_def advance_def same_shape_def beyond_def)

lemma set_pc_frame [simp]: "frame s (s\<lparr>pc := a\<rparr>)"
  by (simp add: frame_def same_shape_def beyond_def)

lemma write_csr_frame [simp]: "frame s (rv32_write_csr s k x)"
  by (simp add: frame_def rv32_write_csr_def same_shape_def beyond_def)

text \<open>The common end of an instruction that writes \<open>rd\<close> and goes to the next one.\<close>

lemma retire:
  assumes "wf_rv32 s"
  shows "abs_hart (advance 4 (write_reg (ucast d) x s)) = next_instr (set_gpr d x (abs_hart s))"
    and "frame s (advance 4 (write_reg (ucast d) x s))"
  using assms
  by (simp_all add: abs_advance abs_write_reg wf_rv32_lengths next_instr_def
      frame_trans [OF write_reg_frame advance_frame])

section \<open>Memory\<close>

lemma word_of_nat_unat_less: "a < 2 ^ 32 \<Longrightarrow> unat (word_of_nat a :: u32) = a"
  by (simp add: unsigned_of_nat take_bit_nat_eq_self)

lemma fetch_bytes_abs:
  assumes "wf_rv32 s"
  shows "fetch_bytes n (abs_ram s) a =
    (if n = 0 \<or> a + n \<le> unat (mem_size s) then Some (take n (drop a (mem s))) else None)"
proof (induction n arbitrary: a)
  case 0
  show ?case by simp
next
  case (Suc n)
  have size: "unat (mem_size s) < 2 ^ 32" "unat (mem_size s) \<le> length (mem s)"
    using unat_u32_less [of "mem_size s"] wf_rv32_mem [OF assms] by simp_all
  show ?case
  proof (cases "a < unat (mem_size s)")
    case True
    with size have "take (Suc n) (drop a (mem s)) = mem s ! a # take n (drop (Suc a) (mem s))"
      by (simp add: Cons_nth_drop_Suc [symmetric])
    with True size Suc.IH show ?thesis
      by (simp add: abs_ram_def word_of_nat_unat_less)
  next
    case False
    then show ?thesis by (simp add: abs_ram_def word_of_nat_unat_less)
  qed
qed

lemma store_bytes_eq:
  "a + length bs \<le> 2 ^ 32 \<Longrightarrow>
   store_bytes bs m a x =
     (if a \<le> unat x \<and> unat x < a + length bs then Some (bs ! (unat x - a)) else m x)"
proof (induction bs arbitrary: m a)
  case Nil
  then show ?case by auto
next
  case (Cons b bs)
  have x: "x = word_of_nat a \<longleftrightarrow> unat x = a"
    using Cons.prems by (auto simp: word_of_nat_unat_less)
  have upd: "(m(word_of_nat a \<mapsto> b)) x = (if unat x = a then Some b else m x)"
    by (simp add: x)
  from Cons.prems have "store_bytes bs (m(word_of_nat a \<mapsto> b)) (Suc a) x =
    (if Suc a \<le> unat x \<and> unat x < Suc a + length bs then Some (bs ! (unat x - Suc a))
     else if unat x = a then Some b else m x)"
    by (subst Cons.IH) (simp_all only: upd, simp)
  then show ?case by (auto simp: nth_Cons' simp del: fun_upd_apply)
qed

lemma abs_mem_put:
  assumes wf: "wf_rv32 s" and le: "a + n \<le> unat (mem_size s)"
    and put: "mem_put n (mem s) a x = Some ms"
  shows "abs_hart (s\<lparr>mem := ms\<rparr>) = (abs_hart s)\<lparr>ram := store_bytes (le_bytes n x) (abs_ram s) a\<rparr>"
proof (rule hart_eqI)
  have size: "unat (mem_size s) < 2 ^ 32" "unat (mem_size s) \<le> length (mem s)"
    using unat_u32_less [of "mem_size s"] wf_rv32_mem [OF wf] by simp_all
  have "abs_ram (s\<lparr>mem := ms\<rparr>) k = store_bytes (le_bytes n x) (abs_ram s) a k" for k
  proof (cases "a \<le> unat k \<and> unat k < a + n")
    case True
    then have "unat k - a < n" by arith
    with True have "ms ! unat k = le_bytes n x ! (unat k - a)"
      using mem_put_nth_inside [OF put, of "unat k - a"] by simp
    with True le size show ?thesis by (simp add: store_bytes_eq abs_ram_def)
  next
    case False
    with le size show ?thesis
      by (simp add: store_bytes_eq abs_ram_def)
        (use False mem_put_nth_outside [OF put, of "unat k"] in auto)
  qed
  then show "ram (abs_hart (s\<lparr>mem := ms\<rparr>))
      = ram ((abs_hart s)\<lparr>ram := store_bytes (le_bytes n x) (abs_ram s) a\<rparr>)"
    by (simp add: fun_eq_iff)
qed (simp_all add: abs_gpr_def fun_eq_iff)

lemma SEXT_narrow:
  "SEXT (ucast (b :: u8)) 8 = scast b" "SEXT (ucast (h :: u16)) 16 = scast h"
  by (rule word32_eqI; simp add: bit_SEXT bit_simps not_bit_beyond)+

lemma le_bytes_narrow:
  "le_bytes 1 (ucast (x AND 0xff) :: u8) = le_bytes 1 x"
  "le_bytes 2 (ucast (x AND 0xffff) :: u16) = le_bytes 2 x" for x :: u32
proof -
  have m: "(0xff :: u32) = mask 8" "(0xffff :: u32) = mask 16"
    by (simp_all add: mask_eq_exp_minus_1)
  show "le_bytes 1 (ucast (x AND 0xff) :: u8) = le_bytes 1 x"
    unfolding m by (simp, intro bit_word_eqI) (simp add: bit_simps)
  show "le_bytes 2 (ucast (x AND 0xffff) :: u16) = le_bytes 2 x"
    unfolding m numeral_2_eq_2 by (simp, intro conjI; intro bit_word_eqI) (simp_all add: bit_simps)
qed

section \<open>Simulation, instruction by instruction\<close>

text \<open>
  \<open>simulates p s w i h\<close>: executing the encoding of \<open>i\<close> from \<open>s\<close> succeeds, leaves the world
  alone and arrives at a machine that abstracts to \<open>h\<close>.
\<close>

definition simulates :: "'w platform \<Rightarrow> rv32 \<Rightarrow> 'w \<Rightarrow> instr \<Rightarrow> hart \<Rightarrow> bool" where
  "simulates p s w i h \<longleftrightarrow>
     (\<exists>s'. rv32_execute p (encode i) (s, w) = Inr (s', w) \<and> abs_hart s' = h \<and> frame s s')"

lemma simulatesI:
  "rv32_execute p (encode i) (s, w) = Inr (s', w) \<Longrightarrow> abs_hart s' = h \<Longrightarrow> frame s s' \<Longrightarrow>
   simulates p s w i h"
  by (auto simp: simulates_def)

lemmas dispatch = rv32_execute_def decode read_reg_abs

lemma simulates_Op:
  assumes "wf_rv32 s" "r s ! 0 = 0"
  shows "simulates p s w (Op f rd rs1 rs2)
    (next_instr (set_gpr rd (isa_alu f (abs_gpr s rs1) (abs_gpr s rs2)) (abs_hart s)))"
proof (rule simulatesI)
  let ?x = "isa_alu f (abs_gpr s rs1) (abs_gpr s rs2)"
  show "rv32_execute p (encode (Op f rd rs1 rs2)) (s, w)
      = Inr (advance 4 (write_reg (ucast rd) ?x s), w)"
    using assms
    by (cases f) (simp_all add: dispatch exec_op_def mul_ext_isa op_alu_isa
        del: isa_alu.simps)
qed (simp_all add: retire [OF assms(1)])

text \<open>\<open>sltiu\<close> compares with the immediate as it stands, without extending its sign.\<close>

definition imm_result :: "imm_op \<Rightarrow> u32 \<Rightarrow> 12 word \<Rightarrow> u32" where
  "imm_result f a imm =
     (if f = Sltiu then of_bool (uint a < uint imm) else isa_alu (imm_alu f) a (scast imm))"

lemma ucast_scast_12: "\<not> bit (imm :: 12 word) 11 \<Longrightarrow> (scast imm :: u32) = ucast imm"
  by (rule word32_eqI; simp add: bit_simps not_bit_beyond)

lemma uint_ucast_12: "uint (ucast (imm :: 12 word) :: u32) = uint imm"
  by (rule uint_up_ucast) (simp add: is_up)

lemma op_imm_isa: "op_imm (encode (OpImm f rd rs1 imm)) a = Some (imm_result f a imm)"
  by (cases f) (simp_all add: op_imm_def decode Let_def imm_result_def word_less_def uint_ucast_12)

lemma simulates_OpImm:
  assumes "wf_rv32 s" "r s ! 0 = 0"
  shows "simulates p s w (OpImm f rd rs1 imm)
    (next_instr (set_gpr rd (imm_result f (abs_gpr s rs1) imm) (abs_hart s)))"
proof (rule simulatesI)
  let ?x = "imm_result f (abs_gpr s rs1) imm"
  show "rv32_execute p (encode (OpImm f rd rs1 imm)) (s, w)
      = Inr (advance 4 (write_reg (ucast rd) ?x s), w)"
    using assms(2) op_imm_isa by (simp add: dispatch exec_op_imm_def)
qed (simp_all add: retire [OF assms(1)])

lemma shift_imm_fields:
  "ucast (drop_bit 5 (shift_imm Slli sh)) = (0 :: u32)"
  "ucast (drop_bit 5 (shift_imm Srli sh)) = (0 :: u32)"
  "ucast (drop_bit 5 (shift_imm Srai sh)) = (0x20 :: u32)"
  unfolding shift_imm_def shift_op.case
  by (rule word32_eqI; simp add: bit_simps not_bit_beyond)+

lemma shift_imm_shamt: "unat (ucast (shift_imm f sh) AND 0x1f :: u32) = unat sh"
proof -
  have "ucast (shift_imm f sh) AND 0x1f = (ucast sh :: u32)"
    unfolding shift_imm_def
    by (cases f; simp only: shift_op.case) (rule word32_eqI; simp add: bit_simps not_bit_beyond)+
  then show ?thesis by simp
qed

lemma shamt_ucast [simp]: "shamt (ucast (sh :: 5 word)) = unat sh"
  by (simp add: shamt_def)

lemma simulates_ShiftImm:
  assumes "wf_rv32 s" "r s ! 0 = 0"
  shows "simulates p s w (ShiftImm f rd rs1 sh)
    (next_instr (set_gpr rd (isa_alu (shift_alu f) (abs_gpr s rs1) (ucast sh)) (abs_hart s)))"
proof (rule simulatesI)
  let ?a = "abs_gpr s rs1"
  let ?x = "isa_alu (shift_alu f) ?a (ucast sh)"
  have "op_imm (encode (ShiftImm f rd rs1 sh)) ?a = Some ?x"
    by (cases f)
      (simp_all only: op_imm_def Let_def encode.simps shift_funct3.simps decode shift_imm_fields
        shift_imm_shamt shift_alu.simps isa_alu.simps shamt_ucast sll_code srl_code sra_code, simp_all)
  then show "rv32_execute p (encode (ShiftImm f rd rs1 sh)) (s, w)
      = Inr (advance 4 (write_reg (ucast rd) ?x s), w)"
    using assms(2) by (simp add: dispatch exec_op_imm_def del: isa_alu.simps)
qed (simp_all add: retire [OF assms(1)])

lemma half_offset: "push_bit 1 (scast (imm :: 'a::len word) :: u32) = word_of_int (2 * sint imm)"
  by simp

lemma simulates_Branch:
  assumes "wf_rv32 s" "r s ! 0 = 0"
  shows "simulates p s w (Branch f rs1 rs2 imm)
    (if isa_branch f (abs_gpr s rs1) (abs_gpr s rs2)
     then goto (pc s + word_of_int (2 * sint imm)) (abs_hart s) else next_instr (abs_hart s))"
proof (rule simulatesI)
  let ?t = "isa_branch f (abs_gpr s rs1) (abs_gpr s rs2)"
  have "branch_taken (ucast (branch_funct3 f)) (abs_gpr s rs1) (abs_gpr s rs2) = Some ?t"
    by (cases f) (simp_all add: branch_taken_isa del: isa_branch.simps)
  then show "rv32_execute p (encode (Branch f rs1 rs2 imm)) (s, w)
      = Inr (advance (if ?t then word_of_int (2 * sint imm) else 4) s, w)"
    using assms
    by (simp add: dispatch exec_branch_def mult.commute [of "scast imm"] del: isa_branch.simps)
qed (simp_all add: abs_advance next_instr_def)

text \<open>The jump offset is right when bits 19 and 20 of it agree, that is within half a megabyte.\<close>

definition jal_exact :: "20 word \<Rightarrow> bool" where
  "jal_exact imm \<longleftrightarrow> (bit imm 18 \<longleftrightarrow> bit imm 19)"

lemma simulates_Jal:
  assumes "wf_rv32 s" "jal_exact imm"
  shows "simulates p s w (Jal rd imm)
    (goto (pc s + word_of_int (2 * sint imm)) (set_gpr rd (pc s + 4) (abs_hart s)))"
proof (rule simulatesI)
  have "SEXT_IMM_J (j_type 0x6f rd imm) = word_of_int (2 * sint imm)"
    using assms(2) j_type_SEXT_iff [of "0x6f" rd imm] half_offset [of imm]
    by (simp add: jal_exact_def)
  then show "rv32_execute p (encode (Jal rd imm)) (s, w)
      = Inr (advance (word_of_int (2 * sint imm)) (write_reg (ucast rd) (pc s + 4) s), w)"
    by (simp add: dispatch exec_jal_def)
qed (use assms in \<open>simp_all add: abs_advance abs_write_reg wf_rv32_lengths
      frame_trans [OF write_reg_frame advance_frame]\<close>)

lemma simulates_Jalr:
  assumes "wf_rv32 s" "r s ! 0 = 0"
  shows "simulates p s w (Jalr rd rs1 imm)
    (goto ((abs_gpr s rs1 + scast imm) AND NOT 1) (set_gpr rd (pc s + 4) (abs_hart s)))"
proof (rule simulatesI)
  let ?a = "(abs_gpr s rs1 + scast imm) AND NOT 1"
  show "rv32_execute p (encode (Jalr rd rs1 imm)) (s, w)
      = Inr (write_reg (ucast rd) (pc s + 4) (s\<lparr>pc := ?a\<rparr>), w)"
    using assms(2) by (simp add: dispatch exec_jalr_def Let_def)
  show "abs_hart (write_reg (ucast rd) (pc s + 4) (s\<lparr>pc := ?a\<rparr>))
      = goto ?a (set_gpr rd (pc s + 4) (abs_hart s))"
    using assms(1) by (simp add: abs_write_reg wf_rv32_lengths abs_set_pc set_gpr_goto)
qed (simp add: frame_trans [OF set_pc_frame write_reg_frame])

lemma upper_imm: "push_bit 12 (ucast (imm :: 20 word) :: u32) = word_of_int (uint imm * 2 ^ 12)"
  by (simp add: push_bit_eq_mult)

lemma simulates_Lui:
  assumes "wf_rv32 s"
  shows "simulates p s w (Lui rd imm)
    (next_instr (set_gpr rd (word_of_int (uint imm * 2 ^ 12)) (abs_hart s)))"
proof (rule simulatesI)
  show "rv32_execute p (encode (Lui rd imm)) (s, w)
      = Inr (advance 4 (write_reg (ucast rd) (word_of_int (uint imm * 2 ^ 12)) s), w)"
    by (simp only: upper_imm [symmetric]) (simp add: dispatch exec_lui_def)
qed (simp_all only: retire [OF assms])

lemma simulates_Auipc:
  assumes "wf_rv32 s"
  shows "simulates p s w (Auipc rd imm)
    (next_instr (set_gpr rd (pc s + word_of_int (uint imm * 2 ^ 12)) (abs_hart s)))"
proof (rule simulatesI)
  show "rv32_execute p (encode (Auipc rd imm)) (s, w)
      = Inr (advance 4 (write_reg (ucast rd) (pc s + word_of_int (uint imm * 2 ^ 12)) s), w)"
    by (simp only: upper_imm [symmetric]) (simp add: dispatch exec_auipc_def)
qed (simp_all only: retire [OF assms])

lemma abs_write_csr: "abs_hart (rv32_write_csr s k x) = set_csr k x (abs_hart s)"
proof (rule hart_eqI)
  have "k \<in> set implemented_csrs \<longleftrightarrow> implemented_csr k"
    by (simp add: implemented_csr_def implemented_csrs_def)
  then show "csrs (abs_hart (rv32_write_csr s k x)) = csrs (set_csr k x (abs_hart s))"
    by (auto simp: set_csr_def fun_eq_iff csr.get_put_if)
qed (simp_all add: set_csr_def rv32_write_csr_def abs_gpr_def abs_ram_def fun_eq_iff)

lemma csr_length [simp]: "wf_rv32 (rv32_write_csr s k x) \<longleftrightarrow> wf_rv32 s"
  using same_shape_wf [OF rv32_write_csr_shape] by blast

lemma exec_csr_isa:
  assumes "wf_rv32 s"
    and "csr_value (FUNCT3 instr) (rv32_read_csr s k) (read_reg s (RS1 instr)) (RS1 instr) = Some x"
    and "IMM_I instr = k" "RD instr = ucast rd"
  shows "exec_csr instr s = advance 4 (write_reg (ucast rd) (rv32_read_csr s k) (rv32_write_csr s k x))"
  using assms(2-) by (simp add: exec_csr_def)

lemma retire_csr:
  assumes "wf_rv32 s"
  shows "abs_hart (advance 4 (write_reg (ucast rd) y (rv32_write_csr s k x)))
      = next_instr (set_gpr rd y (set_csr k x (abs_hart s)))"
    and "frame s (advance 4 (write_reg (ucast rd) y (rv32_write_csr s k x)))"
proof -
  show "abs_hart (advance 4 (write_reg (ucast rd) y (rv32_write_csr s k x)))
      = next_instr (set_gpr rd y (set_csr k x (abs_hart s)))"
    using assms by (simp add: retire abs_write_csr)
  show "frame s (advance 4 (write_reg (ucast rd) y (rv32_write_csr s k x)))"
    by (rule frame_trans [OF write_csr_frame frame_trans [OF write_reg_frame advance_frame]])
qed

lemma simulates_Csr:
  assumes "wf_rv32 s" "r s ! 0 = 0"
  shows "simulates p s w (Csr f rd rs1 k)
    (next_instr (set_gpr rd (rv32_read_csr s (ucast k))
       (set_csr (ucast k) (isa_csr f (rv32_read_csr s (ucast k)) (abs_gpr s rs1)) (abs_hart s))))"
proof (rule simulatesI)
  let ?x = "isa_csr f (rv32_read_csr s (ucast k)) (abs_gpr s rs1)"
  have "exec_csr (encode (Csr f rd rs1 k)) s
      = advance 4 (write_reg (ucast rd) (rv32_read_csr s (ucast k)) (rv32_write_csr s (ucast k) ?x))"
    using assms(2)
    by (intro exec_csr_isa [OF assms(1)])
      (cases f; simp add: decode read_reg_abs csr_value_def)+
  moreover have "FUNCT3 (encode (Csr f rd rs1 k)) AND 3 \<noteq> 0" "FUNCT3 (encode (Csr f rd rs1 k)) \<noteq> 0"
    by (cases f; simp add: decode)+
  ultimately show "rv32_execute p (encode (Csr f rd rs1 k)) (s, w)
      = Inr (advance 4 (write_reg (ucast rd) (rv32_read_csr s (ucast k)) (rv32_write_csr s (ucast k) ?x)), w)"
    by (simp add: rv32_execute_def i_type_fields(1) exec_system_def)
qed (simp_all only: retire_csr [OF assms(1)])

lemma simulates_CsrImm:
  assumes "wf_rv32 s"
  shows "simulates p s w (CsrImm f rd z k)
    (next_instr (set_gpr rd (rv32_read_csr s (ucast k))
       (set_csr (ucast k) (isa_csr f (rv32_read_csr s (ucast k)) (ucast z)) (abs_hart s))))"
proof (rule simulatesI)
  let ?x = "isa_csr f (rv32_read_csr s (ucast k)) (ucast z)"
  have "exec_csr (encode (CsrImm f rd z k)) s
      = advance 4 (write_reg (ucast rd) (rv32_read_csr s (ucast k)) (rv32_write_csr s (ucast k) ?x))"
    by (intro exec_csr_isa [OF assms]) (cases f; simp add: decode csr_value_def)+
  moreover have "FUNCT3 (encode (CsrImm f rd z k)) AND 3 \<noteq> 0" "FUNCT3 (encode (CsrImm f rd z k)) \<noteq> 0"
    by (cases f; simp add: decode)+
  ultimately show "rv32_execute p (encode (CsrImm f rd z k)) (s, w)
      = Inr (advance 4 (write_reg (ucast rd) (rv32_read_csr s (ucast k)) (rv32_write_csr s (ucast k) ?x)), w)"
    by (simp add: rv32_execute_def i_type_fields(1) exec_system_def)
qed (simp_all only: retire_csr [OF assms])

lemma mret_mstatus:
  "CSR_SET_BIT m CSR_MSTATUS_MIE (CSR_GET_BIT m CSR_MSTATUS_MPIE)
    = (if bit m 7 then m OR 8 else m AND NOT 8)"
  by (rule word32_eqI; simp add: bit_CSR_SET_BIT CSR_GET_BIT_eq csr_bit_defs bit_simps)

lemma simulates_Mret:
  shows "simulates p s w Mret
    (goto (rv32_read_csr s 0x341)
       (set_csr 0x300 (let m = rv32_read_csr s 0x300 in if bit m 7 then m OR 8 else m AND NOT 8)
         (abs_hart s)))"
proof (rule simulatesI)
  let ?m = "if bit (mstatus s) 7 then mstatus s OR 8 else mstatus s AND NOT 8"
  show "rv32_execute p (encode Mret) (s, w) = Inr ((rv32_write_csr s 0x300 ?m)\<lparr>pc := mepc s\<rparr>, w)"
    by (simp add: dispatch exec_system_def exec_mret_def mret_mstatus rv32_write_csr_def)
  show "abs_hart ((rv32_write_csr s 0x300 ?m)\<lparr>pc := mepc s\<rparr>)
      = goto (rv32_read_csr s 0x341)
          (set_csr 0x300 (let m = rv32_read_csr s 0x300 in if bit m 7 then m OR 8 else m AND NOT 8)
            (abs_hart s))"
    by (simp only: abs_set_pc abs_write_csr) (simp add: rv32_read_csr_def)
qed (rule frame_trans [OF write_csr_frame set_pc_frame])

subsection \<open>Loads and stores in RAM\<close>

lemma ram_access:
  assumes "wf_rv32 s" "fetch_bytes n (abs_ram s) (unat a) = Some bs" "0 < n"
  shows "unat a + n \<le> unat (mem_size s)" "in_ram n s a" "bs = take n (drop (unat a) (mem s))"
    and "ram_read n (s, w) a = Inr (RV32_OK (le_word bs), (s, w))"
proof -
  from assms show le: "unat a + n \<le> unat (mem_size s)"
    and bs: "bs = take n (drop (unat a) (mem s))"
    by (auto simp: fetch_bytes_abs split: if_splits)
  then show "in_ram n s a" by (simp add: in_ram_iff)
  show "ram_read n (s, w) a = Inr (RV32_OK (le_word bs), (s, w))"
    using le wf_rv32_mem [OF assms(1)] by (simp add: ram_read_Inr bs)
qed

lemma ram_read_wf:
  "wf_rv32 s \<Longrightarrow> unat a + n \<le> unat (mem_size s) \<Longrightarrow>
   ram_read n (s, w) a = Inr (RV32_OK (le_word (take n (drop (unat a) (mem s)))), (s, w))"
  using wf_rv32_mem [of s] by (simp add: ram_read_Inr)

lemma simulates_Load:
  assumes "wf_rv32 s" "r s ! 0 = 0"
    and fetch: "fetch_bytes (load_width f) (abs_ram s) (unat (abs_gpr s rs1 + scast imm)) = Some bs"
  shows "simulates p s w (Load f rd rs1 imm) (next_instr (set_gpr rd (load_value f bs) (abs_hart s)))"
proof (rule simulatesI)
  have "0 < load_width f" by (cases f) simp_all
  note acc = ram_access [OF assms(1) fetch this]
  show "rv32_execute p (encode (Load f rd rs1 imm)) (s, w)
      = Inr (advance 4 (write_reg (ucast rd) (load_value f bs) s), w)"
    using acc(1-3) assms(1,2)
    by (cases f)
      (simp_all add: ram_read_wf dispatch exec_load_def finish_load_def rv32_load8_def rv32_load16_def
        rv32_load32_def SEXT_narrow Let_def)
qed (simp_all only: retire [OF assms(1)])

lemma ram_write_abs:
  assumes wf: "wf_rv32 s" and le: "unat a + n \<le> unat (mem_size s)"
  obtains ms where "ram_write n (s, w) a x = Inr (RV32_OK (), (s\<lparr>mem := ms\<rparr>, w))"
    and "abs_hart (advance 4 (s\<lparr>mem := ms\<rparr>))
      = next_instr ((abs_hart s)\<lparr>ram := store_bytes (le_bytes n x) (abs_ram s) (unat a)\<rparr>)"
    and "frame s (advance 4 (s\<lparr>mem := ms\<rparr>))"
proof -
  have "unat a + n \<le> length (mem (fst (s, w)))" using le wf_rv32_mem [OF wf] by simp
  then obtain ms where put: "mem_put n (mem s) (unat a) x = Some ms" "length ms = length (mem s)"
    and wr: "ram_write n (s, w) a x = Inr (RV32_OK (), (s\<lparr>mem := ms\<rparr>, w))"
    by (rule ram_write_Inr [where x = x]) simp
  have "frame s (s\<lparr>mem := ms\<rparr>)"
    using put(2) mem_put_drop [OF put(1) le] by (simp add: frame_def same_shape_def beyond_def)
  from frame_trans [OF this advance_frame]
  have fr: "frame s (advance 4 (s\<lparr>mem := ms\<rparr>))" .
  have "abs_hart (advance 4 (s\<lparr>mem := ms\<rparr>))
      = next_instr ((abs_hart s)\<lparr>ram := store_bytes (le_bytes n x) (abs_ram s) (unat a)\<rparr>)"
    by (simp add: abs_advance abs_mem_put [OF wf le put(1)] next_instr_def)
  from that [OF wr this fr] show thesis .
qed

lemma exec_store_ram:
  assumes "wf_rv32 s" "r s ! 0 = 0"
    and le: "unat (abs_gpr s rs1 + scast imm) + store_width f \<le> unat (mem_size s)"
  shows "exec_store p (encode (Store f rs1 rs2 imm)) (s, w)
    = (case f of
         Sb \<Rightarrow> bind_run (ram_write 1 (s, w) (abs_gpr s rs1 + scast imm)
                 (ucast (abs_gpr s rs2 AND 0xff) :: u8)) finish_store
       | Sh \<Rightarrow> bind_run (ram_write 2 (s, w) (abs_gpr s rs1 + scast imm)
                 (ucast (abs_gpr s rs2 AND 0xffff) :: u16)) finish_store
       | Sw \<Rightarrow> bind_run (ram_write 4 (s, w) (abs_gpr s rs1 + scast imm) (abs_gpr s rs2)) finish_store)"
proof -
  have "in_ram (store_width f) s (abs_gpr s rs1 + scast imm)"
    using le by (simp add: in_ram_iff)
  with assms(2) show ?thesis
    by (cases f)
      (simp_all add: exec_store_def decode read_reg_abs rv32_store8_def rv32_store16_def
        rv32_store32_def Let_def)
qed

lemma simulates_Store:
  fixes w :: 'w
  assumes wf: "wf_rv32 s" and zero: "r s ! 0 = 0"
    and fetch: "fetch_bytes (store_width f) (abs_ram s) (unat (abs_gpr s rs1 + scast imm)) = Some bs"
  shows "simulates p s w (Store f rs1 rs2 imm)
    (next_instr ((abs_hart s)\<lparr>ram := store_bytes (le_bytes (store_width f) (abs_gpr s rs2))
       (abs_ram s) (unat (abs_gpr s rs1 + scast imm))\<rparr>))"
proof -
  let ?a = "abs_gpr s rs1 + scast imm"
  have "0 < store_width f" by (cases f) simp_all
  note acc = ram_access [OF wf fetch this]
  have exec: "rv32_execute p (encode (Store f rs1 rs2 imm)) (s, w)
      = exec_store p (encode (Store f rs1 rs2 imm)) (s, w)"
    by (simp add: rv32_execute_def decode)
  have fin: "finish_store (RV32_OK (), (t, w)) = Inr (advance 4 t, w)" for t and w :: 'w
    by (simp add: finish_store_def)
  show ?thesis
  proof (cases f)
    case Sb
    with acc(1) have "unat ?a + 1 \<le> unat (mem_size s)" by simp
    from ram_write_abs [OF wf this, where w = w and x = "ucast (abs_gpr s rs2 AND 0xff) :: u8"]
    obtain ms where "ram_write 1 (s, w) ?a (ucast (abs_gpr s rs2 AND 0xff) :: u8)
        = Inr (RV32_OK (), (s\<lparr>mem := ms\<rparr>, w))"
      and "abs_hart (advance 4 (s\<lparr>mem := ms\<rparr>)) = next_instr ((abs_hart s)\<lparr>ram :=
        store_bytes (le_bytes 1 (ucast (abs_gpr s rs2 AND 0xff) :: u8)) (abs_ram s) (unat ?a)\<rparr>)"
      and "frame s (advance 4 (s\<lparr>mem := ms\<rparr>))" .
    with Sb acc show ?thesis
      by (intro simulatesI, unfold exec exec_store_ram [OF wf zero acc(1)])
        (simp_all only: store_op.case bind_run_simps fin le_bytes_narrow store_width.simps)
  next
    case Sh
    with acc(1) have "unat ?a + 2 \<le> unat (mem_size s)" by simp
    from ram_write_abs [OF wf this, where w = w and x = "ucast (abs_gpr s rs2 AND 0xffff) :: u16"]
    obtain ms where "ram_write 2 (s, w) ?a (ucast (abs_gpr s rs2 AND 0xffff) :: u16)
        = Inr (RV32_OK (), (s\<lparr>mem := ms\<rparr>, w))"
      and "abs_hart (advance 4 (s\<lparr>mem := ms\<rparr>)) = next_instr ((abs_hart s)\<lparr>ram :=
        store_bytes (le_bytes 2 (ucast (abs_gpr s rs2 AND 0xffff) :: u16)) (abs_ram s) (unat ?a)\<rparr>)"
      and "frame s (advance 4 (s\<lparr>mem := ms\<rparr>))" .
    with Sh acc show ?thesis
      by (intro simulatesI, unfold exec exec_store_ram [OF wf zero acc(1)])
        (simp_all only: store_op.case bind_run_simps fin le_bytes_narrow store_width.simps)
  next
    case Sw
    with acc(1) have "unat ?a + 4 \<le> unat (mem_size s)" by simp
    from ram_write_abs [OF wf this, where w = w and x = "abs_gpr s rs2"]
    obtain ms where "ram_write 4 (s, w) ?a (abs_gpr s rs2) = Inr (RV32_OK (), (s\<lparr>mem := ms\<rparr>, w))"
      and "abs_hart (advance 4 (s\<lparr>mem := ms\<rparr>)) = next_instr ((abs_hart s)\<lparr>ram :=
        store_bytes (le_bytes 4 (abs_gpr s rs2)) (abs_ram s) (unat ?a)\<rparr>)"
      and "frame s (advance 4 (s\<lparr>mem := ms\<rparr>))" .
    with Sw acc show ?thesis
      by (intro simulatesI, unfold exec exec_store_ram [OF wf zero acc(1)])
        (simp_all only: store_op.case bind_run_simps fin store_width.simps)
  qed
qed

section \<open>The simulation\<close>

text \<open>
  Where the code and the instruction set agree: everywhere but for \<open>sltiu\<close> when the extension of the
  sign decides the comparison, \<open>jal\<close> over half a megabyte or more, and \<open>mret\<close> with \<open>MPIE\<close> clear,
  which the code leaves clear.
\<close>

definition conformant :: "instr \<Rightarrow> hart \<Rightarrow> bool" where
  "conformant i h =
     (case i of
        OpImm f rd rs1 imm \<Rightarrow> f = Sltiu \<longrightarrow>
          rd = 0 \<or> (uint (gpr h rs1) < uint imm \<longleftrightarrow> uint (gpr h rs1) < uint (scast imm :: u32))
      | Jal rd imm \<Rightarrow> jal_exact imm
      | Mret \<Rightarrow> bit (csrs h 0x300) 7
      | _ \<Rightarrow> True)"

lemma set_gpr_0: "set_gpr 0 x h = set_gpr 0 y h"
  by (rule hart_eqI) (simp_all add: set_gpr_def fun_eq_iff)

lemma set_MPIE: "bit m 7 \<Longrightarrow> (if bit m 7 then m OR 8 else m AND NOT 8) OR 0x80 = (if bit m 7 then m OR 8 else m AND NOT 8)"
  for m :: u32
proof -
  assume b: "bit m 7"
  have "bit (0x80 :: u32) k \<longleftrightarrow> k = 7" for k
    using bit_exp_iff [where ?'a = "32 word", of 7 k] by (auto simp: bit_imp_possible_bit)
  with b show ?thesis by (intro word32_eqI) (auto simp: bit_or_iff)
qed

lemma execute_simulates:
  assumes wf: "wf_rv32 s" and zero: "r s ! 0 = 0"
    and ok: "conformant i (abs_hart s)" and step: "isa_step i (abs_hart s) = Some h"
  shows "simulates p s w i h"
proof (cases i)
  case (Op f rd rs1 rs2)
  with step simulates_Op [OF wf zero, of p w f rd rs1 rs2] show ?thesis by (simp del: isa_alu.simps)
next
  case (OpImm f rd rs1 imm)
  have "set_gpr rd (imm_result f (abs_gpr s rs1) imm) (abs_hart s)
      = set_gpr rd (isa_alu (imm_alu f) (abs_gpr s rs1) (scast imm)) (abs_hart s)"
    using ok OpImm set_gpr_0 by (auto simp: conformant_def imm_result_def)
  with simulates_OpImm [OF wf zero, of p w f rd rs1 imm] OpImm step show ?thesis
    by (simp del: isa_alu.simps)
next
  case (ShiftImm f rd rs1 sh)
  with step simulates_ShiftImm [OF wf zero, of p w f rd rs1 sh] show ?thesis
    by (simp del: isa_alu.simps)
next
  case (Load f rd rs1 imm)
  with step obtain bs
    where "fetch_bytes (load_width f) (abs_ram s) (unat (abs_gpr s rs1 + scast imm)) = Some bs"
      and "h = next_instr (set_gpr rd (load_value f bs) (abs_hart s))"
    by (auto split: option.splits)
  with Load simulates_Load [OF wf zero] show ?thesis by simp
next
  case (Store f rs1 rs2 imm)
  with step obtain bs
    where "fetch_bytes (store_width f) (abs_ram s) (unat (abs_gpr s rs1 + scast imm)) = Some bs"
      and "h = next_instr ((abs_hart s)\<lparr>ram := store_bytes (le_bytes (store_width f) (abs_gpr s rs2))
        (abs_ram s) (unat (abs_gpr s rs1 + scast imm))\<rparr>)"
    by (auto simp: Let_def split: option.splits)
  with Store simulates_Store [OF wf zero] show ?thesis by simp
next
  case (Branch f rs1 rs2 imm)
  with step simulates_Branch [OF wf zero, of p w f rs1 rs2 imm] show ?thesis
    by (simp del: isa_branch.simps split: if_splits)
next
  case (Jal rd imm)
  with ok have "jal_exact imm" by (simp add: conformant_def)
  from simulates_Jal [OF wf this, of p w rd] Jal step show ?thesis by simp
next
  case (Jalr rd rs1 imm)
  with step simulates_Jalr [OF wf zero, of p w rd rs1 imm] show ?thesis by simp
next
  case (Lui rd imm)
  with step simulates_Lui [OF wf, of p w rd imm] show ?thesis by simp
next
  case (Auipc rd imm)
  with step simulates_Auipc [OF wf, of p w rd imm] show ?thesis by simp
next
  case (Csr f rd rs1 k)
  with step simulates_Csr [OF wf zero, of p w f rd rs1 k] show ?thesis
    by (simp add: Let_def del: isa_csr.simps)
next
  case (CsrImm f rd z k)
  with step simulates_CsrImm [OF wf, of p w f rd z k] show ?thesis
    by (simp add: Let_def del: isa_csr.simps)
next
  case Mret
  with ok have "bit (rv32_read_csr s 0x300) 7" by (simp add: conformant_def)
  note mpie = set_MPIE [OF this]
  from step have "h = goto (rv32_read_csr s 0x341) (set_csr 0x300
      (let m = rv32_read_csr s 0x300 in if bit m 7 then m OR 8 else m AND NOT 8) (abs_hart s))"
    by (simp only: Mret isa_step.simps Let_def abs_hart_simps mpie option.inject)
  with simulates_Mret [of p s w] show ?thesis by (simp only: Mret)
qed

section \<open>From instructions to cycles\<close>

text \<open>No interrupt is deliverable, in the machine and in the hart.\<close>

definition hart_quiet :: "hart \<Rightarrow> bool" where
  "hart_quiet h \<longleftrightarrow> \<not> (bit (csrs h 0x300) 3 \<and> csrs h 0x304 AND csrs h 0x344 \<noteq> 0)"

definition ready :: "rv32 \<Rightarrow> bool" where
  "ready s \<longleftrightarrow> wf_rv32 s \<and> status s = RV32_RUNNING \<and> wfi s = 0 \<and> \<not> breakpoint_hit s"

definition fetches :: "hart \<Rightarrow> instr \<Rightarrow> bool" where
  "fetches h i \<longleftrightarrow> fetch_bytes 4 (ram h) (unat (ipc h)) = Some (le_bytes 4 (encode i))"

lemma deliver_quiet: "hart_quiet (abs_hart s) \<Longrightarrow> deliver_interrupt s = s"
  by (auto simp: hart_quiet_def deliver_interrupt_def csr_bit_defs rv32_read_csr_def)

lemma fetch_in_ram:
  assumes "wf_rv32 s" "fetches (abs_hart s) i"
  shows "rv32_load32 p (s, w) (pc s) = Inr (RV32_OK (encode i), (s, w))"
proof -
  have f: "fetch_bytes 4 (abs_ram s) (unat (pc s)) = Some (le_bytes 4 (encode i))"
    using assms(2) by (simp add: fetches_def)
  have "(le_word (le_bytes 4 (encode i)) :: u32) = encode i"
    by (rule le_word_le_bytes_full) simp
  with ram_access(2) [OF assms(1) f] ram_access(4) [OF assms(1) f, where w = w and ?'a = 32]
  show ?thesis by (simp add: rv32_load32_def)
qed

lemma wf_clear_zero:
  assumes "wf_rv32 s"
  shows "wf_rv32 (write_reg 0 0 s)" "r (write_reg 0 0 s) ! 0 = 0"
proof -
  have "same_shape s (write_reg 0 0 s)" using write_reg_frame by (simp add: frame_def)
  then show "wf_rv32 (write_reg 0 0 s)" using assms same_shape_wf by blast
  show "r (write_reg 0 0 s) ! 0 = 0" using wf_rv32_lengths [OF assms] by (simp add: write_reg_def)
qed

lemma cycle_simulates:
  assumes rdy: "ready s" and q: "hart_quiet (abs_hart s)"
    and f: "fetches (abs_hart s) i" and ok: "conformant i (abs_hart s)"
    and step: "isa_step i (abs_hart s) = Some h"
  shows "\<exists>s'. rv32_cycle p (s, w) = Inr (s', w) \<and> abs_hart s' = h \<and> frame s s'"
proof -
  have wf: "wf_rv32 s" using rdy by (simp add: ready_def)
  note s0 = wf_clear_zero [OF wf]
  have "simulates p (write_reg 0 0 s) w i h"
    by (rule execute_simulates [OF s0]) (simp_all add: abs_clear_zero step ok)
  then obtain s' where s': "rv32_execute p (encode i) (write_reg 0 0 s, w) = Inr (s', w)"
      "abs_hart s' = h" "frame (write_reg 0 0 s) s'"
    by (auto simp: simulates_def)
  have "rv32_cycle p (s, w) = Inr (s', w)"
    using rdy s'(1) by (simp add: rv32_cycle_def deliver_quiet [OF q] fetch_in_ram [OF wf f] ready_def)
  moreover have "frame s s'" using s'(3) by (rule frame_trans [OF write_reg_frame])
  ultimately show ?thesis using s'(2) by blast
qed

section \<open>Runs\<close>

lemma rv32_run_append:
  "rv32_run p (m + n) v = bind_run (rv32_run p m v) (rv32_run p n)"
proof (induction m arbitrary: v)
  case 0
  show ?case by simp
next
  case (Suc m)
  have "rv32_run p (m + n) = (\<lambda>v. bind_run (rv32_run p m v) (rv32_run p n))"
    by (rule ext) (rule Suc.IH)
  then show ?case by (simp add: bind_run_assoc)
qed

text \<open>The steps of a hart whose interrupts are quiet, and their closure.\<close>

inductive hart_step :: "hart \<Rightarrow> hart \<Rightarrow> bool" where
  "hart_quiet h \<Longrightarrow> fetches h i \<Longrightarrow> conformant i h \<Longrightarrow> isa_step i h = Some h' \<Longrightarrow> hart_step h h'"

inductive_cases hart_stepE: "hart_step h h'"

inductive hart_steps :: "nat \<Rightarrow> hart \<Rightarrow> hart \<Rightarrow> bool" where
  stay: "hart_steps 0 h h"
| more: "hart_step h h1 \<Longrightarrow> hart_steps n h1 h2 \<Longrightarrow> hart_steps (Suc n) h h2"

lemma ready_frame:
  assumes "ready s" "frame s t" "bp_mask s = 0"
  shows "ready t" "bp_mask t = 0"
  using assms same_shape_wf [of s t]
  by (auto simp: ready_def frame_def breakpoint_hit_def)

lemma run_simulates:
  assumes "hart_steps n h h'" "abs_hart s = h" "ready s" "bp_mask s = 0"
  shows "\<exists>s'. rv32_run p n (s, w) = Inr (s', w) \<and> abs_hart s' = h' \<and> frame s s'"
  using assms
proof (induction arbitrary: s rule: hart_steps.induct)
  case (stay h)
  then show ?case by simp
next
  case (more h h1 n h2)
  from more.hyps(1) obtain i where i: "hart_quiet h" "fetches h i" "conformant i h" "isa_step i h = Some h1"
    by (rule hart_stepE)
  from i more.prems cycle_simulates [of s i h1 p w] obtain s1
    where s1: "rv32_cycle p (s, w) = Inr (s1, w)" "abs_hart s1 = h1" "frame s s1"
    by auto
  from more.IH [OF s1(2) ready_frame [OF more.prems(2) s1(3) more.prems(3)]] obtain s2
    where "rv32_run p n (s1, w) = Inr (s2, w)" "abs_hart s2 = h2" "frame s1 s2"
    by auto
  with s1 show ?case by (auto intro: frame_trans)
qed

end
