(* ===== verification/Decoder.thy ===== *)
theory Decoder
  imports Refinement
begin

text \<open>
  The whole space of instruction words. \<open>read_word\<close> says what the switch of \<open>rv32_cycle\<close> takes a
  word for, as an operation of the instruction set or as nothing; the lemmas say that it executes
  every word as that operation, that the encoding of every operation is read back, and which words
  it takes for an operation although the instruction set does not define them.
\<close>

section \<open>Operations\<close>

datatype operation = Do instr | Call | Break | Wait

primrec operation_word :: "operation \<Rightarrow> u32" where
  "operation_word (Do i) = encode i"
| "operation_word Call = i_type 0x73 0 0 0 0"
| "operation_word Break = i_type 0x73 0 0 0 1"
| "operation_word Wait = i_type 0x73 0 0 0 0x105"

section \<open>The fields of a word\<close>

definition opcode_of :: "u32 \<Rightarrow> 7 word" where "opcode_of x = ucast x"
definition rd_of :: "u32 \<Rightarrow> 5 word" where "rd_of x = ucast (drop_bit 7 x)"
definition funct3_of :: "u32 \<Rightarrow> 3 word" where "funct3_of x = ucast (drop_bit 12 x)"
definition rs1_of :: "u32 \<Rightarrow> 5 word" where "rs1_of x = ucast (drop_bit 15 x)"
definition rs2_of :: "u32 \<Rightarrow> 5 word" where "rs2_of x = ucast (drop_bit 20 x)"
definition funct7_of :: "u32 \<Rightarrow> 7 word" where "funct7_of x = ucast (drop_bit 25 x)"
definition imm_i_of :: "u32 \<Rightarrow> 12 word" where "imm_i_of x = ucast (drop_bit 20 x)"
definition imm_s_of :: "u32 \<Rightarrow> 12 word" where
  "imm_s_of x = ucast (rd_of x) OR push_bit 5 (ucast (funct7_of x))"
definition imm_b_of :: "u32 \<Rightarrow> 12 word" where
  "imm_b_of x = ucast (take_bit 4 (drop_bit 8 x)) OR ucast (push_bit 4 (take_bit 6 (drop_bit 25 x)))
     OR push_bit 10 (of_bool (bit x 7)) OR ucast (push_bit 11 (drop_bit 31 x))"
definition imm_u_of :: "u32 \<Rightarrow> 20 word" where "imm_u_of x = ucast (drop_bit 12 x)"
definition imm_j_of :: "u32 \<Rightarrow> 20 word" where
  "imm_j_of x = ucast (take_bit 10 (drop_bit 21 x)) OR push_bit 10 (of_bool (bit x 20))
     OR ucast (push_bit 11 (take_bit 8 (drop_bit 12 x))) OR ucast (push_bit 19 (drop_bit 31 x))"

lemmas typed_fields = opcode_of_def rd_of_def funct3_of_def rs1_of_def rs2_of_def funct7_of_def
  imm_i_of_def imm_s_of_def imm_b_of_def imm_u_of_def imm_j_of_def

text \<open>Every word is a word of each format.\<close>

lemma any_r: "x = r_type (opcode_of x) (rd_of x) (funct3_of x) (rs1_of x) (rs2_of x) (funct7_of x)"
  unfolding typed_fields r_type_def by (rule word32_eqI; simp add: bit_simps not_bit_beyond)

lemma any_i: "x = i_type (opcode_of x) (rd_of x) (funct3_of x) (rs1_of x) (imm_i_of x)"
  unfolding typed_fields i_type_def by (rule word32_eqI; simp add: bit_simps not_bit_beyond)

lemma any_s: "x = s_type (opcode_of x) (funct3_of x) (rs1_of x) (rs2_of x) (imm_s_of x)"
  unfolding typed_fields s_type_def by (rule word32_eqI; simp add: bit_simps not_bit_beyond)

lemma any_b: "x = b_type (opcode_of x) (funct3_of x) (rs1_of x) (rs2_of x) (imm_b_of x)"
  unfolding typed_fields b_type_def
  by (rule word32_eqI; simp add: bit_simps not_bit_beyond flip: bit_iff_odd_drop_bit)

lemma any_u: "x = u_type (opcode_of x) (rd_of x) (imm_u_of x)"
  unfolding typed_fields u_type_def by (rule word32_eqI; simp add: bit_simps not_bit_beyond)

lemma any_j: "x = j_type (opcode_of x) (rd_of x) (imm_j_of x)"
  unfolding typed_fields j_type_def
  by (rule word32_eqI; simp add: bit_simps not_bit_beyond flip: bit_iff_odd_drop_bit)

section \<open>What the switch reads\<close>

definition read_alu :: "3 word \<Rightarrow> 7 word \<Rightarrow> alu_op option" where
  "read_alu f3 f7 =
     (if f7 = 1 then
        Some (if f3 = 0 then Mul else if f3 = 1 then Mulh else if f3 = 2 then Mulhsu
          else if f3 = 3 then Mulhu else if f3 = 4 then Div' else if f3 = 5 then Divu
          else if f3 = 6 then Rem' else Remu)
      else if f3 = 0 then (if f7 = 0 then Some Add else if f7 = 0x20 then Some Sub else None)
      else if f3 = 5 then (if f7 = 0 then Some Srl else if f7 = 0x20 then Some Sra else None)
      else Some (if f3 = 1 then Sll else if f3 = 2 then Slt else if f3 = 3 then Sltu
        else if f3 = 4 then Xor' else if f3 = 6 then Or' else And'))"

definition read_op_imm :: "u32 \<Rightarrow> instr option" where
  "read_op_imm x =
     (let f3 = funct3_of x; f7 = funct7_of x; rd = rd_of x; rs = rs1_of x; sh = rs2_of x; imm = imm_i_of x
      in if f3 = 1 then Some (ShiftImm Slli rd rs sh)
         else if f3 = 5 then
           (if f7 = 0 then Some (ShiftImm Srli rd rs sh)
            else if f7 = 0x20 then Some (ShiftImm Srai rd rs sh) else None)
         else Some (OpImm (if f3 = 0 then Addi else if f3 = 2 then Slti else if f3 = 3 then Sltiu
           else if f3 = 4 then Xori else if f3 = 6 then Ori else Andi) rd rs imm))"

definition read_load :: "3 word \<Rightarrow> load_op option" where
  "read_load f3 =
     (if f3 = 0 then Some Lb else if f3 = 1 then Some Lh else if f3 = 2 then Some Lw
      else if f3 = 4 then Some Lbu else if f3 = 5 then Some Lhu else None)"

definition read_store :: "3 word \<Rightarrow> store_op option" where
  "read_store f3 =
     (if f3 = 0 then Some Sb else if f3 = 1 then Some Sh else if f3 = 2 then Some Sw else None)"

definition read_branch :: "3 word \<Rightarrow> branch_op option" where
  "read_branch f3 =
     (if f3 = 0 then Some Beq else if f3 = 1 then Some Bne else if f3 = 4 then Some Blt
      else if f3 = 5 then Some Bge else if f3 = 6 then Some Bltu else if f3 = 7 then Some Bgeu else None)"

definition read_system :: "u32 \<Rightarrow> operation option" where
  "read_system x =
     (let f3 = funct3_of x; rd = rd_of x; rs = rs1_of x; imm = imm_i_of x
      in if f3 = 0 then
           (if imm = 0 then Some Call else if imm = 1 then Some Break
            else if imm = 0x302 then Some (Do Mret) else if imm = 0x105 then Some Wait else None)
         else if f3 = 4 then None
         else Some (Do (if f3 = 1 then Csr Csrrw rd rs imm else if f3 = 2 then Csr Csrrs rd rs imm
           else if f3 = 3 then Csr Csrrc rd rs imm else if f3 = 5 then CsrImm Csrrw rd rs imm
           else if f3 = 6 then CsrImm Csrrs rd rs imm else CsrImm Csrrc rd rs imm)))"

definition read_word :: "u32 \<Rightarrow> operation option" where
  "read_word x =
     (let opc = opcode_of x; f3 = funct3_of x; rd = rd_of x; rs1 = rs1_of x; rs2 = rs2_of x
      in if opc = 0x33 then map_option (\<lambda>f. Do (Op f rd rs1 rs2)) (read_alu f3 (funct7_of x))
         else if opc = 0x13 then map_option Do (read_op_imm x)
         else if opc = 0x03 then map_option (\<lambda>f. Do (Load f rd rs1 (imm_i_of x))) (read_load f3)
         else if opc = 0x23 then map_option (\<lambda>f. Do (Store f rs1 rs2 (imm_s_of x))) (read_store f3)
         else if opc = 0x63 then map_option (\<lambda>f. Do (Branch f rs1 rs2 (imm_b_of x))) (read_branch f3)
         else if opc = 0x6f then Some (Do (Jal rd (imm_j_of x)))
         else if opc = 0x67 then Some (Do (Jalr rd rs1 (imm_i_of x)))
         else if opc = 0x37 then Some (Do (Lui rd (imm_u_of x)))
         else if opc = 0x17 then Some (Do (Auipc rd (imm_u_of x)))
         else if opc = 0x73 then read_system x
         else None)"

lemmas read_defs = read_alu_def read_op_imm_def read_load_def read_store_def read_branch_def read_system_def

section \<open>Encodings are read back\<close>

lemma ucast_narrow: "LENGTH('a::len) \<le> 32 \<Longrightarrow> ucast (ucast (a :: 'a word) :: u32) = a"
  by (rule bit_word_eqI) (auto simp: bit_simps)

lemma ucast_inject32: "LENGTH('a::len) \<le> 32 \<Longrightarrow> (ucast (a :: 'a word) :: u32) = ucast b \<longleftrightarrow> a = b"
  by (metis ucast_narrow)

lemma ucast_inject:
  "(ucast (a :: 3 word) :: u32) = ucast b \<longleftrightarrow> a = b" "(ucast (c :: 5 word) :: u32) = ucast d \<longleftrightarrow> c = d"
  "(ucast (e :: 7 word) :: u32) = ucast f \<longleftrightarrow> e = f" "(ucast (g :: 12 word) :: u32) = ucast h \<longleftrightarrow> g = h"
  "(ucast (i :: 20 word) :: u32) = ucast j \<longleftrightarrow> i = j"
  by (rule ucast_inject32, simp)+

lemma push_1_inject32:
  assumes "LENGTH('a::len) < 32"
  shows "push_bit 1 (ucast (a :: 'a word) :: u32) = push_bit 1 (ucast b) \<longleftrightarrow> a = b"
proof -
  have "bit k n \<longleftrightarrow> bit (push_bit 1 (ucast k :: u32)) (Suc n)" if "n < LENGTH('a)" for k :: "'a word" and n
    using assms that by (simp add: bit_push_bit_iff bit_unsigned_iff bit_times_2)
  then show ?thesis by (metis bit_word_eqI)
qed

lemma push_1_inject:
  "push_bit 1 (ucast (g :: 12 word) :: u32) = push_bit 1 (ucast h) \<longleftrightarrow> g = h"
  "push_bit 1 (ucast (i :: 20 word) :: u32) = push_bit 1 (ucast j) \<longleftrightarrow> i = j"
  by (rule push_1_inject32, simp)+

text \<open>The macros of the code are these fields.\<close>

lemma macro_fields:
  "OPCODE x = ucast (opcode_of x)" "FUNCT3 x = ucast (funct3_of x)" "FUNCT7 x = ucast (funct7_of x)"
  "RD x = ucast (rd_of x)" "RS1 x = ucast (rs1_of x)" "RS2 x = ucast (rs2_of x)"
  "IMM_I x = ucast (imm_i_of x)" "IMM_S x = ucast (imm_s_of x)" "IMM_B x = push_bit 1 (ucast (imm_b_of x))"
  "IMM_U x = ucast (imm_u_of x)" "IMM_J x = push_bit 1 (ucast (imm_j_of x))"
proof -
  note r = r_type_fields [of "opcode_of x" "rd_of x" "funct3_of x" "rs1_of x" "rs2_of x" "funct7_of x", folded any_r [of x]]
  show "OPCODE x = ucast (opcode_of x)" "FUNCT3 x = ucast (funct3_of x)" "FUNCT7 x = ucast (funct7_of x)"
    "RD x = ucast (rd_of x)" "RS1 x = ucast (rs1_of x)" "RS2 x = ucast (rs2_of x)" by (fact r)+
  show "IMM_I x = ucast (imm_i_of x)" by (metis any_i i_type_fields(5))
  show "IMM_S x = ucast (imm_s_of x)" by (metis any_s s_type_fields(5))
  show "IMM_B x = push_bit 1 (ucast (imm_b_of x))" by (metis any_b b_type_fields(5))
  show "IMM_U x = ucast (imm_u_of x)" by (metis any_u u_type_fields(3))
  show "IMM_J x = push_bit 1 (ucast (imm_j_of x))" by (metis any_j j_type_fields(3))
qed

named_theorems fields "the fields of a word of each format"

lemma r_fields [fields]:
  "opcode_of (r_type opc rd f3 rs1 rs2 f7) = opc" "rd_of (r_type opc rd f3 rs1 rs2 f7) = rd"
  "funct3_of (r_type opc rd f3 rs1 rs2 f7) = f3" "rs1_of (r_type opc rd f3 rs1 rs2 f7) = rs1"
  "rs2_of (r_type opc rd f3 rs1 rs2 f7) = rs2" "funct7_of (r_type opc rd f3 rs1 rs2 f7) = f7"
  using r_type_fields [of opc rd f3 rs1 rs2 f7] by (simp_all add: macro_fields ucast_inject)

lemma i_fields [fields]:
  "opcode_of (i_type opc rd f3 rs1 imm) = opc" "rd_of (i_type opc rd f3 rs1 imm) = rd"
  "funct3_of (i_type opc rd f3 rs1 imm) = f3" "rs1_of (i_type opc rd f3 rs1 imm) = rs1"
  "imm_i_of (i_type opc rd f3 rs1 imm) = imm"
  using i_type_fields [of opc rd f3 rs1 imm] by (simp_all add: macro_fields ucast_inject)

lemma s_fields [fields]:
  "opcode_of (s_type opc f3 rs1 rs2 imm) = opc" "funct3_of (s_type opc f3 rs1 rs2 imm) = f3"
  "rs1_of (s_type opc f3 rs1 rs2 imm) = rs1" "rs2_of (s_type opc f3 rs1 rs2 imm) = rs2"
  "imm_s_of (s_type opc f3 rs1 rs2 imm) = imm"
  using s_type_fields [of opc f3 rs1 rs2 imm] by (simp_all add: macro_fields ucast_inject)

lemma b_fields [fields]:
  "opcode_of (b_type opc f3 rs1 rs2 imm) = opc" "funct3_of (b_type opc f3 rs1 rs2 imm) = f3"
  "rs1_of (b_type opc f3 rs1 rs2 imm) = rs1" "rs2_of (b_type opc f3 rs1 rs2 imm) = rs2"
  "imm_b_of (b_type opc f3 rs1 rs2 imm) = imm"
  using b_type_fields [of opc f3 rs1 rs2 imm] by (simp_all only: macro_fields ucast_inject push_1_inject)

lemma u_fields [fields]:
  "opcode_of (u_type opc rd imm) = opc" "rd_of (u_type opc rd imm) = rd" "imm_u_of (u_type opc rd imm) = imm"
  using u_type_fields [of opc rd imm] by (simp_all add: macro_fields ucast_inject)

lemma j_fields [fields]:
  "opcode_of (j_type opc rd imm) = opc" "rd_of (j_type opc rd imm) = rd" "imm_j_of (j_type opc rd imm) = imm"
  using j_type_fields [of opc rd imm] by (simp_all only: macro_fields ucast_inject push_1_inject)

text \<open>A shift holds its amount and its function in the two halves of the immediate.\<close>

lemma i_halves: "rs2_of x = ucast (imm_i_of x)" "funct7_of x = ucast (drop_bit 5 (imm_i_of x))"
  by (rule bit_word_eqI, auto simp: typed_fields bit_simps)+

lemma shift_imm_halves [fields]:
  "ucast (shift_imm f sh) = sh" "(ucast (drop_bit 5 (shift_imm f sh)) :: 7 word) = (if f = Srai then 0x20 else 0)"
proof -
  have c: "bit (0x400 :: 12 word) n \<longleftrightarrow> n = 10" "bit (0x20 :: 7 word) n \<longleftrightarrow> n = 5" for n
    using bit_exp_iff [where ?'a = "12 word", of 10 n] bit_exp_iff [where ?'a = "7 word", of 5 n]
    by (auto simp: bit_imp_possible_bit)
  have "ucast (ucast sh :: 12 word) = sh" by (rule bit_word_eqI) (simp add: bit_simps)
  moreover have "(ucast (0x400 OR ucast sh :: 12 word) :: 5 word) = ucast (0x400 :: 12 word) OR ucast (ucast sh :: 12 word)"
    by (rule unsigned_or_eq)
  moreover have "(0x400 :: 5 word) = 0" by simp
  ultimately show "ucast (shift_imm f sh) = sh" by (cases f) (simp_all add: shift_imm_def)
  show "(ucast (drop_bit 5 (shift_imm f sh)) :: 7 word) = (if f = Srai then 0x20 else 0)"
    unfolding shift_imm_def by (rule bit_word_eqI) (cases f; auto simp: bit_simps c not_bit_beyond)
qed

lemma read_encoded_instr: "read_word (encode i) = Some (Do i)"
proof (cases i)
  case (Op f rd rs1 rs2)
  then show ?thesis by (cases f) (simp_all add: read_word_def read_alu_def fields)
next
  case (OpImm f rd rs1 imm)
  then show ?thesis by (cases f) (simp_all add: read_word_def read_op_imm_def fields)
next
  case (ShiftImm f rd rs1 sh)
  then show ?thesis by (cases f) (simp_all add: read_word_def read_op_imm_def fields i_halves Let_def)
next
  case (Load f rd rs1 imm)
  then show ?thesis by (cases f) (simp_all add: read_word_def read_load_def fields)
next
  case (Store f rs1 rs2 imm)
  then show ?thesis by (cases f) (simp_all add: read_word_def read_store_def fields)
next
  case (Branch f rs1 rs2 imm)
  then show ?thesis by (cases f) (simp_all add: read_word_def read_branch_def fields)
next
  case (Csr f rd rs1 k)
  then show ?thesis by (cases f) (simp_all add: read_word_def read_system_def fields)
next
  case (CsrImm f rd z k)
  then show ?thesis by (cases f) (simp_all add: read_word_def read_system_def fields)
qed (simp_all add: read_word_def read_system_def fields)

lemma read_encoded: "read_word (operation_word op) = Some op"
proof (cases op)
  case (Do i)
  then show ?thesis by (simp only: operation_word.simps read_encoded_instr)
qed (simp_all add: read_word_def read_system_def fields)

section \<open>Every word\<close>

named_theorems tests "the tests of the switch, on the fields"

lemma opcode_tests [tests]:
  "OPCODE x = 0x33 \<longleftrightarrow> opcode_of x = 0x33" "OPCODE x = 0x13 \<longleftrightarrow> opcode_of x = 0x13"
  "OPCODE x = 0x03 \<longleftrightarrow> opcode_of x = 0x03" "OPCODE x = 0x23 \<longleftrightarrow> opcode_of x = 0x23"
  "OPCODE x = 0x63 \<longleftrightarrow> opcode_of x = 0x63" "OPCODE x = 0x6f \<longleftrightarrow> opcode_of x = 0x6f"
  "OPCODE x = 0x67 \<longleftrightarrow> opcode_of x = 0x67" "OPCODE x = 0x37 \<longleftrightarrow> opcode_of x = 0x37"
  "OPCODE x = 0x17 \<longleftrightarrow> opcode_of x = 0x17" "OPCODE x = 0x73 \<longleftrightarrow> opcode_of x = 0x73"
  using ucast_inject(3) [of "opcode_of x" "0x33"] ucast_inject(3) [of "opcode_of x" "0x13"] ucast_inject(3) [of "opcode_of x" "0x03"]
    ucast_inject(3) [of "opcode_of x" "0x23"] ucast_inject(3) [of "opcode_of x" "0x63"] ucast_inject(3) [of "opcode_of x" "0x6f"]
    ucast_inject(3) [of "opcode_of x" "0x67"] ucast_inject(3) [of "opcode_of x" "0x37"] ucast_inject(3) [of "opcode_of x" "0x17"]
    ucast_inject(3) [of "opcode_of x" "0x73"]
  by (simp_all add: macro_fields)

lemma funct3_tests [tests]:
  "FUNCT3 x = 0 \<longleftrightarrow> funct3_of x = 0" "FUNCT3 x = 1 \<longleftrightarrow> funct3_of x = 1"
  "FUNCT3 x = 2 \<longleftrightarrow> funct3_of x = 2" "FUNCT3 x = 3 \<longleftrightarrow> funct3_of x = 3"
  "FUNCT3 x = 4 \<longleftrightarrow> funct3_of x = 4" "FUNCT3 x = 5 \<longleftrightarrow> funct3_of x = 5"
  "FUNCT3 x = 6 \<longleftrightarrow> funct3_of x = 6" "FUNCT3 x = 7 \<longleftrightarrow> funct3_of x = 7"
  using ucast_inject(1) [of "funct3_of x" "0"] ucast_inject(1) [of "funct3_of x" "1"] ucast_inject(1) [of "funct3_of x" "2"]
    ucast_inject(1) [of "funct3_of x" "3"] ucast_inject(1) [of "funct3_of x" "4"] ucast_inject(1) [of "funct3_of x" "5"]
    ucast_inject(1) [of "funct3_of x" "6"] ucast_inject(1) [of "funct3_of x" "7"]
  by (simp_all add: macro_fields)

lemma funct7_tests [tests]:
  "FUNCT7 x = 0 \<longleftrightarrow> funct7_of x = 0" "FUNCT7 x = 1 \<longleftrightarrow> funct7_of x = 1"
  "FUNCT7 x = 0x20 \<longleftrightarrow> funct7_of x = 0x20"
  using ucast_inject(3) [of "funct7_of x" "0"] ucast_inject(3) [of "funct7_of x" "1"] ucast_inject(3) [of "funct7_of x" "0x20"]
  by (simp_all add: macro_fields)

lemma imm_i_tests [tests]:
  "IMM_I x = 0 \<longleftrightarrow> imm_i_of x = 0" "IMM_I x = 1 \<longleftrightarrow> imm_i_of x = 1"
  "IMM_I x = 0x302 \<longleftrightarrow> imm_i_of x = 0x302" "IMM_I x = 0x105 \<longleftrightarrow> imm_i_of x = 0x105"
  using ucast_inject(4) [of "imm_i_of x" "0"] ucast_inject(4) [of "imm_i_of x" "1"] ucast_inject(4) [of "imm_i_of x" "0x302"]
    ucast_inject(4) [of "imm_i_of x" "0x105"]
  by (simp_all add: macro_fields)

lemma funct3_cases:
  fixes f3 :: "3 word"
  obtains "f3 = 0" | "f3 = 1" | "f3 = 2" | "f3 = 3" | "f3 = 4" | "f3 = 5" | "f3 = 6" | "f3 = 7"
proof -
  have "unat f3 < 8" using unsigned_less [of f3, where ?'a = nat] by simp
  then have "unat f3 \<in> {0, 1, 2, 3, 4, 5, 6, 7}" by auto
  then have "f3 \<in> {0, 1, 2, 3, 4, 5, 6, 7}" by (simp add: word_unat_eq_iff)
  with that show thesis by blast
qed

text \<open>The words that the switch takes for an operation although they are not its encoding.\<close>

definition loose :: "u32 \<Rightarrow> bool" where
  "loose x \<longleftrightarrow>
     opcode_of x = 0x33 \<and> funct3_of x \<notin> {0, 5} \<and> funct7_of x \<notin> {0, 1}
   \<or> opcode_of x = 0x13 \<and> funct3_of x = 1 \<and> funct7_of x \<noteq> 0
   \<or> opcode_of x = 0x67 \<and> funct3_of x \<noteq> 0
   \<or> opcode_of x = 0x73 \<and> funct3_of x = 0 \<and> imm_i_of x \<in> {0, 1, 0x302, 0x105} \<and> (rd_of x \<noteq> 0 \<or> rs1_of x \<noteq> 0)"

lemma refuses_unread:
  assumes "read_word x = None"
  shows "rv32_execute p x (s, w) = Inr (stop RV32_INVALID_INSTRUCTION s, w)"
  using assms
  by (cases rule: funct3_cases [of "funct3_of x"])
    (auto simp: read_word_def read_defs rv32_execute_def tests Let_def exec_op_def mul_ext_def op_alu_def
      exec_op_imm_def op_imm_def exec_load_def exec_store_def exec_branch_def branch_taken_def
      exec_system_def exec_csr_def csr_value_def macro_fields(2) split: if_splits)

lemma halves_eqI:
  fixes a b :: "12 word"
  assumes "(ucast a :: 5 word) = ucast b" "(ucast (drop_bit 5 a) :: 7 word) = ucast (drop_bit 5 b)"
  shows "a = b"
proof (rule bit_word_eqI)
  fix n assume "n < LENGTH(12)"
  then have n: "n < 12" by simp
  show "bit a n \<longleftrightarrow> bit b n"
  proof (cases "n < 5")
    case True
    then show ?thesis using arg_cong [OF assms(1), of "\<lambda>w. bit w n"] by (simp add: bit_simps)
  next
    case False
    moreover from False n have "n - 5 < 7" by arith
    ultimately show ?thesis using arg_cong [OF assms(2), of "\<lambda>w. bit w (n - 5)"] by (simp add: bit_simps)
  qed
qed

lemma format_eq:
  "r_type opc rd f3 rs1 rs2 f7 = x \<longleftrightarrow> opcode_of x = opc \<and> rd_of x = rd \<and> funct3_of x = f3
     \<and> rs1_of x = rs1 \<and> rs2_of x = rs2 \<and> funct7_of x = f7"
  "i_type opc rd f3 rs1 imm = x \<longleftrightarrow> opcode_of x = opc \<and> rd_of x = rd \<and> funct3_of x = f3
     \<and> rs1_of x = rs1 \<and> imm_i_of x = imm"
  "s_type opc f3 rs1 rs2 imm = x \<longleftrightarrow> opcode_of x = opc \<and> funct3_of x = f3 \<and> rs1_of x = rs1
     \<and> rs2_of x = rs2 \<and> imm_s_of x = imm"
  "b_type opc f3 rs1 rs2 imm = x \<longleftrightarrow> opcode_of x = opc \<and> funct3_of x = f3 \<and> rs1_of x = rs1
     \<and> rs2_of x = rs2 \<and> imm_b_of x = imm"
  "u_type opc rd uimm = x \<longleftrightarrow> opcode_of x = opc \<and> rd_of x = rd \<and> imm_u_of x = uimm"
  "j_type opc rd uimm = x \<longleftrightarrow> opcode_of x = opc \<and> rd_of x = rd \<and> imm_j_of x = uimm"
  using any_r [of x] any_i [of x] any_s [of x] any_b [of x] any_u [of x] any_j [of x]
  by (auto simp: fields)

lemma read_exact:
  assumes "read_word x = Some op" "\<not> loose x"
  shows "operation_word op = x"
proof -
  have "imm_i_of x = shift_imm f (rs2_of x)" if "funct7_of x = (if f = Srai then 0x20 else 0)" for f
    using that i_halves [of x] by (intro halves_eqI) (simp_all add: fields)
  from this [of Slli] this [of Srli] this [of Srai]
  have sh: "funct7_of x = 0 \<Longrightarrow> imm_i_of x = shift_imm Slli (rs2_of x)"
    "funct7_of x = 0 \<Longrightarrow> imm_i_of x = shift_imm Srli (rs2_of x)"
    "funct7_of x = 0x20 \<Longrightarrow> imm_i_of x = shift_imm Srai (rs2_of x)" by simp_all
  show ?thesis
    using assms
    by (cases rule: funct3_cases [of "funct3_of x"])
      (auto simp: read_word_def read_defs loose_def Let_def format_eq intro: sh split: if_splits)
qed

text \<open>A loose word runs as the operation it is taken for.\<close>

lemma runs_loose_op:
  assumes "opcode_of x = 0x33" "funct3_of x \<notin> {0, 5}" "funct7_of x \<notin> {0, 1}" "read_alu (funct3_of x) (funct7_of x) = Some f"
  shows "rv32_execute p (encode (Op f (rd_of x) (rs1_of x) (rs2_of x))) v = rv32_execute p x v"
proof -
  have x: "OPCODE x = 0x33" "FUNCT7 x \<noteq> 1" "FUNCT3 x = ucast (funct3_of x)" "RD x = ucast (rd_of x)"
    "RS1 x = ucast (rs1_of x)" "RS2 x = ucast (rs2_of x)"
    using assms(1,3) by (simp_all add: tests) (simp_all add: macro_fields)
  show ?thesis
    using assms(2-4)
    by (cases rule: funct3_cases [of "funct3_of x"])
      (auto simp: read_alu_def rv32_execute_def x decode exec_op_def op_alu_def Let_def)
qed

lemma runs_loose_shift:
  assumes "opcode_of x = 0x13" "funct3_of x = 1"
  shows "rv32_execute p (encode (ShiftImm Slli (rd_of x) (rs1_of x) (rs2_of x))) v = rv32_execute p x v"
proof -
  have "IMM_I x AND 0x1f = ucast (rs2_of x)"
    unfolding macro_fields i_halves by (rule word32_eqI; simp add: bit_simps not_bit_beyond)
  moreover have "ucast (shift_imm Slli (rs2_of x)) AND (0x1f :: u32) = ucast (rs2_of x)"
    unfolding shift_imm_def shift_op.case by (rule word32_eqI; simp add: bit_simps not_bit_beyond)
  moreover have "OPCODE x = 0x13" "FUNCT3 x = 1" "RD x = ucast (rd_of x)" "RS1 x = ucast (rs1_of x)"
    using assms by (simp_all add: tests) (simp_all add: macro_fields)
  ultimately show ?thesis
    by (simp add: rv32_execute_def decode exec_op_imm_def op_imm_def Let_def)
qed

lemma runs_loose_jalr:
  assumes "opcode_of x = 0x67"
  shows "rv32_execute p (encode (Jalr (rd_of x) (rs1_of x) (imm_i_of x))) v = rv32_execute p x v"
proof -
  have "OPCODE x = 0x67" "RD x = ucast (rd_of x)" "RS1 x = ucast (rs1_of x)"
    using assms by (simp_all add: tests) (simp_all add: macro_fields)
  moreover have "SEXT_IMM_I x = scast (imm_i_of x)" by (metis any_i i_type_SEXT)
  ultimately show ?thesis by (simp add: rv32_execute_def decode exec_jalr_def Let_def)
qed

lemma runs_loose_system:
  assumes "opcode_of x = 0x73" "funct3_of x = 0" "read_system x = Some op"
  shows "rv32_execute p (operation_word op) v = rv32_execute p x v"
proof -
  have x: "OPCODE x = 0x73" "FUNCT3 x = 0" using assms by (simp_all add: tests)
  from assms(2,3) consider "imm_i_of x = 0" "op = Call" | "imm_i_of x = 1" "op = Break"
    | "imm_i_of x = 0x302" "op = Do Mret" | "imm_i_of x = 0x105" "op = Wait"
    by (simp add: read_system_def Let_def split: if_splits)
  then show ?thesis
  proof cases
    case 1
    then have "IMM_I x = 0" by (simp add: tests)
    with x 1(2) show ?thesis by (simp add: rv32_execute_def i_type_fields exec_system_def)
  next
    case 2
    then have "IMM_I x = 1" by (simp add: tests)
    with x 2(2) show ?thesis by (simp add: rv32_execute_def i_type_fields exec_system_def)
  next
    case 3
    then have "IMM_I x = 0x302" by (simp add: tests)
    with x 3(2) show ?thesis by (simp add: rv32_execute_def i_type_fields exec_system_def)
  next
    case 4
    then have "IMM_I x = 0x105" by (simp add: tests)
    with x 4(2) show ?thesis by (simp add: rv32_execute_def i_type_fields exec_system_def)
  qed
qed

lemma runs_loose:
  assumes "read_word x = Some op" "loose x"
  shows "rv32_execute p (operation_word op) v = rv32_execute p x v"
  using assms(2) unfolding loose_def
proof (elim disjE conjE)
  assume "opcode_of x = 0x33" "funct3_of x \<notin> {0, 5}" "funct7_of x \<notin> {0, 1}"
  with runs_loose_op [of x _ p v] assms(1) show ?thesis
    by (auto simp: read_word_def Let_def simp del: encode.simps)
next
  assume "opcode_of x = 0x13" "funct3_of x = 1"
  with runs_loose_shift [of x p v] assms(1) show ?thesis
    by (auto simp: read_word_def read_op_imm_def Let_def simp del: encode.simps)
next
  assume "opcode_of x = 0x67"
  with runs_loose_jalr [of x p v] assms(1) show ?thesis
    by (auto simp: read_word_def Let_def simp del: encode.simps)
next
  assume "opcode_of x = 0x73" "funct3_of x = 0"
  with runs_loose_system [of x op p v] assms(1) show ?thesis by (simp add: read_word_def Let_def)
next
  assume "opcode_of x = 0x73" "funct3_of x = 0"
  with runs_loose_system [of x op p v] assms(1) show ?thesis by (simp add: read_word_def Let_def)
qed

text \<open>No encoding is loose, and every loose word is taken for an operation.\<close>

lemma encoding_not_loose: "\<not> loose (operation_word op)"
proof (cases op)
  case (Do i)
  show ?thesis unfolding Do operation_word.simps
  proof (cases i)
    case (Op f rd rs1 rs2)
    then show "\<not> loose (encode i)" by (cases f) (simp_all add: loose_def fields)
  next
    case (ShiftImm f rd rs1 sh)
    then show "\<not> loose (encode i)" by (cases f) (simp_all add: loose_def fields i_halves)
  next
    case (OpImm f rd rs1 imm)
    then show "\<not> loose (encode i)" by (cases f) (simp_all add: loose_def fields)
  next
    case (Csr f rd rs1 k)
    then show "\<not> loose (encode i)" by (cases f) (simp_all add: loose_def fields)
  next
    case (CsrImm f rd z k)
    then show "\<not> loose (encode i)" by (cases f) (simp_all add: loose_def fields)
  qed (simp_all add: loose_def fields)
qed (simp_all add: loose_def fields)

lemma loose_is_read: "loose x \<Longrightarrow> read_word x \<noteq> None"
  by (cases rule: funct3_cases [of "funct3_of x"])
    (auto simp: loose_def read_word_def read_alu_def read_op_imm_def read_system_def)

lemma loose_iff: "loose x \<longleftrightarrow> (\<exists>op. read_word x = Some op \<and> operation_word op \<noteq> x)"
  using loose_is_read [of x] read_exact [of x] encoding_not_loose by fastforce

lemma execute_read:
  "rv32_execute p x (s, w) =
     (case read_word x of
        None \<Rightarrow> Inr (stop RV32_INVALID_INSTRUCTION s, w)
      | Some op \<Rightarrow> rv32_execute p (operation_word op) (s, w))"
proof (cases "read_word x")
  case None
  then show ?thesis by (simp add: refuses_unread)
next
  case (Some op)
  have "rv32_execute p (operation_word op) (s, w) = rv32_execute p x (s, w)"
  proof (cases "loose x")
    case True
    then show ?thesis by (rule runs_loose [OF Some])
  next
    case False
    show ?thesis by (simp only: read_exact [OF Some False])
  qed
  then show ?thesis by (simp only: Some option.case)
qed

end
