(* ===== verification/Total_Cycle.thy ===== *)
theory Total_Cycle
  imports Decoder
begin

text \<open>
  What a cycle does at every hart, not only at one whose next word is an instruction that succeeds.
  \<open>machine_step\<close> is the step of the instruction set with the two deviations of the code, which the
  lemmas delimit; \<open>hart_cycle\<close> adds the failures and the environment's events, and \<open>rv32_cycle\<close> of a
  running machine at which no interrupt is taken does just that.
\<close>

section \<open>The step of the machine\<close>

text \<open>
  \<open>sltiu\<close> compares with the immediate as it stands (\<open>imm_result\<close>); the offset of \<open>jal\<close>, of 21 bits, is
  extended from bit 19, which is bit 18 of the field; and \<open>mret\<close> leaves \<open>mstatus.MPIE\<close> as it is.
\<close>

definition jump_offset :: "20 word \<Rightarrow> int" where
  "jump_offset imm = (if bit imm 18 then 2 * (uint imm mod 2 ^ 19) - 2 ^ 20 else 2 * uint imm)"

definition machine_step :: "instr \<Rightarrow> hart \<Rightarrow> hart option" where
  "machine_step i h =
     (case i of
        OpImm f rd rs1 imm \<Rightarrow> Some (next_instr (set_gpr rd (imm_result f (gpr h rs1) imm) h))
      | Jal rd imm \<Rightarrow> Some (goto (ipc h + word_of_int (jump_offset imm)) (set_gpr rd (ipc h + 4) h))
      | Mret \<Rightarrow> Some (goto (csrs h 0x341)
          (set_csr 0x300 (let m = csrs h 0x300 in if bit m 7 then m OR 8 else m AND NOT 8) h))
      | _ \<Rightarrow> isa_step i h)"

lemma j_type_SEXT: "SEXT_IMM_J (j_type opc rd imm) = word_of_int (jump_offset imm)"
proof -
  let ?x = "push_bit 1 (ucast imm) :: u32" and ?m = "push_bit 20 0xFFFFFFFF :: u32"
  have "?x = 2 * word_of_int (uint imm)" unfolding ucast_eq [symmetric] by (simp add: push_bit_eq_mult)
  then have x: "?x = word_of_int (2 * uint imm)" by (simp only: of_int_mult of_int_numeral)
  have s: "SEXT ?x 20 = (if bit imm 18 then ?x OR ?m else ?x)"
  proof -
    have b: "bit ?x 19 \<longleftrightarrow> bit imm 18" by (simp add: bit_simps bit_times_2)
    have n: "(20 :: nat) - 1 = 19" by simp
    show ?thesis unfolding SEXT_def n mask_test b by simp
  qed
  show ?thesis
  proof (cases "bit imm 18")
    case False
    then show ?thesis unfolding SEXT_IMM_J_def j_type_fields s jump_offset_def by (simp only: x if_False)
  next
    case True
    have m: "?m = - (2 ^ 20)" by simp
    have "?x OR ?m = take_bit 20 ?x OR ?m"
      by (rule word32_eqI; simp add: bit_simps not_bit_beyond)
    also have "\<dots> = take_bit 20 ?x + ?m"
      by (rule disjunctive_add_eq_or [symmetric], rule word32_eqI; simp add: bit_simps not_bit_beyond)
    also have "take_bit 20 ?x = word_of_int (2 * uint imm mod 2 ^ 20)"
      unfolding x take_bit_eq_mod [symmetric]
      by (rule bit_word_eqI) (simp only: bit_take_bit_iff bit_word_of_int_iff simp_thms)
    also have "2 * uint imm mod 2 ^ 20 = 2 * (uint imm mod 2 ^ 19)" by (simp add: mult_mod_right)
    finally have sum: "?x OR ?m = word_of_int (2 * (uint imm mod 2 ^ 19)) - 2 ^ 20" unfolding m by simp
    from True show ?thesis
      unfolding SEXT_IMM_J_def j_type_fields s jump_offset_def
      by (simp only: sum if_True of_int_diff of_int_power of_int_numeral)
  qed
qed

lemma machine_step_conformant:
  assumes "conformant i h"
  shows "machine_step i h = isa_step i h"
proof (cases i)
  case (OpImm f rd rs1 imm)
  with assms have "set_gpr rd (imm_result f (gpr h rs1) imm) h = set_gpr rd (isa_alu (imm_alu f) (gpr h rs1) (scast imm)) h"
    using set_gpr_0 by (auto simp: conformant_def imm_result_def)
  then show ?thesis by (simp add: OpImm machine_step_def del: isa_alu.simps)
next
  case (Jal rd imm)
  with assms have "word_of_int (jump_offset imm) = (word_of_int (2 * sint imm) :: u32)"
    using j_type_SEXT_iff [of "0x6f" rd imm] half_offset [of imm]
    by (simp add: conformant_def jal_exact_def j_type_SEXT)
  then show ?thesis by (simp add: Jal machine_step_def)
next
  case Mret
  with assms have "bit (csrs h 0x300) 7" by (simp add: conformant_def)
  note mpie = set_MPIE [OF this]
  show ?thesis unfolding Mret by (simp only: machine_step_def isa_step.simps instr.case Let_def mpie)
qed (simp_all add: machine_step_def)

lemma machine_step_None: "machine_step i h = None \<longleftrightarrow> isa_step i h = None"
  by (cases i) (auto simp: machine_step_def)

text \<open>Each deviation shows in the step: in the register, the program counter and \<open>mstatus\<close>.\<close>

lemma jal_differs:
  assumes "\<not> jal_exact imm"
  shows "machine_step (Jal rd imm) h \<noteq> isa_step (Jal rd imm) h"
proof
  assume "machine_step (Jal rd imm) h = isa_step (Jal rd imm) h"
  then have "ipc (the (machine_step (Jal rd imm) h)) = ipc (the (isa_step (Jal rd imm) h))" by (rule arg_cong)
  moreover have "ipc (goto a k) = a" for a k by (simp add: goto_def)
  ultimately have "word_of_int (jump_offset imm) = (word_of_int (2 * sint imm) :: u32)"
    unfolding machine_step_def isa_step.simps instr.case option.sel by (simp only: add_left_cancel)
  then show False
    using assms j_type_SEXT_iff [of "0x6f" rd imm] by (simp only: jal_exact_def j_type_SEXT half_offset simp_thms)
qed

lemma sltiu_differs:
  assumes "rd \<noteq> 0" "\<not> (uint (gpr h rs1) < uint imm \<longleftrightarrow> uint (gpr h rs1) < uint (scast imm :: u32))"
  shows "machine_step (OpImm Sltiu rd rs1 imm) h \<noteq> isa_step (OpImm Sltiu rd rs1 imm) h"
proof -
  have "gpr (next_instr (set_gpr rd x h)) rd = x" for x
    using assms(1) by (simp add: next_instr_def goto_def set_gpr_def)
  from this [of 0] this [of 1] assms(2) show ?thesis
    by (auto simp: machine_step_def imm_result_def dest: arg_cong [where f = "\<lambda>k. gpr k rd"])
qed

lemma mret_differs:
  assumes "\<not> bit (csrs h 0x300) 7"
  shows "machine_step Mret h \<noteq> isa_step Mret h"
proof -
  have mpie: "bit (x OR 0x80) 7" for x :: u32
    using bit_exp_iff [where ?'a = "32 word", of 7 7] by (simp add: bit_or_iff)
  have "csrs (goto a (set_csr 0x300 x h)) 0x300 = x" for a x
    by (simp add: goto_def set_csr_def implemented_csr_def)
  then have "csrs (the (machine_step Mret h)) 0x300 = csrs h 0x300 AND NOT 8"
    and "csrs (the (isa_step Mret h)) 0x300 = (csrs h 0x300 AND NOT 8) OR 0x80"
    using assms by (simp_all add: machine_step_def)
  moreover have "\<not> bit (csrs h 0x300 AND NOT 8) 7" using assms by (simp add: bit_and_iff)
  ultimately show ?thesis using mpie [of "csrs h 0x300 AND NOT 8"] by auto
qed

lemma machine_step_isa_iff: "machine_step i h = isa_step i h \<longleftrightarrow> conformant i h"
proof (cases "conformant i h")
  case True
  then show ?thesis by (simp add: machine_step_conformant)
next
  case False
  then consider rd rs1 imm where "i = OpImm Sltiu rd rs1 imm" "rd \<noteq> 0"
      "\<not> (uint (gpr h rs1) < uint imm \<longleftrightarrow> uint (gpr h rs1) < uint (scast imm :: u32))"
    | rd imm where "i = Jal rd imm" "\<not> jal_exact imm"
    | "i = Mret" "\<not> bit (csrs h 0x300) 7"
    by (auto simp: conformant_def split: instr.splits)
  then have "machine_step i h \<noteq> isa_step i h"
    by cases (simp_all only: sltiu_differs jal_differs mret_differs not_False_eq_True)
  with False show ?thesis by simp
qed

lemma simulates_machine:
  assumes "wf_rv32 s" "r s ! 0 = 0" "machine_step i (abs_hart s) = Some h"
  shows "simulates p s w i h"
proof (cases "conformant i (abs_hart s)")
  case True
  with assms show ?thesis by (intro execute_simulates) (simp_all add: machine_step_conformant)
next
  case False
  show ?thesis
  proof (cases i)
    case (OpImm f rd rs1 imm)
    with assms(3) simulates_OpImm [OF assms(1,2), of p w f rd rs1 imm] show ?thesis
      by (simp add: machine_step_def)
  next
    case (Jal rd imm)
    have "rv32_execute p (encode i) (s, w)
        = Inr (advance (word_of_int (jump_offset imm)) (write_reg (ucast rd) (pc s + 4) s), w)"
      by (simp add: Jal dispatch exec_jal_def j_type_SEXT)
    moreover have "h = goto (pc s + word_of_int (jump_offset imm)) (set_gpr rd (pc s + 4) (abs_hart s))"
      using assms(3) by (simp add: Jal machine_step_def)
    ultimately show ?thesis
      using wf_rv32_lengths [OF assms(1)]
      by (intro simulatesI [of p i s w])
        (assumption, simp_all only: abs_advance abs_write_reg pc_write_reg, rule frame_trans [OF write_reg_frame advance_frame])
  next
    case Mret
    with assms(3) simulates_Mret [of p s w] show ?thesis by (simp add: machine_step_def)
  qed (use False in \<open>simp_all add: conformant_def\<close>)
qed

text \<open>The execution of an instruction has one result, so a deviation shows at the machine as well.\<close>

lemma simulates_unique: "simulates p s w i h \<Longrightarrow> simulates p s w i k \<Longrightarrow> h = k"
  by (auto simp: simulates_def)

lemma simulates_isa_iff:
  assumes "wf_rv32 s" "r s ! 0 = 0" "isa_step i (abs_hart s) = Some h"
  shows "simulates p s w i h \<longleftrightarrow> conformant i (abs_hart s)"
proof -
  obtain k where k: "machine_step i (abs_hart s) = Some k"
    using assms(3) machine_step_None [of i "abs_hart s"] by (cases "machine_step i (abs_hart s)") auto
  from simulates_machine [OF assms(1,2) k, of p w] have "simulates p s w i h \<longleftrightarrow> k = h"
    by (metis simulates_unique)
  also have "\<dots> \<longleftrightarrow> conformant i (abs_hart s)"
    using machine_step_isa_iff [of i "abs_hart s"] assms(3) k by auto
  finally show ?thesis .
qed

section \<open>The cycle of a hart\<close>

datatype outcome = Next hart | Bad_Fetch | Bad_Access | Bad_Word | Calls | Breaks | Waits

definition fetched :: "hart \<Rightarrow> u32 option" where
  "fetched h = map_option le_word (fetch_bytes 4 (ram h) (unat (ipc h)))"

definition hart_cycle :: "hart \<Rightarrow> outcome" where
  "hart_cycle h =
     (case fetched h of
        None \<Rightarrow> Bad_Fetch
      | Some x \<Rightarrow>
          (case read_word x of
             None \<Rightarrow> Bad_Word
           | Some Call \<Rightarrow> Calls
           | Some Break \<Rightarrow> Breaks
           | Some Wait \<Rightarrow> Waits
           | Some (Do i) \<Rightarrow> (case machine_step i h of None \<Rightarrow> Bad_Access | Some h' \<Rightarrow> Next h')))"

text \<open>The address that a load or store accesses.\<close>

fun target :: "instr \<Rightarrow> hart \<Rightarrow> u32" where
  "target (Load f rd rs1 imm) h = gpr h rs1 + scast imm"
| "target (Store f rs1 rs2 imm) h = gpr h rs1 + scast imm"
| "target i h = 0"

definition instr_at :: "hart \<Rightarrow> instr option" where
  "instr_at h =
     (case Option.bind (fetched h) read_word of Some (Do i) \<Rightarrow> Some i | _ \<Rightarrow> None)"

text \<open>
  The accesses outside RAM that the cycle makes: by a word to the register of the interrupt
  controller, which the machine serves itself, and the others, which \<open>p\<close> may refuse.
\<close>

definition asks_controller :: "hart \<Rightarrow> bool" where
  "asks_controller h \<longleftrightarrow>
     fetched h = None \<and> ipc h = RV32_INTERRUPT_CONTROLLER_ADDRESS
   \<or> (\<exists>i. instr_at h = Some i \<and> machine_step i h = None \<and> target i h = RV32_INTERRUPT_CONTROLLER_ADDRESS
        \<and> (case i of Load f _ _ _ \<Rightarrow> f = Lw | Store f _ _ _ \<Rightarrow> f = Sw | _ \<Rightarrow> False))"

definition no_load :: "'w platform \<Rightarrow> nat \<Rightarrow> u32 \<Rightarrow> bool" where
  "no_load p n a \<longleftrightarrow>
     (\<forall>v. if n = 1 then mmio_load8 p v a = (RV32_ERR, v)
          else if n = 2 then mmio_load16 p v a = (RV32_ERR, v) else mmio_load32 p v a = (RV32_ERR, v))"

definition no_store :: "'w platform \<Rightarrow> nat \<Rightarrow> u32 \<Rightarrow> bool" where
  "no_store p n a \<longleftrightarrow>
     (\<forall>v. if n = 1 then \<forall>x. mmio_store8 p v a x = (RV32_ERR, v)
          else if n = 2 then \<forall>x. mmio_store16 p v a x = (RV32_ERR, v)
          else \<forall>x. mmio_store32 p v a x = (RV32_ERR, v))"

definition unanswered :: "'w platform \<Rightarrow> hart \<Rightarrow> bool" where
  "unanswered p h \<longleftrightarrow>
     (fetched h = None \<longrightarrow> no_load p 4 (ipc h)) \<and>
     (\<forall>i. instr_at h = Some i \<longrightarrow> machine_step i h = None \<longrightarrow>
        (case i of
           Load f rd rs1 imm \<Rightarrow> no_load p (load_width f) (target i h)
         | Store f rs1 rs2 imm \<Rightarrow> no_store p (store_width f) (target i h)
         | _ \<Rightarrow> True))"

section \<open>Fetching\<close>

lemma fetch_bytes_length: "fetch_bytes n m a = Some bs \<Longrightarrow> length bs = n"
  by (induction n m a arbitrary: bs rule: fetch_bytes.induct) (auto split: if_splits option.splits)

lemma fetched_Some: "fetched h = Some x \<longleftrightarrow> fetch_bytes 4 (ram h) (unat (ipc h)) = Some (le_bytes 4 x)"
proof
  assume "fetched h = Some x"
  then obtain bs where bs: "fetch_bytes 4 (ram h) (unat (ipc h)) = Some bs" "x = le_word bs"
    by (auto simp: fetched_def)
  with fetch_bytes_length [OF bs(1)] le_bytes_le_word [of bs, where ?'a = 32]
  show "fetch_bytes 4 (ram h) (unat (ipc h)) = Some (le_bytes 4 x)" by simp
next
  assume "fetch_bytes 4 (ram h) (unat (ipc h)) = Some (le_bytes 4 x)"
  moreover have "(le_word (le_bytes 4 x) :: u32) = x" by (rule le_word_le_bytes_full) simp
  ultimately show "fetched h = Some x" by (simp add: fetched_def)
qed

lemma cycle_fetched:
  assumes "ready s" "deliver_interrupt s = s" "fetched (abs_hart s) = Some x"
  shows "rv32_cycle p (s, w) = rv32_execute p x (write_reg 0 0 s, w)"
proof -
  have wf: "wf_rv32 s" using assms(1) by (simp add: ready_def)
  have f: "fetch_bytes 4 (abs_ram s) (unat (pc s)) = Some (le_bytes 4 x)"
    using assms(3) by (simp add: fetched_Some)
  have "(le_word (le_bytes 4 x) :: u32) = x" by (rule le_word_le_bytes_full) simp
  then have "rv32_load32 p (s, w) (pc s) = Inr (RV32_OK x, (s, w))"
    using ram_access(2) [OF wf f] ram_access(4) [OF wf f, where w = w and ?'a = 32]
    by (simp add: rv32_load32_def)
  then show ?thesis using assms(1,2) by (simp add: rv32_cycle_def ready_def)
qed

lemma cycle_not_fetched:
  assumes "ready s" "deliver_interrupt s = s" "fetched (abs_hart s) = None"
    and "no_load p 4 (pc s)" "pc s \<noteq> RV32_INTERRUPT_CONTROLLER_ADDRESS" "4 \<le> unat (mem_size s)"
  shows "rv32_cycle p (s, w) = Inr (stop RV32_INVALID_MEMORY_ACCESS s, w)"
proof -
  have "\<not> in_ram 4 s (pc s)"
    using assms(1,3,6) by (simp add: fetched_def fetch_bytes_abs in_ram_iff ready_def split: if_splits)
  then have "rv32_load32 p (s, w) (pc s) = Inr (RV32_ERR, (s, w))"
    using assms(4,5) by (simp add: rv32_load32_def no_load_def)
  then show ?thesis using assms(1,2) by (simp add: rv32_cycle_def ready_def)
qed

section \<open>Failing accesses\<close>

lemma machine_step_NoneE:
  assumes "machine_step i h = None"
  obtains (load) f rd rs1 imm where "i = Load f rd rs1 imm"
      "fetch_bytes (load_width f) (ram h) (unat (target i h)) = None"
  | (store) f rs1 rs2 imm where "i = Store f rs1 rs2 imm"
      "fetch_bytes (store_width f) (ram h) (unat (target i h)) = None"
  using assms unfolding machine_step_None by (cases i) (auto simp: Let_def split: option.splits if_splits)

lemma outside_ram:
  assumes "wf_rv32 s" "fetch_bytes n (abs_ram s) (unat a) = None" "n \<le> 4" "4 \<le> unat (mem_size s)"
  shows "\<not> in_ram n s a"
  using assms by (simp add: fetch_bytes_abs in_ram_iff split: if_splits)

text \<open>
  What the code does with an access outside RAM: a word access to the controller's register is served
  there, and every other access is handed to the platform, whose refusal stops the machine.
\<close>

definition loaded :: "5 word \<Rightarrow> ('a \<Rightarrow> u32) \<Rightarrow> 'a rv32_result \<times> 'w vm \<Rightarrow> 'w vm run" where
  "loaded rd ext res =
     (case res of
        (RV32_ERR, (t, u)) \<Rightarrow> Inr (stop RV32_INVALID_MEMORY_ACCESS t, u)
      | (RV32_OK x, (t, u)) \<Rightarrow> Inr (advance 4 (write_reg (ucast rd) (ext x) t), u))"

definition stored :: "unit rv32_result \<times> 'w vm \<Rightarrow> 'w vm run" where
  "stored res =
     (case res of
        (RV32_ERR, (t, u)) \<Rightarrow> Inr (stop RV32_INVALID_MEMORY_ACCESS t, u)
      | (RV32_OK _, (t, u)) \<Rightarrow> Inr (advance 4 t, u))"

definition load_outside :: "'w platform \<Rightarrow> load_op \<Rightarrow> 5 word \<Rightarrow> u32 \<Rightarrow> 'w vm \<Rightarrow> 'w vm run" where
  "load_outside p f rd a v =
     (case f of
        Lb \<Rightarrow> loaded rd scast (mmio_load8 p v a)
      | Lh \<Rightarrow> loaded rd scast (mmio_load16 p v a)
      | Lw \<Rightarrow> loaded rd id (if a = RV32_INTERRUPT_CONTROLLER_ADDRESS
          then (RV32_OK (ie (interrupt_controller (fst v))), v) else mmio_load32 p v a)
      | Lbu \<Rightarrow> loaded rd ucast (mmio_load8 p v a)
      | Lhu \<Rightarrow> loaded rd ucast (mmio_load16 p v a))"

definition set_ie :: "u32 \<Rightarrow> rv32 \<Rightarrow> rv32" where
  "set_ie x s = s\<lparr>interrupt_controller := (interrupt_controller s)\<lparr>ie := x\<rparr>\<rparr>"

definition store_outside :: "'w platform \<Rightarrow> store_op \<Rightarrow> u32 \<Rightarrow> u32 \<Rightarrow> 'w vm \<Rightarrow> 'w vm run" where
  "store_outside p f x a v =
     (case f of
        Sb \<Rightarrow> stored (mmio_store8 p v a (ucast x))
      | Sh \<Rightarrow> stored (mmio_store16 p v a (ucast x))
      | Sw \<Rightarrow> stored (if a = RV32_INTERRUPT_CONTROLLER_ADDRESS
          then (RV32_OK (), (set_ie x (fst v), snd v)) else mmio_store32 p v a x))"

definition access_outside :: "'w platform \<Rightarrow> instr \<Rightarrow> 'w vm \<Rightarrow> 'w vm run" where
  "access_outside p i v =
     (let h = abs_hart (fst v)
      in case i of
           Load f rd rs1 imm \<Rightarrow> load_outside p f rd (target i h) v
         | Store f rs1 rs2 imm \<Rightarrow> store_outside p f (gpr h rs2) (target i h) v
         | _ \<Rightarrow> Inr v)"

lemma ucast_low: "ucast (x AND 0xff :: u32) = (ucast x :: u8)" "ucast (x AND 0xffff :: u32) = (ucast x :: u16)"
proof -
  have m: "(0xff :: u32) = mask 8" "(0xffff :: u32) = mask 16" by (simp_all add: mask_eq_exp_minus_1)
  show "ucast (x AND 0xff :: u32) = (ucast x :: u8)" "ucast (x AND 0xffff :: u32) = (ucast x :: u16)"
    unfolding m by (rule bit_word_eqI; simp add: bit_simps)+
qed

lemma finish_outside: "RD instr = ucast rd \<Longrightarrow> finish_load instr = loaded rd" "finish_store = stored"
  by (auto simp: fun_eq_iff finish_load_def loaded_def finish_store_def stored_def split: rv32_result.split)

lemma execute_load_outside:
  assumes "wf_rv32 s" "r s ! 0 = 0" "4 \<le> unat (mem_size s)"
    and "fetch_bytes (load_width f) (abs_ram s) (unat (abs_gpr s rs1 + scast imm)) = None"
  shows "rv32_execute p (encode (Load f rd rs1 imm)) (s, w) = load_outside p f rd (abs_gpr s rs1 + scast imm) (s, w)"
proof -
  have "load_width f \<le> 4" by (cases f) simp_all
  from outside_ram [OF assms(1,4) this assms(3)] assms(2) show ?thesis
    by (cases f)
      (simp_all add: dispatch exec_load_def finish_outside load_outside_def rv32_load8_def rv32_load16_def
        rv32_load32_def SEXT_narrow Let_def id_def)
qed

lemma execute_store_outside:
  assumes "wf_rv32 s" "r s ! 0 = 0" "4 \<le> unat (mem_size s)"
    and "fetch_bytes (store_width f) (abs_ram s) (unat (abs_gpr s rs1 + scast imm)) = None"
  shows "rv32_execute p (encode (Store f rs1 rs2 imm)) (s, w)
    = store_outside p f (abs_gpr s rs2) (abs_gpr s rs1 + scast imm) (s, w)"
proof -
  have "store_width f \<le> 4" by (cases f) simp_all
  from outside_ram [OF assms(1,4) this assms(3)] assms(2) show ?thesis
    by (cases f)
      (simp_all add: dispatch exec_store_def finish_outside store_outside_def rv32_store8_def rv32_store16_def
        rv32_store32_def ucast_low set_ie_def Let_def)
qed

lemma execute_outside:
  assumes "wf_rv32 s" "r s ! 0 = 0" "4 \<le> unat (mem_size s)" "machine_step i (abs_hart s) = None"
  shows "rv32_execute p (encode i) (s, w) = access_outside p i (s, w)"
  using assms(4)
proof (cases rule: machine_step_NoneE)
  case (load f rd rs1 imm)
  with execute_load_outside [OF assms(1-3), of f rs1 imm p rd w] show ?thesis by (simp add: access_outside_def)
next
  case (store f rs1 rs2 imm)
  with execute_store_outside [OF assms(1-3), of f rs1 imm p rs2 w] show ?thesis by (simp add: access_outside_def)
qed

text \<open>The accesses that the platform refuses.\<close>

lemma access_refused:
  assumes "instr_at (abs_hart s) = Some i" "machine_step i (abs_hart s) = None"
    and "unanswered p (abs_hart s)" "\<not> asks_controller (abs_hart s)"
  shows "access_outside p i (s, w) = Inr (stop RV32_INVALID_MEMORY_ACCESS s, w)"
  using assms(2)
proof (cases rule: machine_step_NoneE)
  case (load f rd rs1 imm)
  with assms show ?thesis
    by (cases f) (auto simp: unanswered_def asks_controller_def no_load_def access_outside_def load_outside_def loaded_def)
next
  case (store f rs1 rs2 imm)
  with assms show ?thesis
    by (cases f) (auto simp: unanswered_def asks_controller_def no_store_def access_outside_def store_outside_def stored_def)
qed

section \<open>The execution of every word\<close>

text \<open>\<open>performs p s w op res\<close>: the result of executing the operation \<open>op\<close> at \<open>(s, w)\<close> is \<open>res\<close>.\<close>

definition performs :: "'w platform \<Rightarrow> rv32 \<Rightarrow> 'w \<Rightarrow> operation \<Rightarrow> 'w vm run \<Rightarrow> bool" where
  "performs p s w op res \<longleftrightarrow>
     (case op of
        Do i \<Rightarrow> (case machine_step i (abs_hart s) of
            Some h \<Rightarrow> \<exists>t. res = Inr (t, w) \<and> abs_hart t = h \<and> frame s t
          | None \<Rightarrow> res = access_outside p i (s, w))
      | Call \<Rightarrow> res = Inr (exec_ecall p (s, w))
      | Break \<Rightarrow> res = Inr (advance 4 (stop RV32_EBREAK s), w)
      | Wait \<Rightarrow> res = Inr (advance 4 (s\<lparr>wfi := 1\<rparr>), w))"

lemma system_operations:
  "rv32_execute p (operation_word Call) v = Inr (exec_ecall p v)"
  "rv32_execute p (operation_word Break) (s, w) = Inr (advance 4 (stop RV32_EBREAK s), w)"
  "rv32_execute p (operation_word Wait) (s, w) = Inr (advance 4 (s\<lparr>wfi := 1\<rparr>), w)"
  by (simp_all add: rv32_execute_def exec_system_def i_type_fields)

lemma execute_performs:
  assumes "wf_rv32 s" "r s ! 0 = 0" "4 \<le> unat (mem_size s)"
  shows "performs p s w op (rv32_execute p (operation_word op) (s, w))"
proof (cases op)
  case (Do i)
  show ?thesis
  proof (cases "machine_step i (abs_hart s)")
    case None
    with execute_outside [OF assms None] show ?thesis by (simp add: Do performs_def del: encode.simps)
  next
    case (Some h)
    from simulates_machine [OF assms(1,2) Some, of p w] show ?thesis
      by (simp add: Do performs_def Some simulates_def del: encode.simps)
  qed
qed (simp_all add: performs_def system_operations del: operation_word.simps)

lemma execute_word:
  assumes "wf_rv32 s" "r s ! 0 = 0" "4 \<le> unat (mem_size s)"
  shows "case read_word x of
      None \<Rightarrow> rv32_execute p x (s, w) = Inr (stop RV32_INVALID_INSTRUCTION s, w)
    | Some op \<Rightarrow> performs p s w op (rv32_execute p x (s, w))"
  using execute_read [of p x s w] execute_performs [OF assms] by (cases "read_word x") simp_all

section \<open>Every cycle\<close>

text \<open>How a cycle that ran from \<open>(s, w)\<close> to \<open>res\<close> answers an outcome.\<close>

definition stopped :: "rv32_status \<Rightarrow> rv32 \<Rightarrow> hart \<Rightarrow> rv32 \<Rightarrow> bool" where
  "stopped st s h t \<longleftrightarrow> status t = st \<and> abs_hart t = h \<and> same_shape s t"

definition answers :: "'w platform \<Rightarrow> rv32 \<Rightarrow> 'w \<Rightarrow> outcome \<Rightarrow> bool" where
  "answers p s w out \<longleftrightarrow>
     (case out of
        Calls \<Rightarrow> rv32_cycle p (s, w) = Inr (exec_ecall p (write_reg 0 0 s, w))
      | _ \<Rightarrow> (\<exists>t. rv32_cycle p (s, w) = Inr (t, w) \<and>
         (case out of
            Next h \<Rightarrow> abs_hart t = h \<and> frame s t
          | Bad_Fetch \<Rightarrow> stopped RV32_INVALID_MEMORY_ACCESS s (abs_hart s) t
          | Bad_Access \<Rightarrow> stopped RV32_INVALID_MEMORY_ACCESS s (abs_hart s) t
          | Bad_Word \<Rightarrow> stopped RV32_INVALID_INSTRUCTION s (abs_hart s) t
          | Breaks \<Rightarrow> stopped RV32_EBREAK s (next_instr (abs_hart s)) t
          | Waits \<Rightarrow> stopped RV32_RUNNING s (next_instr (abs_hart s)) t \<and> wfi t = 1)))"

lemma abs_set_flags:
  "abs_hart (s\<lparr>status := st\<rparr>) = abs_hart s" "abs_hart (s\<lparr>wfi := k\<rparr>) = abs_hart s"
  by (rule hart_eqI; simp add: abs_gpr_def abs_ram_def rv32_read_csr_def fun_eq_iff)+

lemma stopped_stop:
  "stopped st s (abs_hart s) (stop st s)" "stopped st s (abs_hart s) (stop st (write_reg 0 0 s))"
  "stopped st s (next_instr (abs_hart s)) (advance 4 (stop st (write_reg 0 0 s)))"
proof -
  note stop = abs_set_flags(1) [of st, folded stop_def]
  have shape: "same_shape s (stop st s)" "same_shape s (stop st (write_reg 0 0 s))"
    "same_shape s (advance 4 (stop st (write_reg 0 0 s)))"
    by (simp_all add: same_shape_def stop_def advance_def write_reg_def)
  with stop show "stopped st s (abs_hart s) (stop st s)" "stopped st s (abs_hart s) (stop st (write_reg 0 0 s))"
    "stopped st s (next_instr (abs_hart s)) (advance 4 (stop st (write_reg 0 0 s)))"
    by (simp_all add: stopped_def abs_advance abs_clear_zero next_instr_def)
      (simp_all add: stop_def advance_def)
qed

lemma cycle_answers:
  assumes rdy: "ready s" and q: "deliver_interrupt s = s"
    and size: "4 \<le> unat (mem_size s)"
    and outside: "unanswered p (abs_hart s)" "\<not> asks_controller (abs_hart s)"
  shows "answers p s w (hart_cycle (abs_hart s))"
proof (cases "fetched (abs_hart s)")
  case None
  then have "no_load p 4 (pc s)" "pc s \<noteq> RV32_INTERRUPT_CONTROLLER_ADDRESS"
    using outside by (simp_all add: unanswered_def asks_controller_def)
  from cycle_not_fetched [OF rdy q None this size] None show ?thesis
    by (simp add: answers_def hart_cycle_def stopped_stop)
next
  case (Some x)
  let ?s = "write_reg 0 0 s"
  have wf: "wf_rv32 s" using rdy by (simp add: ready_def)
  note s0 = wf_clear_zero [OF wf]
  have cyc: "rv32_cycle p (s, w) = (case read_word x of
      None \<Rightarrow> Inr (stop RV32_INVALID_INSTRUCTION ?s, w) | Some op \<Rightarrow> rv32_execute p (operation_word op) (?s, w))"
    by (simp only: cycle_fetched [OF rdy q Some] execute_read [of p x])
  show ?thesis
  proof (cases "read_word x")
    case None
    with Some cyc show ?thesis by (simp add: answers_def hart_cycle_def stopped_stop)
  next
    case read: (Some op)
    show ?thesis
    proof (cases op)
      case (Do i)
      with Some read have at: "instr_at (abs_hart s) = Some i" by (simp add: instr_at_def)
      have i: "rv32_cycle p (s, w) = rv32_execute p (encode i) (?s, w)"
        using cyc by (simp add: read Do del: encode.simps)
      show ?thesis
      proof (cases "machine_step i (abs_hart s)")
        case None
        have "4 \<le> unat (mem_size ?s)" using size by (simp add: write_reg_def)
        from execute_outside [OF s0 this] None
        have "rv32_cycle p (s, w) = access_outside p i (?s, w)" unfolding i by (simp add: abs_clear_zero)
        also have "\<dots> = Inr (stop RV32_INVALID_MEMORY_ACCESS ?s, w)"
          by (rule access_refused) (simp_all add: abs_clear_zero at None outside)
        finally have "rv32_cycle p (s, w) = Inr (stop RV32_INVALID_MEMORY_ACCESS ?s, w)" .
        with None Some read Do show ?thesis by (simp add: answers_def hart_cycle_def stopped_stop)
      next
        case step: (Some h)
        have "simulates p ?s w i h"
          by (rule simulates_machine [OF s0]) (simp add: abs_clear_zero step)
        then obtain t where "rv32_cycle p (s, w) = Inr (t, w)" "abs_hart t = h" "frame ?s t"
          unfolding i by (auto simp: simulates_def)
        with step Some read Do show ?thesis
          by (auto simp: answers_def hart_cycle_def intro: frame_trans [OF write_reg_frame])
      qed
    next
      case Call
      with Some read cyc show ?thesis
        by (simp add: answers_def hart_cycle_def system_operations del: operation_word.simps)
    next
      case Break
      with Some read cyc show ?thesis
        by (simp add: answers_def hart_cycle_def system_operations stopped_stop del: operation_word.simps)
    next
      case Wait
      let ?t = "advance 4 (?s\<lparr>wfi := 1\<rparr>)"
      have "stopped RV32_RUNNING s (next_instr (abs_hart s)) ?t" "wfi ?t = 1"
        using rdy
        by (simp_all add: stopped_def abs_advance abs_set_flags abs_clear_zero next_instr_def ready_def)
          (simp_all add: advance_def write_reg_def same_shape_def)
      with Wait Some read cyc show ?thesis
        by (simp add: answers_def hart_cycle_def system_operations del: operation_word.simps)
    qed
  qed
qed

end
