(* ===== verification/Machine_Properties.thy ===== *)
theory Machine_Properties
  imports Total_Cycle Delivery Breakpoints Emulator
begin

text \<open>
  The properties of the machine: its instruction set, memory safety, loads and stores, interrupts,
  breakpoints, and the command-line emulator around it. Each is followed by a witness at a
  concrete machine.
\<close>

section \<open>Concrete machines\<close>

definition silent :: host where "silent = \<lparr>std_out = [], std_err = []\<rparr>"

definition program :: "instr list \<Rightarrow> u8 list" where
  "program is = concat (map (\<lambda>i. le_bytes 4 (encode i)) is)"

lemma length_program [simp]: "length (program is) = 4 * length is"
  by (induction "is") (simp_all add: program_def)

lemma boot_ready: "length ms < 2 ^ 32 \<Longrightarrow> ready (boot ms)"
  using boot_wf [of ms] by (simp add: ready_def) (simp add: boot_def breakpoint_hit_def)

lemma boot_quiet: "hart_quiet (abs_hart (boot ms))"
  by (simp add: hart_quiet_def boot_def rv32_read_csr_def)

lemma boot_fetches:
  assumes "length is < 2 ^ 29" "is = i # js"
  shows "fetches (abs_hart (boot (program is))) i"
proof -
  have wf: "wf_rv32 (boot (program is))" by (rule boot_wf) (use assms(1) in simp)
  have "unat (word_of_nat (length (program is)) :: u32) = length (program is)"
    using assms(1) by (simp only: unsigned_of_nat length_program) (simp add: take_bit_nat_eq_self)
  then have "unat (mem_size (boot (program is))) = 4 * length is"
    by (simp add: boot_def)
  moreover have "take 4 (mem (boot (program is))) = le_bytes 4 (encode i)"
    using assms(2) by (simp add: boot_def program_def)
  ultimately show ?thesis
    using assms(2) fetch_bytes_abs [OF wf, of 4 0]
    by (simp add: fetches_def boot_def)
qed

section \<open>The instruction set\<close>

text \<open>A cycle delivers an interrupt first, and then there is none to deliver.\<close>

lemma deliver_settled: "deliver_interrupt (deliver_interrupt s) = deliver_interrupt s"
proof (cases "deliver_interrupt s = s")
  case False
  then have "\<exists>c. deliver_interrupt s = enter_trap c"
    by (auto simp: deliver_interrupt_def rv32_handle_interrupt_def Let_def split: if_splits option.splits)
  then obtain c where c: "deliver_interrupt s = enter_trap c" by blast
  have "\<not> bit (mstatus (enter_trap c)) CSR_MSTATUS_MIE" by (simp add: bit_enter_trap_mstatus csr_bit_defs)
  then show ?thesis by (simp only: c deliver_interrupt_def [of "enter_trap c"]) simp
qed simp

lemma cycle_delivers: "rv32_cycle p (s, w) = rv32_cycle p (deliver_interrupt s, w)"
  unfolding rv32_cycle_def by (simp add: deliver_settled)

text \<open>
  C1. What a cycle does, at every hart. First it takes an interrupt that is due; the machine \<open>t\<close> is then
  at the handler, or as it was. When nothing else (a breakpoint, \<open>wfi\<close>, a stopped status) holds it back,
  the embedder refuses what is not RAM, and the cycle makes no word access to the register of the
  interrupt controller at \<open>0x90000000\<close> (\<open>asks_controller\<close>), \<open>rv32_cycle\<close> returns and leaves the world alone; it takes the step
  of the instruction set, with the deviations that \<open>deviations_exact\<close> delimits, and keeps the status, the
  debugger's and the controller's state; or it stops with the invalid access or the invalid instruction
  at the hart as it was, or with \<open>RV32_EBREAK\<close> behind the \<open>ebreak\<close>, or waits behind the \<open>wfi\<close>; and at an
  \<open>ecall\<close> it calls the embedder.
\<close>

theorem cycle_is_hart_cycle:
  assumes "t = deliver_interrupt s" "ready t" "4 \<le> unat (mem_size t)"
    and "unanswered p (abs_hart t)" "\<not> asks_controller (abs_hart t)"
  shows "rv32_cycle p (s, w) = rv32_cycle p (t, w) \<and> answers p t w (hart_cycle (abs_hart t))"
proof -
  have "deliver_interrupt t = t" unfolding assms(1) by (rule deliver_settled)
  from cycle_answers [OF assms(2) this assms(3-5)] cycle_delivers [of p s w] show ?thesis
    unfolding assms(1) by blast
qed

text \<open>The witness loads from an address that is not RAM.\<close>

lemma fetches_fetched: "fetches h i \<Longrightarrow> fetched h = Some (encode i) \<and> instr_at h = Some i"
  unfolding fetches_def fetched_Some [symmetric]
  by (simp add: instr_at_def read_encoded_instr del: encode.simps)

theorem cycle_is_hart_cycle_witness:
  "\<exists>t. rv32_cycle emulator_platform (boot (program [Load Lh 3 0 0x7f0]), silent) = Inr (t, silent)
     \<and> status t = RV32_INVALID_MEMORY_ACCESS"
proof -
  let ?i = "Load Lh 3 0 0x7f0" and ?s = "boot (program [Load Lh 3 0 0x7f0])"
  have f: "fetched (abs_hart ?s) = Some (encode ?i)" "instr_at (abs_hart ?s) = Some ?i"
    using fetches_fetched [OF boot_fetches [of "[?i]" ?i]] by simp_all
  have size: "unat (mem_size ?s) = 4" by (simp add: boot_def)
  have a: "target ?i (abs_hart ?s) = 0x7f0" by (simp add: abs_gpr_def)
  then have none: "machine_step ?i (abs_hart ?s) = None"
    using size by (simp add: machine_step_None fetch_bytes_abs boot_wf)
  have out: "unanswered emulator_platform (abs_hart ?s)" "\<not> asks_controller (abs_hart ?s)"
    using f by (simp_all add: unanswered_def asks_controller_def no_load_def)
  have "?s = deliver_interrupt ?s" using deliver_quiet [OF boot_quiet] by simp
  from cycle_is_hart_cycle [OF this boot_ready _ out, of silent] size f none
  show ?thesis by (auto simp: hart_cycle_def answers_def stopped_def read_encoded_instr simp del: encode.simps)
qed

text \<open>
  C2. Runs refine runs: if a hart takes \<open>n\<close> steps of the instruction set (each conformant, with
  quiet interrupts), then \<open>n\<close> cycles of the machine return, and end in a machine that abstracts to
  the hart's last state.
\<close>

theorem cycles_refine_isa_run:
  assumes "hart_steps n (abs_hart s) h" "ready s" "bp_mask s = 0"
  shows "\<exists>s'. rv32_run p n (s, w) = Inr (s', w) \<and> abs_hart s' = h \<and> frame s s'"
  using assms(1) refl assms(2,3) by (rule run_simulates)

theorem cycles_refine_isa_run_witness:
  "\<exists>h s'. hart_steps 1 (abs_hart (boot (program [Lui 7 1]))) h
     \<and> rv32_run emulator_platform 1 (boot (program [Lui 7 1]), silent) = Inr (s', silent)
     \<and> abs_hart s' = h"
proof -
  let ?s = "boot (program [Lui 7 1])"
  let ?h = "the (isa_step (Lui 7 1) (abs_hart ?s))"
  have "hart_step (abs_hart ?s) ?h"
    by (rule hart_step.intros [OF boot_quiet boot_fetches [OF _ refl]]) (simp_all add: conformant_def)
  then have steps: "hart_steps 1 (abs_hart ?s) ?h"
    by (simp add: hart_steps.intros)
  have "bp_mask ?s = 0" by (simp add: boot_def)
  with cycles_refine_isa_run [OF steps boot_ready, of emulator_platform silent] steps
  show ?thesis by (auto simp del: One_nat_def)
qed

text \<open>
  C6. Every instruction word, at every well-formed machine whose \<open>x0\<close> holds zero. The switch of
  \<open>rv32_cycle\<close> refuses a word that \<open>read_word\<close> does not read, with the invalid instruction and
  nothing else changed. Every other word is executed as the operation that is read: an instruction
  takes \<open>machine_step\<close>, or its access outside RAM is answered by the controller's register or the
  embedder; \<open>ecall\<close> calls the embedder, \<open>ebreak\<close> stops and \<open>wfi\<close> waits. All encodings are read back, so
  the words executed beyond the instruction set are the \<open>loose\<close> ones: a register operation with a
  stray \<open>funct7\<close>, \<open>slli\<close> with high immediate bits, \<open>jalr\<close> with any \<open>funct3\<close>, and \<open>ecall\<close>, \<open>ebreak\<close>, \<open>mret\<close>
  and \<open>wfi\<close> with registers.
\<close>

theorem every_word_decoded:
  assumes "wf_rv32 s" "r s ! 0 = 0" "4 \<le> unat (mem_size s)"
  shows "(case read_word x of
        None \<Rightarrow> rv32_execute p x (s, w) = Inr (stop RV32_INVALID_INSTRUCTION s, w)
      | Some op \<Rightarrow> performs p s w op (rv32_execute p x (s, w)))
    \<and> read_word (operation_word op) = Some op
    \<and> (loose x \<longleftrightarrow> (\<exists>op. read_word x = Some op \<and> operation_word op \<noteq> x))"
  by (intro conjI execute_word [OF assms] read_encoded loose_iff)

text \<open>The witness: \<open>fence\<close> is refused, and \<open>jalr\<close> with \<open>funct3\<close> 1 jumps.\<close>

theorem every_word_decoded_witness:
  "rv32_execute emulator_platform 0x0ff0000f (boot [0, 0, 0, 0], silent)
     = Inr (stop RV32_INVALID_INSTRUCTION (boot [0, 0, 0, 0]), silent)
   \<and> loose 0x00801067
   \<and> (\<exists>t. rv32_execute emulator_platform 0x00801067 (boot [0, 0, 0, 0], silent) = Inr (t, silent) \<and> pc t = 8)"
proof -
  let ?s = "boot [0, 0, 0, 0]"
  have s: "wf_rv32 ?s" "r ?s ! 0 = 0" "4 \<le> unat (mem_size ?s)"
    by (rule boot_wf, simp) (simp_all add: boot_def)
  have read: "read_word 0x0ff0000f = None" "read_word 0x00801067 = Some (Do (Jalr 0 0 8))" "loose 0x00801067"
    by code_simp+
  note at = every_word_decoded [OF s, where p = emulator_platform and w = silent]
  from at [of "0x00801067"] read(2) obtain t
    where t: "rv32_execute emulator_platform 0x00801067 (?s, silent) = Inr (t, silent)"
      "abs_hart t = goto ((abs_gpr ?s 0 + 8) AND NOT 1) (set_gpr 0 (pc ?s + 4) (abs_hart ?s))"
    by (auto simp: performs_def machine_step_def)
  have "pc t = 8" using arg_cong [where f = ipc, OF t(2)] by (simp add: goto_def abs_gpr_def)
  with t(1) read(1,3) at [of "0x0ff0000f"] show ?thesis by simp
qed

text \<open>
  C3. Memory safety and termination: on a well-formed machine with at least four bytes of RAM,
  with any embedder that keeps its contract, any number of cycles returns without leaving the
  allocated memory, and leaves a well-formed machine with the same RAM size, whatever the RAM,
  the registers and the CSRs hold.
\<close>

theorem cycles_memory_safe:
  assumes "platform_contract p" "wf_rv32 s" "4 \<le> unat (mem_size s)"
  shows "\<exists>s' w'. rv32_run p n (s, w) = Inr (s', w') \<and> wf_rv32 s' \<and> mem_size s' = mem_size s"
proof -
  have "run_ok (rv32_run p n (s, w)) (\<lambda>v'. same_shape s (fst v'))"
    using platform_contract.run_ok_cycles [OF assms(1), of "(s, w)" n] assms(2,3) by simp
  then obtain v' where "rv32_run p n (s, w) = Inr v'" and sh: "same_shape s (fst v')"
    by (rule run_okE)
  with same_shape_keeps [OF sh assms(2)] show ?thesis by (cases v') auto
qed

theorem cycles_memory_safe_witness:
  "\<exists>s' w'. rv32_run emulator_platform 7 (boot [1, 2, 3, 4, 5], silent) = Inr (s', w')
     \<and> wf_rv32 s' \<and> mem_size s' = mem_size (boot [1, 2, 3, 4, 5])"
  by (rule cycles_memory_safe [OF emulator.platform_contract_axioms boot_wf])
    (simp_all add: boot_def)

lemma load32_in_ram:
  assumes "wf_rv32 s" "unat a + 4 \<le> unat (mem_size s)"
  shows "rv32_load32 p (s, w) a = Inr (RV32_OK (the (mem_get 4 (mem s) (unat a))), (s, w))"
  using assms wf_rv32_mem [OF assms(1)]
  by (simp add: rv32_load32_def in_ram_iff ram_read_def mem_get_def)

lemma mem_get_byte: "a < length ms \<Longrightarrow> mem_get 1 ms a = Some (ms ! a)"
proof -
  assume a: "a < length ms"
  then have "take 1 (drop a ms) = [ms ! a]"
    by (simp add: Cons_nth_drop_Suc [symmetric])
  with a show ?thesis unfolding mem_get_def by simp
qed

lemma load8_in_ram:
  assumes "wf_rv32 s" "unat a < unat (mem_size s)"
  shows "rv32_load8 p (s, w) a = Inr (RV32_OK (mem s ! unat a), (s, w))"
proof -
  have "unat a < length (mem s)" using assms wf_rv32_mem [OF assms(1)] by simp
  with assms(2) show ?thesis
    by (simp add: rv32_load8_def in_ram_iff ram_read_def mem_get_byte [unfolded One_nat_def])
qed

lemma store32_in_ram:
  assumes "wf_rv32 s" "unat a + 4 \<le> unat (mem_size s)"
  obtains ms where "mem_put 4 (mem s) (unat a) x = Some ms" "same_shape s (s\<lparr>mem := ms\<rparr>)"
    and "rv32_store32 p (s, w) a x = Inr (RV32_OK (), (s\<lparr>mem := ms\<rparr>, w))"
proof -
  have "unat a + 4 \<le> length (mem (fst (s, w)))" using assms wf_rv32_mem [OF assms(1)] by simp
  from cell32.put_total [OF this, of x] obtain ms
    where put: "mem_put 4 (mem s) (unat a) x = Some ms" and len: "length ms = length (mem s)" by auto
  have "rv32_store32 p (s, w) a x = Inr (RV32_OK (), (s\<lparr>mem := ms\<rparr>, w))"
    using assms(2) put by (simp add: rv32_store32_def in_ram_iff ram_write_def)
  with that [OF put] len show thesis by (simp add: same_shape_def)
qed

lemma unat_plus_small:
  assumes "unat (a :: u32) + i < 2 ^ 32"
  shows "unat (a + word_of_nat i) = unat a + i"
proof -
  have "a + word_of_nat i = word_of_nat (unat a + i)" by simp
  then show ?thesis using assms
    by (simp only: unsigned_of_nat of_nat_id) (rule take_bit_nat_eq_self, simp)
qed

lemma nth_le_bytes: "i < n \<Longrightarrow> le_bytes n x ! i = ucast (drop_bit (8 * i) x)"
proof (induction n arbitrary: i x)
  case (Suc n)
  then show ?case by (cases i) (simp_all add: drop_bit_drop_bit add.commute)
qed simp

text \<open>
  C31. A word stored in RAM is what a load of its address returns, its four bytes are read from
  the four addresses in little-endian order, and a word elsewhere in RAM is read unchanged; no
  embedder is called. The address need not be aligned.
\<close>

theorem store_then_load:
  assumes wf: "wf_rv32 s" and a: "unat a + 4 \<le> unat (mem_size s)"
  shows "\<exists>s'. rv32_store32 p (s, w) a x = Inr (RV32_OK (), (s', w))
    \<and> rv32_load32 p (s', w) a = Inr (RV32_OK x, (s', w))
    \<and> (\<forall>i < 4. rv32_load8 p (s', w) (a + word_of_nat i)
          = Inr (RV32_OK (ucast (drop_bit (8 * i) x)), (s', w)))
    \<and> (\<forall>b. unat b + 4 \<le> unat (mem_size s) \<and> (unat b + 4 \<le> unat a \<or> unat a + 4 \<le> unat b)
          \<longrightarrow> (\<exists>y. rv32_load32 p (s, w) b = Inr (RV32_OK y, (s, w))
                 \<and> rv32_load32 p (s', w) b = Inr (RV32_OK y, (s', w))))"
proof -
  obtain ms where put: "mem_put 4 (mem s) (unat a) x = Some ms" and sh: "same_shape s (s\<lparr>mem := ms\<rparr>)"
    and st: "rv32_store32 p (s, w) a x = Inr (RV32_OK (), (s\<lparr>mem := ms\<rparr>, w))"
    by (rule store32_in_ram [OF wf a])
  let ?s = "s\<lparr>mem := ms\<rparr>"
  have wf': "wf_rv32 ?s" using same_shape_keeps(1) [OF sh wf] .
  have same: "rv32_load32 p (?s, w) a = Inr (RV32_OK x, (?s, w))"
    using load32_in_ram [OF wf', of a p w] a cell32.get_put [OF put] by simp
  have bytes: "rv32_load8 p (?s, w) (a + word_of_nat i)
      = Inr (RV32_OK (ucast (drop_bit (8 * i) x)), (?s, w))" if "i < 4" for i
  proof -
    have u: "unat (a + word_of_nat i) = unat a + i"
      by (rule unat_plus_small) (use that a unat_u32_less [of "mem_size s"] in simp)
    with load8_in_ram [OF wf', of "a + word_of_nat i" p w] that a
    show ?thesis by (simp add: mem_put_nth_inside [OF put that] nth_le_bytes)
  qed
  have other: "\<exists>y. rv32_load32 p (s, w) b = Inr (RV32_OK y, (s, w))
      \<and> rv32_load32 p (?s, w) b = Inr (RV32_OK y, (?s, w))"
    if b: "unat b + 4 \<le> unat (mem_size s)" "unat b + 4 \<le> unat a \<or> unat a + 4 \<le> unat b" for b
    using load32_in_ram [OF wf b(1), of p w] load32_in_ram [OF wf', of b p w] b(1)
      cell32.get_put_disjoint [OF put b(2)] by simp
  from st same bytes other show ?thesis by blast
qed

theorem store_then_load_witness:
  "\<exists>s'. rv32_store32 emulator_platform (boot (replicate 8 0), silent) 2 0xdeadbeef
        = Inr (RV32_OK (), (s', silent))
     \<and> rv32_load32 emulator_platform (s', silent) 2 = Inr (RV32_OK 0xdeadbeef, (s', silent))"
proof -
  have "unat (2 :: u32) + 4 \<le> unat (mem_size (boot (replicate 8 0)))" by (simp add: boot_def)
  from store_then_load [OF boot_wf this, of emulator_platform silent "0xdeadbeef"] show ?thesis
    by auto
qed

text \<open>
  The guard of the memory accesses needs RAM at least as large as the access: with fewer than
  four bytes of RAM, a word access at any address, also beyond the allocation, takes the RAM
  branch and leaves the allocated memory.
\<close>

lemma tiny_ram_out_of_bounds:
  assumes "unat (mem_size s) < 4" "length (mem s) < unat a + 4"
  shows "rv32_load32 p (s, w) a = Inl Out_Of_Bounds \<and> rv32_store32 p (s, w) a x = Inl Out_Of_Bounds"
  using assms in_ram_wraps [of s 4 a]
  by (simp add: rv32_load32_def rv32_store32_def ram_read_def ram_write_def mem_get_def mem_put_def)

lemma tiny_ram_out_of_bounds_witness:
  "rv32_load32 emulator_platform (boot [1, 2, 3], silent) 4 = Inl Out_Of_Bounds
   \<and> rv32_store32 emulator_platform (boot [1, 2, 3], silent) 4 7 = Inl Out_Of_Bounds"
  by (rule tiny_ram_out_of_bounds) (simp_all add: boot_def)


section \<open>Arithmetic and immediates\<close>

text \<open>
  C5. The arithmetic of opcode \<open>0x33\<close>: for every operation of RV32IM, under the function codes of
  its encoding, the code's casts, masks, shifts and special cases compute the integer definition
  of the operation, on all operands.
\<close>

theorem alu_computes_isa:
  "(if alu_funct7 f = 1 then mul_ext (ucast (alu_funct3 f)) a b
    else op_alu (ucast (alu_funct3 f)) (ucast (alu_funct7 f)) a b) = Some (isa_alu f a b)"
  by (cases f) (simp_all add: mul_ext_isa op_alu_isa del: isa_alu.simps)

text \<open>
  The immediates of the I, S, B and U formats read back, sign-extended, what the encoder
  placed in the instruction: a branch offset is twice the signed field, and the upper immediate
  is the field shifted by twelve.
\<close>

lemma immediates_read_back:
  "SEXT_IMM_I (i_type opc rd f3 rs1 imm) = word_of_int (sint imm)
   \<and> SEXT_IMM_S (s_type opc f3 rs1 rs2 imm) = word_of_int (sint imm)
   \<and> SEXT_IMM_B (b_type opc f3 rs1 rs2 imm) = word_of_int (2 * sint imm)
   \<and> push_bit 12 (SEXT_IMM_U (u_type opc rd imm20)) = word_of_int (uint imm20 * 2 ^ 12)"
  unfolding i_type_SEXT s_type_SEXT b_type_SEXT u_type_SEXT
  by (simp add: push_bit_eq_mult)

lemma jump_field_range:
  "(bit imm 18 \<longleftrightarrow> bit imm 19) \<longleftrightarrow> - (2 ^ 18) \<le> sint imm \<and> sint imm < 2 ^ 18" for imm :: "20 word"
proof -
  have "(bit imm 18 \<longleftrightarrow> bit imm 19) \<longleftrightarrow> signed_take_bit 18 (sint imm) = sint imm"
  proof
    assume *: "bit imm 18 \<longleftrightarrow> bit imm 19"
    show "signed_take_bit 18 (sint imm) = sint imm"
    proof (rule bit_eqI)
      fix k :: nat
      have "k < 18 \<or> k = 18 \<or> k = 19 \<or> 20 \<le> k" by arith
      then show "bit (signed_take_bit 18 (sint imm)) k = bit (sint imm) k"
        using * by (auto simp: bit_signed_take_bit_iff bit_sint_iff min_def dest: bit_imp_le_length)
    qed
  next
    assume *: "signed_take_bit 18 (sint imm) = sint imm"
    have "bit (signed_take_bit 18 (sint imm)) 19 \<longleftrightarrow> bit (sint imm) 18"
      by (simp add: bit_signed_take_bit_iff)
    then show "bit imm 18 \<longleftrightarrow> bit imm 19" by (simp only: *) (simp add: bit_sint_iff)
  qed
  then show ?thesis by (simp only: signed_take_bit_int_eq_self_iff)
qed

lemma jal_offset_exact_iff:
  "SEXT_IMM_J (j_type opc rd imm) = word_of_int (2 * sint imm)
   \<longleftrightarrow> - (2 ^ 18) \<le> sint imm \<and> sint imm < 2 ^ 18"
proof -
  have "(word_of_int (2 * sint imm) :: u32) = push_bit 1 (scast imm)"
    by (simp add: push_bit_eq_mult)
  then show ?thesis by (simp only: j_type_SEXT_iff jump_field_range)
qed

text \<open>
  C7. Where the code deviates from the instruction set, exactly. At a well-formed machine whose \<open>x0\<close>
  holds zero, executing the encoding of any instruction that does not leave RAM takes the step
  \<open>machine_step\<close>; and it takes the step of the instruction set unless it is one of three: an \<open>sltiu\<close>
  that writes a register and whose comparison comes out differently without the extension of the
  sign, a \<open>jal\<close> whose offset, which the code extends from bit 19, is beyond 512 KiB, or an \<open>mret\<close> with
  \<open>mstatus.MPIE\<close> clear, since the code does not set that bit.
\<close>

theorem deviations_exact:
  assumes "wf_rv32 s" "r s ! 0 = 0" "isa_step i (abs_hart s) = Some h"
  shows "simulates p s w i (the (machine_step i (abs_hart s)))
    \<and> (simulates p s w i h \<longleftrightarrow>
        (case i of
           OpImm Sltiu rd rs1 imm \<Rightarrow>
             rd = 0 \<or> (uint (abs_gpr s rs1) < uint imm \<longleftrightarrow> uint (abs_gpr s rs1) < uint (scast imm :: u32))
         | Jal rd off \<Rightarrow> - (2 ^ 18) \<le> sint off \<and> sint off < 2 ^ 18
         | Mret \<Rightarrow> bit (mstatus s) 7
         | _ \<Rightarrow> True))"
proof
  obtain k where k: "machine_step i (abs_hart s) = Some k"
    using assms(3) machine_step_None [of i "abs_hart s"] by (cases "machine_step i (abs_hart s)") auto
  then show "simulates p s w i (the (machine_step i (abs_hart s)))"
    using simulates_machine [OF assms(1,2) k] by simp
  show "simulates p s w i h \<longleftrightarrow>
        (case i of
           OpImm Sltiu rd rs1 imm \<Rightarrow>
             rd = 0 \<or> (uint (abs_gpr s rs1) < uint imm \<longleftrightarrow> uint (abs_gpr s rs1) < uint (scast imm :: u32))
         | Jal rd off \<Rightarrow> - (2 ^ 18) \<le> sint off \<and> sint off < 2 ^ 18
         | Mret \<Rightarrow> bit (mstatus s) 7
         | _ \<Rightarrow> True)"
    unfolding simulates_isa_iff [OF assms]
    by (cases i) (auto simp: conformant_def jal_exact_def jump_field_range rv32_read_csr_def split: imm_op.split)
qed

text \<open>The witness: \<open>sltiu\<close> with \<open>-1\<close>, which compares 0 with 4095, agrees; \<open>mret\<close> on a fresh machine does not.\<close>

theorem deviations_exact_witness:
  "simulates emulator_platform (boot []) silent (OpImm Sltiu 1 0 (- 1))
     (the (isa_step (OpImm Sltiu 1 0 (- 1)) (abs_hart (boot []))))
   \<and> \<not> simulates emulator_platform (boot []) silent Mret (the (isa_step Mret (abs_hart (boot []))))"
proof -
  have wf: "wf_rv32 (boot [])" "r (boot []) ! 0 = 0" by (rule boot_wf, simp) (simp add: boot_def)
  have fresh: "abs_gpr (boot []) 0 = 0" "mstatus (boot []) = 0" by (simp_all add: abs_gpr_def boot_def)
  obtain h k where h: "isa_step (OpImm Sltiu 1 0 (- 1)) (abs_hart (boot [])) = Some h"
    and k: "isa_step Mret (abs_hart (boot [])) = Some k" by simp
  have "uint (0 :: u32) < uint (- 1 :: 12 word)" "uint (0 :: u32) < uint (scast (- 1 :: 12 word) :: u32)" by code_simp+
  then have "simulates emulator_platform (boot []) silent (OpImm Sltiu 1 0 (- 1)) h"
    using deviations_exact [OF wf h, of emulator_platform silent] unfolding instr.case imm_op.case fresh by blast
  moreover have "\<not> simulates emulator_platform (boot []) silent Mret k"
    using deviations_exact [OF wf k, of emulator_platform silent] unfolding instr.case fresh by simp
  ultimately show ?thesis unfolding h k option.sel by blast
qed

text \<open>
  \<open>sltiu\<close> compares with the zero-extended immediate, so it computes the operation of the
  instruction set on every operand exactly when the immediate is not negative.
\<close>

lemma sltiu_exact_iff:
  "(\<forall>a. op_imm (encode (OpImm Sltiu rd rs1 imm)) a = Some (isa_alu Sltu a (scast imm)))
   \<longleftrightarrow> 0 \<le> sint imm"
proof -
  have neg: "0 \<le> sint imm \<longleftrightarrow> \<not> bit imm 11"
    using bit_last_iff [of imm] by (simp add: not_less [symmetric])
  have code: "op_imm (encode (OpImm Sltiu rd rs1 imm)) a = Some (of_bool (a < ucast imm))" for a
    by (simp add: op_imm_def decode Let_def)
  have isa: "isa_alu Sltu a (scast imm) = of_bool (a < scast imm)" for a
    by (simp add: word_less_def)
  have less: "(ucast imm :: u32) < scast imm" if "sint imm < 0"
  proof -
    have "(sint imm + 2 ^ 32) mod 2 ^ 32 = sint imm + 2 ^ 32"
      using that sint_ge [of imm] by (intro mod_pos_pos_trivial) simp_all
    then have "sint imm mod 2 ^ 32 = sint imm + 2 ^ 32" by (simp only: mod_add_self2)
    moreover have "uint (word_of_int (sint imm) :: u32) = sint imm mod 2 ^ 32"
      by (simp only: uint_word_of_int) simp
    moreover have "(word_of_int (sint imm) :: u32) = scast imm" by simp
    ultimately have "uint (scast imm :: u32) = sint imm + 2 ^ 32" by simp
    moreover have "uint (ucast imm :: u32) = uint imm"
      using unsigned_less [of imm, where ?'a = int] by (simp add: unsigned_ucast_eq take_bit_int_eq_self)
    ultimately show ?thesis
      using unsigned_less [of imm, where ?'a = int] sint_ge [of imm] by (simp add: word_less_def)
  qed
  show ?thesis
  proof
    assume all: "\<forall>a. op_imm (encode (OpImm Sltiu rd rs1 imm)) a = Some (isa_alu Sltu a (scast imm))"
    have "\<not> sint imm < 0"
    proof
      assume "sint imm < 0"
      then have "(ucast imm :: u32) < scast imm" by (rule less)
      moreover from all have "(of_bool (ucast imm < (ucast imm :: u32)) :: u32)
          = of_bool ((ucast imm :: u32) < scast imm)"
        unfolding code isa by blast
      ultimately show False by simp
    qed
    then show "0 \<le> sint imm" by simp
  next
    assume "0 \<le> sint imm"
    then have "(scast imm :: u32) = ucast imm" using neg by (simp add: ucast_scast_12)
    then show "\<forall>a. op_imm (encode (OpImm Sltiu rd rs1 imm)) a = Some (isa_alu Sltu a (scast imm))"
      unfolding code isa by simp
  qed
qed

end
