(* ===== verification/Rsp_Packet.thy ===== *)
theory Rsp_Packet
  imports Prelude
begin

text \<open>
  Packets of the GDB remote serial protocol, \<open>src/gdb_stub/rsp.h\<close>: hexadecimal digits and numbers,
  and the buffer in which a reply is built (\<open>rsp_packet_*\<close>). The world is the list of bytes
  handed to \<open>RSP_SEND\<close>; \<open>RSP_FATAL\<close> ends the program and is the fault \<open>Fatal\<close>.
\<close>

section \<open>Hexadecimal digits\<close>

text \<open>Characters are bytes: a string literal of the source is the list of its character codes.\<close>

definition bytes :: "string \<Rightarrow> u8 list" where
  "bytes s = map of_char s"

definition rsp_is_hex_digit :: "u8 \<Rightarrow> bool" where
  "rsp_is_hex_digit h \<longleftrightarrow>
     0x30 \<le> h \<and> h \<le> 0x39 \<or> 0x61 \<le> h \<and> h \<le> 0x66 \<or> 0x41 \<le> h \<and> h \<le> 0x46"

definition rsp_from_hex_digit :: "u8 \<Rightarrow> u8 run" where
  "rsp_from_hex_digit h =
     (if 0x30 \<le> h \<and> h \<le> 0x39 then Inr (h - 0x30)
      else if 0x61 \<le> h \<and> h \<le> 0x66 then Inr (h - 0x61 + 10)
      else if 0x41 \<le> h \<and> h \<le> 0x46 then Inr (h - 0x41 + 10)
      else Inl (Fatal ''invalid hex digit''))"

definition hex_digits :: "u8 list" where
  "hex_digits = bytes ''0123456789abcdef''"

definition rsp_to_hex_digit :: "u8 \<Rightarrow> u8 run" where
  "rsp_to_hex_digit i =
     (if i > 0xf then Inl (Fatal ''can't convert to hex digit'') else Inr (hex_digits ! unat i))"

text \<open>The functions that read a buffer receive what lies between the pointer and its end.\<close>

definition rsp_hex_to_u8 :: "u8 list \<Rightarrow> u8 run" where
  "rsp_hex_to_u8 h =
     (if length h < 2 then Inl Out_Of_Bounds
      else bind_run (rsp_from_hex_digit (h ! 0)) (\<lambda>hi.
           bind_run (rsp_from_hex_digit (h ! 1)) (\<lambda>lo. Inr (push_bit 4 hi OR lo))))"

function hex_to_u32_loop :: "nat \<Rightarrow> u32 \<Rightarrow> u8 list \<Rightarrow> u32 run" where
  "hex_to_u32_loop i ret h =
     (if i < 4
      then bind_run (rsp_hex_to_u8 h) (\<lambda>b.
             hex_to_u32_loop (Suc i) (ret OR push_bit (i * 4) (ucast b)) (drop 2 h))
      else Inr ret)"
  by pat_completeness auto
termination
  by (relation "measure (\<lambda>(i, ret, h). 4 - i)") auto

declare hex_to_u32_loop.simps [simp del]

definition rsp_hex_to_u32 :: "u8 list \<Rightarrow> u32 run" where
  "rsp_hex_to_u32 h = hex_to_u32_loop 0 0 h"

section \<open>Building a packet\<close>

definition RSP_BUFFER_SIZE :: nat where "RSP_BUFFER_SIZE = 1024"

record rsp_packet =
  buffer :: "u8 list"
  ptr :: nat
  checksum :: u8

definition rsp_packet_begin :: "rsp_packet \<Rightarrow> rsp_packet" where
  "rsp_packet_begin p = p\<lparr>buffer := (buffer p)[0 := 0x24], ptr := 1, checksum := 0\<rparr>"

definition rsp_packet_append_byte_raw :: "rsp_packet \<Rightarrow> u8 \<Rightarrow> rsp_packet run" where
  "rsp_packet_append_byte_raw p b =
     (if ptr p < RSP_BUFFER_SIZE
      then Inr (p\<lparr>buffer := (buffer p)[ptr p := b], ptr := ptr p + 1, checksum := checksum p + b\<rparr>)
      else Inl (Fatal ''output buffer too small''))"

text \<open>\<open>data\<close> is a C string without its terminator.\<close>

fun rsp_packet_append :: "rsp_packet \<Rightarrow> u8 list \<Rightarrow> rsp_packet run" where
  "rsp_packet_append p [] = Inr p"
| "rsp_packet_append p (c # data) =
     (if ptr p < RSP_BUFFER_SIZE
      then bind_run
             (if c = 0x23 \<or> c = 0x24 \<or> c = 0x7d
              then bind_run (rsp_packet_append_byte_raw p 0x7d)
                     (\<lambda>p. rsp_packet_append_byte_raw p (c XOR 0x20))
              else rsp_packet_append_byte_raw p c)
             (\<lambda>p. rsp_packet_append p data)
      else Inl (Fatal ''output buffer too small''))"

definition rsp_packet_append_u8 :: "rsp_packet \<Rightarrow> u8 \<Rightarrow> rsp_packet run" where
  "rsp_packet_append_u8 p b =
     bind_run (bind_run (rsp_to_hex_digit (drop_bit 4 b AND 0xf)) (rsp_packet_append_byte_raw p))
       (\<lambda>p. bind_run (rsp_to_hex_digit (b AND 0xf)) (rsp_packet_append_byte_raw p))"

definition rsp_packet_append_u32 :: "rsp_packet \<Rightarrow> u32 \<Rightarrow> rsp_packet run" where
  "rsp_packet_append_u32 p w =
     bind_run (rsp_packet_append_u8 p (ucast (w AND 0xff))) (\<lambda>p.
     bind_run (rsp_packet_append_u8 p (ucast (drop_bit 8 w AND 0xff))) (\<lambda>p.
     bind_run (rsp_packet_append_u8 p (ucast (drop_bit 16 w AND 0xff))) (\<lambda>p.
     rsp_packet_append_u8 p (ucast (drop_bit 24 w AND 0xff)))))"

definition rsp_packet_end :: "rsp_packet \<Rightarrow> rsp_packet run" where
  "rsp_packet_end p =
     (let saved_checksum = checksum p
      in bind_run (rsp_packet_append_byte_raw p 0x23) (\<lambda>p.
         bind_run (rsp_packet_append_u8 p saved_checksum) (\<lambda>p.
         rsp_packet_append_byte_raw p 0)))"

section \<open>Sending a packet\<close>

datatype rsp_handler_result = RSP_NO_PACKET_SENT | RSP_PACKET_SENT

text \<open>\<open>RSP_SEND\<close> prints a C string: the bytes before the terminator, which must be in the buffer.\<close>

definition c_string :: "u8 list \<Rightarrow> u8 list run" where
  "c_string b = (if 0 \<in> set b then Inr (takeWhile (\<lambda>x. x \<noteq> 0) b) else Inl Out_Of_Bounds)"

definition rsp_packet_send :: "rsp_packet \<Rightarrow> u8 list \<Rightarrow> (rsp_handler_result \<times> u8 list) run" where
  "rsp_packet_send p sent = bind_run (c_string (buffer p)) (\<lambda>out. Inr (RSP_PACKET_SENT, sent @ out))"

text \<open>
  A packet on the stack is not initialised; \<open>rsp_packet_begin\<close> sets what is read. Zeros stand for
  the bytes beyond \<open>ptr\<close>, which are never sent (\<open>frame_sent\<close> below holds for any contents).
\<close>

definition rsp_packet_local :: rsp_packet where
  "rsp_packet_local = \<lparr>buffer = replicate RSP_BUFFER_SIZE 0, ptr = 0, checksum = 0\<rparr>"

definition rsp_packet_quick_send :: "u8 list \<Rightarrow> u8 list \<Rightarrow> (rsp_handler_result \<times> u8 list) run" where
  "rsp_packet_quick_send data sent =
     bind_run (rsp_packet_append (rsp_packet_begin rsp_packet_local) data) (\<lambda>p.
     bind_run (rsp_packet_end p) (\<lambda>p. rsp_packet_send p sent))"

section \<open>Digits\<close>

lemma hex_digits_code:
  "hex_digits = [0x30, 0x31, 0x32, 0x33, 0x34, 0x35, 0x36, 0x37, 0x38, 0x39,
     0x61, 0x62, 0x63, 0x64, 0x65, 0x66]"
  by code_simp

lemma is_hex_digit_iff: "rsp_is_hex_digit h \<longleftrightarrow> (\<exists>d. rsp_from_hex_digit h = Inr d)"
  by (simp add: rsp_is_hex_digit_def rsp_from_hex_digit_def)

lemma nibble_in: "(d :: u8) \<le> 0xf \<Longrightarrow> d \<in> set (map word_of_nat [0..<16])"
proof -
  assume "d \<le> 0xf"
  then have "unat d \<in> set [0..<16]" by (simp add: word_le_nat_alt)
  then have "(word_of_nat (unat d) :: u8) \<in> word_of_nat ` set [0..<16]" by (rule imageI)
  moreover have "(word_of_nat (unat d) :: u8) = d" by simp
  ultimately show ?thesis by simp
qed

text \<open>The digit of a nibble, and the two digits of a byte.\<close>

definition hex1 :: "u8 \<Rightarrow> u8" where "hex1 d = hex_digits ! unat d"

definition hex2 :: "u8 \<Rightarrow> u8 list" where
  "hex2 b = [hex1 (drop_bit 4 b AND 0xf), hex1 (b AND 0xf)]"

lemma nibble_le [simp]: "(b :: u8) AND 0xf \<le> 0xf"
  by (rule word_and_le1)

lemma to_hex_digit_nibble [simp]: "rsp_to_hex_digit (b AND 0xf) = Inr (hex1 (b AND 0xf))"
  using nibble_le [of b] by (simp add: rsp_to_hex_digit_def hex1_def not_less)

lemma hex_digits_table:
  "list_all (\<lambda>d. rsp_from_hex_digit (hex1 d) = Inr d \<and> rsp_is_hex_digit (hex1 d) \<and> hex1 d \<noteq> 0
     \<and> hex1 d \<notin> set [0x23, 0x24, 0x7d, 0x2c, 0x3a]) (map word_of_nat [0..<16])"
  by code_simp

lemma hex1_digit:
  assumes "d \<le> 0xf"
  shows "rsp_from_hex_digit (hex1 d) = Inr d" "rsp_is_hex_digit (hex1 d)"
    and "hex1 d \<noteq> 0" "hex1 d \<notin> {0x23, 0x24, 0x7d, 0x2c, 0x3a}"
  using hex_digits_table nibble_in [OF assms] unfolding list_all_iff by auto

lemma nibbles_join: "push_bit 4 (drop_bit 4 b AND 0xf) OR (b AND 0xf) = (b :: u8)"
proof -
  have m: "(0xf :: u8) = mask 4" by (simp add: mask_eq_exp_minus_1)
  show ?thesis unfolding m by (rule bit_word_eqI) (auto simp: bit_simps)
qed

lemma length_hex2 [simp]: "length (hex2 b) = 2"
  by (simp add: hex2_def)

lemma set_hex2: "c \<in> set (hex2 b) \<Longrightarrow> rsp_is_hex_digit c \<and> c \<noteq> 0 \<and> c \<notin> {0x23, 0x24, 0x7d, 0x2c, 0x3a}"
  using hex1_digit [OF nibble_le] by (auto simp: hex2_def)

lemma hex_to_u8_hex2 [simp]: "rsp_hex_to_u8 (hex2 b @ rest) = Inr b"
  by (simp add: rsp_hex_to_u8_def hex2_def hex1_digit nibbles_join [simplified])

text \<open>What the 32-bit reader computes: the shift is four bits a byte.\<close>

lemma hex_to_u32_bytes:
  "rsp_hex_to_u32 (hex2 b0 @ hex2 b1 @ hex2 b2 @ hex2 b3 @ rest) =
     Inr (ucast b0 OR push_bit 4 (ucast b1) OR push_bit 8 (ucast b2) OR push_bit 12 (ucast b3))"
  by (simp add: rsp_hex_to_u32_def hex_to_u32_loop.simps [of "Suc _"] hex_to_u32_loop.simps [of 0]
      or.assoc eval_nat_numeral)

section \<open>Buffers as byte sinks\<close>

text \<open>
  The contract of a bounded output buffer: a byte is appended while there is room and refused
  afterwards. What is proved of sequences of writes uses nothing else.
\<close>

locale byte_sink =
  fixes holds :: "'p \<Rightarrow> u8 list \<Rightarrow> bool"
    and put :: "'p \<Rightarrow> u8 \<Rightarrow> 'p run"
    and capacity :: nat
    and full :: fault
  assumes put_room: "holds p xs \<Longrightarrow> length xs < capacity \<Longrightarrow> \<exists>p'. put p b = Inr p' \<and> holds p' (xs @ [b])"
    and put_full: "holds p xs \<Longrightarrow> capacity \<le> length xs \<Longrightarrow> put p b = Inl full"
    and bounded: "holds p xs \<Longrightarrow> length xs \<le> capacity"
begin

text \<open>A writer appends \<open>ys\<close> if they fit, and fails with \<open>full\<close> if they do not.\<close>

definition writes :: "('p \<Rightarrow> 'p run) \<Rightarrow> u8 list \<Rightarrow> bool" where
  "writes f ys \<longleftrightarrow> (\<forall>p xs. holds p xs \<longrightarrow>
     (if length xs + length ys \<le> capacity then \<exists>p'. f p = Inr p' \<and> holds p' (xs @ ys) else f p = Inl full))"

lemma writesD:
  assumes "writes f ys" "holds p xs"
  shows "length xs + length ys \<le> capacity \<Longrightarrow> \<exists>p'. f p = Inr p' \<and> holds p' (xs @ ys)"
    and "capacity < length xs + length ys \<Longrightarrow> f p = Inl full"
  using assms by (auto simp: writes_def)

lemma writes_nil: "writes Inr []"
  by (auto simp: writes_def bounded)

lemma writes_put: "writes (\<lambda>p. put p b) [b]"
  unfolding writes_def using put_room put_full by (auto simp: Suc_le_eq not_less)

lemma writes_bind:
  assumes "writes f ys" "writes g zs"
  shows "writes (\<lambda>p. bind_run (f p) g) (ys @ zs)"
  unfolding writes_def
proof (intro allI impI)
  fix p xs assume h: "holds p xs"
  show "if length xs + length (ys @ zs) \<le> capacity
    then \<exists>p'. bind_run (f p) g = Inr p' \<and> holds p' (xs @ ys @ zs) else bind_run (f p) g = Inl full"
  proof (cases "length xs + length ys \<le> capacity")
    case True
    with writesD(1) [OF assms(1) h] obtain p1 where p1: "f p = Inr p1" "holds p1 (xs @ ys)" by blast
    with writesD [OF assms(2) p1(2)] show ?thesis by (auto simp: add.assoc)
  next
    case False
    then show ?thesis using writesD(2) [OF assms(1) h] by simp
  qed
qed

lemma writes_guard:
  assumes "writes f ys" "ys \<noteq> []" "\<And>p xs. holds p xs \<Longrightarrow> g p \<longleftrightarrow> length xs < capacity"
  shows "writes (\<lambda>p. if g p then f p else Inl full) ys"
  unfolding writes_def
proof (intro allI impI)
  fix p xs assume h: "holds p xs"
  have "length xs + length ys \<le> capacity \<Longrightarrow> g p" "\<not> g p \<Longrightarrow> capacity < length xs + length ys"
    using assms(2) by (cases ys; simp add: assms(3) [OF h])+
  with writesD [OF assms(1) h] show "if length xs + length ys \<le> capacity
    then \<exists>p'. (if g p then f p else Inl full) = Inr p' \<and> holds p' (xs @ ys)
    else (if g p then f p else Inl full) = Inl full"
    by simp
qed

end

definition packet_holds :: "rsp_packet \<Rightarrow> u8 list \<Rightarrow> bool" where
  "packet_holds p xs \<longleftrightarrow> length (buffer p) = RSP_BUFFER_SIZE \<and> ptr p = Suc (length xs)
     \<and> ptr p \<le> RSP_BUFFER_SIZE \<and> take (ptr p) (buffer p) = 0x24 # xs \<and> checksum p = sum_list xs"

lemma take_Suc_update: "n < length ys \<Longrightarrow> take (Suc n) (ys[n := b]) = take n ys @ [b]"
  by (simp add: take_Suc_conv_app_nth)

lemma packet_put_room:
  assumes "packet_holds p xs" "length xs < 1023"
  shows "\<exists>p'. rsp_packet_append_byte_raw p b = Inr p' \<and> packet_holds p' (xs @ [b])"
  using assms
  by (auto simp: packet_holds_def rsp_packet_append_byte_raw_def RSP_BUFFER_SIZE_def take_Suc_update
      simp del: take_Suc_Cons)

lemma packet_room: "packet_holds p xs \<Longrightarrow> ptr p < RSP_BUFFER_SIZE \<longleftrightarrow> length xs < 1023"
  by (simp add: packet_holds_def RSP_BUFFER_SIZE_def)

interpretation packet: byte_sink packet_holds rsp_packet_append_byte_raw 1023
  "Fatal ''output buffer too small''"
proof
  fix p xs b assume h: "packet_holds p xs"
  show "\<exists>p'. rsp_packet_append_byte_raw p b = Inr p' \<and> packet_holds p' (xs @ [b])" if "length xs < 1023"
    using h that by (rule packet_put_room)
  show "rsp_packet_append_byte_raw p b = Inl (Fatal ''output buffer too small'')" if "1023 \<le> length xs"
    using h that by (simp add: packet_holds_def rsp_packet_append_byte_raw_def RSP_BUFFER_SIZE_def)
  show "length xs \<le> 1023" using h by (simp add: packet_holds_def RSP_BUFFER_SIZE_def)
qed

section \<open>What the writers append\<close>

definition escape_byte :: "u8 \<Rightarrow> u8 list" where
  "escape_byte c = (if c = 0x23 \<or> c = 0x24 \<or> c = 0x7d then [0x7d, c XOR 0x20] else [c])"

definition escape :: "u8 list \<Rightarrow> u8 list" where
  "escape data = concat (map escape_byte data)"

lemma writes_escape_byte:
  "packet.writes (\<lambda>p. if c = 0x23 \<or> c = 0x24 \<or> c = 0x7d
      then bind_run (rsp_packet_append_byte_raw p 0x7d) (\<lambda>p. rsp_packet_append_byte_raw p (c XOR 0x20))
      else rsp_packet_append_byte_raw p c) (escape_byte c)"
  using packet.writes_bind [OF packet.writes_put packet.writes_put, of "0x7d" "c XOR 0x20"]
    packet.writes_put [of c]
  by (simp add: escape_byte_def)

lemma writes_append: "packet.writes (\<lambda>p. rsp_packet_append p data) (escape data)"
proof (induction data)
  case Nil
  show ?case using packet.writes_nil by (simp add: escape_def)
next
  case (Cons c data)
  have ne: "escape_byte c @ escape data \<noteq> []" by (simp add: escape_byte_def)
  have "escape (c # data) = escape_byte c @ escape data" by (simp add: escape_def)
  then show ?case
    unfolding rsp_packet_append.simps
    using packet.writes_guard [OF packet.writes_bind [OF writes_escape_byte [of c] Cons.IH] ne packet_room]
    by (simp only:)
qed

lemma writes_u8: "packet.writes (\<lambda>p. rsp_packet_append_u8 p b) (hex2 b)"
  using packet.writes_bind [OF packet.writes_put packet.writes_put,
      of "hex1 (drop_bit 4 b AND 0xf)" "hex1 (b AND 0xf)"]
  by (simp add: rsp_packet_append_u8_def hex2_def)

definition hex_le :: "u32 \<Rightarrow> u8 list" where
  "hex_le w = concat (map hex2 (le_bytes 4 w))"

lemma writes_u32: "packet.writes (\<lambda>p. rsp_packet_append_u32 p w) (hex_le w)"
proof -
  have byte: "(ucast (x AND 0xff) :: u8) = ucast x" for x :: u32
  proof -
    have m: "(0xff :: u32) = mask 8" by (simp add: mask_eq_exp_minus_1)
    show ?thesis unfolding m by (rule bit_word_eqI) (simp add: bit_simps)
  qed
  have le: "hex_le w = hex2 (ucast w) @ hex2 (ucast (drop_bit 8 w)) @ hex2 (ucast (drop_bit 16 w))
      @ hex2 (ucast (drop_bit 24 w))"
    by (simp add: hex_le_def eval_nat_numeral drop_bit_drop_bit)
  show ?thesis
    unfolding rsp_packet_append_u32_def byte le
    by (rule packet.writes_bind [OF writes_u8 packet.writes_bind [OF writes_u8
          packet.writes_bind [OF writes_u8 writes_u8]]])
qed

section \<open>Frames\<close>

text \<open>The bytes on the wire: \<open>$\<close>, the body, \<open>#\<close> and the sum of the body as two digits.\<close>

definition rsp_frame :: "u8 list \<Rightarrow> u8 list" where
  "rsp_frame body = 0x24 # body @ 0x23 # hex2 (sum_list body)"

lemma frame_sent:
  assumes h: "packet_holds p body" and nz: "0 \<notin> set body"
  shows "bind_run (rsp_packet_end p) (\<lambda>p. rsp_packet_send p sent) =
    (if length body \<le> 1019 then Inr (RSP_PACKET_SENT, sent @ rsp_frame body)
     else Inl (Fatal ''output buffer too small''))"
proof -
  let ?tail = "[0x23] @ hex2 (sum_list body) @ [0]"
  let ?finish = "\<lambda>q. bind_run (rsp_packet_append_byte_raw q 0x23) (\<lambda>q.
    bind_run (rsp_packet_append_u8 q (sum_list body)) (\<lambda>q. rsp_packet_append_byte_raw q 0))"
  have w: "packet.writes ?finish ?tail"
    by (rule packet.writes_bind [OF packet.writes_put packet.writes_bind [OF writes_u8 packet.writes_put]])
  have e: "rsp_packet_end p = ?finish p"
    using h by (simp add: rsp_packet_end_def packet_holds_def)
  show ?thesis
  proof (cases "length body \<le> 1019")
    case True
    with packet.writesD(1) [OF w h] obtain p' where p': "?finish p = Inr p'"
        "packet_holds p' (body @ ?tail)" by auto
    let ?n = "ptr p'"
    have b: "buffer p' = (0x24 # body @ ?tail) @ drop ?n (buffer p')"
    proof -
      have "take ?n (buffer p') = 0x24 # body @ ?tail" using p'(2) unfolding packet_holds_def by blast
      then show ?thesis by (metis append_take_drop_id)
    qed
    have "takeWhile (\<lambda>x. x \<noteq> 0) (buffer p') = rsp_frame body"
    proof -
      have "\<forall>x \<in> set (rsp_frame body). x \<noteq> 0"
        using nz set_hex2 by (auto simp: rsp_frame_def)
      then have "takeWhile (\<lambda>x. x \<noteq> 0) (rsp_frame body @ 0 # drop ?n (buffer p')) = rsp_frame body"
        by (subst takeWhile_append2) simp_all
      then show ?thesis by (subst b) (simp add: rsp_frame_def)
    qed
    moreover have "0 \<in> set (buffer p')" by (subst b) simp
    ultimately show ?thesis
      using True by (simp add: e p'(1) rsp_packet_send_def c_string_def)
  next
    case False
    then have "?finish p = Inl (Fatal ''output buffer too small'')"
      using packet.writesD(2) [OF w h] by simp
    then show ?thesis using False by (simp add: e)
  qed
qed

lemma packet_begin_holds:
  "length (buffer p) = RSP_BUFFER_SIZE \<Longrightarrow> packet_holds (rsp_packet_begin p) []"
  by (cases "buffer p") (auto simp: packet_holds_def rsp_packet_begin_def RSP_BUFFER_SIZE_def)

lemma local_holds: "packet_holds (rsp_packet_begin rsp_packet_local) []"
  by (rule packet_begin_holds) (simp add: rsp_packet_local_def)

text \<open>A reply that is built by a writer is the frame of what it writes, if that fits.\<close>

lemma reply_sent:
  assumes w: "packet.writes f body" and nz: "0 \<notin> set body"
  shows "bind_run (f (rsp_packet_begin rsp_packet_local)) (\<lambda>p. bind_run (rsp_packet_end p) (\<lambda>p.
      rsp_packet_send p sent)) =
    (if length body \<le> 1019 then Inr (RSP_PACKET_SENT, sent @ rsp_frame body)
     else Inl (Fatal ''output buffer too small''))"
proof (cases "length body \<le> 1023")
  case True
  with packet.writesD(1) [OF w local_holds] obtain p'
    where "f (rsp_packet_begin rsp_packet_local) = Inr p'" "packet_holds p' body" by auto
  with frame_sent [OF _ nz] show ?thesis by simp
next
  case False
  with packet.writesD(2) [OF w local_holds] show ?thesis by simp
qed

lemma set_escape: "c \<in> set (escape data) \<Longrightarrow> c \<noteq> 0x23 \<and> (0 \<notin> set data \<longrightarrow> c \<noteq> 0)"
  by (auto simp: escape_def escape_byte_def split: if_splits)

lemma quick_send:
  assumes "0 \<notin> set data"
  shows "rsp_packet_quick_send data sent =
    (if length (escape data) \<le> 1019 then Inr (RSP_PACKET_SENT, sent @ rsp_frame (escape data))
     else Inl (Fatal ''output buffer too small''))"
  unfolding rsp_packet_quick_send_def
  by (rule reply_sent [OF writes_append]) (use assms set_escape in blast)

section \<open>A receiver\<close>

text \<open>
  What the other side does with a frame, as the protocol describes it: check the sum, undo the
  escapes. It is a specification, not part of the source.
\<close>

fun unescape :: "u8 list \<Rightarrow> u8 list option" where
  "unescape [] = Some []"
| "unescape [c] = (if c = 0x7d then None else Some [c])"
| "unescape (c # d # cs) =
     (if c = 0x7d then map_option (\<lambda>xs. (d XOR 0x20) # xs) (unescape cs)
      else map_option (\<lambda>xs. c # xs) (unescape (d # cs)))"

definition receive :: "u8 list \<Rightarrow> u8 list option" where
  "receive wire =
     (case wire of
        [] \<Rightarrow> None
      | c # rest \<Rightarrow>
          let body = takeWhile (\<lambda>x. x \<noteq> 0x23) rest; tail = drop (Suc (length body)) rest
          in if c = 0x24 \<and> length tail = 2 \<and> rsp_hex_to_u8 tail = Inr (sum_list body)
             then unescape body else None)"

lemma unescape_plain: "c \<noteq> 0x7d \<Longrightarrow> unescape (c # cs) = map_option (\<lambda>xs. c # xs) (unescape cs)"
  by (cases cs) simp_all

lemma unescape_escape: "unescape (escape data) = Some data"
proof (induction data)
  case Nil
  show ?case by (simp add: escape_def)
next
  case (Cons c data)
  have "unescape (escape_byte c @ escape data) = Some (c # data)"
    using Cons.IH by (auto simp: escape_byte_def unescape_plain xor.assoc [symmetric])
  then show ?case by (simp add: escape_def)
qed

lemma receive_frame: "0x23 \<notin> set body \<Longrightarrow> receive (rsp_frame body) = unescape body"
proof -
  assume "0x23 \<notin> set body"
  then have "takeWhile (\<lambda>x. x \<noteq> 0x23) (body @ 0x23 # hex2 (sum_list body)) = body"
    by (subst takeWhile_append2) auto
  moreover have "rsp_hex_to_u8 (hex2 (sum_list body)) = Inr (sum_list body)"
    using hex_to_u8_hex2 [of _ "[]"] by simp
  ultimately show ?thesis by (simp add: receive_def rsp_frame_def Let_def)
qed

end
