(* ===== verification/Rsp_Commands.thy ===== *)
theory Rsp_Commands
  imports Rsp_Packet Breakpoints
begin

text \<open>
  The commands of the GDB stub, \<open>src/gdb_stub/rsp.h\<close>: one definition per handler
  (\<open>rsp_read_registers\<close> to \<open>rsp_kill\<close>), the dispatch \<open>rsp_handle_packet\<close> and
  \<open>rsp_report_signal\<close>. A session is the machine and the bytes sent so far. A handler reads the
  input buffer through a pointer, of which it gets the bytes up to the end of the buffer, and a
  \<open>size_t\<close>, a 64-bit word.
\<close>

type_synonym session = "u8 list vm"
type_synonym handled = "(rsp_handler_result \<times> session) run"

text \<open>A reply that leaves the machine alone.\<close>

definition reply :: "u8 list \<Rightarrow> session \<Rightarrow> handled" where
  "reply data v =
     bind_run (rsp_packet_quick_send data (snd v)) (\<lambda>(res, out). Inr (res, (fst v, out)))"

definition send_packet :: "rsp_packet \<Rightarrow> session \<Rightarrow> handled" where
  "send_packet p v =
     bind_run (rsp_packet_end p) (\<lambda>p.
     bind_run (rsp_packet_send p (snd v)) (\<lambda>(res, out). Inr (res, (fst v, out))))"

section \<open>Registers\<close>

fun append_registers :: "u32 list \<Rightarrow> rsp_packet \<Rightarrow> rsp_packet run" where
  "append_registers [] p = Inr p"
| "append_registers (x # xs) p = bind_run (rsp_packet_append_u32 p x) (append_registers xs)"

definition rsp_read_registers :: "session \<Rightarrow> handled" where
  "rsp_read_registers v =
     bind_run (append_registers (take 32 (r (fst v))) (rsp_packet_begin rsp_packet_local)) (\<lambda>p.
     bind_run (rsp_packet_append_u32 p (pc (fst v))) (\<lambda>p. send_packet p v))"

function write_registers_loop :: "nat \<Rightarrow> u8 list \<Rightarrow> rv32 \<Rightarrow> (u8 list \<times> rv32) run" where
  "write_registers_loop i buf s =
     (if i < 32
      then bind_run (rsp_hex_to_u32 buf) (\<lambda>x.
             write_registers_loop (Suc i) (drop 8 buf) (s\<lparr>r := (r s)[i := x]\<rparr>))
      else Inr (buf, s))"
  by pat_completeness auto
termination
  by (relation "measure (\<lambda>(i, buf, s). 32 - i)") auto

declare write_registers_loop.simps [simp del]

definition rsp_write_registers :: "session \<Rightarrow> u8 list \<Rightarrow> u64 \<Rightarrow> handled" where
  "rsp_write_registers v buf n =
     (if n \<noteq> 265 then Inl (Fatal ''received invalid number of registers'')
      else bind_run (write_registers_loop 0 (drop 1 buf) (fst v)) (\<lambda>(buf, s).
           bind_run (rsp_hex_to_u32 buf) (\<lambda>x. reply (bytes '''') (s\<lparr>pc := x\<rparr>, snd v))))"

definition rsp_write_specific_register :: "session \<Rightarrow> u8 list \<Rightarrow> u64 \<Rightarrow> handled" where
  "rsp_write_specific_register v buf n =
     (if n \<noteq> 12 then Inl (Fatal ''invalid 'P' message from gdb'')
      else bind_run (rsp_hex_to_u8 (drop 1 buf)) (\<lambda>reg.
           bind_run (rsp_hex_to_u32 (drop 4 buf)) (\<lambda>val.
             let s = fst v
             in if reg > 32 then Inl (Fatal ''invalid register in P command'')
                else if reg = 32 then reply (bytes ''OK'') (s\<lparr>pc := val\<rparr>, snd v)
                else reply (bytes ''OK'') (s\<lparr>r := (r s)[unat reg := val]\<rparr>, snd v))))"

section \<open>Numbers in a message\<close>

definition first_byte :: "u8 list \<Rightarrow> u8 run" where
  "first_byte buf = (case buf of [] \<Rightarrow> Inl Out_Of_Bounds | c # _ \<Rightarrow> Inr c)"

text \<open>
  The loop \<open>while(rsp_is_hex_digit(buffer[0]) && size)\<close>: it reads the next byte before it looks
  at the size.
\<close>

fun rsp_hex_loop :: "u32 \<Rightarrow> u8 list \<Rightarrow> u64 \<Rightarrow> (u32 \<times> u8 list \<times> u64) run" where
  "rsp_hex_loop acc [] n = Inl Out_Of_Bounds"
| "rsp_hex_loop acc (c # cs) n =
     (if rsp_is_hex_digit c \<and> n \<noteq> 0
      then bind_run (rsp_from_hex_digit c) (\<lambda>d. rsp_hex_loop (push_bit 4 acc OR ucast d) cs (n - 1))
      else Inr (acc, c # cs, n))"

section \<open>Memory\<close>

definition guest_byte :: "rv32 \<Rightarrow> u32 \<Rightarrow> u8 run" where
  "guest_byte s a = (if unat a < length (mem s) then Inr (mem s ! unat a) else Inl Out_Of_Bounds)"

fun append_memory :: "rv32 \<Rightarrow> u32 \<Rightarrow> nat \<Rightarrow> rsp_packet \<Rightarrow> rsp_packet run" where
  "append_memory s a 0 p = Inr p"
| "append_memory s a (Suc n) p =
     bind_run (guest_byte s a) (\<lambda>b.
     bind_run (rsp_packet_append_u8 p b) (append_memory s (a + 1) n))"

definition rsp_read_memory :: "session \<Rightarrow> u8 list \<Rightarrow> u64 \<Rightarrow> handled" where
  "rsp_read_memory v buf n =
     (let s = fst v; fatal = Inl (Fatal ''invalid 'm' message from gdb'')
      in bind_run (first_byte (drop 1 buf)) (\<lambda>c.
         if \<not> rsp_is_hex_digit c then fatal
         else bind_run (rsp_hex_loop 0 (drop 1 buf) (n - 1)) (\<lambda>(start, buf, n).
         if n = 0 \<or> hd buf \<noteq> 0x2c then fatal
         else bind_run (rsp_hex_loop 0 (drop 1 buf) (n - 1)) (\<lambda>(chunk_size, buf, n).
         if n \<noteq> 0 then fatal
         else if mem_size s \<le> start \<or> mem_size s \<le> start + chunk_size then reply (bytes '''') v
         else bind_run (append_memory s start (unat chunk_size) (rsp_packet_begin rsp_packet_local)) (\<lambda>p.
              send_packet p v)))))"

fun write_memory_loop :: "nat \<Rightarrow> u32 \<Rightarrow> u8 list \<Rightarrow> rv32 \<Rightarrow> rv32 run" where
  "write_memory_loop 0 a buf s = Inr s"
| "write_memory_loop (Suc n) a buf s =
     bind_run (rsp_hex_to_u8 buf) (\<lambda>b.
       if unat a < length (mem s)
       then write_memory_loop n (a + 1) (drop 2 buf) (s\<lparr>mem := (mem s)[unat a := b]\<rparr>)
       else Inl Out_Of_Bounds)"

text \<open>The product \<open>2 * chunk_size\<close> is computed in 32 bits and then widened.\<close>

definition rsp_write_memory :: "session \<Rightarrow> u8 list \<Rightarrow> u64 \<Rightarrow> handled" where
  "rsp_write_memory v buf n =
     (let s = fst v; fatal = Inl (Fatal ''invalid 'M' message from gdb'')
      in bind_run (first_byte (drop 1 buf)) (\<lambda>c.
         if \<not> rsp_is_hex_digit c then fatal
         else bind_run (rsp_hex_loop 0 (drop 1 buf) (n - 1)) (\<lambda>(start, buf, n).
         if n = 0 \<or> hd buf \<noteq> 0x2c then fatal
         else bind_run (rsp_hex_loop 0 (drop 1 buf) (n - 1)) (\<lambda>(chunk_size, buf, n).
         if hd buf \<noteq> 0x3a then fatal
         else if n - 1 \<noteq> ucast (2 * chunk_size)
         then Inl (Fatal ''invalid size in 'M' message from gdb'')
         else if mem_size s \<le> start \<or> mem_size s \<le> start + chunk_size then reply (bytes '''') v
         else bind_run (write_memory_loop (unat chunk_size) start (drop 1 buf) s) (\<lambda>s'.
              reply (bytes '''') (s', snd v))))))"

section \<open>Breakpoints\<close>

text \<open>The part that the two handlers share: \<open>Z0,addr,kind\<close> and \<open>z0,addr,kind\<close>.\<close>

definition breakpoint_address :: "u8 list \<Rightarrow> u64 \<Rightarrow> u32 run" where
  "breakpoint_address buf n =
     (if n - 2 = 0 then Inl (Fatal ''invalid 'Z0' message from GDB'')
      else bind_run (first_byte (drop 2 buf)) (\<lambda>c.
      if c \<noteq> 0x2c then Inl (Fatal ''invalid 'Z0' message from GDB'')
      else bind_run (rsp_hex_loop 0 (drop 3 buf) (n - 3)) (\<lambda>(addr, buf, n).
      if hd buf \<noteq> 0x2c then Inl (Fatal ''invalid 'Z0' message from gdb'') else Inr addr)))"

definition rsp_set_software_breakpoint :: "session \<Rightarrow> u8 list \<Rightarrow> u64 \<Rightarrow> handled" where
  "rsp_set_software_breakpoint v buf n =
     bind_run (breakpoint_address buf n) (\<lambda>addr.
       let (ok, s) = rv32_set_breakpoint (fst v) addr
       in if ok then reply (bytes ''OK'') (s, snd v) else reply (bytes '''') (s, snd v))"

definition rsp_clear_software_breakpoint :: "session \<Rightarrow> u8 list \<Rightarrow> u64 \<Rightarrow> handled" where
  "rsp_clear_software_breakpoint v buf n =
     bind_run (breakpoint_address buf n) (\<lambda>addr.
       let (ok, s) = rv32_clear_breakpoint (fst v) addr
       in if ok then reply (bytes ''OK'') (s, snd v) else reply (bytes '''') (s, snd v))"

section \<open>Control\<close>

definition rsp_continue :: "session \<Rightarrow> handled" where
  "rsp_continue v = Inr (RSP_NO_PACKET_SENT, (rv32_resume (fst v), snd v))"

definition rsp_detach :: "session \<Rightarrow> handled" where
  "rsp_detach v = reply (bytes ''OK'') (rv32_resume (rv32_clear_all_breakpoints (fst v)), snd v)"

definition rsp_kill :: "session \<Rightarrow> handled" where
  "rsp_kill v = bind_run (rv32_reset (fst v)) (\<lambda>s. Inr (RSP_NO_PACKET_SENT, (s, snd v)))"

section \<open>Dispatch\<close>

definition isprefix :: "string \<Rightarrow> u8 list \<Rightarrow> u64 \<Rightarrow> bool" where
  "isprefix s buf n \<longleftrightarrow> length s \<le> unat n \<and> take (length s) buf = bytes s"

definition rsp_handle_packet :: "session \<Rightarrow> u8 list \<Rightarrow> u64 \<Rightarrow> handled" where
  "rsp_handle_packet v buf n =
     (if isprefix ''qSupported'' buf n then reply (bytes ''hwbreak+'') v
      else if isprefix ''?'' buf n then reply (bytes ''S05'') v
      else if isprefix ''qAttached'' buf n then reply (bytes ''1'') v
      else if isprefix ''g'' buf n then rsp_read_registers v
      else if isprefix ''G'' buf n then rsp_write_registers v buf n
      else if isprefix ''P'' buf n then rsp_write_specific_register v buf n
      else if isprefix ''m'' buf n then rsp_read_memory v buf n
      else if isprefix ''M'' buf n then rsp_write_memory v buf n
      else if isprefix ''Z0'' buf n then rsp_set_software_breakpoint v buf n
      else if isprefix ''z0'' buf n then rsp_clear_software_breakpoint v buf n
      else if isprefix ''c'' buf n then rsp_continue v
      else if isprefix ''D'' buf n then rsp_detach v
      else if isprefix ''k'' buf n then rsp_kill v
      else reply (bytes '''') v)"

section \<open>Signals\<close>

datatype rsp_signal = RSP_SIGINT | RSP_SIGILL | RSP_SIGTRAP | RSP_SIGSEGV

primrec signal_code :: "rsp_signal \<Rightarrow> nat" where
  "signal_code RSP_SIGINT = 2"
| "signal_code RSP_SIGILL = 4"
| "signal_code RSP_SIGTRAP = 5"
| "signal_code RSP_SIGSEGV = 11"

definition signal_text :: "rsp_signal \<Rightarrow> string" where
  "signal_text sig =
     (case sig of RSP_SIGINT \<Rightarrow> ''S02'' | RSP_SIGILL \<Rightarrow> ''S04'' | RSP_SIGTRAP \<Rightarrow> ''S05'' | RSP_SIGSEGV \<Rightarrow> ''S0b'')"

definition rsp_report_signal :: "rsp_signal \<Rightarrow> u8 list \<Rightarrow> u8 list run" where
  "rsp_report_signal sig sent = bind_run (rsp_packet_quick_send (bytes (signal_text sig)) sent) (\<lambda>(_, out). Inr out)"

end
