(* ===== verification/Rsp_Server.thy ===== *)
theory Rsp_Server
  imports Rsp_Commands
begin

text \<open>
  The receiving side of the GDB stub: the state machine of \<open>rsp_handle_byte\<close> in
  \<open>src/gdb_stub/rsp.h\<close>, with its static variables, and the contract it keeps towards the machine.
\<close>

section \<open>The state machine\<close>

datatype rsp_state = RSP_WAIT_START | RSP_PACKET_DATA | RSP_CHECKSUM_1 | RSP_CHECKSUM_2 | RSP_WAIT_ACK

record rsp_link =
  in_buffer :: "u8 list"
  sum1 :: u8
  sum2 :: u8
  iptr :: u64
  link_state :: rsp_state

text \<open>Static variables start as zero, \<open>state\<close> as \<open>RSP_WAIT_START\<close>.\<close>

definition rsp_link_start :: rsp_link where
  "rsp_link_start =
     \<lparr>in_buffer = replicate RSP_BUFFER_SIZE 0, sum1 = 0, sum2 = 0, iptr = 0, link_state = RSP_WAIT_START\<rparr>"

text \<open>
  The variable \<open>handler_result\<close> is not initialised when the sums differ; \<open>junk\<close> is the value it
  happens to have.
\<close>

definition rsp_handle_byte ::
  "rsp_handler_result \<Rightarrow> u8 \<Rightarrow> rsp_link \<times> session \<Rightarrow> (rsp_link \<times> session) run" where
  "rsp_handle_byte junk c = (\<lambda>(l, v).
     case link_state l of
       RSP_WAIT_START \<Rightarrow>
         (let l = l\<lparr>iptr := 0, sum1 := 0, sum2 := 0\<rparr>
          in if c = 0x24 then Inr (l\<lparr>link_state := RSP_PACKET_DATA\<rparr>, v)
             else if c = 3
             then bind_run (rsp_report_signal RSP_SIGINT (snd v)) (\<lambda>out.
                    Inr (l, ((fst v)\<lparr>status := RV32_PAUSED\<rparr>, out)))
             else Inr (l, v))
     | RSP_PACKET_DATA \<Rightarrow>
         (if c = 0x23 then Inr (l\<lparr>link_state := RSP_CHECKSUM_1\<rparr>, v)
          else if iptr l < word_of_nat RSP_BUFFER_SIZE
          then Inr (l\<lparr>in_buffer := (in_buffer l)[unat (iptr l) := c], iptr := iptr l + 1,
                     sum1 := sum1 l + c\<rparr>, v)
          else Inl (Fatal ''input buffer too small''))
     | RSP_CHECKSUM_1 \<Rightarrow>
         bind_run (rsp_from_hex_digit c) (\<lambda>d.
           Inr (l\<lparr>sum2 := push_bit 4 d, link_state := RSP_CHECKSUM_2\<rparr>, v))
     | RSP_CHECKSUM_2 \<Rightarrow>
         bind_run (rsp_from_hex_digit c) (\<lambda>d.
           let l = l\<lparr>sum2 := sum2 l OR d\<rparr>
           in bind_run
                (if sum1 l = sum2 l
                 then rsp_handle_packet (fst v, snd v @ bytes ''+'') (in_buffer l) (iptr l)
                 else Inr (junk, (fst v, snd v @ bytes ''-'')))
                (\<lambda>(handler_result, v).
                  Inr (l\<lparr>link_state :=
                         (if handler_result = RSP_PACKET_SENT then RSP_WAIT_ACK else RSP_WAIT_START)\<rparr>, v)))
     | RSP_WAIT_ACK \<Rightarrow>
         (if c = 0x2b then Inr (l\<lparr>link_state := RSP_WAIT_START\<rparr>, v)
          else Inl (Fatal ''gdb didn't acknowledge last packet'')))"

text \<open>Feeding a list of bytes, with the same indeterminate value at every byte.\<close>

fun rsp_feed :: "rsp_handler_result \<Rightarrow> u8 list \<Rightarrow> rsp_link \<times> session \<Rightarrow> (rsp_link \<times> session) run" where
  "rsp_feed junk [] x = Inr x"
| "rsp_feed junk (c # cs) x = bind_run (rsp_handle_byte junk c x) (rsp_feed junk cs)"

lemma rsp_feed_nil: "rsp_feed junk [] = Inr"
  by (rule ext) simp

lemma rsp_feed_append: "rsp_feed junk (xs @ ys) x = bind_run (rsp_feed junk xs x) (rsp_feed junk ys)"
proof (induction xs arbitrary: x)
  case Nil
  show ?case by simp
next
  case (Cons c xs)
  have "rsp_feed junk (xs @ ys) = (\<lambda>x. bind_run (rsp_feed junk xs x) (rsp_feed junk ys))"
    by (rule ext) (rule Cons.IH)
  then show ?case by (simp add: bind_run_assoc)
qed

section \<open>Receiving a packet\<close>

text \<open>While the body of a packet arrives, the buffer starts with it and \<open>sum1\<close> is its sum.\<close>

definition receiving :: "u8 list \<Rightarrow> rsp_link \<Rightarrow> bool" where
  "receiving body l \<longleftrightarrow> length (in_buffer l) = RSP_BUFFER_SIZE \<and> iptr l = word_of_nat (length body)
     \<and> length body \<le> RSP_BUFFER_SIZE \<and> take (length body) (in_buffer l) = body \<and> sum1 l = sum_list body"

lemma receive_byte:
  assumes "receiving body l" "link_state l = RSP_PACKET_DATA" "c \<noteq> 0x23"
  shows "length body < RSP_BUFFER_SIZE \<Longrightarrow> \<exists>l'. rsp_handle_byte junk c (l, v) = Inr (l', v)
      \<and> receiving (body @ [c]) l' \<and> link_state l' = RSP_PACKET_DATA"
    and "length body = RSP_BUFFER_SIZE \<Longrightarrow>
      rsp_handle_byte junk c (l, v) = Inl (Fatal ''input buffer too small'')"
proof -
  have le: "length body \<le> 1024" using assms(1) by (simp add: receiving_def RSP_BUFFER_SIZE_def)
  then have u: "unat (word_of_nat (length body) :: u64) = length body"
    by (simp add: unsigned_of_nat take_bit_nat_eq_self)
  then have lt: "(word_of_nat (length body) :: u64) < 1024 \<longleftrightarrow> length body < 1024"
    by (simp add: word_less_nat_alt)
  show "\<exists>l'. rsp_handle_byte junk c (l, v) = Inr (l', v)
      \<and> receiving (body @ [c]) l' \<and> link_state l' = RSP_PACKET_DATA" if "length body < RSP_BUFFER_SIZE"
    using assms that lt u
    by (auto simp: rsp_handle_byte_def receiving_def RSP_BUFFER_SIZE_def take_Suc_update add.commute)
  show "rsp_handle_byte junk c (l, v) = Inl (Fatal ''input buffer too small'')"
    if "length body = RSP_BUFFER_SIZE"
    using assms that lt by (simp add: rsp_handle_byte_def receiving_def RSP_BUFFER_SIZE_def)
qed

lemma receive_bytes:
  assumes "receiving body l" "link_state l = RSP_PACKET_DATA" "0x23 \<notin> set cs"
    and "length body + length cs \<le> RSP_BUFFER_SIZE"
  shows "\<exists>l'. rsp_feed junk cs (l, v) = Inr (l', v) \<and> receiving (body @ cs) l'
    \<and> link_state l' = RSP_PACKET_DATA"
  using assms
proof (induction cs arbitrary: body l)
  case Nil
  then show ?case by auto
next
  case (Cons c cs)
  then obtain l1 where l1: "rsp_handle_byte junk c (l, v) = Inr (l1, v)" "receiving (body @ [c]) l1"
      "link_state l1 = RSP_PACKET_DATA"
    using receive_byte(1) [of body l c junk v] by auto
  with Cons.IH [OF l1(2,3)] Cons.prems show ?case by auto
qed

lemma receive_start:
  assumes "link_state l = RSP_WAIT_START" "length (in_buffer l) = RSP_BUFFER_SIZE"
  shows "\<exists>l'. rsp_handle_byte junk 0x24 (l, v) = Inr (l', v) \<and> receiving [] l'
    \<and> link_state l' = RSP_PACKET_DATA"
  using assms by (auto simp: rsp_handle_byte_def receiving_def Let_def)

text \<open>The bytes up to the first digit of the checksum.\<close>

lemma receive_body:
  assumes "link_state l = RSP_WAIT_START" "length (in_buffer l) = RSP_BUFFER_SIZE"
    and "0x23 \<notin> set body" "length body \<le> RSP_BUFFER_SIZE"
  shows "\<exists>l'. rsp_feed junk (0x24 # body @ [0x23]) (l, v) = Inr (l', v) \<and> receiving body l'
    \<and> link_state l' = RSP_CHECKSUM_1"
proof -
  from receive_start [OF assms(1,2)] obtain l1 where l1: "rsp_handle_byte junk 0x24 (l, v) = Inr (l1, v)"
      "receiving [] l1" "link_state l1 = RSP_PACKET_DATA" by blast
  with receive_bytes [OF l1(2,3) assms(3), of junk v] assms(4) obtain l2
    where l2: "rsp_feed junk body (l1, v) = Inr (l2, v)" "receiving body l2"
      "link_state l2 = RSP_PACKET_DATA" by auto
  have "rsp_handle_byte junk 0x23 (l2, v) = Inr (l2\<lparr>link_state := RSP_CHECKSUM_1\<rparr>, v)"
    using l2(3) by (simp add: rsp_handle_byte_def)
  with l1 l2 show ?thesis
    by (simp add: rsp_feed_append receiving_def)
qed

lemma receive_checksum:
  assumes "receiving body l" "link_state l = RSP_CHECKSUM_1"
  shows "\<exists>l'. rsp_feed junk (hex2 k) (l, v) =
      bind_run (if sum_list body = k
                then rsp_handle_packet (fst v, snd v @ bytes ''+'') (in_buffer l) (iptr l)
                else Inr (junk, (fst v, snd v @ bytes ''-'')))
        (\<lambda>(res, v'). Inr (l'\<lparr>link_state := (if res = RSP_PACKET_SENT then RSP_WAIT_ACK else RSP_WAIT_START)\<rparr>, v'))
    \<and> in_buffer l' = in_buffer l \<and> iptr l' = iptr l"
proof -
  let ?l = "l\<lparr>sum2 := k, link_state := RSP_CHECKSUM_2\<rparr>"
  have "rsp_feed junk (hex2 k) (l, v) =
      bind_run (if sum_list body = k
                then rsp_handle_packet (fst v, snd v @ bytes ''+'') (in_buffer l) (iptr l)
                else Inr (junk, (fst v, snd v @ bytes ''-'')))
        (\<lambda>(res, v'). Inr (?l\<lparr>link_state := (if res = RSP_PACKET_SENT then RSP_WAIT_ACK else RSP_WAIT_START)\<rparr>, v'))"
    using assms nibbles_join [of k] by (cases v) (simp add: rsp_handle_byte_def hex2_def hex1_digit receiving_def Let_def
        case_prod_unfold bind_run_assoc rsp_feed_nil)
  then show ?thesis by (intro exI [of _ ?l]) simp
qed

end
