(* ===== verification/Rsp_Facts.thy ===== *)
theory Rsp_Facts
  imports Rsp_Server
begin

text \<open>
  Facts on the commands of the GDB stub: what each handler keeps of the machine, what the number
  parser reads, and what the register and memory commands compute.
\<close>

section \<open>What a handler keeps\<close>

text \<open>A handler that returns keeps the shape of the machine and only appends to what was sent.\<close>

definition keeps :: "session \<Rightarrow> ('a \<times> session) run \<Rightarrow> bool" where
  "keeps v h \<longleftrightarrow> (\<forall>x v'. h = Inr (x, v') \<longrightarrow>
     same_shape (fst v) (fst v') \<and> (\<exists>out. snd v' = snd v @ out))"

lemma keepsI:
  "(\<And>x v'. h = Inr (x, v') \<Longrightarrow> same_shape (fst v) (fst v') \<and> (\<exists>out. snd v' = snd v @ out)) \<Longrightarrow> keeps v h"
  by (simp add: keeps_def)

lemma keepsD:
  assumes "keeps v h" "h = Inr (x, v')"
  shows "same_shape (fst v) (fst v')" "\<exists>out. snd v' = snd v @ out"
  using assms unfolding keeps_def by blast+

named_theorems keeps "handlers keep the shape of the machine"

lemma keeps_Inl [keeps]: "keeps v (Inl e)"
  by (simp add: keeps_def)

lemma keeps_if [keeps]: "(P \<Longrightarrow> keeps v a) \<Longrightarrow> (\<not> P \<Longrightarrow> keeps v b) \<Longrightarrow> keeps v (if P then a else b)"
  by simp

lemma keeps_bind: "(\<And>x. m = Inr x \<Longrightarrow> keeps v (f x)) \<Longrightarrow> keeps v (bind_run m f)"
  by (cases m) (simp_all add: keeps)

lemma send_extends: "rsp_packet_send p sent = Inr (res, out) \<Longrightarrow> \<exists>w. out = sent @ w"
  by (auto simp: rsp_packet_send_def elim!: bind_run_InrE)

lemma quick_send_extends: "rsp_packet_quick_send data sent = Inr (res, out) \<Longrightarrow> \<exists>w. out = sent @ w"
  by (auto simp: rsp_packet_quick_send_def elim!: bind_run_InrE dest: send_extends)

lemma keeps_reply [keeps]: "same_shape (fst v) s \<Longrightarrow> keeps v (reply data (s, snd v))"
  by (rule keepsI) (auto simp: reply_def elim!: bind_run_InrE dest: quick_send_extends)

lemma keeps_reply_same [keeps]: "keeps v (reply data v)"
  using keeps_reply [of v "fst v" data] by simp

lemma keeps_send_packet [keeps]: "keeps v (send_packet p v)"
  by (rule keepsI) (auto simp: send_packet_def elim!: bind_run_InrE dest: send_extends)

lemma keeps_read_registers [keeps]: "keeps v (rsp_read_registers v)"
  unfolding rsp_read_registers_def by (intro keeps_bind keeps)

lemma write_registers_loop_shape:
  "write_registers_loop i buf s = Inr (buf', s') \<Longrightarrow> same_shape s s'"
proof (induction i buf s rule: write_registers_loop.induct)
  case (1 i buf s)
  show ?case
  proof (cases "i < 32")
    case True
    with 1(2) obtain x where "rsp_hex_to_u32 buf = Inr x"
      "write_registers_loop (Suc i) (drop 8 buf) (s\<lparr>r := (r s)[i := x]\<rparr>) = Inr (buf', s')"
      by (auto simp: write_registers_loop.simps [of i buf s] elim: bind_run_InrE)
    from 1(1) [OF True this(2)] show ?thesis by (simp add: same_shape_def)
  next
    case False
    with 1(2) show ?thesis by (simp add: write_registers_loop.simps [of i buf s])
  qed
qed

lemma keeps_write_registers [keeps]: "keeps v (rsp_write_registers v buf n)"
  unfolding rsp_write_registers_def
  by (intro keeps keeps_bind)
    (auto simp: case_prod_unfold same_shape_def dest!: write_registers_loop_shape intro!: keeps_bind keeps)

lemma keeps_write_specific_register [keeps]: "keeps v (rsp_write_specific_register v buf n)"
  unfolding rsp_write_specific_register_def Let_def
  by (intro keeps keeps_bind) (simp_all add: same_shape_def)

lemma keeps_read_memory [keeps]: "keeps v (rsp_read_memory v buf n)"
  unfolding rsp_read_memory_def Let_def case_prod_unfold by (intro keeps keeps_bind)

lemma write_memory_loop_shape: "write_memory_loop n a buf s = Inr s' \<Longrightarrow> same_shape s s'"
proof (induction n arbitrary: a buf s)
  case 0
  then show ?case by simp
next
  case (Suc n)
  then obtain b where "write_memory_loop n (a + 1) (drop 2 buf) (s\<lparr>mem := (mem s)[unat a := b]\<rparr>) = Inr s'"
    by (auto elim!: bind_run_InrE split: if_splits)
  from Suc.IH [OF this] show ?case by (simp add: same_shape_def)
qed

lemma keeps_write_memory [keeps]: "keeps v (rsp_write_memory v buf n)"
  unfolding rsp_write_memory_def Let_def case_prod_unfold
  by (intro keeps keeps_bind) (rule write_memory_loop_shape)

lemma keeps_set_breakpoint [keeps]: "keeps v (rsp_set_software_breakpoint v buf n)"
  unfolding rsp_set_software_breakpoint_def Let_def case_prod_unfold by (intro keeps keeps_bind breakpoint_shape)

lemma keeps_clear_breakpoint [keeps]: "keeps v (rsp_clear_software_breakpoint v buf n)"
  unfolding rsp_clear_software_breakpoint_def Let_def case_prod_unfold by (intro keeps keeps_bind breakpoint_shape)

lemma keeps_continue [keeps]: "keeps v (rsp_continue v)"
  by (simp add: keeps_def rsp_continue_def)

lemma keeps_detach [keeps]: "keeps v (rsp_detach v)"
  unfolding rsp_detach_def
  by (intro keeps same_shape_trans [OF breakpoint_shape(3) rv32_resume_shape])

lemma keeps_kill [keeps]: "wf_rv32 (fst v) \<Longrightarrow> keeps v (rsp_kill v)"
  using rv32_reset_shape [of "fst v"]
  by (auto simp: keeps_def rsp_kill_def rv32_reset_eq)

lemma keeps_handle_packet: "wf_rv32 (fst v) \<Longrightarrow> keeps v (rsp_handle_packet v buf n)"
  unfolding rsp_handle_packet_def by (intro keeps)

section \<open>Dispatch\<close>

lemma isprefix_Cons:
  "isprefix (x # s) (c # buf) n \<longleftrightarrow>
     Suc (length s) \<le> unat n \<and> c = of_char x \<and> take (length s) buf = bytes s"
  by (simp add: isprefix_def bytes_def conj_commute)

section \<open>Numbers\<close>

definition digit_value :: "u8 \<Rightarrow> u32" where
  "digit_value c = (case rsp_from_hex_digit c of Inr d \<Rightarrow> ucast d | Inl e \<Rightarrow> 0)"

definition hex_value :: "u32 \<Rightarrow> u8 list \<Rightarrow> u32" where
  "hex_value = foldl (\<lambda>acc c. push_bit 4 acc OR digit_value c)"

text \<open>
  On digits that the size covers, followed by a byte that is no digit or by the end of the
  message, the loop reads the number and leaves what follows.
\<close>

lemma hex_loop_digits:
  assumes "\<forall>d \<in> set ds. rsp_is_hex_digit d" "length ds + m < 2 ^ 64"
    and "\<not> rsp_is_hex_digit c \<or> m = 0"
  shows "rsp_hex_loop acc (ds @ c # rest) (word_of_nat (length ds + m)) =
    Inr (hex_value acc ds, c # rest, word_of_nat m)"
  using assms
proof (induction ds arbitrary: acc)
  case Nil
  then show ?case by (auto simp: hex_value_def)
next
  case (Cons d ds)
  from Cons.prems(1) obtain k where k: "rsp_from_hex_digit d = Inr k"
    using is_hex_digit_iff [of d] by auto
  have "unat (word_of_nat (Suc (length ds + m)) :: u64) = Suc (length ds + m)"
    using Cons.prems(2) by (simp only: unsigned_of_nat length_Cons add_Suc)
      (simp add: take_bit_nat_eq_self)
  then have nz: "(word_of_nat (Suc (length ds + m)) :: u64) \<noteq> 0" by (metis nat.distinct(1) unat_0)
  have "(word_of_nat (Suc (length ds + m)) :: u64) - 1 = word_of_nat (length ds + m)" by simp
  with Cons k nz show ?case
    by (simp add: hex_value_def digit_value_def del: of_nat_add of_nat_Suc)
qed

lemma not_hex_comma: "\<not> rsp_is_hex_digit 0x2c" "\<not> rsp_is_hex_digit 0x3a"
  by (simp_all add: rsp_is_hex_digit_def)

section \<open>Registers\<close>

text \<open>The value that \<open>rsp_hex_to_u32\<close> returns for the eight digits of a word.\<close>

definition squash :: "u32 \<Rightarrow> u32" where
  "squash x = (x AND 0xff) OR (drop_bit 4 x AND 0xff0) OR (drop_bit 8 x AND 0xff00) OR (drop_bit 12 x AND 0xff000)"

lemma hex_le_bytes:
  "hex_le x = hex2 (ucast x) @ hex2 (ucast (drop_bit 8 x)) @ hex2 (ucast (drop_bit 16 x))
     @ hex2 (ucast (drop_bit 24 x))"
  by (simp add: hex_le_def eval_nat_numeral drop_bit_drop_bit)

lemma length_hex_le [simp]: "length (hex_le x) = 8"
  by (simp add: hex_le_bytes)

lemma hex_to_u32_hex_le [simp]: "rsp_hex_to_u32 (hex_le x @ rest) = Inr (squash x)"
proof -
  have "ucast (ucast x :: u8) OR push_bit 4 (ucast (ucast (drop_bit 8 x) :: u8))
      OR push_bit 8 (ucast (ucast (drop_bit 16 x) :: u8)) OR push_bit 12 (ucast (ucast (drop_bit 24 x) :: u8))
    = squash x"
    unfolding squash_def by (rule word32_eqI; simp add: bit_simps not_bit_beyond)
  then show ?thesis using hex_to_u32_bytes [of _ _ _ _ rest] by (simp add: hex_le_bytes)
qed

lemma byte_bits: "x < 256 \<longleftrightarrow> (\<forall>k \<ge> 8. \<not> bit x k)" for x :: u32
proof
  assume "x < 256"
  then have "unat x < 2 ^ 8" by (simp add: word_less_nat_alt)
  show "\<forall>k \<ge> 8. \<not> bit x k"
  proof (intro allI impI notI)
    fix k assume "8 \<le> k" "bit x k"
    then have "bit (unat x) k" by (auto simp: bit_unsigned_iff dest: bit_imp_le_length)
    moreover have "unat x < 2 ^ k"
      using \<open>unat x < 2 ^ 8\<close> power_increasing [OF \<open>8 \<le> k\<close>, of "2 :: nat"] by simp
    ultimately show False by (simp only: bit_iff_odd div_less) simp
  qed
next
  assume *: "\<forall>k \<ge> 8. \<not> bit x k"
  have "x = x AND mask 8"
    by (rule bit_word_eqI) (use * in \<open>auto simp: bit_simps not_less [symmetric]\<close>)
  then have "unat x < 2 ^ 8" using mask_less [of x 8] by simp
  then show "x < 256" by (simp add: word_less_nat_alt)
qed

lemma squash_bits:
  "bit (squash x) k \<longleftrightarrow> k < 8 \<and> bit x k \<or> 4 \<le> k \<and> k < 12 \<and> bit x (k + 4)
     \<or> 8 \<le> k \<and> k < 16 \<and> bit x (k + 8) \<or> 12 \<le> k \<and> k < 20 \<and> bit x (k + 12)"
proof (cases "k < 32")
  case True
  then show ?thesis
    by (rule less_32E) (simp_all add: squash_def bit_simps not_bit_beyond)
next
  case False
  then show ?thesis by (auto dest: bit_imp_le_length)
qed

text \<open>The reader returns a word only when it fits a byte.\<close>

lemma squash_fixpoint: "squash x = x \<longleftrightarrow> x < 256"
proof
  assume "squash x = x"
  then have eq: "bit x k \<longleftrightarrow> k < 8 \<and> bit x k \<or> 4 \<le> k \<and> k < 12 \<and> bit x (k + 4)
      \<or> 8 \<le> k \<and> k < 16 \<and> bit x (k + 8) \<or> 12 \<le> k \<and> k < 20 \<and> bit x (k + 12)" for k
    using squash_bits [of x k] by simp
  have high: "\<not> bit x k" if "20 \<le> k" for k using that eq [of k] by auto
  have mid: "\<not> bit x k" if "12 \<le> k" for k using that high [of "k + 8"] high [of "k + 12"] high [of k] eq [of k] by auto
  have "\<not> bit x k" if "8 \<le> k" for k using that mid [of "k + 4"] mid [of "k + 8"] mid [of k] mid [of "k + 12"] eq [of k] by auto
  then show "x < 256" by (simp add: byte_bits)
next
  assume "x < 256"
  then have "\<not> bit x k" if "8 \<le> k" for k using that by (simp add: byte_bits)
  then show "squash x = x"
    by (intro bit_word_eqI) (auto simp: squash_bits not_less [symmetric])
qed

lemma writes_registers: "packet.writes (append_registers xs) (concat (map hex_le xs))"
proof (induction xs)
  case Nil
  then show ?case using packet.writes_nil by (simp add: packet.writes_def)
next
  case (Cons x xs)
  then show ?case using packet.writes_bind [OF writes_u32 [of x] Cons.IH] by simp
qed

lemma set_hex_le: "c \<in> set (hex_le x) \<Longrightarrow> c \<noteq> 0"
  using set_hex2 by (auto simp: hex_le_bytes)

lemma length_registers_hex [simp]: "length (concat (map hex_le xs)) = 8 * length xs"
  by (induction xs) simp_all

lemma read_registers:
  assumes "length (r (fst v)) = 32"
  shows "rsp_read_registers v = Inr (RSP_PACKET_SENT,
    (fst v, snd v @ rsp_frame (concat (map hex_le (r (fst v) @ [pc (fst v)])))))"
proof -
  let ?body = "concat (map hex_le (r (fst v) @ [pc (fst v)]))"
  have w: "packet.writes (\<lambda>p. bind_run (append_registers (r (fst v)) p) (\<lambda>p. rsp_packet_append_u32 p (pc (fst v)))) ?body"
    using packet.writes_bind [OF writes_registers writes_u32] by simp
  have "0 \<notin> set ?body" using set_hex_le by fastforce
  from reply_sent [OF w this, of "snd v"] assms show ?thesis
    by (simp add: rsp_read_registers_def send_packet_def bind_run_assoc)
      (auto simp: bind_run_def split: sum.splits)
qed

lemma write_registers_loop_hex:
  assumes "i + length xs = 32" "length (r s) = 32"
  shows "write_registers_loop i (concat (map hex_le xs) @ rest) s =
    Inr (rest, s\<lparr>r := take i (r s) @ map squash xs\<rparr>)"
  using assms
proof (induction xs arbitrary: i s)
  case Nil
  then show ?case by (simp add: write_registers_loop.simps)
next
  case (Cons x xs)
  then have i: "i < 32" by simp
  have tail: "drop 8 (hex_le x @ y) = y" for y by simp
  have "take (Suc i) ((r s)[i := squash x]) = take i (r s) @ [squash x]"
    by (rule take_Suc_update) (use i Cons.prems in simp)
  then show ?case
    using Cons.IH [of "Suc i" "s\<lparr>r := (r s)[i := squash x]\<rparr>"] Cons.prems i
    by (simp add: write_registers_loop.simps [of i] tail)
qed

section \<open>Memory\<close>

lemma writes_memory:
  assumes "unat a + k \<le> length (mem s)" "unat a + k < 2 ^ 32"
  shows "packet.writes (append_memory s a k) (concat (map hex2 (take k (drop (unat a) (mem s)))))"
  using assms
proof (induction k arbitrary: a)
  case 0
  have "append_memory s a 0 = Inr" by (rule ext) simp
  then show ?case using packet.writes_nil by simp
next
  case (Suc k)
  have u: "unat (a + 1) = unat a + 1" by (rule plus_one_small) (use Suc.prems in simp)
  have IH: "packet.writes (append_memory s (a + 1) k) (concat (map hex2 (take k (drop (unat a + 1) (mem s)))))"
    using Suc.IH [of "a + 1"] Suc.prems u by simp
  have "take (Suc k) (drop (unat a) (mem s)) = mem s ! unat a # take k (drop (unat a + 1) (mem s))"
    using Suc.prems(1) by (simp add: Cons_nth_drop_Suc [symmetric])
  moreover have "append_memory s a (Suc k) =
      (\<lambda>p. bind_run (rsp_packet_append_u8 p (mem s ! unat a)) (append_memory s (a + 1) k))"
    using Suc.prems(1) by (intro ext) (simp add: guest_byte_def)
  ultimately show ?case using packet.writes_bind [OF writes_u8 IH] by simp
qed

lemma length_dump [simp]: "length (concat (map hex2 bs)) = 2 * length bs"
  by (induction bs) simp_all

lemma set_dump: "c \<in> set (concat (map hex2 bs)) \<Longrightarrow> c \<noteq> 0"
  using set_hex2 by auto

text \<open>A message \<open>addr,length\<close> after its command byte, in a buffer that continues with \<open>rest\<close>.\<close>

definition range_message :: "u8 \<Rightarrow> u8 list \<Rightarrow> u8 list \<Rightarrow> u8 list" where
  "range_message cmd ds es = cmd # ds @ 0x2c # es"

definition digits :: "u8 list \<Rightarrow> bool" where
  "digits ds \<longleftrightarrow> ds \<noteq> [] \<and> (\<forall>d \<in> set ds. rsp_is_hex_digit d)"

lemma read_memory_message:
  assumes "digits ds" "\<forall>d \<in> set es. rsp_is_hex_digit d" "rest \<noteq> []"
    and "length (range_message cmd ds es) < 2 ^ 64"
  shows "rsp_read_memory v (range_message cmd ds es @ rest) (word_of_nat (length (range_message cmd ds es))) =
    (let s = fst v; start = hex_value 0 ds; k = hex_value 0 es
     in if mem_size s \<le> start \<or> mem_size s \<le> start + k then reply (bytes '''') v
        else bind_run (append_memory s start (unat k) (rsp_packet_begin rsp_packet_local)) (\<lambda>p. send_packet p v))"
proof -
  obtain c cs where rest: "rest = c # cs" using assms(3) by (cases rest) auto
  let ?n = "length es + 1"
  have len: "length (range_message cmd ds es) = Suc (length ds + ?n)" by (simp add: range_message_def)
  then have n1: "(word_of_nat (length (range_message cmd ds es)) :: u64) - 1 = word_of_nat (length ds + ?n)"
    by simp
  obtain d ds' where ds: "ds = d # ds'" "rsp_is_hex_digit d" using assms(1) by (cases ds) (auto simp: digits_def)
  then have c0: "first_byte (ds @ 0x2c # es @ rest) = Inr d" by (simp add: first_byte_def)
  have l1: "rsp_hex_loop 0 (ds @ 0x2c # es @ rest) (word_of_nat (length ds + ?n)) =
      Inr (hex_value 0 ds, 0x2c # es @ rest, word_of_nat ?n)"
    by (rule hex_loop_digits) (use assms(1,4) len not_hex_comma in \<open>simp_all add: digits_def\<close>)
  have "unat (word_of_nat ?n :: u64) = ?n"
    using assms(4) len by (simp only: unsigned_of_nat) (simp add: take_bit_nat_eq_self)
  then have nz: "(word_of_nat ?n :: u64) \<noteq> 0" by (metis Suc_eq_plus1 nat.distinct(1) unat_0)
  have n2: "(word_of_nat (Suc (length es)) :: u64) - 1 = word_of_nat (length es)" by simp
  have l2: "rsp_hex_loop 0 (es @ c # cs) (word_of_nat (length es)) = Inr (hex_value 0 es, c # cs, 0)"
    using hex_loop_digits [of es 0 c 0 cs] assms(2,4) len by simp
  have drop: "drop 1 (range_message cmd ds es @ rest) = ds @ 0x2c # es @ rest"
    by (simp add: range_message_def)
  show ?thesis
    unfolding rsp_read_memory_def Let_def drop n1 c0 bind_run_simps l1 prod.case
    using ds(2) nz l2 by (simp add: n2 rest del: of_nat_add of_nat_Suc add_0_right)
qed

lemma unat_small64: "m < 2 ^ 64 \<Longrightarrow> unat (word_of_nat m :: u64) = m"
  by (simp only: unsigned_of_nat) (simp add: take_bit_nat_eq_self)

lemma of_nat_nonzero: "0 < m \<Longrightarrow> m < 2 ^ 64 \<Longrightarrow> (word_of_nat m :: u64) \<noteq> 0"
proof -
  assume m: "0 < m" "m < 2 ^ 64"
  from unat_small64 [OF m(2)] m(1) show ?thesis by (metis unat_0 less_irrefl)
qed

lemma write_memory_loop_hex:
  assumes "unat a + length bs \<le> length (mem s)" "unat a + length bs < 2 ^ 32"
  shows "write_memory_loop (length bs) a (concat (map hex2 bs) @ rest) s =
    Inr (s\<lparr>mem := take (unat a) (mem s) @ bs @ drop (unat a + length bs) (mem s)\<rparr>)"
  using assms
proof (induction bs arbitrary: a s)
  case Nil
  then show ?case by simp
next
  case (Cons b bs)
  have u: "unat (a + 1) = unat a + 1" by (rule plus_one_small) (use Cons.prems in simp)
  have step: "drop 2 (hex2 b @ y) = y" for y by simp
  have "take (Suc (unat a)) ((mem s)[unat a := b]) = take (unat a) (mem s) @ [b]"
    by (rule take_Suc_update) (use Cons.prems in simp)
  then show ?case
    using Cons.IH [of "a + 1" "s\<lparr>mem := (mem s)[unat a := b]\<rparr>"] Cons.prems u
    by (simp add: step)
qed

definition write_message :: "u8 list \<Rightarrow> u8 list \<Rightarrow> u8 list \<Rightarrow> u8 list" where
  "write_message ds es bs = range_message 0x4d ds (es @ 0x3a # concat (map hex2 bs))"

lemma write_memory_message:
  assumes "digits ds" "\<forall>d \<in> set es. rsp_is_hex_digit d" "rest \<noteq> []"
    and "length (write_message ds es bs) < 2 ^ 31" "unat (hex_value 0 es) = length bs"
  shows "rsp_write_memory v (write_message ds es bs @ rest) (word_of_nat (length (write_message ds es bs))) =
    (let s = fst v; start = hex_value 0 ds; k = hex_value 0 es
     in if mem_size s \<le> start \<or> mem_size s \<le> start + k then reply (bytes '''') v
        else bind_run (write_memory_loop (unat k) start (concat (map hex2 bs) @ rest) s)
               (\<lambda>s'. reply (bytes '''') (s', snd v)))"
proof -
  let ?data = "concat (map hex2 bs)"
  let ?m = "2 * length bs + 1"
  let ?n = "length es + ?m + 1"
  have len: "length (write_message ds es bs) = Suc (length ds + ?n)"
    by (simp add: write_message_def range_message_def)
  have n1: "(word_of_nat (length (write_message ds es bs)) :: u64) - 1 = word_of_nat (length ds + ?n)"
    by (simp add: len)
  obtain d ds' where ds: "ds = d # ds'" "rsp_is_hex_digit d" using assms(1) by (cases ds) (auto simp: digits_def)
  then have c0: "first_byte (ds @ 0x2c # es @ 0x3a # ?data @ rest) = Inr d" by (simp add: first_byte_def)
  have l1: "rsp_hex_loop 0 (ds @ 0x2c # es @ 0x3a # ?data @ rest) (word_of_nat (length ds + ?n)) =
      Inr (hex_value 0 ds, 0x2c # es @ 0x3a # ?data @ rest, word_of_nat ?n)"
    by (rule hex_loop_digits) (use assms(1,4) len not_hex_comma in \<open>simp_all add: digits_def\<close>)
  have nz: "(word_of_nat ?n :: u64) \<noteq> 0" by (rule of_nat_nonzero) (use assms(4) len in simp_all)
  have n2: "(word_of_nat ?n :: u64) - 1 = word_of_nat (length es + ?m)" by simp
  have l2: "rsp_hex_loop 0 (es @ 0x3a # ?data @ rest) (word_of_nat (length es + ?m)) =
      Inr (hex_value 0 es, 0x3a # ?data @ rest, word_of_nat ?m)"
    by (rule hex_loop_digits) (use assms(2,4) len not_hex_comma in simp_all)
  have "unat (2 * hex_value 0 es) = 2 * length bs"
    using assms(4,5) len by (simp add: unat_word_ariths)
  then have "ucast (2 * hex_value 0 es) = (word_of_nat (2 * length bs) :: u64)"
    using assms(4) len
    by (intro unsigned_word_eqI [where ?'a = nat]) (simp add: unsigned_of_nat take_bit_nat_eq_self del: of_nat_mult)
  then have sz: "(word_of_nat ?m :: u64) - 1 = ucast (2 * hex_value 0 es)" by simp
  have drop: "drop 1 (write_message ds es bs @ rest) = ds @ 0x2c # es @ 0x3a # ?data @ rest"
    by (simp add: range_message_def write_message_def)
  have d1: "drop 1 (c # y) = y" for c :: u8 and y by simp
  show ?thesis
    unfolding rsp_write_memory_def Let_def drop n1 c0 bind_run_simps l1 prod.case d1 n2 l2 sz list.sel
    using ds(2) nz by (simp del: of_nat_add of_nat_Suc)
qed

section \<open>Breakpoints\<close>

definition breakpoint_message :: "u8 \<Rightarrow> u8 list \<Rightarrow> u8 list \<Rightarrow> u8 list" where
  "breakpoint_message cmd ds kind = [cmd, 0x30, 0x2c] @ ds @ 0x2c # kind"

lemma breakpoint_address_message:
  assumes "\<forall>d \<in> set ds. rsp_is_hex_digit d" "length (breakpoint_message cmd ds kind) < 2 ^ 64"
  shows "breakpoint_address (breakpoint_message cmd ds kind @ rest)
    (word_of_nat (length (breakpoint_message cmd ds kind))) = Inr (hex_value 0 ds)"
proof -
  let ?n = "length (breakpoint_message cmd ds kind)"
  let ?m = "Suc (length kind)"
  have len: "?n = 3 + (length ds + ?m)" by (simp add: breakpoint_message_def)
  have n3: "(word_of_nat ?n :: u64) - 3 = word_of_nat (length ds + ?m)" by (simp add: len)
  have "(word_of_nat ?n :: u64) - 2 = word_of_nat (Suc (length ds + ?m))" by (simp add: len)
  moreover have "(word_of_nat (Suc (length ds + ?m)) :: u64) \<noteq> 0"
    by (rule of_nat_nonzero) (use assms(2) len in simp_all)
  ultimately have n2: "(word_of_nat ?n :: u64) - 2 \<noteq> 0" by simp
  have l: "rsp_hex_loop 0 (ds @ 0x2c # kind @ rest) (word_of_nat (length ds + ?m)) =
      Inr (hex_value 0 ds, 0x2c # kind @ rest, word_of_nat ?m)"
    by (rule hex_loop_digits) (use assms len not_hex_comma in simp_all)
  have "drop 2 (breakpoint_message cmd ds kind @ rest) = 0x2c # ds @ 0x2c # kind @ rest"
    "drop 3 (breakpoint_message cmd ds kind @ rest) = ds @ 0x2c # kind @ rest"
    by (simp_all add: breakpoint_message_def)
  then show ?thesis
    by (simp only: breakpoint_address_def first_byte_def n2 n3 l if_False simp_thms list.case
        bind_run_simps prod.case list.sel)
qed

end
