(* ===== verification/Rsp_Properties.thy ===== *)
theory Rsp_Properties
  imports Rsp_Facts Emulator
begin

text \<open>
  The properties of the GDB stub: its packets, the state machine that receives them, and the
  commands on registers, memory and breakpoints.
\<close>

section \<open>Packets\<close>

text \<open>
  C16. A reply is what the receiver of the protocol reads: for every text without NUL bytes, also
  with the characters that need escapes, the frame that \<open>rsp_packet_quick_send\<close> prints has a
  correct checksum and unescapes to the text; a text that does not fit the buffer ends the program
  with an error and sends nothing.
\<close>

theorem quick_send_received:
  assumes "0 \<notin> set data"
  shows "if length (escape data) \<le> 1019
    then \<exists>wire. rsp_packet_quick_send data sent = Inr (RSP_PACKET_SENT, sent @ wire)
           \<and> receive wire = Some data
    else rsp_packet_quick_send data sent = Inl (Fatal ''output buffer too small'')"
proof -
  have "0x23 \<notin> set (escape data)" using set_escape by blast
  then have "receive (rsp_frame (escape data)) = Some data"
    by (simp add: receive_frame unescape_escape)
  then show ?thesis by (simp add: quick_send [OF assms])
qed

theorem quick_send_received_witness:
  "\<exists>wire. rsp_packet_quick_send [0x24, 0x41, 0x7d, 0x23] [] = Inr (RSP_PACKET_SENT, wire)
     \<and> receive wire = Some [0x24, 0x41, 0x7d, 0x23]"
proof -
  have "length (escape [0x24, 0x41, 0x7d, 0x23]) \<le> 1019"
    by (simp add: escape_def escape_byte_def)
  with quick_send_received [of "[0x24, 0x41, 0x7d, 0x23]" "[]"] show ?thesis by simp
qed

text \<open>
  A well-formed frame is dispatched: from the idle state, the bytes of a frame whose body has
  no \<open>#\<close> and fits the buffer acknowledge the packet with \<open>+\<close> and run the handler on a buffer that
  starts with the body; the stub then waits for an acknowledgement exactly when the handler sent a
  packet.
\<close>

lemma frame_dispatched:
  assumes "link_state l = RSP_WAIT_START" "length (in_buffer l) = RSP_BUFFER_SIZE"
    and "0x23 \<notin> set body" "length body \<le> RSP_BUFFER_SIZE"
  shows "\<exists>buf l'. length buf = RSP_BUFFER_SIZE \<and> take (length body) buf = body
    \<and> rsp_feed junk (rsp_frame body) (l, v) =
        bind_run (rsp_handle_packet (fst v, snd v @ bytes ''+'') buf (word_of_nat (length body)))
          (\<lambda>(res, v'). Inr (l'\<lparr>link_state :=
             (if res = RSP_PACKET_SENT then RSP_WAIT_ACK else RSP_WAIT_START)\<rparr>, v'))"
proof -
  from receive_body [OF assms, of junk v] obtain l1
    where l1: "rsp_feed junk (0x24 # body @ [0x23]) (l, v) = Inr (l1, v)" "receiving body l1"
      "link_state l1 = RSP_CHECKSUM_1" by blast
  have split: "rsp_frame body = (0x24 # body @ [0x23]) @ hex2 (sum_list body)"
    by (simp add: rsp_frame_def)
  from receive_checksum [OF l1(2,3), of junk "sum_list body" v] l1(1,2) show ?thesis
    unfolding split rsp_feed_append
    by (intro exI [of _ "in_buffer l1"]) (auto simp: receiving_def)
qed

lemma frame_dispatched_witness:
  "\<exists>buf l'. rsp_feed RSP_NO_PACKET_SENT (rsp_frame (bytes ''?'')) (rsp_link_start, (boot [], [])) =
     bind_run (rsp_handle_packet (boot [], bytes ''+'') buf 1) (\<lambda>(res, v'). Inr (l'\<lparr>link_state :=
       (if res = RSP_PACKET_SENT then RSP_WAIT_ACK else RSP_WAIT_START)\<rparr>, v'))"
proof -
  have "link_state rsp_link_start = RSP_WAIT_START" "length (in_buffer rsp_link_start) = RSP_BUFFER_SIZE"
    "0x23 \<notin> set (bytes ''?'')" "length (bytes ''?'') \<le> RSP_BUFFER_SIZE"
    by (simp_all add: rsp_link_start_def bytes_def RSP_BUFFER_SIZE_def)
  from frame_dispatched [OF this, of RSP_NO_PACKET_SENT "(boot [], [])"] show ?thesis
    by (simp add: bytes_def) blast
qed

text \<open>
  C17. A frame with a wrong checksum is answered with \<open>-\<close> and leaves the machine alone. The next
  state is decided by a variable that was never assigned: if it happens to say that a packet was
  sent, the stub waits for an acknowledgement and the \<open>$\<close> of the retransmission kills it.
\<close>

theorem bad_checksum:
  assumes "link_state l = RSP_WAIT_START" "length (in_buffer l) = RSP_BUFFER_SIZE"
    and "0x23 \<notin> set body" "length body \<le> RSP_BUFFER_SIZE" "k \<noteq> sum_list body"
  shows "(\<exists>l'. rsp_feed junk (0x24 # body @ 0x23 # hex2 k) (l, v) = Inr (l', (fst v, snd v @ bytes ''-''))
        \<and> link_state l' = (if junk = RSP_PACKET_SENT then RSP_WAIT_ACK else RSP_WAIT_START))
    \<and> (junk = RSP_PACKET_SENT \<longrightarrow>
        rsp_feed junk (0x24 # body @ 0x23 # hex2 k @ [0x24]) (l, v)
          = Inl (Fatal ''gdb didn't acknowledge last packet''))"
proof -
  from receive_body [OF assms(1-4), of junk v] obtain l1
    where l1: "rsp_feed junk (0x24 # body @ [0x23]) (l, v) = Inr (l1, v)" "receiving body l1"
      "link_state l1 = RSP_CHECKSUM_1" by blast
  from receive_checksum [OF l1(2,3), of junk k v] assms(5) obtain l2
    where l2: "rsp_feed junk (hex2 k) (l1, v) = Inr (l2, (fst v, snd v @ bytes ''-''))"
      "link_state l2 = (if junk = RSP_PACKET_SENT then RSP_WAIT_ACK else RSP_WAIT_START)" by auto
  have split: "0x24 # body @ 0x23 # hex2 k = (0x24 # body @ [0x23]) @ hex2 k" by simp
  have all: "rsp_feed junk (0x24 # body @ 0x23 # hex2 k) (l, v) = Inr (l2, (fst v, snd v @ bytes ''-''))"
    unfolding split by (simp only: rsp_feed_append [of junk "0x24 # body @ [0x23]"] l1(1) l2(1) bind_run_simps)
  have split2: "0x24 # body @ 0x23 # hex2 k @ [0x24] = (0x24 # body @ 0x23 # hex2 k) @ [0x24]" by simp
  have "rsp_feed junk (0x24 # body @ 0x23 # hex2 k @ [0x24]) (l, v)
      = Inl (Fatal ''gdb didn't acknowledge last packet'')" if "junk = RSP_PACKET_SENT"
    unfolding split2 rsp_feed_append [of junk "0x24 # body @ 0x23 # hex2 k"] all using l2(2) that by (simp add: rsp_handle_byte_def)
  with all l2(2) show ?thesis by blast
qed

theorem bad_checksum_witness:
  "rsp_feed RSP_PACKET_SENT (bytes ''$g#00$'') (rsp_link_start, (boot [], []))
   = Inl (Fatal ''gdb didn't acknowledge last packet'')"
proof -
  have "link_state rsp_link_start = RSP_WAIT_START" "length (in_buffer rsp_link_start) = RSP_BUFFER_SIZE"
    "0x23 \<notin> set [0x67 :: u8]" "length [0x67 :: u8] \<le> RSP_BUFFER_SIZE" "0 \<noteq> sum_list [0x67 :: u8]"
    by (simp_all add: rsp_link_start_def RSP_BUFFER_SIZE_def)
  from bad_checksum [OF this, of RSP_PACKET_SENT "(boot [], [])"]
  have "rsp_feed RSP_PACKET_SENT (0x24 # [0x67] @ 0x23 # hex2 0 @ [0x24]) (rsp_link_start, (boot [], []))
      = Inl (Fatal ''gdb didn't acknowledge last packet'')" by blast
  moreover have "bytes ''$g#00$'' = 0x24 # [0x67] @ 0x23 # hex2 0 @ [0x24]" by code_simp
  ultimately show ?thesis by simp
qed

definition rsp_inv :: "rsp_link \<times> session \<Rightarrow> bool" where
  "rsp_inv x \<longleftrightarrow> length (in_buffer (fst x)) = RSP_BUFFER_SIZE \<and> unat (iptr (fst x)) \<le> RSP_BUFFER_SIZE
     \<and> (link_state (fst x) \<in> {RSP_PACKET_DATA, RSP_CHECKSUM_1, RSP_CHECKSUM_2}
          \<longrightarrow> sum1 (fst x) = sum_list (take (unat (iptr (fst x))) (in_buffer (fst x))))
     \<and> wf_rv32 (fst (snd x))"

lemma report_signal_extends: "rsp_report_signal sig sent = Inr out \<Longrightarrow> \<exists>w. out = sent @ w"
  by (auto simp: rsp_report_signal_def elim!: bind_run_InrE dest: quick_send_extends)

lemma inv_receiving:
  "rsp_inv (l, v) \<Longrightarrow> link_state l = RSP_PACKET_DATA \<Longrightarrow> receiving (take (unat (iptr l)) (in_buffer l)) l"
  by (simp add: rsp_inv_def receiving_def RSP_BUFFER_SIZE_def min_absorb2)

lemma receiving_inv:
  assumes "receiving body l" "wf_rv32 (fst v)"
  shows "rsp_inv (l, v)"
proof -
  have "unat (iptr l) = length body"
    using assms(1) by (simp add: receiving_def RSP_BUFFER_SIZE_def unsigned_of_nat take_bit_nat_eq_self)
  with assms show ?thesis by (simp add: rsp_inv_def receiving_def)
qed

lemma handle_byte_inv:
  assumes inv: "rsp_inv (l, v)" and step: "rsp_handle_byte junk c (l, v) = Inr (l', v')"
  shows "rsp_inv (l', v') \<and> same_shape (fst v) (fst v') \<and> (\<exists>out. snd v' = snd v @ out)"
proof -
  have wf: "wf_rv32 (fst v)" using inv by (simp add: rsp_inv_def)
  show ?thesis
  proof (cases "link_state l")
    case RSP_WAIT_START
    with inv step show ?thesis
      by (auto simp: rsp_handle_byte_def Let_def rsp_inv_def same_shape_def wf_rv32_def
          elim!: bind_run_InrE dest: report_signal_extends split: if_splits)
  next
    case RSP_PACKET_DATA
    note rec = inv_receiving [OF inv RSP_PACKET_DATA]
    show ?thesis
    proof (cases "c = 0x23")
      case True
      with RSP_PACKET_DATA step inv show ?thesis by (auto simp: rsp_handle_byte_def rsp_inv_def)
    next
      case False
      have "length (take (unat (iptr l)) (in_buffer l)) < RSP_BUFFER_SIZE
          \<or> length (take (unat (iptr l)) (in_buffer l)) = RSP_BUFFER_SIZE"
        using rec by (auto simp: receiving_def)
      then show ?thesis
        using receive_byte [OF rec RSP_PACKET_DATA False, of junk v] step receiving_inv [OF _ wf] by auto
    qed
  next
    case RSP_CHECKSUM_1
    with inv step show ?thesis
      by (auto simp: rsp_handle_byte_def rsp_inv_def elim!: bind_run_InrE)
  next
    case RSP_CHECKSUM_2
    let ?v = "(fst v, snd v @ bytes ''+'')"
    from step RSP_CHECKSUM_2 have
      "v' = (fst v, snd v @ bytes ''-'') \<or> (\<exists>res. rsp_handle_packet ?v (in_buffer l) (iptr l) = Inr (res, v'))"
      and l': "in_buffer l' = in_buffer l" "iptr l' = iptr l" "link_state l' \<in> {RSP_WAIT_ACK, RSP_WAIT_START}"
      by (auto simp: rsp_handle_byte_def Let_def elim!: bind_run_InrE split: if_splits)
    then have k: "same_shape (fst v) (fst v')" "\<exists>out. snd v' = snd v @ out"
      using keepsD [OF keeps_handle_packet [of ?v "in_buffer l" "iptr l"], of _ v'] wf by auto
    with same_shape_keeps(1) [OF k(1) wf] inv l' show ?thesis by (auto simp: rsp_inv_def)
  next
    case RSP_WAIT_ACK
    with inv step show ?thesis by (auto simp: rsp_handle_byte_def rsp_inv_def split: if_splits)
  qed
qed

text \<open>
  C18. Invariant of the stub: whatever bytes arrive and whatever value the unassigned variable has,
  as long as the stub does not stop with a fault the input index stays within the buffer, the
  running checksum is the sum of what was received, the machine stays well-formed with the same
  RAM, and output is only appended.
\<close>

theorem rsp_feed_invariant:
  assumes "rsp_feed junk cs (l, v) = Inr (l', v')" "rsp_inv (l, v)"
  shows "rsp_inv (l', v') \<and> mem_size (fst v') = mem_size (fst v) \<and> (\<exists>out. snd v' = snd v @ out)"
  using assms
proof (induction cs arbitrary: l v)
  case Nil
  then show ?case by auto
next
  case (Cons c cs)
  then obtain l1 v1 where s: "rsp_handle_byte junk c (l, v) = Inr (l1, v1)"
    and f: "rsp_feed junk cs (l1, v1) = Inr (l', v')" by (auto elim!: bind_run_InrE)
  note one = handle_byte_inv [OF Cons.prems(2) s]
  with Cons.IH [OF f] show ?case by (auto simp: same_shape_def)
qed

theorem rsp_feed_invariant_witness:
  "\<exists>l v. rsp_feed RSP_NO_PACKET_SENT (bytes ''$?'') (rsp_link_start, (boot [], [])) = Inr (l, v)
     \<and> rsp_inv (l, v) \<and> snd v = []"
proof -
  have inv: "rsp_inv (rsp_link_start, (boot [], []))"
    using boot_wf [of "[]"] by (simp add: rsp_inv_def rsp_link_start_def)
  have b: "bytes ''$?'' = [0x24, 0x3f]" by code_simp
  obtain l v where f: "rsp_feed RSP_NO_PACKET_SENT (bytes ''$?'') (rsp_link_start, (boot [], [])) = Inr (l, v)"
    and "snd v = []"
    by (simp add: b rsp_handle_byte_def rsp_link_start_def RSP_BUFFER_SIZE_def)
  with rsp_feed_invariant [OF f inv] show ?thesis by blast
qed

section \<open>Registers\<close>

text \<open>
  Reading a word: the function documented as \<open>"cdab3412" -> 0x1234abcd\<close> shifts by four bits a
  byte, so on the eight digits of a word it returns the word only below 256.
\<close>

lemma hex_to_u32_exact_iff:
  "rsp_hex_to_u32 (hex_le x @ rest) = Inr x \<longleftrightarrow> x < 256"
  by (simp add: squash_fixpoint)

lemma writeback_fixpoint:
  "s\<lparr>r := map squash (r s), pc := squash (pc s)\<rparr> = s \<longleftrightarrow> (\<forall>x \<in> set (pc s # r s). x < 256)"
proof -
  have "s\<lparr>r := map squash (r s), pc := squash (pc s)\<rparr> = s
      \<longleftrightarrow> map squash (r s) = map (\<lambda>x. x) (r s) \<and> squash (pc s) = pc s"
    by (cases s) simp
  then show ?thesis unfolding map_eq_conv by (auto simp: squash_fixpoint)
qed

lemma reply_empty: "reply (bytes '''') v = Inr (RSP_PACKET_SENT, (fst v, snd v @ rsp_frame []))"
  using quick_send [of "[]" "snd v"] by (simp add: reply_def bytes_def escape_def)

text \<open>The two hexadecimal digits of a byte, as \<open>printf\<close> writes them.\<close>

definition hex_text :: "u8 \<Rightarrow> u8 list" where
  "hex_text b = bytes [digit_char (unat b div 16), digit_char (unat b mod 16)]"

lemma hex1_text:
  assumes "d \<le> 0xf"
  shows "hex1 d = of_char (digit_char (unat d))"
proof -
  have "list_all (\<lambda>n. hex1 (word_of_nat n) = of_char (digit_char n)) [0..<16]" by code_simp
  moreover have "unat d \<in> set [0..<16]" using assms by (simp add: word_le_nat_alt)
  ultimately have "hex1 (word_of_nat (unat d)) = of_char (digit_char (unat d))"
    by (simp only: list_all_iff)
  then show ?thesis by simp
qed

lemma hex2_text: "hex2 b = hex_text b"
proof -
  have small: "unat b < 256" using unsigned_less [of b] by simp
  then have "take_bit 8 (unat b) = unat b" by (simp add: take_bit_nat_eq_self)
  then have hi: "unat (drop_bit 4 b) = unat b div 16"
    by (simp only: unsigned_drop_bit_eq) (simp add: drop_bit_eq_div)
  have lo: "unat (take_bit 4 b) = unat b mod 16" by (simp only: unsigned_take_bit_eq) (simp add: take_bit_eq_mod)
  from small have le: "drop_bit 4 b \<le> 0xf" "take_bit 4 b \<le> 0xf" unfolding word_le_nat_alt hi lo by simp_all
  have "take_bit 4 (drop_bit 4 b) = drop_bit 4 b" by (simp add: take_bit_drop_bit take_bit_word_eq_self)
  then have "drop_bit 4 b AND 0xf = drop_bit 4 b" "b AND 0xf = take_bit 4 b"
    by (simp_all only: take_bit_eq_mask mask_eq_exp_minus_1) simp_all
  then show ?thesis
    unfolding hex2_def by (simp only: hex1_text [OF le(1)] hex1_text [OF le(2)] hi lo hex_text_def bytes_def list.map)
qed

text \<open>
  C19. The answer to \<open>g\<close> is the text of the 32 registers and \<open>pc\<close>: of each word the four bytes, the
  lowest first, in two hexadecimal digits each, 264 characters in all. Writing the same digits back
  with \<open>G\<close> puts every word through the broken reader, \<open>squash\<close>, which moves the bytes together by four
  bits: the machine is restored exactly when every register and \<open>pc\<close> is below 256.
\<close>

theorem registers_round_trip:
  assumes "wf_rv32 s"
  shows "let body = concat (map (\<lambda>x. concat (map hex_text (le_bytes 4 x))) (r s @ [pc s]));
      t = s\<lparr>r := map squash (r s), pc := squash (pc s)\<rparr>
    in rsp_read_registers (s, sent) = Inr (RSP_PACKET_SENT, (s, sent @ rsp_frame body))
      \<and> length body = 264
      \<and> rsp_write_registers (s, sent) (0x47 # body @ rest) 265 = Inr (RSP_PACKET_SENT, (t, sent @ rsp_frame []))
      \<and> (t = s \<longleftrightarrow> (\<forall>x \<in> set (pc s # r s). x < 256))"
proof -
  let ?body = "concat (map hex_le (r s @ [pc s]))"
  have len: "length (r s) = 32" using wf_rv32_lengths [OF assms] by simp
  have "write_registers_loop 0 (concat (map hex_le (r s)) @ hex_le (pc s) @ rest) s
      = Inr (hex_le (pc s) @ rest, s\<lparr>r := map squash (r s)\<rparr>)"
    using write_registers_loop_hex [of 0 "r s" s "hex_le (pc s) @ rest"] len by simp
  then have rewritten: "rsp_write_registers (s, sent) (0x47 # ?body @ rest) 265
      = Inr (RSP_PACKET_SENT, (s\<lparr>r := map squash (r s), pc := squash (pc s)\<rparr>, sent @ rsp_frame []))"
    by (simp add: rsp_write_registers_def reply_empty)
  have "length ?body = 264" using len by simp
  moreover have "(\<lambda>x. concat (map hex_text (le_bytes 4 x))) = hex_le"
    by (simp add: fun_eq_iff hex_le_def hex2_text [abs_def])
  ultimately show ?thesis
    using read_registers [of "(s, sent)"] len writeback_fixpoint [of s] rewritten
    by (simp only: Let_def fst_conv snd_conv simp_thms)
qed

theorem registers_round_trip_witness:
  "\<exists>body. rsp_read_registers (boot [], []) = Inr (RSP_PACKET_SENT, (boot [], rsp_frame body))
     \<and> rsp_write_registers (boot [], []) (0x47 # body) 265 = Inr (RSP_PACKET_SENT, (boot [], rsp_frame []))"
proof -
  have "wf_rv32 (boot [])" by (rule boot_wf) simp
  moreover have "\<forall>x \<in> set (pc (boot []) # r (boot [])). x < 256" by (simp add: boot_def)
  ultimately show ?thesis using registers_round_trip [of "boot []" "[]" "[]"] by (auto simp: Let_def)
qed

section \<open>Memory\<close>

lemma range_sum:
  fixes a k :: u32
  assumes "unat a + unat k < 2 ^ 32"
  shows "m \<le> a \<or> m \<le> a + k \<longleftrightarrow> unat m \<le> unat a + unat k"
proof -
  have "unat (a + k) = unat a + unat k" using assms by (simp add: unat_word_ariths)
  then show ?thesis by (auto simp: word_le_nat_alt)
qed

text \<open>
  C20. Reading memory: the message \<open>m addr,length\<close> is refused with an empty reply unless the range
  ends strictly before the end of RAM, so the last byte of RAM is never served; at most 509 bytes
  are sent as hexadecimal digits, and a longer request ends the stub.
\<close>

theorem read_memory_command:
  assumes wf: "wf_rv32 s" and d: "digits ds" "\<forall>d \<in> set es. rsp_is_hex_digit d" "rest \<noteq> []"
    and len: "length ds + length es \<le> 1000"
    and a: "a = hex_value 0 ds" and k: "k = hex_value 0 es" and nowrap: "unat a + unat k < 2 ^ 32"
  shows "rsp_handle_packet (s, sent) (range_message 0x6d ds es @ rest)
      (word_of_nat (length (range_message 0x6d ds es))) =
    (if unat (mem_size s) \<le> unat a + unat k then Inr (RSP_PACKET_SENT, (s, sent @ rsp_frame []))
     else if unat k \<le> 509
     then Inr (RSP_PACKET_SENT, (s, sent @ rsp_frame (concat (map hex2 (take (unat k) (drop (unat a) (mem s)))))))
     else Inl (Fatal ''output buffer too small''))"
proof -
  let ?m = "range_message 0x6d ds es"
  let ?bytes = "take (unat k) (drop (unat a) (mem s))"
  have lt: "length ?m < 2 ^ 64" using len by (simp add: range_message_def)
  have m: "?m @ rest = 0x6d # ds @ 0x2c # es @ rest" "1 \<le> length ?m"
    by (simp_all add: range_message_def)
  have dispatch: "rsp_handle_packet (s, sent) (?m @ rest) (word_of_nat (length ?m))
      = rsp_read_memory (s, sent) (?m @ rest) (word_of_nat (length ?m))"
    using m(2) unfolding m(1) by (simp add: rsp_handle_packet_def isprefix_Cons unat_small64 [OF lt])
      (simp add: bytes_def)
  note msg = read_memory_message [OF d lt, of "(s, sent)"]
  show ?thesis
  proof (cases "unat (mem_size s) \<le> unat a + unat k")
    case True
    then show ?thesis using range_sum [OF nowrap, of "mem_size s"]
      by (simp add: dispatch msg Let_def reply_empty flip: a k)
  next
    case False
    then have in_mem: "unat a + unat k \<le> length (mem s)" using wf_rv32_mem [OF wf] by simp
    then have "length ?bytes = unat k" by simp
    moreover have "0 \<notin> set (concat (map hex2 ?bytes))" using set_dump by blast
    ultimately have "bind_run (append_memory s a (unat k) (rsp_packet_begin rsp_packet_local))
        (\<lambda>p. bind_run (rsp_packet_end p) (\<lambda>p. rsp_packet_send p sent))
      = (if unat k \<le> 509 then Inr (RSP_PACKET_SENT, sent @ rsp_frame (concat (map hex2 ?bytes)))
         else Inl (Fatal ''output buffer too small''))"
      using reply_sent [OF writes_memory [OF in_mem nowrap], of sent] by (simp del: length_take length_drop)
    then have "bind_run (append_memory s a (unat k) (rsp_packet_begin rsp_packet_local))
        (\<lambda>p. send_packet p (s, sent))
      = (if unat k \<le> 509 then Inr (RSP_PACKET_SENT, (s, sent @ rsp_frame (concat (map hex2 ?bytes))))
         else Inl (Fatal ''output buffer too small''))"
      by (auto simp: send_packet_def bind_run_def split: sum.splits if_splits)
    then show ?thesis using range_sum [OF nowrap, of "mem_size s"] False
      by (simp add: dispatch msg Let_def flip: a k)
  qed
qed

lemma hex_value_small: "hex_value 0 [0x31] = 1" "hex_value 0 [0x32] = 2" "hex_value 0 [0x33] = 3"
  by (simp_all add: hex_value_def digit_value_def rsp_from_hex_digit_def)

lemma digits_small: "digits [0x31]" "digits [0x32]" "digits [0x33]"
  by (simp_all add: digits_def rsp_is_hex_digit_def)

theorem read_memory_command_witness:
  "rsp_handle_packet (boot [7, 8, 9, 10], []) (bytes ''m1,2#'') 4
     = Inr (RSP_PACKET_SENT, (boot [7, 8, 9, 10], rsp_frame (bytes ''0809'')))
   \<and> rsp_handle_packet (boot [7, 8, 9, 10], []) (bytes ''m3,1#'') 4
     = Inr (RSP_PACKET_SENT, (boot [7, 8, 9, 10], rsp_frame []))"
proof -
  let ?s = "boot [7, 8, 9, 10]"
  have wf: "wf_rv32 ?s" by (rule boot_wf) simp
  have d: "\<forall>d \<in> set [0x32 :: u8]. rsp_is_hex_digit d" "\<forall>d \<in> set [0x31 :: u8]. rsp_is_hex_digit d"
    using digits_small by (simp_all add: digits_def)
  have m: "bytes ''m1,2#'' = range_message 0x6d [0x31] [0x32] @ [0x23]"
    "bytes ''m3,1#'' = range_message 0x6d [0x33] [0x31] @ [0x23]"
    by (simp_all add: bytes_def range_message_def)
  have mem: "mem ?s = [7, 8, 9, 10, 0, 0, 0, 0]" "unat (mem_size ?s) = 4" by (simp_all add: boot_def)
  have hex: "concat (map hex2 (take 2 (drop 1 [7, 8, 9, 10, 0, 0, 0, 0]))) = bytes ''0809''" by code_simp
  have "rsp_handle_packet (?s, []) (range_message 0x6d [0x31] [0x32] @ [0x23])
      (word_of_nat (length (range_message 0x6d [0x31] [0x32]))) =
    (if unat (mem_size ?s) \<le> unat (1 :: u32) + unat (2 :: u32) then Inr (RSP_PACKET_SENT, (?s, [] @ rsp_frame []))
     else if unat (2 :: u32) \<le> 509
     then Inr (RSP_PACKET_SENT, (?s, [] @ rsp_frame (concat (map hex2 (take (unat (2 :: u32)) (drop (unat (1 :: u32)) (mem ?s)))))))
     else Inl (Fatal ''output buffer too small''))"
    by (rule read_memory_command [OF wf digits_small(1) d(1)]) (simp_all add: hex_value_small)
  moreover have "rsp_handle_packet (?s, []) (range_message 0x6d [0x33] [0x31] @ [0x23])
      (word_of_nat (length (range_message 0x6d [0x33] [0x31]))) =
    (if unat (mem_size ?s) \<le> unat (3 :: u32) + unat (1 :: u32) then Inr (RSP_PACKET_SENT, (?s, [] @ rsp_frame []))
     else if unat (1 :: u32) \<le> 509
     then Inr (RSP_PACKET_SENT, (?s, [] @ rsp_frame (concat (map hex2 (take (unat (1 :: u32)) (drop (unat (3 :: u32)) (mem ?s)))))))
     else Inl (Fatal ''output buffer too small''))"
    by (rule read_memory_command [OF wf digits_small(3) d(2)]) (simp_all add: hex_value_small)
  moreover have "word_of_nat (length (range_message 0x6d [c] [e])) = (4 :: u64)" for c e
    by (simp add: range_message_def)
  ultimately show ?thesis
    unfolding m mem using hex by (simp del: One_nat_def)
qed

text \<open>
  C21. Writing memory: the message \<open>M addr,length:data\<close> replaces exactly the addressed bytes with the
  data, under the same bound as reading, and leaves the machine alone when the range is refused.
\<close>

theorem write_memory_command:
  assumes wf: "wf_rv32 s" and d: "digits ds" "\<forall>d \<in> set es. rsp_is_hex_digit d" "rest \<noteq> []"
    and len: "length ds + length es + 2 * length data \<le> 1000"
    and a: "a = hex_value 0 ds" and k: "unat (hex_value 0 es) = length data"
    and nowrap: "unat a + length data < 2 ^ 32"
  shows "\<exists>t. rsp_handle_packet (s, sent) (write_message ds es data @ rest)
      (word_of_nat (length (write_message ds es data))) = Inr (RSP_PACKET_SENT, (t, sent @ rsp_frame []))
    \<and> t = (if unat (mem_size s) \<le> unat a + length data then s
           else s\<lparr>mem := take (unat a) (mem s) @ data @ drop (unat a + length data) (mem s)\<rparr>)"
proof -
  let ?m = "write_message ds es data"
  have l: "length ?m \<le> 1003" using len by (simp add: write_message_def range_message_def)
  then have lt: "length ?m < 2 ^ 31" "length ?m < 2 ^ 64" by simp_all
  have m: "?m @ rest = 0x4d # ds @ 0x2c # (es @ 0x3a # concat (map hex2 data)) @ rest" "1 \<le> length ?m"
    by (simp_all add: write_message_def range_message_def)
  have dispatch: "rsp_handle_packet (s, sent) (?m @ rest) (word_of_nat (length ?m))
      = rsp_write_memory (s, sent) (?m @ rest) (word_of_nat (length ?m))"
    using m(2) unfolding m(1) by (simp add: rsp_handle_packet_def isprefix_Cons unat_small64 [OF lt(2)])
      (simp add: bytes_def)
  note msg = write_memory_message [OF d lt(1) k, of "(s, sent)"]
  have cond: "mem_size s \<le> a \<or> mem_size s \<le> a + hex_value 0 es \<longleftrightarrow> unat (mem_size s) \<le> unat a + length data"
    using range_sum [of a "hex_value 0 es" "mem_size s"] nowrap k by simp
  show ?thesis
  proof (cases "unat (mem_size s) \<le> unat a + length data")
    case True
    with cond show ?thesis by (simp add: dispatch msg Let_def reply_empty flip: a)
  next
    case False
    then have "unat a + length data \<le> length (mem s)" using wf_rv32_mem [OF wf] by simp
    from write_memory_loop_hex [OF this nowrap, of rest] False cond show ?thesis
      by (simp add: dispatch msg Let_def reply_empty k flip: a)
  qed
qed

theorem write_memory_command_witness:
  "\<exists>t. rsp_handle_packet (boot [7, 8, 9, 10], []) (bytes ''M1,2:abcd#'') 9 = Inr (RSP_PACKET_SENT, (t, rsp_frame []))
     \<and> mem t = [7, 0xab, 0xcd, 10, 0, 0, 0, 0]"
proof -
  let ?s = "boot [7, 8, 9, 10]"
  have wf: "wf_rv32 ?s" by (rule boot_wf) simp
  have d: "\<forall>d \<in> set [0x32 :: u8]. rsp_is_hex_digit d" using digits_small by (simp add: digits_def)
  have m: "bytes ''M1,2:abcd#'' = write_message [0x31] [0x32] [0xab, 0xcd] @ [0x23]" by code_simp
  have l: "word_of_nat (length (write_message [0x31] [0x32] [0xab, 0xcd])) = (9 :: u64)"
    by (simp add: write_message_def range_message_def)
  have mem: "mem ?s = [7, 8, 9, 10, 0, 0, 0, 0]" "unat (mem_size ?s) = 4" by (simp_all add: boot_def)
  have "\<exists>t. rsp_handle_packet (?s, []) (write_message [0x31] [0x32] [0xab, 0xcd] @ [0x23])
      (word_of_nat (length (write_message [0x31] [0x32] [0xab, 0xcd])))
      = Inr (RSP_PACKET_SENT, (t, [] @ rsp_frame []))
    \<and> t = (if unat (mem_size ?s) \<le> unat (1 :: u32) + length [0xab, 0xcd :: u8] then ?s
           else ?s\<lparr>mem := take (unat (1 :: u32)) (mem ?s) @ [0xab, 0xcd]
             @ drop (unat (1 :: u32) + length [0xab, 0xcd :: u8]) (mem ?s)\<rparr>)"
    by (rule write_memory_command [OF wf digits_small(1) d]) (simp_all add: hex_value_small)
  then show ?thesis unfolding m l by (auto simp: mem)
qed

lemma append_memory_oob:
  assumes "packet_holds p xs" "unat a + n = length (mem s)" "n < k" "length xs + 2 * n \<le> 1021"
    and "length (mem s) < 2 ^ 32"
  shows "append_memory s a k p = Inl Out_Of_Bounds"
  using assms
proof (induction n arbitrary: p xs a k)
  case 0
  then obtain j where "k = Suc j" by (cases k) auto
  with 0 show ?case by (simp add: guest_byte_def)
next
  case (Suc n)
  then obtain j where k: "k = Suc j" by (cases k) auto
  have u: "unat (a + 1) = unat a + 1" by (rule plus_one_small) (use Suc.prems in simp)
  obtain p' where p': "rsp_packet_append_u8 p (mem s ! unat a) = Inr p'"
      "packet_holds p' (xs @ hex2 (mem s ! unat a))"
    using packet.writesD(1) [OF writes_u8 Suc.prems(1), of "mem s ! unat a"] Suc.prems(4) by auto
  have "append_memory s (a + 1) j p' = Inl Out_Of_Bounds"
    by (rule Suc.IH [OF p'(2)]) (use Suc.prems k u in simp_all)
  with p'(1) Suc.prems(2) show ?case by (simp add: k guest_byte_def)
qed

text \<open>
  The bounds check of \<open>m\<close> wraps: when the start is in RAM and \<open>addr + length\<close> overflows 32 bits
  into the accepted range, the loop runs past the end of the allocation if that is less than 510
  bytes away.
\<close>

lemma read_memory_wraps:
  assumes d: "digits ds" "\<forall>d \<in> set es. rsp_is_hex_digit d" "rest \<noteq> []"
    and len: "length ds + length es \<le> 1000"
    and a: "a = hex_value 0 ds" and k: "k = hex_value 0 es"
    and range: "a < mem_size s" "a + k < mem_size s"
    and past: "length (mem s) < unat a + unat k" "length (mem s) \<le> unat a + 510"
    and mem: "unat a \<le> length (mem s)" "length (mem s) < 2 ^ 32"
  shows "rsp_handle_packet (s, sent) (range_message 0x6d ds es @ rest)
      (word_of_nat (length (range_message 0x6d ds es))) = Inl Out_Of_Bounds"
proof -
  let ?m = "range_message 0x6d ds es"
  have lt: "length ?m < 2 ^ 64" using len by (simp add: range_message_def)
  have m: "?m @ rest = 0x6d # ds @ 0x2c # es @ rest" "1 \<le> length ?m"
    by (simp_all add: range_message_def)
  have dispatch: "rsp_handle_packet (s, sent) (?m @ rest) (word_of_nat (length ?m))
      = rsp_read_memory (s, sent) (?m @ rest) (word_of_nat (length ?m))"
    using m(2) unfolding m(1) by (simp add: rsp_handle_packet_def isprefix_Cons unat_small64 [OF lt])
      (simp add: bytes_def)
  have "append_memory s a (unat k) (rsp_packet_begin rsp_packet_local) = Inl Out_Of_Bounds"
    by (rule append_memory_oob [OF local_holds, where n = "length (mem s) - unat a"])
      (use past mem in simp_all)
  moreover have "\<not> mem_size s \<le> a" "\<not> mem_size s \<le> a + k" using range by simp_all
  ultimately show ?thesis
    by (simp add: dispatch read_memory_message [OF d lt] Let_def flip: a k)
qed

lemma read_memory_wraps_witness:
  "rsp_handle_packet (boot [7, 8, 9, 10], []) (bytes ''m1,ffffffff#'') 11 = Inl Out_Of_Bounds"
proof -
  have d: "\<forall>d \<in> set (replicate 8 (0x66 :: u8)). rsp_is_hex_digit d"
    by (simp add: rsp_is_hex_digit_def)
  have m: "bytes ''m1,ffffffff#'' = range_message 0x6d [0x31] (replicate 8 0x66) @ [0x23]" by code_simp
  have l: "word_of_nat (length (range_message 0x6d [0x31] (replicate 8 0x66))) = (11 :: u64)"
    by (simp add: range_message_def)
  have k: "hex_value 0 (replicate 8 0x66) = 0xffffffff" by code_simp
  have "rsp_handle_packet (boot [7, 8, 9, 10], []) (range_message 0x6d [0x31] (replicate 8 0x66) @ [0x23])
      (word_of_nat (length (range_message 0x6d [0x31] (replicate 8 0x66)))) = Inl Out_Of_Bounds"
    by (rule read_memory_wraps [OF digits_small(1) d _ _ refl refl])
      (simp_all add: hex_value_small k boot_def)
  then show ?thesis unfolding m l .
qed

lemma hex_loop_overrun:
  "\<forall>d \<in> set ds. rsp_is_hex_digit d \<Longrightarrow> length ds < 2 ^ 64 \<Longrightarrow>
   rsp_hex_loop acc ds (word_of_nat (length ds)) = Inl Out_Of_Bounds"
proof (induction ds arbitrary: acc)
  case Nil
  show ?case by simp
next
  case (Cons d ds)
  from Cons.prems(1) obtain k where k: "rsp_from_hex_digit d = Inr k"
    using is_hex_digit_iff [of d] by auto
  have "(word_of_nat (length (d # ds)) :: u64) \<noteq> 0"
    by (rule of_nat_nonzero) (use Cons.prems(2) in simp_all)
  moreover have "(word_of_nat (length (d # ds)) :: u64) - 1 = word_of_nat (length ds)" by simp
  ultimately show ?case using Cons k by (simp del: of_nat_Suc)
qed

text \<open>
  C22. The number parser reads the byte after the message before it looks at the size: a message
  that fills the input buffer with \<open>m\<close> and digits is read beyond the end of the buffer.
\<close>

theorem full_buffer_overrun:
  assumes "link_state l = RSP_WAIT_START" "length (in_buffer l) = RSP_BUFFER_SIZE"
    and "length ds = 1023" "\<forall>d \<in> set ds. rsp_is_hex_digit d"
  shows "rsp_feed junk (rsp_frame (0x6d # ds)) (l, v) = Inl Out_Of_Bounds"
proof -
  let ?body = "0x6d # ds"
  have body: "0x23 \<notin> set ?body" "length ?body = 1024"
    using assms(3,4) by (auto simp: rsp_is_hex_digit_def)
  from receive_body [OF assms(1,2) body(1), of junk v] body(2) obtain l1
    where l1: "rsp_feed junk (0x24 # ?body @ [0x23]) (l, v) = Inr (l1, v)" "receiving ?body l1"
      "link_state l1 = RSP_CHECKSUM_1" by (auto simp: RSP_BUFFER_SIZE_def)
  have buf: "in_buffer l1 = ?body" "iptr l1 = 1024"
    using l1(2) body(2) take_all [of "in_buffer l1" 1024] by (auto simp: receiving_def RSP_BUFFER_SIZE_def)
  have "rsp_hex_loop 0 ds 1023 = Inl Out_Of_Bounds"
    using hex_loop_overrun [OF assms(4)] assms(3) by simp
  moreover obtain d ds' where "ds = d # ds'" using assms(3) by (cases ds) auto
  ultimately have "rsp_read_memory v' ?body 1024 = Inl Out_Of_Bounds" for v'
    using assms(4) by (simp add: rsp_read_memory_def first_byte_def)
  then have "rsp_handle_packet v' ?body 1024 = Inl Out_Of_Bounds" for v'
    by (simp add: rsp_handle_packet_def isprefix_Cons) (simp add: bytes_def)
  moreover have split: "rsp_frame ?body = (0x24 # ?body @ [0x23]) @ hex2 (sum_list ?body)"
    by (simp add: rsp_frame_def)
  moreover obtain l' where "rsp_feed junk (hex2 (sum_list ?body)) (l1, v) =
      bind_run (rsp_handle_packet (fst v, snd v @ bytes ''+'') ?body 1024)
        (\<lambda>(res, v'). Inr (l'\<lparr>link_state := (if res = RSP_PACKET_SENT then RSP_WAIT_ACK else RSP_WAIT_START)\<rparr>, v'))"
    using receive_checksum [OF l1(2,3), of junk "sum_list ?body" v] buf by auto
  ultimately show ?thesis
    unfolding split by (simp only: rsp_feed_append [of junk "0x24 # ?body @ [0x23]"] l1(1) bind_run_simps)
qed

theorem full_buffer_overrun_witness:
  "rsp_feed RSP_NO_PACKET_SENT (rsp_frame (0x6d # replicate 1023 0x30)) (rsp_link_start, (boot [], []))
   = Inl Out_Of_Bounds"
  by (rule full_buffer_overrun) (simp_all add: rsp_link_start_def rsp_is_hex_digit_def)

section \<open>Breakpoints\<close>

lemma reply_ok: "reply (bytes ''OK'') v = Inr (RSP_PACKET_SENT, (fst v, snd v @ rsp_frame (bytes ''OK'')))"
proof -
  have "escape (bytes ''OK'') = bytes ''OK''" "0 \<notin> set (bytes ''OK'')" "length (bytes ''OK'') = 2"
    by (simp_all add: bytes_def escape_def escape_byte_def)
  then show ?thesis using quick_send [of "bytes ''OK''" "snd v"] by (simp add: reply_def)
qed

lemma breakpoint_dispatched:
  assumes "length ds + length kind \<le> 1000"
  defines "msg \<equiv> \<lambda>c. breakpoint_message c ds kind"
  shows "rsp_handle_packet (s, sent) (msg 0x5a @ rest) (word_of_nat (length (msg 0x5a)))
      = rsp_set_software_breakpoint (s, sent) (msg 0x5a @ rest) (word_of_nat (length (msg 0x5a)))"
    and "rsp_handle_packet (s, sent) (msg 0x7a @ rest) (word_of_nat (length (msg 0x7a)))
      = rsp_clear_software_breakpoint (s, sent) (msg 0x7a @ rest) (word_of_nat (length (msg 0x7a)))"
    and "length (msg c) < 2 ^ 64"
proof -
  have lt: "length (msg c) < 2 ^ 64" "3 \<le> length (msg c)" for c
    using assms by (simp_all add: breakpoint_message_def)
  have m: "msg c @ rest = c # 0x30 # 0x2c # ds @ 0x2c # kind @ rest" for c
    by (simp add: msg_def breakpoint_message_def)
  show "length (msg c) < 2 ^ 64" by (rule lt(1))
  show "rsp_handle_packet (s, sent) (msg 0x5a @ rest) (word_of_nat (length (msg 0x5a)))
      = rsp_set_software_breakpoint (s, sent) (msg 0x5a @ rest) (word_of_nat (length (msg 0x5a)))"
    using lt(2) [of "0x5a"] unfolding m
    by (simp add: rsp_handle_packet_def isprefix_Cons unat_small64 [OF lt(1)]) (simp add: bytes_def)
  show "rsp_handle_packet (s, sent) (msg 0x7a @ rest) (word_of_nat (length (msg 0x7a)))
      = rsp_clear_software_breakpoint (s, sent) (msg 0x7a @ rest) (word_of_nat (length (msg 0x7a)))"
    using lt(2) [of "0x7a"] unfolding m
    by (simp add: rsp_handle_packet_def isprefix_Cons unat_small64 [OF lt(1)]) (simp add: bytes_def)
qed

text \<open>
  C23. The messages \<open>Z0\<close> and \<open>z0\<close> are the operations of the bag of breakpoints: the reply is \<open>OK\<close>
  when there was room or when the breakpoint was set, and empty otherwise.
\<close>

theorem breakpoint_commands:
  assumes inv: "bp_inv s" and d: "\<forall>d \<in> set ds. rsp_is_hex_digit d"
    and len: "length ds + length kind \<le> 1000" and a: "a = hex_value 0 ds"
  shows "(\<exists>t. rsp_handle_packet (s, sent) (breakpoint_message 0x5a ds kind @ rest)
        (word_of_nat (length (breakpoint_message 0x5a ds kind))) =
        Inr (RSP_PACKET_SENT, (t, sent @ rsp_frame (if size (breakpoints s) < 8 then bytes ''OK'' else [])))
      \<and> breakpoints t = (if size (breakpoints s) < 8 then add_mset a (breakpoints s) else breakpoints s))
    \<and> (\<exists>t. rsp_handle_packet (s, sent) (breakpoint_message 0x7a ds kind @ rest)
        (word_of_nat (length (breakpoint_message 0x7a ds kind))) =
        Inr (RSP_PACKET_SENT, (t, sent @ rsp_frame (if a \<in># breakpoints s then bytes ''OK'' else [])))
      \<and> breakpoints t = breakpoints s - {#a#})"
  using bps.add_room [OF inv, of a] bps.add_bag [OF inv, of a] bps.del_found [OF inv, of a]
    bps.del_bag [OF inv, of a]
  by (auto simp: breakpoint_dispatched [OF len] rsp_set_software_breakpoint_def
      rsp_clear_software_breakpoint_def breakpoint_address_message [OF d breakpoint_dispatched(3) [OF len]]
      reply_ok reply_empty case_prod_unfold a [symmetric])

theorem breakpoint_commands_witness:
  "\<exists>t. rsp_handle_packet (boot [], []) (bytes ''Z0,3,4#'') 6 = Inr (RSP_PACKET_SENT, (t, rsp_frame (bytes ''OK'')))
     \<and> breakpoints t = {#3#}"
proof -
  have b: "bp_inv (boot [])" "breakpoints (boot []) = {#}"
    by (simp_all add: bp_inv_def boot_def breakpoints_def slots_def)
  have d: "\<forall>d \<in> set [0x33 :: u8]. rsp_is_hex_digit d" by (simp add: rsp_is_hex_digit_def)
  have m: "bytes ''Z0,3,4#'' = breakpoint_message 0x5a [0x33] [0x34] @ [0x23]" by code_simp
  have l: "word_of_nat (length (breakpoint_message 0x5a [0x33] [0x34])) = (6 :: u64)"
    by (simp add: breakpoint_message_def)
  show ?thesis
    using breakpoint_commands [OF b(1) d _ refl, of "[0x34]" "[]" "[0x23]"]
    unfolding m l by (simp add: b(2) hex_value_small)
qed

end
