(* ===== verification/World.thy ===== *)
theory World
  imports Safety
begin

text \<open>
  What a cycle can do to the world of the embedder: only the callbacks touch it. When every
  callback relates the world before to the world after by a preorder, so do a cycle and a run.
  The embedders interpret the interface with their own preorders, such as output that is only
  appended to.
\<close>

locale world_order =
  fixes p :: "'w platform" and le :: "'w \<Rightarrow> 'w \<Rightarrow> bool"
  assumes le_refl: "le w w"
    and le_trans: "le w1 w2 \<Longrightarrow> le w2 w3 \<Longrightarrow> le w1 w3"
    and load8_le: "le (snd v) (snd (snd (mmio_load8 p v a)))"
    and load16_le: "le (snd v) (snd (snd (mmio_load16 p v a)))"
    and load32_le: "le (snd v) (snd (snd (mmio_load32 p v a)))"
    and store8_le: "le (snd v) (snd (snd (mmio_store8 p v a x8)))"
    and store16_le: "le (snd v) (snd (snd (mmio_store16 p v a x16)))"
    and store32_le: "le (snd v) (snd (snd (mmio_store32 p v a x32)))"
    and ecall_le: "le (snd v) (snd (ecall p v))"
begin

text \<open>An access, or what is left of an instruction after it, moves the world up.\<close>

definition moves :: "'w vm \<Rightarrow> ('a \<times> 'w vm) run \<Rightarrow> bool" where
  "moves v m \<longleftrightarrow> (\<forall>res v'. m = Inr (res, v') \<longrightarrow> le (snd v) (snd v'))"

definition ends :: "'w vm \<Rightarrow> 'w vm run \<Rightarrow> bool" where
  "ends v m \<longleftrightarrow> (\<forall>v'. m = Inr v' \<longrightarrow> le (snd v) (snd v'))"

lemma moves_ram: "moves v (ram_read n v a)" "moves v (ram_write n v a x)"
  by (auto simp: moves_def ram_read_def ram_write_def le_refl split: option.splits)

lemma moves_simps [simp]:
  "moves v (Inr (res, v')) = le (snd v) (snd v')"
  "ends v (Inr v') = le (snd v) (snd v')"
  by (simp_all add: moves_def ends_def del: split_paired_All)

lemma moves_load:
  "moves v (rv32_load8 p v a)" "moves v (rv32_load16 p v a)" "moves v (rv32_load32 p v a)"
  using load8_le [of v a] load16_le [of v a] load32_le [of v a]
  by (auto simp: rv32_load8_def rv32_load16_def rv32_load32_def moves_ram le_refl moves_def split: if_splits
      dest: moves_ram(1) [unfolded moves_def, rule_format])

lemma moves_store:
  "moves v (rv32_store8 p v a x8)" "moves v (rv32_store16 p v a x16)" "moves v (rv32_store32 p v a x32)"
  using store8_le [of v a x8] store16_le [of v a x16] store32_le [of v a x32]
  by (auto simp: rv32_store8_def rv32_store16_def rv32_store32_def le_refl moves_def split: if_splits
      dest: moves_ram(2) [unfolded moves_def, rule_format])

lemma ends_finish_load: "moves v m \<Longrightarrow> ends v (bind_run m (finish_load instr ext))"
  by (fastforce simp: moves_def ends_def finish_load_def elim!: bind_run_InrE split: prod.splits rv32_result.splits)

lemma ends_finish_store: "moves v m \<Longrightarrow> ends v (bind_run m finish_store)"
  by (fastforce simp: moves_def ends_def finish_store_def elim!: bind_run_InrE split: prod.splits rv32_result.splits)

lemma ends_execute: "ends v (rv32_execute p instr v)"
  unfolding rv32_execute_def exec_load_def exec_store_def exec_system_def exec_ecall_def Let_def
  by (auto simp: le_refl ecall_le ends_finish_load ends_finish_store moves_load moves_store)

lemma cycle_le:
  assumes "rv32_cycle p v = Inr v'"
  shows "le (snd v) (snd v')"
proof -
  let ?v = "(deliver_interrupt (fst v), snd v)"
  have "le (snd v) (snd v')"
    if "rv32_load32 p ?v a = Inr (res, (s, w))"
      "(case res of RV32_ERR \<Rightarrow> Inr (stop RV32_INVALID_MEMORY_ACCESS s, w)
        | RV32_OK instr \<Rightarrow> rv32_execute p instr (write_reg 0 0 s, w)) = Inr v'" for a res s w
  proof -
    have "le (snd v) w" using moves_load(3) [of ?v a] that(1) by simp
    moreover have "le w (snd v')"
      using that(2) ends_execute [of "(write_reg 0 0 s, w)"]
      by (cases v') (auto simp: ends_def le_refl split: rv32_result.splits)
    ultimately show ?thesis by (rule le_trans)
  qed
  with assms show ?thesis
    unfolding rv32_cycle_def Let_def
    by (auto simp: le_refl elim!: bind_run_InrE split: if_splits)
qed

lemma run_le: "rv32_run p n v = Inr v' \<Longrightarrow> le (snd v) (snd v')"
  by (induction n arbitrary: v) (auto simp: le_refl elim!: bind_run_InrE intro: le_trans dest: cycle_le)

end

end
