(* ===== verification/Gdb_Stub.thy ===== *)
theory Gdb_Stub
  imports Rsp_Properties World "HOL-Library.Sublist"
begin

text \<open>
  The program of \<open>src/gdb_stub/main.c\<close>: the platform it gives the machine, the report after a
  cycle, and the main loop that alternates between the bytes of the debugger and the cycles of the
  machine. The output of the guest and the packets of the protocol go to the same standard output.

  The source of \<open>main.c\<close> uses names that \<open>rv32.h\<close> no longer has; \<open>RV32_BREAKPOINT\<close> is read as
  \<open>RV32_PAUSED\<close>, \<open>RV32_MMIO_OK\<close> and \<open>RV32_MMIO_ERR\<close> as \<open>RV32_OK\<close> and \<open>RV32_ERR\<close>.
\<close>

section \<open>The platform\<close>

definition gdb_store8 :: "session \<Rightarrow> u32 \<Rightarrow> u8 \<Rightarrow> unit rv32_result \<times> session" where
  "gdb_store8 v addr val =
     (if addr = 0x80000000 then (RV32_OK (), (fst v, snd v @ [val])) else (RV32_ERR, v))"

definition gdb_ecall :: "session \<Rightarrow> session" where
  "gdb_ecall v =
     (if r (fst v) ! reg_index REG_A7 = 93 then (stop RV32_HALTED (fst v), snd v) else v)"

definition gdb_platform :: "u8 list platform" where
  "gdb_platform =
     \<lparr>mmio_load8 = (\<lambda>v a. (RV32_ERR, v)), mmio_load16 = (\<lambda>v a. (RV32_ERR, v)),
      mmio_load32 = (\<lambda>v a. (RV32_ERR, v)), mmio_store8 = gdb_store8,
      mmio_store16 = (\<lambda>v a x. (RV32_ERR, v)), mmio_store32 = (\<lambda>v a x. (RV32_ERR, v)),
      ecall = gdb_ecall\<rparr>"

interpretation gdb: platform_contract gdb_platform
  by unfold_locales (simp_all add: gdb_platform_def gdb_store8_def gdb_ecall_def)

text \<open>The guest can only append to the standard output.\<close>

interpretation gdb_output: world_order gdb_platform prefix
  by unfold_locales
    (auto simp: gdb_platform_def gdb_store8_def gdb_ecall_def intro: prefix_order.order_trans)

section \<open>The main loop\<close>

text \<open>The case of an invalid instruction has no \<open>break\<close> and falls through to the default.\<close>

definition gdb_report :: "rv32_status \<Rightarrow> u8 list \<Rightarrow> u8 list run" where
  "gdb_report st out =
     (case st of
        RV32_RUNNING \<Rightarrow> Inr out
      | RV32_INVALID_MEMORY_ACCESS \<Rightarrow> rsp_report_signal RSP_SIGSEGV out
      | RV32_INVALID_INSTRUCTION \<Rightarrow>
          bind_run (rsp_report_signal RSP_SIGILL out) (rsp_report_signal RSP_SIGTRAP)
      | _ \<Rightarrow> rsp_report_signal RSP_SIGTRAP out)"

text \<open>
  The first half of a turn: when a byte is available, or the machine does not run, one byte is
  read, and the loop ends (\<open>None\<close>) at the end of the input. \<open>avail\<close> is what \<open>input_available\<close>
  returned, \<open>cs\<close> what is still to be read.
\<close>

type_synonym stub = "rsp_link \<times> session"

definition gdb_input :: "rsp_handler_result \<Rightarrow> bool \<Rightarrow> u8 list \<Rightarrow> stub \<Rightarrow> (u8 list \<times> stub) option run" where
  "gdb_input junk avail cs x =
     (if avail \<or> status (fst (snd x)) \<noteq> RV32_RUNNING then
        (case cs of
           [] \<Rightarrow> Inr None
         | c # cs' \<Rightarrow> bind_run (rsp_handle_byte junk c x) (\<lambda>x'. Inr (Some (cs', x'))))
      else Inr (Some (cs, x)))"

definition gdb_step :: "stub \<Rightarrow> stub run" where
  "gdb_step x =
     (if status (fst (snd x)) = RV32_RUNNING
      then bind_run (rv32_cycle gdb_platform (snd x)) (\<lambda>v.
             bind_run (gdb_report (status (fst v)) (snd v)) (\<lambda>out. Inr (fst x, (fst v, out))))
      else Inr x)"

definition gdb_turn :: "rsp_handler_result \<Rightarrow> bool \<Rightarrow> u8 list \<Rightarrow> stub \<Rightarrow> (u8 list \<times> stub) option run" where
  "gdb_turn junk avail cs x =
     bind_run (gdb_input junk avail cs x) (\<lambda>res.
       case res of
         None \<Rightarrow> Inr None
       | Some (cs', x') \<Rightarrow> bind_run (gdb_step x') (\<lambda>x''. Inr (Some (cs', x''))))"

text \<open>The turns of the loop, one for each answer of \<open>input_available\<close>.\<close>

fun gdb_turns :: "rsp_handler_result \<Rightarrow> bool list \<Rightarrow> u8 list \<Rightarrow> stub \<Rightarrow> (u8 list \<times> stub) option run" where
  "gdb_turns junk [] cs x = Inr (Some (cs, x))"
| "gdb_turns junk (a # as) cs x =
     bind_run (gdb_turn junk a cs x) (\<lambda>res.
       case res of None \<Rightarrow> Inr None | Some (cs', x') \<Rightarrow> gdb_turns junk as cs' x')"

text \<open>
  \<open>main\<close> up to the loop: the machine of 64 KiB in memory that \<open>calloc\<close> cleared, in the state in
  which it waits for the debugger. Without memory \<open>main\<close> prints a message and returns 1.
\<close>

definition gdb_start :: stub where
  "gdb_start = (rsp_link_start, (stop RV32_PAUSED (boot (replicate 0x10000 0)), []))"

definition gdb_main :: "rsp_handler_result \<Rightarrow> bool list \<Rightarrow> u8 list \<Rightarrow> (u8 list \<times> stub) option run" where
  "gdb_main junk polls cs = gdb_turns junk polls cs gdb_start"

section \<open>The stop replies\<close>

definition stop_replies :: "rv32_status \<Rightarrow> u8 list" where
  "stop_replies st =
     (case st of
        RV32_RUNNING \<Rightarrow> []
      | RV32_INVALID_MEMORY_ACCESS \<Rightarrow> bytes ''$S0b#e5''
      | RV32_INVALID_INSTRUCTION \<Rightarrow> bytes ''$S04#b7$S05#b8''
      | _ \<Rightarrow> bytes ''$S05#b8'')"

lemma report_signal_text:
  "rsp_report_signal RSP_SIGTRAP out = Inr (out @ bytes ''$S05#b8'')"
  "rsp_report_signal RSP_SIGILL out = Inr (out @ bytes ''$S04#b7'')"
  "rsp_report_signal RSP_SIGSEGV out = Inr (out @ bytes ''$S0b#e5'')"
  "rsp_report_signal RSP_SIGINT out = Inr (out @ bytes ''$S02#b5'')"
proof -
  have sent: "rsp_report_signal sig out = Inr (out @ w)"
    if "0 \<notin> set (bytes (signal_text sig))" "length (escape (bytes (signal_text sig))) \<le> 1019"
      "rsp_frame (escape (bytes (signal_text sig))) = w" for sig w
    using that by (simp add: rsp_report_signal_def quick_send)
  show "rsp_report_signal RSP_SIGTRAP out = Inr (out @ bytes ''$S05#b8'')"
    by (rule sent; code_simp)
  show "rsp_report_signal RSP_SIGILL out = Inr (out @ bytes ''$S04#b7'')"
    by (rule sent; code_simp)
  show "rsp_report_signal RSP_SIGSEGV out = Inr (out @ bytes ''$S0b#e5'')"
    by (rule sent; code_simp)
  show "rsp_report_signal RSP_SIGINT out = Inr (out @ bytes ''$S02#b5'')"
    by (rule sent; code_simp)
qed

lemma gdb_report_eq: "gdb_report st out = Inr (out @ stop_replies st)"
  by (cases st) (simp_all add: gdb_report_def stop_replies_def report_signal_text bytes_def)

section \<open>Properties\<close>

lemma gdb_input_inv:
  assumes "rsp_inv (l, v)" "gdb_input junk avail cs (l, v) = Inr (Some (cs', (l', v')))"
  shows "rsp_inv (l', v') \<and> same_shape (fst v) (fst v') \<and> prefix (snd v) (snd v') \<and> suffix cs' cs"
  using assms handle_byte_inv [OF assms(1)]
  by (auto simp: gdb_input_def prefix_def suffix_def elim!: bind_run_InrE split: if_splits list.splits)


lemma gdb_step_inv:
  assumes "rsp_inv (l, v)" "4 \<le> unat (mem_size (fst v))"
  shows "\<exists>v'. gdb_step (l, v) = Inr (l, v') \<and> rsp_inv (l, v') \<and> same_shape (fst v) (fst v') \<and> prefix (snd v) (snd v')"
proof (cases "status (fst v) = RV32_RUNNING")
  case False
  with assms show ?thesis by (simp add: gdb_step_def)
next
  case True
  have wf: "wf_rv32 (fst v)" using assms(1) by (simp add: rsp_inv_def)
  obtain v1 where v1: "rv32_cycle gdb_platform v = Inr v1" and sh: "same_shape (fst v) (fst v1)"
    using gdb.cycle_ok [OF wf assms(2)] by (auto elim: run_okE)
  have "gdb_step (l, v) = Inr (l, (fst v1, snd v1 @ stop_replies (status (fst v1))))"
    using True v1 by (simp add: gdb_step_def gdb_report_eq)
  moreover have "rsp_inv (l, (fst v1, out))" for out
    using assms(1) same_shape_keeps(1) [OF sh wf] by (simp add: rsp_inv_def)
  moreover have "prefix (snd v) (snd v1 @ x)" for x
    using gdb_output.cycle_le [OF v1] by simp
  ultimately show ?thesis using sh by simp
qed

text \<open>
  C24. Whatever the debugger sends and however its bytes and the cycles of the guest interleave,
  the session stays well-formed: the buffer, the running checksum and the machine keep their
  invariant, the RAM keeps its size, output is only appended and input is consumed in order.
\<close>

theorem gdb_turns_invariant:
  assumes "gdb_turns junk polls cs x = Inr (Some (cs', x'))"
    and "rsp_inv x" "4 \<le> unat (mem_size (fst (snd x)))"
  shows "rsp_inv x' \<and> mem_size (fst (snd x')) = mem_size (fst (snd x))
    \<and> prefix (snd (snd x)) (snd (snd x')) \<and> suffix cs' cs"
  using assms
proof (induction polls arbitrary: cs x)
  case Nil
  then show ?case by simp
next
  case (Cons a polls)
  obtain l v where x: "x = (l, v)" by (cases x)
  from Cons.prems(1) obtain cs1 l1 v1 where
    inp: "gdb_input junk a cs (l, v) = Inr (Some (cs1, (l1, v1)))"
    and rest: "bind_run (gdb_step (l1, v1)) (\<lambda>x2. gdb_turns junk polls cs1 x2) = Inr (Some (cs', x'))"
    by (auto simp: x gdb_turn_def bind_run_assoc elim!: bind_run_InrE split: option.splits prod.splits)
  note i = gdb_input_inv [OF Cons.prems(2) [unfolded x] inp]
  then have "4 \<le> unat (mem_size (fst v1))" using Cons.prems(3) by (simp add: x same_shape_def)
  with gdb_step_inv [of l1 v1] i obtain v2 where
    "gdb_step (l1, v1) = Inr (l1, v2)" and inv: "rsp_inv (l1, v2)" "same_shape (fst v1) (fst v2)" "prefix (snd v1) (snd v2)"
    by blast
  with rest have "gdb_turns junk polls cs1 (l1, v2) = Inr (Some (cs', x'))" by simp
  from Cons.IH [OF this inv(1)] inv i Cons.prems(3) show ?case
    by (auto simp: x same_shape_def intro: prefix_order.order_trans suffix_order.order_trans)
qed

theorem gdb_turns_invariant_witness:
  "\<exists>x'. gdb_turns RSP_PACKET_SENT [False] [0x24, 0x67] (rsp_link_start, (stop RV32_PAUSED (boot (replicate 8 0)), []))
       = Inr (Some ([0x67], x')) \<and> rsp_inv x' \<and> mem_size (fst (snd x')) = 8"
proof -
  let ?x = "(rsp_link_start, (stop RV32_PAUSED (boot (replicate 8 0)), [])) :: stub"
  have "wf_rv32 (stop RV32_PAUSED (boot (replicate 8 0)))"
    using same_shape_wf [OF stop_shape] boot_wf [of "replicate 8 0"] by simp
  then have inv: "rsp_inv ?x" by (simp add: rsp_inv_def rsp_link_start_def)
  have m: "mem_size (fst (snd ?x)) = 8" by (simp add: stop_def boot_def)
  obtain x' where "gdb_turns RSP_PACKET_SENT [False] [0x24, 0x67] ?x = Inr (Some ([0x67], x'))"
    by (simp add: gdb_turn_def gdb_input_def gdb_step_def rsp_handle_byte_def rsp_link_start_def stop_def)
  with gdb_turns_invariant [OF this inv] m show ?thesis by auto
qed

text \<open>
  C25. Continuing to a stop: while the machine runs and no byte arrives, the turns of the loop are
  the cycles of the machine, no byte of input is consumed, and at the first cycle that stops the
  machine the debugger gets one stop reply after the output of the guest, or two of them, with the
  signals 4 and 5, for an invalid instruction.
\<close>

theorem gdb_runs_to_stop:
  assumes "rv32_run gdb_platform (Suc n) v = Inr v'"
    and "\<And>k. k \<le> n \<Longrightarrow> \<exists>u. rv32_run gdb_platform k v = Inr u \<and> status (fst u) = RV32_RUNNING"
  shows "gdb_turns junk (replicate (Suc n) False) cs (l, v)
    = Inr (Some (cs, (l, (fst v', snd v' @ stop_replies (status (fst v'))))))"
  using assms
proof (induction n arbitrary: v)
  case 0
  from "0.prems"(2) [of 0] have "status (fst v) = RV32_RUNNING" by simp
  with "0.prems"(1) show ?case
    by (auto simp: gdb_turn_def gdb_input_def gdb_step_def gdb_report_eq elim!: bind_run_InrE)
next
  case (Suc n)
  from Suc.prems(2) [of 0] have run: "status (fst v) = RV32_RUNNING" by simp
  from Suc.prems(1) obtain v1 where v1: "rv32_cycle gdb_platform v = Inr v1"
    and rest: "rv32_run gdb_platform (Suc n) v1 = Inr v'" by (auto elim!: bind_run_InrE)
  from Suc.prems(2) [of 1] v1 have "status (fst v1) = RV32_RUNNING" by simp
  then have "gdb_turn junk False cs (l, v) = Inr (Some (cs, (l, v1)))"
    using run v1 by (simp add: gdb_turn_def gdb_input_def gdb_step_def gdb_report_eq stop_replies_def)
  moreover have "gdb_turns junk (replicate (Suc n) False) cs (l, v1)
      = Inr (Some (cs, (l, (fst v', snd v' @ stop_replies (status (fst v'))))))"
  proof (rule Suc.IH [OF rest])
    show "\<exists>u. rv32_run gdb_platform k v1 = Inr u \<and> status (fst u) = RV32_RUNNING" if "k \<le> n" for k
      using Suc.prems(2) [of "Suc k"] that v1 by simp
  qed
  ultimately show ?case by simp
qed

theorem gdb_runs_to_stop_witness:
  "\<exists>s. gdb_turns RSP_PACKET_SENT [False] [] (rsp_link_start, (boot (replicate 8 0), []))
     = Inr (Some ([], (rsp_link_start, (s, bytes ''$S04#b7$S05#b8''))))"
proof -
  let ?v = "(boot (replicate 8 0), []) :: session"
  let ?s = "stop RV32_INVALID_INSTRUCTION (boot (replicate 8 0))"
  have "rv32_run gdb_platform (Suc 0) ?v = Inr (?s, [])" by code_simp
  moreover have "\<exists>u. rv32_run gdb_platform k ?v = Inr u \<and> status (fst u) = RV32_RUNNING" if "k \<le> 0" for k
    using that by (simp add: boot_def)
  ultimately have "gdb_turns RSP_PACKET_SENT (replicate (Suc 0) False) [] (rsp_link_start, ?v)
      = Inr (Some ([], (rsp_link_start, (?s, [] @ stop_replies (status ?s)))))"
    using gdb_runs_to_stop [of 0 ?v "(?s, [])"] by simp
  then show ?thesis by (simp add: stop_replies_def stop_def)
qed

end
