(* ===== verification/Fantasy.thy ===== *)
theory Fantasy
  imports Emulator World "HOL-Library.Sublist"
begin

text \<open>
  The fantasy computer of \<open>src/examples/fantasy-computer/src\<close>: the frame buffer behind the memory
  callbacks and the system calls (\<open>fantasy_computer.h\<close>), the messages (\<open>macros.h\<close>) and the main
  program with its frames (\<open>main.c\<close>). SDL is a library: the events it polls, the answers of its
  performance counter and the failures of its constructors are arguments of the definitions.

  The source uses the names \<open>rv32_mmio_result_t\<close>, \<open>RV32_MMIO_OK\<close> and \<open>RV32_MMIO_ERR\<close>, which
  \<open>rv32.h\<close> no longer has; they are read as \<open>rv32_result_t\<close>, \<open>RV32_OK\<close> and \<open>RV32_ERR\<close>.
\<close>

section \<open>The screen\<close>

definition SCREEN_WIDTH :: nat where "SCREEN_WIDTH = 320"
definition SCREEN_HEIGHT :: nat where "SCREEN_HEIGHT = 240"

text \<open>
  \<open>pixels\<close> holds the bytes of the buffer that \<open>main\<close> allocates, two for each pixel; \<open>texture\<close> is
  what was last uploaded to the renderer.
\<close>

record screen =
  pixels :: "u8 list"
  render :: bool
  texture :: "u8 list"
  host :: host

definition fb_base :: nat where "fb_base = 0x80000000"

definition fb_size :: nat where "fb_size = SCREEN_WIDTH * SCREEN_HEIGHT * 2"

text \<open>
  The stores compare addresses as 64-bit numbers, since \<open>sizeof\<close> has the type \<open>size_t\<close>, so nothing
  wraps. Beyond the buffer the write would be undefined; \<open>fb_guarded\<close> below shows that the guards
  exclude it, so that the branch \<open>None\<close> is never taken.
\<close>

definition fb_put :: "nat \<Rightarrow> screen vm \<Rightarrow> u32 \<Rightarrow> 'a::len word \<Rightarrow> unit rv32_result \<times> screen vm" where
  "fb_put n v addr val =
     (case mem_put n (pixels (snd v)) (unat addr - fb_base) val of
        None \<Rightarrow> (RV32_ERR, v)
      | Some px \<Rightarrow> (RV32_OK (), (fst v, (snd v)\<lparr>pixels := px\<rparr>)))"

definition fantasy_store8 :: "screen vm \<Rightarrow> u32 \<Rightarrow> u8 \<Rightarrow> unit rv32_result \<times> screen vm" where
  "fantasy_store8 v addr val =
     (if fb_base \<le> unat addr \<and> unat addr < fb_base + SCREEN_WIDTH * SCREEN_HEIGHT * 2
      then fb_put 1 v addr val else (RV32_ERR, v))"

definition fantasy_store16 :: "screen vm \<Rightarrow> u32 \<Rightarrow> u16 \<Rightarrow> unit rv32_result \<times> screen vm" where
  "fantasy_store16 v addr val =
     (if fb_base \<le> unat addr \<and> unat addr < fb_base + SCREEN_WIDTH * SCREEN_HEIGHT * 2 - (2 - 1)
      then fb_put 2 v addr val else (RV32_ERR, v))"

definition fantasy_store32 :: "screen vm \<Rightarrow> u32 \<Rightarrow> u32 \<Rightarrow> unit rv32_result \<times> screen vm" where
  "fantasy_store32 v addr val =
     (if fb_base \<le> unat addr \<and> unat addr < fb_base + SCREEN_WIDTH * SCREEN_HEIGHT * 2 - (4 - 1)
      then fb_put 4 v addr val else (RV32_ERR, v))"

section \<open>System calls\<close>

definition set_a0 :: "u32 \<Rightarrow> rv32 \<Rightarrow> rv32" where
  "set_a0 x s = s\<lparr>r := (r s)[reg_index REG_A0 := x]\<rparr>"

definition print_screen :: "string \<Rightarrow> screen \<Rightarrow> screen" where
  "print_screen t w = w\<lparr>host := print_out t (host w)\<rparr>"

definition fantasy_ecall :: "screen vm \<Rightarrow> screen vm" where
  "fantasy_ecall v =
     (let s = fst v; w = snd v; a7 = r s ! reg_index REG_A7; a0 = r s ! reg_index REG_A0
      in if a7 = 1 then (s, print_screen (format_c a0) w)
         else if a7 = 2 then (s, print_screen (format_d a0 @ newline) w)
         else if a7 = 3 then (set_a0 (word_of_nat SCREEN_WIDTH) s, w)
         else if a7 = 4 then (set_a0 (word_of_nat SCREEN_HEIGHT) s, w)
         else if a7 = 5 then (s, w\<lparr>render := True\<rparr>)
         else if a7 = 93 then (stop RV32_HALTED s, w)
         else v)"

definition fantasy_platform :: "screen platform" where
  "fantasy_platform =
     \<lparr>mmio_load8 = (\<lambda>v a. (RV32_ERR, v)), mmio_load16 = (\<lambda>v a. (RV32_ERR, v)),
      mmio_load32 = (\<lambda>v a. (RV32_ERR, v)), mmio_store8 = fantasy_store8,
      mmio_store16 = fantasy_store16, mmio_store32 = fantasy_store32, ecall = fantasy_ecall\<rparr>"

lemma fantasy_platform_simps [simp]:
  "mmio_load8 fantasy_platform v a = (RV32_ERR, v)" "mmio_load16 fantasy_platform v a = (RV32_ERR, v)"
  "mmio_load32 fantasy_platform v a = (RV32_ERR, v)" "mmio_store8 fantasy_platform = fantasy_store8"
  "mmio_store16 fantasy_platform = fantasy_store16" "mmio_store32 fantasy_platform = fantasy_store32"
  "ecall fantasy_platform = fantasy_ecall"
  by (simp_all add: fantasy_platform_def)

section \<open>The events of a frame\<close>

datatype sdl_event = SDL_QUIT | SDL_TEXTINPUT string | SDL_KEYDOWN | SDL_OTHER

type_synonym console = "bool \<times> screen vm"

primrec fantasy_event :: "sdl_event \<Rightarrow> console \<Rightarrow> console" where
  "fantasy_event SDL_QUIT x = (True, snd x)"
| "fantasy_event (SDL_TEXTINPUT t) x = (fst x, (fst (snd x), print_screen t (snd (snd x))))"
| "fantasy_event SDL_KEYDOWN x =
     (let s = fst (snd x) in (fst x, (s\<lparr>mip := CSR_SET_BIT (mip s) CSR_MIP_MEIP 1\<rparr>, snd (snd x))))"
| "fantasy_event SDL_OTHER x = x"

text \<open>
  \<open>SDL_UpdateTexture\<close> copies the rows of the screen, the start of each \<open>pitch\<close> bytes after the
  start of the one above.
\<close>

definition SDL_UpdateTexture :: "nat \<Rightarrow> u8 list \<Rightarrow> u8 list" where
  "SDL_UpdateTexture pitch px =
     concat (map (\<lambda>y. take (SCREEN_WIDTH * 2) (drop (y * pitch) px)) [0..<SCREEN_HEIGHT])"

definition fantasy_render :: "screen \<Rightarrow> screen" where
  "fantasy_render w =
     (if render w then w\<lparr>texture := SDL_UpdateTexture (SCREEN_WIDTH * 2) (pixels w), render := False\<rparr> else w)"

section \<open>The cycles of a frame\<close>

text \<open>
  The switch after a cycle. Its result says whether it set \<open>quit\<close>; the jump of the case of a halted
  machine leaves the loop that \<open>quit\<close> ends anyway.
\<close>

definition fantasy_report :: "screen vm \<Rightarrow> console run" where
  "fantasy_report v =
     (let s = fst v; w = snd v
      in case status s of
           RV32_RUNNING \<Rightarrow> Inr (False, v)
         | RV32_HALTED \<Rightarrow> Inr (True, (s, print_screen (''cpu halted.'' @ newline
               @ ''exit status: '' @ format_d (r s ! reg_index REG_A0) @ newline) w))
         | RV32_EBREAK \<Rightarrow> Inr (False, (s, w\<lparr>host :=
               print_err (''ebreak at pc='' @ format_08x (pc s) @ newline) (host w)\<rparr>))
         | st \<Rightarrow>
             (case mem_get 4 (mem s) (unat (pc s)) of
                None \<Rightarrow> Inl Out_Of_Bounds
              | Some instr \<Rightarrow> Inr (True, (s, w\<lparr>host := print_err
                    (''Error '' @ decimal_nat (status_code st) @ '' at pc='' @ format_08x (pc s) @ newline
                     @ ''instr = '' @ format_08x instr @ newline) (host w)\<rparr>))))"

definition fantasy_cycle :: "console \<Rightarrow> console run" where
  "fantasy_cycle x =
     bind_run (rv32_cycle fantasy_platform (snd x)) (\<lambda>v.
     bind_run (fantasy_report v) (\<lambda>(q, v'). Inr (fst x \<or> q, v')))"

text \<open>
  The loop \<open>do ... while(!quit && ...)\<close>: each element of the list is what the comparison with the
  duration of a frame said after a cycle; the list ends where the frame does.
\<close>

fun fantasy_cycles :: "bool list \<Rightarrow> console \<Rightarrow> console run" where
  "fantasy_cycles in_time x =
     bind_run (fantasy_cycle x) (\<lambda>x'.
       case in_time of
         [] \<Rightarrow> Inr x'
       | b # bs \<Rightarrow> if \<not> fst x' \<and> b then fantasy_cycles bs x' else Inr x')"

declare fantasy_cycles.simps [simp del]

definition fantasy_frame :: "sdl_event list \<Rightarrow> bool list \<Rightarrow> console \<Rightarrow> console run" where
  "fantasy_frame events in_time x =
     (let x = fold fantasy_event events x
      in fantasy_cycles in_time (fst x, (fst (snd x), fantasy_render (snd (snd x)))))"

text \<open>The frames, until \<open>quit\<close> or the end of the list.\<close>

fun fantasy_frames :: "(sdl_event list \<times> bool list) list \<Rightarrow> console \<Rightarrow> console run" where
  "fantasy_frames [] x = Inr x"
| "fantasy_frames ((events, in_time) # fs) x =
     (if fst x then Inr x else bind_run (fantasy_frame events in_time x) (fantasy_frames fs))"

section \<open>The main program\<close>

text \<open>The macro \<open>ERROR\<close> of \<open>macros.h\<close>: the file, the line, the level and the message.\<close>

definition DEBUG_MESSAGE :: "string \<Rightarrow> nat \<Rightarrow> string \<Rightarrow> screen \<Rightarrow> screen" where
  "DEBUG_MESSAGE level line msg w = w\<lparr>host := print_err
     (''src/main.c:'' @ decimal_nat line @ '': ['' @ level @ ''] '' @ msg @ newline) (host w)\<rparr>"

definition ERROR :: "nat \<Rightarrow> string \<Rightarrow> screen \<Rightarrow> screen" where
  "ERROR = DEBUG_MESSAGE ''error''"

text \<open>How the constructors of the library and the allocation of the pixels went.\<close>

datatype sdl_setup =
  Init_failed string
| Window_failed string
| Renderer_failed string
| Texture_failed string
| Pixels_failed
| Sdl_ready "u8 list"

definition fantasy_ram_size :: u32 where "fantasy_ram_size = 0x10000"

definition fantasy_run :: "rv32 \<Rightarrow> sdl_setup \<Rightarrow> (sdl_event list \<times> bool list) list \<Rightarrow> screen \<Rightarrow> (u32 \<times> screen) run" where
  "fantasy_run s sdl frames w =
     (case sdl of
        Init_failed e \<Rightarrow> Inr (1, ERROR 64 (''failed to initialize SDL : '' @ e) w)
      | Window_failed e \<Rightarrow> Inr (1, ERROR 69 (''failed to create window : '' @ e) w)
      | Renderer_failed e \<Rightarrow> Inr (1, ERROR 75 (''failed to create renderer : '' @ e) w)
      | Texture_failed e \<Rightarrow> Inr (1, ERROR 82 (''failed to create texture : '' @ e) w)
      | Pixels_failed \<Rightarrow> Inr (1, ERROR 89 ''failed to allocate pixels memory'' w)
      | Sdl_ready px \<Rightarrow>
          bind_run (fantasy_frames frames
              (False, (s, w\<lparr>pixels := px, texture := SDL_UpdateTexture 2 px\<rparr>)))
            (\<lambda>x. Inr (0, snd (snd x))))"

text \<open>
  \<open>main\<close>: \<open>malloc\<close> is the block that the call of that name returned, read as the structure, and
  \<open>files\<close> the file system. An empty file is read as no element.
\<close>

definition fantasy_main ::
  "string list \<Rightarrow> rv32 option \<Rightarrow> (string \<Rightarrow> u8 list option) \<Rightarrow> sdl_setup
   \<Rightarrow> (sdl_event list \<times> bool list) list \<Rightarrow> screen \<Rightarrow> (u32 \<times> screen) run" where
  "fantasy_main argv malloc files sdl frames w =
     (if length argv \<noteq> 2
      then Inr (1, w\<lparr>host := print_err (''usage: '' @ argv ! 0 @ '' file.bin'' @ newline) (host w)\<rparr>)
      else case malloc of
        None \<Rightarrow> Inr (1, ERROR 27 ''failed to allocate memory'' w)
      | Some memory \<Rightarrow>
          bind_run (rv32_new memory fantasy_ram_size) (\<lambda>s.
            case files (argv ! 1) of
              None \<Rightarrow> Inr (0, ERROR 39 (''failed to open '' @ argv ! 1) w)
            | Some file \<Rightarrow>
                (if unat fantasy_ram_size < length file then Inr (0, ERROR 49 ''program too big'' w)
                 else case load_program file s of
                   None \<Rightarrow> Inr (0, ERROR 59 ''failed to read program'' w)
                 | Some s' \<Rightarrow> fantasy_run s' sdl frames w)))"

end
