(* ===== verification/Fantasy_Properties.thy ===== *)
theory Fantasy_Properties
  imports Fantasy Delivery
begin

text \<open>
  The properties of the fantasy computer: its frame buffer, the contract of its callbacks, and what
  its main program does with the current core.
\<close>

section \<open>The frame buffer\<close>

lemma fb_size_value: "fb_size = 153600" "SCREEN_WIDTH * SCREEN_HEIGHT * 2 = 153600"
  by (simp_all add: fb_size_def SCREEN_WIDTH_def SCREEN_HEIGHT_def)

lemma fb_guarded:
  assumes "fb_base \<le> unat addr" "unat addr < fb_base + 153600 - (n - 1)" "length (pixels (snd v)) = fb_size"
  shows "\<exists>px. mem_put n (pixels (snd v)) (unat addr - fb_base) x = Some px \<and> length px = fb_size
    \<and> fb_put n v addr x = (RV32_OK (), (fst v, (snd v)\<lparr>pixels := px\<rparr>))"
proof -
  have "unat addr - fb_base + n \<le> length (pixels (snd v))"
    using assms by (simp add: fb_size_value)
  then obtain px where "mem_put n (pixels (snd v)) (unat addr - fb_base) x = Some px"
    by (simp add: mem_put_def)
  with mem_put_length [OF this] assms(3) show ?thesis by (simp add: fb_put_def)
qed

lemma fb_put_shape: "fst (snd (fb_put n v addr x)) = fst v"
  by (simp add: fb_put_def split: option.split)

lemma fb_put_world:
  "length (pixels (snd (snd (fb_put n v addr x)))) = length (pixels (snd v))"
  "host (snd (snd (fb_put n v addr x))) = host (snd v)"
  by (auto simp: fb_put_def mem_put_length split: option.split)

lemma set_a0_shape [simp]: "same_shape s (set_a0 x s)"
  by (simp add: set_a0_def same_shape_def)

interpretation fantasy: platform_contract fantasy_platform
  by unfold_locales
    (simp_all add: fantasy_store8_def fantasy_store16_def fantasy_store32_def fb_put_shape
      fantasy_ecall_def Let_def)

text \<open>A program keeps the size of the frame buffer and only appends to the output.\<close>

definition screen_grows :: "screen \<Rightarrow> screen \<Rightarrow> bool" where
  "screen_grows w w' \<longleftrightarrow> length (pixels w') = length (pixels w)
     \<and> prefix (std_out (host w)) (std_out (host w')) \<and> std_err (host w') = std_err (host w)"

interpretation fantasy_screen: world_order fantasy_platform screen_grows
  by unfold_locales
    (auto simp: screen_grows_def fantasy_store8_def fantasy_store16_def fantasy_store32_def
      fb_put_world fantasy_ecall_def Let_def print_screen_def print_out_def
      intro: prefix_order.order_trans)

text \<open>Any number of cycles returns, with the same RAM and frame buffer, and only adds to the output.\<close>

lemma fantasy_cycles_defined:
  assumes "wf_rv32 (fst v)" "4 \<le> unat (mem_size (fst v))"
  shows "\<exists>v'. rv32_run fantasy_platform n v = Inr v' \<and> same_shape (fst v) (fst v') \<and> screen_grows (snd v) (snd v')"
proof -
  obtain v' where run: "rv32_run fantasy_platform n v = Inr v'" "same_shape (fst v) (fst v')"
    using fantasy.run_ok_cycles [OF assms, of n] by (elim run_okE)
  with fantasy_screen.run_le [OF run(1)] show ?thesis by blast
qed

lemma fb_put_eq:
  assumes "fb_base \<le> unat addr" "unat addr + n \<le> fb_base + fb_size" "length (pixels w) = fb_size"
  shows "fb_put n (s, w) addr x = (RV32_OK (), (s, w\<lparr>pixels :=
    take (unat addr - fb_base) (pixels w) @ le_bytes n x @ drop (unat addr - fb_base + n) (pixels w)\<rparr>))"
  using assms by (simp add: fb_put_def mem_put_def)

text \<open>A frame buffer without guards: the store of \<open>bs\<close> at \<open>addr\<close>, all or nothing.\<close>

definition fb_store :: "u8 list \<Rightarrow> screen vm \<Rightarrow> u32 \<Rightarrow> unit rv32_result \<times> screen vm" where
  "fb_store bs v addr =
     (let px = pixels (snd v); i = unat addr - fb_base
      in if fb_base \<le> unat addr \<and> unat addr + length bs \<le> fb_base + fb_size
         then (RV32_OK (), (fst v, (snd v)\<lparr>pixels := take i px @ bs @ drop (i + length bs) px\<rparr>))
         else (RV32_ERR, v))"

lemma fb_store_guard:
  assumes "length (pixels (snd v)) = fb_size" "1 \<le> n"
  shows "(if fb_base \<le> unat addr \<and> unat addr < fb_base + SCREEN_WIDTH * SCREEN_HEIGHT * 2 - (n - 1)
      then fb_put n v addr x else (RV32_ERR, v)) = fb_store (le_bytes n x) v addr"
proof -
  have "(fb_base \<le> unat addr \<and> unat addr < fb_base + SCREEN_WIDTH * SCREEN_HEIGHT * 2 - (n - 1))
      \<longleftrightarrow> (fb_base \<le> unat addr \<and> unat addr + n \<le> fb_base + fb_size)"
    using assms(2) by (auto simp: fb_size_value)
  then show ?thesis
    using fb_put_eq [of addr n "snd v" "fst v" x] assms(1) by (simp add: fb_store_def Let_def)
qed

text \<open>
  C29. The frame buffer: a store of one, two or four bytes succeeds exactly when all its bytes lie
  in the buffer, it replaces just these bytes, in little-endian order, and any other store is
  refused without an effect. In particular the pointer arithmetic of the callbacks never leaves the
  buffer.
\<close>

theorem fantasy_framebuffer:
  assumes "length (pixels (snd v)) = fb_size"
  shows "fantasy_store8 v addr x8 = fb_store (le_bytes 1 x8) v addr
    \<and> fantasy_store16 v addr x16 = fb_store (le_bytes 2 x16) v addr
    \<and> fantasy_store32 v addr x32 = fb_store (le_bytes 4 x32) v addr"
  using fb_store_guard [OF assms, of 1 addr x8] fb_store_guard [OF assms, of 2 addr x16]
    fb_store_guard [OF assms, of 4 addr x32]
  unfolding fantasy_store8_def fantasy_store16_def fantasy_store32_def
  by (simp only: diff_self_eq_0 diff_zero)

theorem fantasy_framebuffer_witness:
  "\<exists>w. length (pixels w) = fb_size \<and>
     fst (fantasy_store32 (boot [], w) 0x800257fc 7) = RV32_OK () \<and>
     fantasy_store32 (boot [], w) 0x800257fd 7 = (RV32_ERR, (boot [], w))"
proof -
  let ?w = "\<lparr>pixels = replicate fb_size 0, render = False, texture = [], host = \<lparr>std_out = [], std_err = []\<rparr>\<rparr>"
  have len: "length (pixels ?w) = fb_size" by simp
  show ?thesis
    using fantasy_framebuffer [of "(boot [], ?w)" "0x800257fc" 0 0 7]
      fantasy_framebuffer [of "(boot [], ?w)" "0x800257fd" 0 0 7]
    by (intro exI [of _ ?w]) (simp add: fb_base_def fb_size_value fb_store_def Let_def)
qed

section \<open>The main program with the current core\<close>

lemma events_fold:
  "\<exists>q' k t. fold fantasy_event es (q, (s, w)) = (q', (s\<lparr>mip := k\<rparr>, w\<lparr>host := print_out t (host w)\<rparr>))"
proof (induction es arbitrary: q s w)
  case Nil
  have "w = w\<lparr>host := print_out [] (host w)\<rparr>" "s = s\<lparr>mip := mip s\<rparr>" by (simp_all add: print_out_def)
  then show ?case by (metis fold_Nil id_apply)
next
  case (Cons e es)
  have same: "s = s\<lparr>mip := mip s\<rparr>" by simp
  show ?case
  proof (cases e)
    case (SDL_TEXTINPUT t)
    obtain q' k t' where "fold fantasy_event es (q, (s, print_screen t w))
        = (q', (s\<lparr>mip := k\<rparr>, (print_screen t w)\<lparr>host := print_out t' (host (print_screen t w))\<rparr>))"
      using Cons.IH by blast
    then show ?thesis
      by (intro exI [of _ q'] exI [of _ k] exI [of _ "t @ t'"])
        (simp add: SDL_TEXTINPUT print_screen_def print_out_def)
  next
    case SDL_KEYDOWN
    obtain q' k t' where "fold fantasy_event es (q, (s\<lparr>mip := CSR_SET_BIT (mip s) CSR_MIP_MEIP 1\<rparr>, w))
        = (q', (s\<lparr>mip := CSR_SET_BIT (mip s) CSR_MIP_MEIP 1\<rparr>\<lparr>mip := k\<rparr>, w\<lparr>host := print_out t' (host w)\<rparr>))"
      using Cons.IH by blast
    then show ?thesis by (auto simp: SDL_KEYDOWN)
  next
    case SDL_QUIT
    then show ?thesis using Cons.IH [of True s w] by simp
  next
    case SDL_OTHER
    then show ?thesis using Cons.IH [of q s w] by simp
  qed
qed

lemma paused_cycle:
  "status s = RV32_PAUSED \<Longrightarrow> wfi s = 0 \<Longrightarrow> mstatus s = 0 \<Longrightarrow> rv32_cycle p (s, w) = Inr (s, w)"
  by (simp add: rv32_cycle_def deliver_interrupt_def CSR_GET_BIT_def)

lemma paused_frame:
  assumes "status s = RV32_PAUSED" "wfi s = 0" "mstatus s = 0" "pc s = 0" "mem_get 4 (mem s) 0 = Some instr"
  shows "\<exists>k t. fantasy_frame events in_time (False, (s, w)) = Inr (True, (s\<lparr>mip := k\<rparr>,
    (fantasy_render w)\<lparr>host := print_err (''Error 2 at pc=00000000'' @ newline
        @ ''instr = '' @ format_08x instr @ newline) (print_out t (host w))\<rparr>))"
proof -
  obtain q k t where ev: "fold fantasy_event events (False, (s, w))
      = (q, (s\<lparr>mip := k\<rparr>, w\<lparr>host := print_out t (host w)\<rparr>))"
    using events_fold by blast
  let ?u = "fantasy_render (w\<lparr>host := print_out t (host w)\<rparr>)"
  have u: "?u = (fantasy_render w)\<lparr>host := print_out t (host w)\<rparr>"
    by (simp add: fantasy_render_def)
  have pc: "format_08x 0 = ''00000000''" and two: "decimal_nat 2 = ''2''" by code_simp+
  have "rv32_cycle fantasy_platform (s\<lparr>mip := k\<rparr>, ?u) = Inr (s\<lparr>mip := k\<rparr>, ?u)"
    by (rule paused_cycle) (simp_all add: assms)
  then have "fantasy_cycle (q, (s\<lparr>mip := k\<rparr>, ?u)) = Inr (True, (s\<lparr>mip := k\<rparr>, ?u\<lparr>host :=
      print_err (''Error 2 at pc=00000000'' @ newline @ ''instr = '' @ format_08x instr @ newline) (host ?u)\<rparr>))"
    using assms by (simp add: fantasy_cycle_def fantasy_report_def pc two Let_def)
  then have "fantasy_frame events in_time (False, (s, w)) = Inr (True, (s\<lparr>mip := k\<rparr>, ?u\<lparr>host :=
      print_err (''Error 2 at pc=00000000'' @ newline @ ''instr = '' @ format_08x instr @ newline) (host ?u)\<rparr>))"
    by (simp add: fantasy_frame_def ev fantasy_cycles.simps [of in_time "(q, (s\<lparr>mip := k\<rparr>, ?u))"] split: list.split)
  then show ?thesis unfolding u by auto
qed

text \<open>
  C30. With the core of \<open>src/src/rv32.h\<close> the fantasy computer executes no instruction:
  \<open>rv32_new\<close> leaves the machine paused, \<open>main\<close> does not resume it, and the switch after the first
  cycle takes the status for an error, so the program ends after one frame with the message of
  error 2 at address 0, whatever the program, the events and the time.
\<close>

theorem fantasy_never_runs:
  assumes "files path = Some file" "file \<noteq> []" "length file \<le> 0x10000"
    and "length (mem memory) = RV32_NEEDED_MEMORY 0x10000 - offsetof_mem"
  shows "\<exists>w' instr. fantasy_main [prog, path] (Some memory) files (Sdl_ready px) ((events, in_time) # frames) w
      = Inr (0, w') \<and> pixels w' = px
    \<and> std_err (host w') = std_err (host w) @ ''Error 2 at pc=00000000'' @ newline
        @ ''instr = '' @ format_08x instr @ newline"
proof -
  let ?z = "(zeroed memory)\<lparr>mem_size := 0x10000, status := RV32_PAUSED\<rparr>"
  let ?s = "?z\<lparr>mem := file @ drop (length file) (mem ?z)\<rparr>"
  let ?w = "w\<lparr>pixels := px, texture := SDL_UpdateTexture 2 px\<rparr>"
  let ?u = "\<lambda>t m. (fantasy_render ?w)\<lparr>host := print_err m (print_out t (host ?w))\<rparr>"
  have len: "length (mem memory) = 65540" using assms(4) by (simp add: RV32_NEEDED_MEMORY_def RV32_layout)
  then have new: "rv32_new memory fantasy_ram_size = Inr ?z"
    by (simp add: rv32_new_Inr fantasy_ram_size_def)
  have load: "load_program file ?z = Some ?s" using assms(2) by (simp add: load_program_def)
  have "length (mem ?s) = 65540" using len assms(3) by (simp add: zeroed_lengths)
  then obtain instr :: u32 where instr: "mem_get 4 (mem ?s) 0 = Some instr"
    by (simp add: mem_get_def)
  let ?msg = "''Error 2 at pc=00000000'' @ newline @ ''instr = '' @ format_08x instr @ newline"
  obtain k t where "fantasy_frame events in_time (False, (?s, ?w)) = Inr (True, (?s\<lparr>mip := k\<rparr>,
      (fantasy_render ?w)\<lparr>host := print_err ?msg (print_out t (host ?w))\<rparr>))"
    using paused_frame [of ?s instr events in_time ?w] instr by (auto simp: zeroed_def)
  moreover have "fantasy_frames frames (True, x) = Inr (True, x)" for x
    by (cases frames) auto
  ultimately have "fantasy_main [prog, path] (Some memory) files (Sdl_ready px) ((events, in_time) # frames) w
      = Inr (0, ?u t ?msg)"
    using assms(1,3) new load by (simp add: fantasy_main_def fantasy_run_def fantasy_ram_size_def)
  then show ?thesis
    by (intro exI [of _ "?u t ?msg"] exI [of _ instr])
      (simp add: fantasy_render_def print_err_def print_out_def)
qed

theorem fantasy_never_runs_witness:
  "\<exists>w instr. fantasy_main [''fantasy'', ''a.bin''] (Some (boot (replicate 0x10000 0))) [''a.bin'' \<mapsto> [0x13, 0, 0, 0]]
      (Sdl_ready []) [([], [])] \<lparr>pixels = [], render = False, texture = [], host = \<lparr>std_out = [], std_err = []\<rparr>\<rparr>
    = Inr (0, w) \<and> std_err (host w) = ''Error 2 at pc=00000000'' @ newline
        @ ''instr = '' @ format_08x instr @ newline"
proof -
  have "length (mem (boot (replicate 0x10000 0))) = RV32_NEEDED_MEMORY 0x10000 - offsetof_mem"
    by (simp add: boot_def RV32_NEEDED_MEMORY_def RV32_layout)
  from fantasy_never_runs [OF _ _ _ this, of "[''a.bin'' \<mapsto> [0x13, 0, 0, 0]]" "''a.bin''" "[0x13, 0, 0, 0]"
    "''fantasy''" "[]" "[]" "[]" "[]"
    "\<lparr>pixels = [], render = False, texture = [], host = \<lparr>std_out = [], std_err = []\<rparr>\<rparr>"]
  show ?thesis by auto
qed


section \<open>A guest that waits for a key\<close>

lemma deliver_without_request:
  assumes "mie s = push_bit CSR_MIE_MEIE 1" "pending s = 0"
  shows "deliver_interrupt s = s"
proof -
  have active: "mie s AND mip s = push_bit CSR_MIE_MEIE 1 \<or> mie s AND mip s = 0"
  proof (cases "bit (mip s) CSR_MIE_MEIE")
    case True
    then have "mie s AND mip s = push_bit CSR_MIE_MEIE 1"
      unfolding assms(1) by (intro bit_word_eqI) (auto simp: bit_simps)
    then show ?thesis ..
  next
    case False
    then have "mie s AND mip s = 0"
      unfolding assms(1) by (intro bit_word_eqI) (auto simp: bit_simps)
    then show ?thesis ..
  qed
  have none: "rv32_claim_irq s = None" by (simp add: claim_irq_None assms(2))
  show ?thesis
  proof (cases "bit (mstatus s) CSR_MSTATUS_MIE")
    case False
    then show ?thesis by (simp add: deliver_interrupt_def)
  next
    case True
    from active show ?thesis
    proof
      assume "mie s AND mip s = push_bit CSR_MIE_MEIE 1"
      then show ?thesis
        using handle_interrupt_external [OF True] none by (simp add: external_only_def deliver_interrupt_def)
    qed (simp add: deliver_interrupt_def)
  qed
qed

definition asleep :: "rv32 \<Rightarrow> bool" where
  "asleep s \<longleftrightarrow> wfi s \<noteq> 0 \<and> status s = RV32_RUNNING \<and> mie s = push_bit CSR_MIE_MEIE 1 \<and> pending s = 0"

lemma asleep_mip [simp]: "asleep (s\<lparr>mip := k\<rparr>) = asleep s"
  by (simp add: asleep_def)

lemma asleep_cycle: "asleep s \<Longrightarrow> fantasy_cycle (q, (s, w)) = Inr (q, (s, w))"
  by (simp add: asleep_def fantasy_cycle_def rv32_cycle_def deliver_without_request fantasy_report_def Let_def)

lemma asleep_cycles: "asleep s \<Longrightarrow> fantasy_cycles in_time (q, (s, w)) = Inr (q, (s, w))"
proof (induction in_time arbitrary: q)
  case Nil
  then show ?case by (subst fantasy_cycles.simps) (simp add: asleep_cycle)
next
  case (Cons b bs)
  then show ?case by (subst fantasy_cycles.simps) (simp add: asleep_cycle)
qed

lemma asleep_frame:
  assumes "asleep s"
  shows "\<exists>q' k w'. fantasy_frame events in_time (q, (s, w)) = Inr (q', (s\<lparr>mip := k\<rparr>, w')) \<and> pixels w' = pixels w"
proof -
  obtain q' k t where ev: "fold fantasy_event events (q, (s, w)) = (q', (s\<lparr>mip := k\<rparr>, w\<lparr>host := print_out t (host w)\<rparr>))"
    using events_fold by blast
  let ?w = "fantasy_render (w\<lparr>host := print_out t (host w)\<rparr>)"
  have "fantasy_frame events in_time (q, (s, w)) = Inr (q', (s\<lparr>mip := k\<rparr>, ?w))"
    using assms by (simp add: fantasy_frame_def ev asleep_cycles)
  moreover have "pixels ?w = pixels w" by (simp add: fantasy_render_def)
  ultimately show ?thesis by blast
qed

text \<open>
  C36. A guest that waits for a key waits forever. The program reports a key by setting the external
  bit of \<open>mip\<close> itself, instead of raising a request in the interrupt controller; the core takes an
  external interrupt only if the controller has one. So a guest that enabled external interrupts and
  executed \<open>wfi\<close> stays where it is through every sequence of frames, keys and other events, however
  many cycles each frame has time for.
\<close>

theorem fantasy_key_never_wakes:
  assumes "wfi s \<noteq> 0" "status s = RV32_RUNNING" "mie s = push_bit CSR_MIE_MEIE 1" "pending s = 0"
  shows "\<exists>q' k w'. fantasy_frames frames (q, (s, w)) = Inr (q', (s\<lparr>mip := k\<rparr>, w')) \<and> pixels w' = pixels w"
proof -
  have "asleep s" using assms by (simp add: asleep_def)
  then show ?thesis
  proof (induction frames arbitrary: q s w)
    case Nil
    have "s = s\<lparr>mip := mip s\<rparr>" by simp
    then show ?case by (metis fantasy_frames.simps(1))
  next
    case (Cons f fs)
    obtain events in_time where f: "f = (events, in_time)" by (cases f)
    show ?case
    proof (cases q)
      case True
      have "s = s\<lparr>mip := mip s\<rparr>" by simp
      with True show ?thesis by (metis f fantasy_frames.simps(2) fst_conv)
    next
      case False
      obtain q1 k w1 where one: "fantasy_frame events in_time (q, (s, w)) = Inr (q1, (s\<lparr>mip := k\<rparr>, w1))" "pixels w1 = pixels w"
        using asleep_frame [OF Cons.prems] by blast
      moreover obtain q2 k2 w2 where "fantasy_frames fs (q1, (s\<lparr>mip := k\<rparr>, w1)) = Inr (q2, (s\<lparr>mip := k2\<rparr>, w2))" "pixels w2 = pixels w1"
        using Cons.IH [of "s\<lparr>mip := k\<rparr>" q1 w1] Cons.prems by auto
      ultimately show ?thesis using False by (auto simp: f)
    qed
  qed
qed

theorem fantasy_key_never_wakes_witness:
  "\<forall>w. \<exists>q k w'. fantasy_frames [([SDL_KEYDOWN], [True, True]), ([SDL_KEYDOWN], [])]
      (False, ((boot [])\<lparr>mstatus := 8, mie := 0x800, wfi := 1\<rparr>, w))
    = Inr (q, ((boot [])\<lparr>mstatus := 8, mie := 0x800, wfi := 1, mip := k\<rparr>, w')) \<and> pixels w' = pixels w"
  by (rule allI, rule fantasy_key_never_wakes) (simp_all add: boot_def csr_bit_defs)

text \<open>With a request in the controller the same guest would be woken by its next cycle.\<close>

lemma request_wakes:
  assumes "bit (mstatus s) CSR_MSTATUS_MIE" "mie s = push_bit CSR_MIE_MEIE 1" "enabled s = 1" "mip s = 0"
  shows "wfi (deliver_interrupt (rv32_trigger_external_interrupt s 0)) = 0"
proof -
  let ?t = "rv32_trigger_external_interrupt s 0"
  have t: "mstatus ?t = mstatus s" "mie ?t = mie s" "enabled ?t = enabled s" "pending ?t = pending s OR 1"
    "mip ?t = push_bit CSR_MIE_MEIE 1"
    by (simp_all add: rv32_trigger_external_interrupt_def assms(4) CSR_SET_BIT_def csr_bit_defs)
  have "1 AND (pending s OR 1) = 1" by (rule bit_word_eqI) (auto simp: bit_simps)
  then have "rv32_claim_irq ?t \<noteq> None" by (simp add: claim_irq_None t assms(3))
  moreover have "deliver_interrupt ?t = rv32_handle_interrupt ?t"
    using assms(1,2) by (simp add: deliver_interrupt_def t csr_bit_defs)
  moreover have "external_only ?t" by (simp add: external_only_def t assms(2))
  ultimately show ?thesis
    using handle_interrupt_external [of ?t] assms(1) by (auto simp: t enter_trap_fields split: option.split)
qed

end
