(* ===== verification/Arduino.thy ===== *)
theory Arduino
  imports Gdb_Stub Emulator
begin

text \<open>
  The board of \<open>src/examples/arduino/rv32_gdb_pio/src/main.cpp\<close>: a machine with a screen, driven by
  the GDB stub over the second serial port. \<open>TFT_eSPI\<close> is a library, so the size of the panel and
  the effects of drawing on the sprite are arguments of the definitions, collected in a record.
  As in the other embedders, names of an earlier \<open>rv32.h\<close> are read as the current ones
  (\<open>RV32_BREAKPOINT\<close> as \<open>RV32_PAUSED\<close>).
\<close>

record tft_library =
  panel_pixels :: nat
  sprite_width :: u32
  sprite_height :: u32
  fill_rect :: "u32 \<Rightarrow> u32 \<Rightarrow> u32 \<Rightarrow> u32 \<Rightarrow> u32 \<Rightarrow> u8 list \<Rightarrow> u8 list"
  draw_char :: "u32 \<Rightarrow> u32 \<Rightarrow> u32 \<Rightarrow> u8 list \<Rightarrow> u8 list"

text \<open>
  The world of the board: the bytes of the sprite, what was pushed to the panel, the protocol on
  \<open>Serial1\<close> and the text on the console (\<open>Serial\<close> and \<open>printf\<close>).
\<close>

record board =
  sprite :: "u8 list"
  panel :: "u8 list"
  serial1 :: "u8 list"
  console :: string

definition print_console :: "string \<Rightarrow> board \<Rightarrow> board" where
  "print_console t b = b\<lparr>console := console b @ t\<rparr>"

section \<open>The platform\<close>

definition sprite_put :: "nat \<Rightarrow> board vm \<Rightarrow> u32 \<Rightarrow> 'a::len word \<Rightarrow> unit rv32_result \<times> board vm" where
  "sprite_put n v addr val =
     (case mem_put n (sprite (snd v)) (unat addr - 0x80000000) val of
        None \<Rightarrow> (RV32_ERR, v)
      | Some px \<Rightarrow> (RV32_OK (), (fst v, (snd v)\<lparr>sprite := px\<rparr>)))"

definition board_store8 :: "tft_library \<Rightarrow> board vm \<Rightarrow> u32 \<Rightarrow> u8 \<Rightarrow> unit rv32_result \<times> board vm" where
  "board_store8 lib v addr val =
     (if 0x80000000 \<le> unat addr \<and> unat addr < 0x80000000 + panel_pixels lib * 2
      then sprite_put 1 v addr val else (RV32_ERR, v))"

text \<open>The halfword is written with its bytes swapped, through a pointer to a word.\<close>

definition board_store16 :: "tft_library \<Rightarrow> board vm \<Rightarrow> u32 \<Rightarrow> u16 \<Rightarrow> unit rv32_result \<times> board vm" where
  "board_store16 lib v addr val =
     (if 0x80000000 \<le> unat addr \<and> unat addr < 0x80000000 + panel_pixels lib * 2 - (4 - 1)
      then (let swapped_val = push_bit 8 val OR drop_bit 8 val
            in sprite_put 4 v addr (ucast swapped_val :: u32))
      else (RV32_ERR, v))"

definition board_ecall :: "tft_library \<Rightarrow> board vm \<Rightarrow> board vm" where
  "board_ecall lib v =
     (let s = fst v; b = snd v; a = (\<lambda>x. r s ! reg_index x); a7 = a REG_A7;
          set_a0 = (\<lambda>x. s\<lparr>r := (r s)[reg_index REG_A0 := x]\<rparr>)
      in if a7 = 1 then (s, print_console (format_c (a REG_A0)) b)
         else if a7 = 2 then (s, print_console (format_d (a REG_A0) @ newline) b)
         else if a7 = 3 then (set_a0 (sprite_width lib), b)
         else if a7 = 4 then (set_a0 (sprite_height lib), b)
         else if a7 = 5 then (s, b\<lparr>panel := sprite b\<rparr>)
         else if a7 = 6 then
           (s, b\<lparr>sprite := fill_rect lib (a REG_A0) (a REG_A1) (a REG_A2) (a REG_A3) (a REG_A4) (sprite b)\<rparr>)
         else if a7 = 7 then (s, b\<lparr>sprite := draw_char lib (a REG_A0) (a REG_A1) (a REG_A2) (sprite b)\<rparr>)
         else if a7 = 93 then (stop RV32_HALTED s, b)
         else v)"

definition board_platform :: "tft_library \<Rightarrow> board platform" where
  "board_platform lib =
     \<lparr>mmio_load8 = (\<lambda>v a. (RV32_ERR, v)), mmio_load16 = (\<lambda>v a. (RV32_ERR, v)),
      mmio_load32 = (\<lambda>v a. (RV32_ERR, v)), mmio_store8 = board_store8 lib,
      mmio_store16 = board_store16 lib, mmio_store32 = (\<lambda>v a x. (RV32_ERR, v)),
      ecall = board_ecall lib\<rparr>"

lemma sprite_put_shape: "fst (snd (sprite_put n v addr x)) = fst v"
  by (simp add: sprite_put_def split: option.split)

interpretation board: platform_contract "board_platform lib"
  by unfold_locales
    (simp_all add: board_platform_def board_store8_def board_store16_def board_ecall_def
      sprite_put_shape Let_def same_shape_def stop_def)

text \<open>The conversion \<open>%x\<close> of \<open>printf\<close>.\<close>

definition format_x :: "u32 \<Rightarrow> string" where
  "format_x x = (if x = 0 then ''0'' else dropWhile (\<lambda>c. c = CHR ''0'') (format_08x x))"

section \<open>Setup and loop\<close>

text \<open>
  \<open>setup\<close> says so and waits forever when the sprite or the machine cannot be allocated, and it waits
  for the console to open: \<open>Inl\<close> is the board that waits for ever. \<open>black\<close> is the sprite after
  \<open>fillScreen\<close>, \<open>opens\<close> whether the console opens, \<open>address\<close> the pointer that is printed.
\<close>

definition println :: "string \<Rightarrow> string" where "println t = t @ [CHR 0x0D, CHR 0x0A]"

definition board_setup ::
  "u8 list option \<Rightarrow> rv32 option \<Rightarrow> bool \<Rightarrow> u32 \<Rightarrow> board \<Rightarrow> board + board vm run" where
  "board_setup black memory opens address b =
     (case black of
        None \<Rightarrow> Inl (print_console (println ''failed to create sprite'') b)
      | Some px \<Rightarrow>
          (let b1 = b\<lparr>sprite := px, panel := px\<rparr>
           in case memory of
                None \<Rightarrow> Inl (print_console (println (''Failed to allocate memory'' @ newline)) b1)
              | Some m \<Rightarrow>
                  (case rv32_new m 0x10000 of
                     Inl e \<Rightarrow> Inr (Inl e)
                   | Inr s \<Rightarrow>
                       (if \<not> opens then Inl b1
                        else Inr (case mem_get 4 (mem s) 0 of
                          None \<Rightarrow> Inl Out_Of_Bounds
                        | Some x \<Rightarrow> Inr (stop RV32_PAUSED s, print_console (''rv32 = 0x'' @ format_x address @ newline
                            @ ''test1: 0x'' @ format_x x @ newline) b1))))))"

text \<open>The byte is echoed on the console; the protocol answers on \<open>Serial1\<close>.\<close>

definition board_input ::
  "rsp_handler_result \<Rightarrow> bool \<Rightarrow> u8 list \<Rightarrow> rsp_link \<times> board vm \<Rightarrow> (u8 list \<times> (rsp_link \<times> board vm)) option run" where
  "board_input junk avail cs x =
     (let l = fst x; s = fst (snd x); b = snd (snd x)
      in if avail \<or> status s \<noteq> RV32_RUNNING then
           (case cs of
              [] \<Rightarrow> Inr None
            | c # cs' \<Rightarrow>
                bind_run (rsp_handle_byte junk c (l, (s, serial1 b))) (\<lambda>(l', (s', out)).
                  Inr (Some (cs', (l', (s', print_console [char_of (unat c)] (b\<lparr>serial1 := out\<rparr>)))))))
         else Inr (Some (cs, x)))"

definition board_step :: "tft_library \<Rightarrow> rsp_link \<times> board vm \<Rightarrow> (rsp_link \<times> board vm) run" where
  "board_step lib x =
     (if status (fst (snd x)) = RV32_RUNNING
      then bind_run (rv32_cycle (board_platform lib) (snd x)) (\<lambda>v.
             bind_run (gdb_report (status (fst v)) (serial1 (snd v))) (\<lambda>out.
               Inr (fst x, (fst v, (snd v)\<lparr>serial1 := out\<rparr>))))
      else Inr x)"

text \<open>One call of \<open>loop\<close>; \<open>None\<close> when it waits for a byte that never arrives.\<close>

definition board_loop ::
  "tft_library \<Rightarrow> rsp_handler_result \<Rightarrow> bool \<Rightarrow> u8 list \<Rightarrow> rsp_link \<times> board vm
   \<Rightarrow> (u8 list \<times> (rsp_link \<times> board vm)) option run" where
  "board_loop lib junk avail cs x =
     bind_run (board_input junk avail cs x) (\<lambda>res.
       case res of
         None \<Rightarrow> Inr None
       | Some (cs', x') \<Rightarrow> bind_run (board_step lib x') (\<lambda>x''. Inr (Some (cs', x''))))"

section \<open>Halfword stores to the screen\<close>

lemma le_bytes_4:
  "le_bytes 4 w = [ucast w, ucast (drop_bit 8 w), ucast (drop_bit 16 w), ucast (drop_bit 24 w)]"
proof -
  have "4 = Suc (Suc (Suc (Suc 0)))" by simp
  then show ?thesis by (simp only: le_bytes.simps drop_bit_drop_bit) simp
qed

lemma swapped_bytes:
  fixes val :: u16
  shows "le_bytes 4 (ucast (push_bit 8 val OR drop_bit 8 val) :: u32) = [ucast (drop_bit 8 val), ucast val, 0, 0]"
proof -
  let ?w = "ucast (push_bit 8 val OR drop_bit 8 val) :: u32"
  have "(ucast ?w :: u8) = ucast (drop_bit 8 val)" "(ucast (drop_bit 8 ?w) :: u8) = ucast val"
    "(ucast (drop_bit 16 ?w) :: u8) = 0" "(ucast (drop_bit 24 ?w) :: u8) = 0"
    by (rule bit_word_eqI; auto simp: bit_simps dest: bit_imp_le_length)+
  then show ?thesis by (simp only: le_bytes_4)
qed

text \<open>
  A halfword store changes two pixels: the addressed one gets the halfword with its bytes
  swapped, and the two bytes after it become zero, because the store is 32 bits wide. Its guard is
  that of a word, so a store to the last pixel of the screen fails although a store of each of its
  bytes succeeds.
\<close>

lemma board_store16_clears_next:
  assumes "length (sprite b) = panel_pixels lib * 2" "panel_pixels lib * 2 < 0x80000000" "i + 2 \<le> panel_pixels lib * 2"
  shows "board_store16 lib (s, b) (word_of_nat (0x80000000 + i)) val =
     (if i + 4 \<le> panel_pixels lib * 2
      then (RV32_OK (), (s, b\<lparr>sprite := take i (sprite b) @ [ucast (drop_bit 8 val), ucast val, 0, 0]
                                @ drop (i + 4) (sprite b)\<rparr>))
      else (RV32_ERR, (s, b)))
    \<and> fst (board_store8 lib (s, b) (word_of_nat (0x80000000 + i)) x8) = RV32_OK ()
    \<and> fst (board_store8 lib (s, b) (word_of_nat (0x80000000 + i + 1)) x8) = RV32_OK ()"
proof -
  have addr: "unat (word_of_nat (0x80000000 + j) :: u32) = 0x80000000 + j" if "j \<le> i + 1" for j
    using that assms by (simp only: unsigned_of_nat) (simp add: take_bit_nat_eq_self)
  show ?thesis
    using assms addr [of i] addr [of "i + 1"]
    by (auto simp: board_store16_def board_store8_def sprite_put_def mem_put_def swapped_bytes Let_def add.assoc)
qed

lemma board_store16_clears_next_witness:
  "\<exists>lib. fst (board_store16 lib (boot [], \<lparr>sprite = [1, 2, 3, 4], panel = [], serial1 = [], console = []\<rparr>) 0x80000002 0x1234)
       = RV32_ERR \<and>
     sprite (snd (snd (board_store16 lib (boot [], \<lparr>sprite = [1, 2, 3, 4], panel = [], serial1 = [], console = []\<rparr>)
       0x80000000 0x1234))) = [0x12, 0x34, 0, 0]"
proof -
  let ?lib = "\<lparr>panel_pixels = 2, sprite_width = 2, sprite_height = 1,
    fill_rect = (\<lambda>x y w h c px. px), draw_char = (\<lambda>c x y px. px)\<rparr>"
  let ?b = "\<lparr>sprite = [1, 2, 3, 4], panel = [], serial1 = [], console = []\<rparr>"
  have b: "length (sprite ?b) = panel_pixels ?lib * 2" "panel_pixels ?lib * 2 < 0x80000000" by simp_all
  have "0 + 2 \<le> panel_pixels ?lib * 2" "2 + 2 \<le> panel_pixels ?lib * 2" by simp_all
  note board_store16_clears_next [OF b this(1), of "boot []" "0x1234" 0]
    board_store16_clears_next [OF b this(2), of "boot []" "0x1234" 0]
  moreover have "(ucast (drop_bit 8 (0x1234 :: u16)) :: u8) = 0x12" "(ucast (0x1234 :: u16) :: u8) = 0x34"
    by code_simp+
  ultimately show ?thesis by (intro exI [of _ ?lib]) simp
qed

end
