(* ===== verification/Api_Properties.thy ===== *)
theory Api_Properties
  imports Api Machine_Properties Gdb_Stub Fantasy_Properties Arduino
begin

text \<open>
  The type soundness of the interface: whatever an embedder calls, and in whatever order, on a
  machine made by \<open>rv32_new\<close>. Every embedder of the repository keeps the contract this needs.
\<close>

section \<open>The embedders keep the types\<close>

interpretation emulator_typed: typed_platform emulator_platform
  by unfold_locales (simp_all add: emulator_store8_def emulator_ecall_def Let_def)

interpretation gdb_typed: typed_platform gdb_platform
  by unfold_locales (simp_all add: gdb_platform_def gdb_store8_def gdb_ecall_def)

lemma device_set_a0 [simp]: "device_state (set_a0 x s) = device_state s"
  by (simp add: set_a0_def device_state_def)

interpretation fantasy_typed: typed_platform fantasy_platform
  by unfold_locales
    (simp_all add: fantasy_store8_def fantasy_store16_def fantasy_store32_def fb_put_shape fantasy_ecall_def Let_def)

interpretation board_typed: typed_platform "board_platform lib"
  by unfold_locales
    (simp_all add: board_platform_def board_store8_def board_store16_def board_ecall_def sprite_put_shape
      Let_def device_state_def stop_def)

section \<open>Type soundness\<close>

lemma claimed_request:
  assumes "well_typed n s" "rv32_claim_irq s = Some (q, t)"
  shows "q < 4"
proof -
  have "bit (pending s) (unat q)" using assms(2) by (rule claim_irq_Some(2))
  with assms(1) have "\<not> 4 \<le> unat q" by (auto simp: well_typed_def device_state_def)
  then show ?thesis by (simp add: word_less_nat_alt)
qed

text \<open>
  C4. The interface is type-sound: from a block of memory with room for the structure and \<open>n\<close> bytes
  of RAM, at least four, \<open>rv32_new\<close> makes a machine on which every sequence of calls (cycles,
  resets, breakpoints, interrupts, changes of the status) returns, without leaving the block. The
  machine it leaves has the arrays and the RAM size of the first one and a wait flag of 0 or 1, and
  the only requests its controller can hand out are the four that exist.
\<close>

theorem api_type_sound:
  assumes "typed_platform p" "length (r m) = 32" "length (bp m) = 8"
    and "RV32_NEEDED_MEMORY (unat n) \<le> offsetof_mem + length (mem m)" "4 \<le> unat n"
  shows "\<exists>s. rv32_new m n = Inr s \<and> (\<forall>calls. \<exists>s' w'. api_run p calls (s, w) = Inr (s', w')
    \<and> well_typed n s' \<and> (\<forall>q t. rv32_claim_irq s' = Some (q, t) \<longrightarrow> q < 4))"
proof -
  obtain s where s: "rv32_new m n = Inr s" "well_typed n s"
    using new_typed [OF assms(2-4)] by (rule run_okE)
  have "\<exists>s' w'. api_run p calls (s, w) = Inr (s', w')
      \<and> well_typed n s' \<and> (\<forall>q t. rv32_claim_irq s' = Some (q, t) \<longrightarrow> q < 4)" for calls
  proof -
    from typed_platform.run_typed [OF assms(1), of n "(s, w)"] s(2) assms(5)
    have "run_ok (api_run p calls (s, w)) (\<lambda>v'. well_typed n (fst v'))" by simp
    then show ?thesis by (rule run_okE) (auto dest: claimed_request)
  qed
  with s(1) show ?thesis by blast
qed

theorem api_type_sound_witness:
  "\<exists>s' w'. api_run gdb_platform
      [Set_status RV32_RUNNING, Set_breakpoint 0, Trigger_external_interrupt 9, Cycle, Resume, Reset, Cycle]
      (stop RV32_PAUSED (boot (replicate 8 0)), []) = Inr (s', w') \<and> well_typed 8 s'"
proof -
  let ?m = "boot (replicate 8 0)"
  have len: "length (r ?m) = 32" "length (bp ?m) = 8" by (simp_all add: boot_def)
  have mem: "RV32_NEEDED_MEMORY (unat (8 :: u32)) \<le> offsetof_mem + length (mem ?m)"
    by (simp add: boot_def RV32_NEEDED_MEMORY_def RV32_layout)
  have new: "rv32_new ?m 8 = Inr (stop RV32_PAUSED ?m)"
    by (simp add: rv32_new_def zeroed_def boot_def stop_def RV32_layout flip: replicate_add)
  have "4 \<le> unat (8 :: u32)" by simp
  from api_type_sound [OF gdb_typed.typed_platform_axioms len mem this, of "[]", unfolded new]
  show ?thesis by blast
qed

end
