(* ===== verification/Control_Properties.thy ===== *)
theory Control_Properties
  imports Machine_Properties
begin

text \<open>
  The properties of interrupts, breakpoints and the life cycle of a machine, and of the
  command-line emulator that runs one.
\<close>

section \<open>Interrupts\<close>

text \<open>
  C8. Claiming: \<open>rv32_claim_irq\<close> claims nothing exactly when no pending request is enabled.
  Otherwise it claims the lowest pending request, enabled or not, clears its pending bit and no
  other, and clears the external-interrupt bit of \<open>mip\<close> when no request is left.
\<close>

theorem claim_irq_spec:
  "case rv32_claim_irq s of
     None \<Rightarrow> enabled s AND pending s = 0
   | Some (q, s') \<Rightarrow> enabled s AND pending s \<noteq> 0
       \<and> unat q < 32 \<and> bit (pending s) (unat q) \<and> (\<forall>j < unat q. \<not> bit (pending s) j)
       \<and> pending s' = pending s AND NOT (push_bit (unat q) 1) \<and> enabled s' = enabled s
       \<and> (bit (mip s') CSR_MIP_MEIP \<longleftrightarrow> bit (mip s) CSR_MIP_MEIP \<and> pending s' \<noteq> 0)"
proof (cases "rv32_claim_irq s")
  case None
  then have "enabled s AND pending s = 0" by (rule claim_irq_None [THEN iffD1])
  with None show ?thesis by simp
next
  case (Some a)
  then obtain q s' where a: "rv32_claim_irq s = Some (q, s')" by (cases a) simp
  then have "enabled s AND pending s \<noteq> 0" using claim_irq_None [of s] by auto
  with a claim_irq_Some [OF a] show ?thesis
    by (simp add: claim_pending_fields bit_CSR_CLEAR_BIT del: push_bit_of_1)
qed

text \<open>Requests 1 and 3 are pending, of which only 3 is enabled.\<close>

definition contested :: rv32 where
  "contested = (boot [])\<lparr>interrupt_controller := \<lparr>ie = 8, ip = 10\<rparr>, mip := 0x800\<rparr>"

theorem claim_irq_spec_witness:
  "rv32_claim_irq contested = Some (1, claim_pending contested 1)
   \<and> \<not> bit (enabled contested) 1 \<and> pending (claim_pending contested 1) \<noteq> 0
   \<and> bit (mip (claim_pending contested 1)) CSR_MIP_MEIP"
proof -
  have claim: "rv32_claim_irq contested = Some (1, claim_pending contested 1)" by code_simp
  have bits: "\<not> bit (enabled contested) 1" "bit (mip contested) CSR_MIP_MEIP"
    "pending (claim_pending contested 1) \<noteq> 0"
    by (simp_all add: contested_def csr_bit_defs claim_pending_fields bit_simps)
  have "bit (mip (claim_pending contested 1)) CSR_MIP_MEIP \<longleftrightarrow>
      bit (mip contested) CSR_MIP_MEIP \<and> pending (claim_pending contested 1) \<noteq> 0"
    using claim_irq_spec [of contested] by (simp only: claim option.case prod.case)
  with claim bits show ?thesis by blast
qed

lemma cause_code:
  assumes "unat (q :: u32) < 32"
  shows "(CSR_MCAUSE_INTERRUPT OR (16 + q)) AND NOT (push_bit 31 1) = 16 + q"
proof -
  have "unat (16 + q) = 16 + unat q"
    using assms by (simp add: unat_word_ariths)
  then have less: "unat (16 + q) < 2 ^ 31" using assms by simp
  have "\<not> bit (16 + q) 31"
  proof
    assume "bit (16 + q) 31"
    then have "bit (unat (16 + q)) 31" by (simp add: bit_unsigned_iff)
    with less show False by (simp only: bit_iff_odd div_less) simp
  qed
  show ?thesis
  proof (rule bit_word_eqI)
    fix n assume "n < LENGTH(32)"
    then have "n < 31 \<or> n = 31" by auto
    with \<open>\<not> bit (16 + q) 31\<close>
    show "bit ((CSR_MCAUSE_INTERRUPT OR (16 + q)) AND NOT (push_bit 31 1)) n \<longleftrightarrow> bit (16 + q) n"
      by (auto simp: CSR_MCAUSE_INTERRUPT_def bit_simps simp del: push_bit_of_1)
  qed
qed

lemma trap_from_external:
  assumes "bit (mstatus s) CSR_MSTATUS_MIE" "external_only s" "enabled s AND pending s \<noteq> 0"
  obtains q s' where "rv32_claim_irq s = Some (q, s')" "unat q < 32" "s' = claim_pending s (unat q)"
    and "deliver_interrupt s = enter_trap (s'\<lparr>mcause := CSR_MCAUSE_INTERRUPT OR (16 + q)\<rparr>)"
proof -
  from assms(3) obtain q s' where c: "rv32_claim_irq s = Some (q, s')"
    using claim_irq_None [of s] by (cases "rv32_claim_irq s") auto
  have "mie s AND mip s \<noteq> 0"
    using assms(2) by (simp add: external_only_def csr_bit_defs)
  then have "deliver_interrupt s = rv32_handle_interrupt s"
    using assms(1) by (simp add: deliver_interrupt_def)
  with that c claim_irq_Some [OF c] handle_interrupt_external [OF assms(1,2)] show thesis by simp
qed

text \<open>
  C9. Entry: with interrupts on, an enabled external interrupt as the only pending kind and an
  enabled request, the handler is entered with the cause of the claimed request, the old \<open>pc\<close> in
  \<open>mepc\<close>, interrupts off, the old enable bit kept in \<open>MPIE\<close>, the hart awake, and \<open>pc\<close> at the
  base of \<open>mtvec\<close> or, in vectored mode, at the entry of the cause.
\<close>

theorem external_interrupt_entry:
  assumes "bit (mstatus s) CSR_MSTATUS_MIE" "external_only s" "enabled s AND pending s \<noteq> 0"
  shows "\<exists>q s'. rv32_claim_irq s = Some (q, s')
    \<and> (let t = deliver_interrupt s
       in mcause t = CSR_MCAUSE_INTERRUPT OR (16 + q) \<and> mepc t = pc s \<and> wfi t = 0
          \<and> \<not> bit (mstatus t) CSR_MSTATUS_MIE \<and> bit (mstatus t) CSR_MSTATUS_MPIE
          \<and> interrupt_controller t = interrupt_controller s'
          \<and> pc t = (if bit (mtvec s) 0 then (mtvec s AND NOT 3) + 4 * (16 + q) else mtvec s))"
proof -
  from assms obtain q s' where c: "rv32_claim_irq s = Some (q, s')" "unat q < 32"
      "s' = claim_pending s (unat q)"
    and d: "deliver_interrupt s = enter_trap (s'\<lparr>mcause := CSR_MCAUSE_INTERRUPT OR (16 + q)\<rparr>)"
    by (rule trap_from_external)
  have "pc s' = pc s" "mtvec s' = mtvec s" "mstatus s' = mstatus s"
    using c(3) by (simp_all add: claim_pending_fields)
  with assms(1) show ?thesis
    by (intro exI [of _ q] exI [of _ s'])
      (simp add: d c(1) Let_def enter_trap_fields bit_enter_trap_mstatus enter_trap_pc
        cause_code [OF c(2), unfolded CSR_MCAUSE_INTERRUPT_def] csr_bit_defs del: push_bit_of_1)
qed

text \<open>A machine that waits for an interrupt, with request 3 pending and enabled.\<close>

definition waiting :: rv32 where
  "waiting = (boot [])\<lparr>interrupt_controller := \<lparr>ie = 8, ip = 8\<rparr>, mip := 0x800, mie := 0x800,
     mstatus := 8, mtvec := 0x101, pc := 0x40, wfi := 1\<rparr>"

lemma waiting_takes:
  "bit (mstatus waiting) CSR_MSTATUS_MIE" "external_only waiting"
  "enabled waiting AND pending waiting \<noteq> 0"
  by (simp_all add: waiting_def csr_bit_defs external_only_def)

theorem external_interrupt_entry_witness:
  "\<exists>q. wfi (deliver_interrupt waiting) = 0 \<and> mepc (deliver_interrupt waiting) = 0x40
     \<and> pc (deliver_interrupt waiting) = 0x100 + 4 * (16 + q)"
  using external_interrupt_entry [OF waiting_takes] by (auto simp: Let_def waiting_def)

text \<open>
  C10. Return: whatever the handler did to the rest of the machine, \<open>mret\<close> with the \<open>mepc\<close> and
  \<open>mstatus\<close> of the entry continues at the interrupted \<open>pc\<close> with the interrupted \<open>mstatus\<close>, up to
  \<open>MPIE\<close>, which stays set.
\<close>

theorem mret_undoes_entry:
  assumes "bit (mstatus s) CSR_MSTATUS_MIE" "external_only s" "enabled s AND pending s \<noteq> 0"
    and "mepc t = mepc (deliver_interrupt s)" "mstatus t = mstatus (deliver_interrupt s)"
  shows "pc (exec_mret t) = pc s
    \<and> mstatus (exec_mret t) = CSR_SET_BIT (mstatus s) CSR_MSTATUS_MPIE 1"
proof -
  from assms(1-3) obtain q s' where c: "s' = claim_pending s (unat q)"
    and d: "deliver_interrupt s = enter_trap (s'\<lparr>mcause := CSR_MCAUSE_INTERRUPT OR (16 + q)\<rparr>)"
    by (rule trap_from_external)
  have s': "pc s' = pc s" "mstatus s' = mstatus s" using c by (simp_all add: claim_pending_fields)
  have "pc (exec_mret t) = pc s"
    using assms(4) s' by (simp add: exec_mret_def d enter_trap_fields)
  moreover have "mstatus (exec_mret t) = CSR_SET_BIT (mstatus s) CSR_MSTATUS_MPIE 1"
  proof (rule bit_word_eqI)
    fix k assume "k < LENGTH(32)"
    show "bit (mstatus (exec_mret t)) k \<longleftrightarrow> bit (CSR_SET_BIT (mstatus s) CSR_MSTATUS_MPIE 1) k"
      using assms(1,5) s'
      by (simp add: bit_exec_mret_mstatus bit_enter_trap_mstatus d bit_CSR_SET_BIT csr_bit_defs)
  qed
  ultimately show ?thesis ..
qed

theorem mret_undoes_entry_witness:
  "pc (exec_mret (deliver_interrupt waiting)) = 0x40
   \<and> mstatus (exec_mret (deliver_interrupt waiting)) = CSR_SET_BIT 8 CSR_MSTATUS_MPIE 1"
  using mret_undoes_entry [OF waiting_takes refl refl] by (simp add: waiting_def)

lemma sleeping_run:
  assumes "wfi s \<noteq> 0" "deliver_interrupt s = s"
  shows "rv32_run p n (s, w) = Inr (s, w)"
  by (induction n) (simp_all add: rv32_cycle_def assms)

text \<open>
  Sleep: a hart that waits for an interrupt stays exactly as it is, for any number of cycles,
  when interrupts are off, and also when two kinds of interrupt are pending and enabled: the
  switch compares the whole mask, so it takes neither.
\<close>

lemma wfi_never_wakes:
  assumes "wfi s \<noteq> 0"
    and "\<not> bit (mstatus s) CSR_MSTATUS_MIE
         \<or> bit (mie s AND mip s) i \<and> bit (mie s AND mip s) j \<and> i \<noteq> j"
  shows "rv32_run p n (s, w) = Inr (s, w)"
proof (rule sleeping_run [OF assms(1)])
  have "rv32_handle_interrupt s = s"
    using assms(2) handle_interrupt_disabled handle_interrupt_two by blast
  then show "deliver_interrupt s = s" by (simp add: deliver_interrupt_def)
qed

lemma wfi_never_wakes_witness:
  "rv32_run emulator_platform 1000 (waiting\<lparr>mie := 0x880, mip := 0x880\<rparr>, silent)
   = Inr (waiting\<lparr>mie := 0x880, mip := 0x880\<rparr>, silent)"
  by (rule wfi_never_wakes [where i = 7 and j = 11]) (simp_all add: waiting_def bit_simps)

lemma irq_step_high:
  assumes "irq_step s t" "4 \<le> k" "bit (pending t) k"
  shows "bit (pending s) k"
  using assms(1)
proof (cases rule: irq_step.cases)
  case (raise q)
  then show ?thesis
  proof (cases "q < 4")
    case True
    then have "unat q < 4" by (simp add: word_less_nat_alt)
    with raise True assms(2,3) show ?thesis
      by (simp add: rv32_trigger_external_interrupt_def bit_simps flip: not_less del: push_bit_of_1)
  qed (use raise assms(3) in \<open>simp add: rv32_trigger_external_interrupt_def not_less\<close>)
next
  case (claim q)
  then show ?thesis using assms(3) claim_irq_Some(4) [OF claim]
    by (simp add: claim_pending_fields bit_simps del: push_bit_of_1)
qed

text \<open>
  Devices and the hart keep the controller and \<open>mip\<close> in agreement: from a machine where the
  external-interrupt bit of \<open>mip\<close> says whether a request is pending, every sequence of raised
  and claimed requests leads to such a machine, and requests 4 to 31 are never raised.
\<close>

lemma irq_reachable:
  assumes "irq_step\<^sup>*\<^sup>* s t" "irq_coherent s"
  shows "irq_coherent t \<and> (\<forall>k \<ge> 4. bit (pending t) k \<longrightarrow> bit (pending s) k)"
  using assms
proof (induction rule: rtranclp_induct)
  case base
  then show ?case by simp
next
  case (step t u)
  then show ?case using irq_step_coherent [OF step.hyps(2)] irq_step_high [OF step.hyps(2)] by blast
qed

lemma irq_reachable_witness:
  "irq_coherent (rv32_trigger_external_interrupt (boot []) 3)
   \<and> \<not> bit (pending (rv32_trigger_external_interrupt (boot []) 9)) 9"
proof -
  have co: "irq_coherent (boot [])" by (simp add: irq_coherent_def boot_def)
  have step: "irq_step\<^sup>*\<^sup>* (boot []) (rv32_trigger_external_interrupt (boot []) q)" for q
    by (intro r_into_rtranclp irq_step.raise)
  have "irq_coherent (rv32_trigger_external_interrupt (boot []) 3)"
    using irq_reachable [OF step co] by blast
  moreover have "bit (pending (rv32_trigger_external_interrupt (boot []) 9)) 9 \<longrightarrow> bit (pending (boot [])) 9"
    using irq_reachable [OF step co, of 9] by simp
  ultimately show ?thesis by (simp add: boot_def)
qed

section \<open>Breakpoints\<close>

text \<open>
  C11. The eight slots are a bag of addresses: setting succeeds exactly when there is room and adds
  one occurrence, clearing succeeds exactly on a breakpoint that is set and removes one occurrence,
  clearing all empties the bag; a clear undoes a successful set.
\<close>

theorem breakpoints_are_a_bag:
  assumes "bp_inv s"
  shows "(fst (rv32_set_breakpoint s a) \<longleftrightarrow> size (breakpoints s) < 8)
    \<and> breakpoints (snd (rv32_set_breakpoint s a)) =
        (if size (breakpoints s) < 8 then add_mset a (breakpoints s) else breakpoints s)
    \<and> (fst (rv32_clear_breakpoint s a) \<longleftrightarrow> a \<in># breakpoints s)
    \<and> breakpoints (snd (rv32_clear_breakpoint s a)) = breakpoints s - {#a#}
    \<and> breakpoints (rv32_clear_all_breakpoints s) = {#}
    \<and> (fst (rv32_set_breakpoint s a) \<longrightarrow>
        breakpoints (snd (rv32_clear_breakpoint (snd (rv32_set_breakpoint s a)) a)) = breakpoints s)"
  using bps.add_room [OF assms] bps.add_bag [OF assms] bps.del_found [OF assms] bps.del_bag [OF assms]
    bps.wipe_bag [OF assms] bps.add_then_del(2) [OF assms]
  by auto

theorem breakpoints_are_a_bag_witness:
  "fst (rv32_set_breakpoint (boot []) 64)
   \<and> breakpoints (snd (rv32_clear_breakpoint (snd (rv32_set_breakpoint (boot []) 64)) 64)) = {#}"
proof -
  have "bp_inv (boot [])" "breakpoints (boot []) = {#}"
    by (simp_all add: bp_inv_def boot_def breakpoints_def slots_def)
  with breakpoints_are_a_bag [of "boot []" 64] show ?thesis by simp
qed

lemma claim_pending_stop: "claim_pending (stop st s) k = stop st (claim_pending s k)"
  by (simp add: claim_pending_def stop_def Let_def)

lemma claim_irq_stop:
  "rv32_claim_irq (stop st s) = map_option (\<lambda>(q, t). (q, stop st t)) (rv32_claim_irq s)"
  by (simp add: rv32_claim_irq_def claim_loop_find claim_pending_stop option.map_comp o_def)
    (simp add: stop_def)

lemma enter_trap_stop: "enter_trap (stop st s\<lparr>mcause := c\<rparr>) = stop st (enter_trap (s\<lparr>mcause := c\<rparr>))"
  by (simp add: enter_trap_def stop_def Let_def)

lemma deliver_stop: "deliver_interrupt (stop st s) = stop st (deliver_interrupt s)"
proof -
  have f: "mstatus (stop st s) = mstatus s" "mie (stop st s) = mie s" "mip (stop st s) = mip s"
    by (simp_all add: stop_def)
  show ?thesis
    unfolding deliver_interrupt_def rv32_handle_interrupt_def Let_def f claim_irq_stop
    by (auto simp: enter_trap_stop split: option.splits)
qed

lemma stopped_run:
  assumes "status s \<noteq> RV32_RUNNING" "deliver_interrupt s = s"
  shows "rv32_run p n (s, w) = Inr (s, w)"
  by (induction n) (simp_all add: rv32_cycle_def assms)

text \<open>
  C12. A running machine whose \<open>pc\<close> is a breakpoint pauses before it executes the instruction and
  changes nothing else, so \<open>rv32_resume\<close> restores the machine as it was: as long as the breakpoint
  is set, any number of rounds of resuming and cycling makes no progress.
\<close>

theorem breakpoint_pauses:
  assumes "status s = RV32_RUNNING" "wfi s = 0" "deliver_interrupt s = s" "pc s \<in># breakpoints s"
  shows "rv32_cycle p (s, w) = Inr (stop RV32_PAUSED s, w)
    \<and> rv32_resume (stop RV32_PAUSED s) = s
    \<and> rv32_run p (Suc n) (s, w) = Inr (stop RV32_PAUSED s, w)"
proof -
  have hit: "rv32_cycle p (s, w) = Inr (stop RV32_PAUSED s, w)"
    using assms by (simp add: rv32_cycle_def breakpoint_hit_iff)
  have "rv32_run p n (stop RV32_PAUSED s, w) = Inr (stop RV32_PAUSED s, w)"
    by (rule stopped_run) (simp_all add: deliver_stop assms(3), simp add: stop_def)
  then have "rv32_run p (Suc n) (s, w) = Inr (stop RV32_PAUSED s, w)" by (simp add: hit)
  moreover have "rv32_resume (stop RV32_PAUSED s) = s"
    using assms(1) by (simp add: rv32_resume_def stop_def)
  ultimately show ?thesis using hit by blast
qed

theorem breakpoint_pauses_witness:
  "\<exists>s. s = snd (rv32_set_breakpoint (boot [0, 0, 0, 0]) 0)
     \<and> rv32_run emulator_platform 3 (s, silent) = Inr (stop RV32_PAUSED s, silent)
     \<and> rv32_resume (stop RV32_PAUSED s) = s"
proof -
  let ?s = "snd (rv32_set_breakpoint (boot [0, 0, 0, 0]) 0)"
  have s: "?s = (boot [0, 0, 0, 0])\<lparr>bp_mask := 1\<rparr>" by code_simp
  have hit: "pc ?s \<in># breakpoints ?s"
    using breakpoint_hit_iff [of ?s] unfolding s by (simp add: boot_def breakpoint_hit_def upt_rec)
  have "status ?s = RV32_RUNNING" "wfi ?s = 0" "deliver_interrupt ?s = ?s"
    unfolding s by (simp_all add: boot_def deliver_interrupt_def)
  from breakpoint_pauses [OF this hit, of emulator_platform silent 2] show ?thesis by simp
qed

section \<open>Life cycle\<close>

lemma invalid_word: "rv32_execute p 0 v = Inr (stop RV32_INVALID_INSTRUCTION (fst v), snd v)"
  by (simp add: rv32_execute_def OPCODE_def Let_def)

text \<open>
  C13. A reset keeps the RAM size and all of RAM but its first four bytes, which lie inside the
  structure and are cleared with it; the machine is paused at address 0 without breakpoints. The
  first instruction of the program is gone: resumed, the machine stops at once with an invalid
  instruction.
\<close>

theorem reset_loses_first_word:
  assumes "wf_rv32 s" "4 \<le> unat (mem_size s)"
  shows "\<exists>t. rv32_reset s = Inr t \<and> wf_rv32 t \<and> mem_size t = mem_size s
    \<and> take 4 (mem t) = [0, 0, 0, 0] \<and> drop 4 (mem t) = drop 4 (mem s)
    \<and> pc t = 0 \<and> status t = RV32_PAUSED \<and> breakpoints t = {#}
    \<and> rv32_cycle p (rv32_resume t, w) = Inr (stop RV32_INVALID_INSTRUCTION (rv32_resume t), w)"
proof -
  let ?t = "(zeroed s)\<lparr>mem_size := mem_size s, status := RV32_PAUSED\<rparr>"
  let ?u = "(zeroed s)\<lparr>mem_size := mem_size s, status := RV32_RUNNING\<rparr>"
  note reset = rv32_reset_eq [OF assms(1)]
  have sh: "same_shape s ?t" using rv32_reset_shape [OF assms(1)] by (simp add: reset)
  note wf = same_shape_keeps [OF sh assms(1)]
  have mem: "mem ?t = [0, 0, 0, 0] @ drop 4 (mem s)"
    by (simp add: zeroed_def RV32_layout numeral_eq_Suc)
  have wf_u: "wf_rv32 ?u" using wf(1) by (simp add: wf_rv32_def)
  have "rv32_load32 p (?u, w) 0 = Inr (RV32_OK 0, (?u, w))"
    using load32_in_ram [OF wf_u, of 0 p w] assms(2) mem by (simp add: mem_get_def numeral_eq_Suc)
  moreover have "pc ?u = 0" "deliver_interrupt ?u = ?u" "wfi ?u = 0" "\<not> breakpoint_hit ?u"
    "write_reg 0 0 ?u = ?u"
    using wf_rv32_lengths(1) [OF assms(1)]
    by (simp_all add: zeroed_def deliver_interrupt_def breakpoint_hit_def write_reg_def
        list_update_same_conv)
  ultimately have "rv32_cycle p (?u, w) = Inr (stop RV32_INVALID_INSTRUCTION ?u, w)"
    by (simp add: rv32_cycle_def invalid_word)
  moreover have "rv32_resume ?t = ?u" by (simp add: rv32_resume_def)
  moreover have "breakpoints ?t = {#}" by (simp add: breakpoints_def slots_def zeroed_def)
  ultimately show ?thesis using wf reset mem
    by (intro exI [of _ ?t]) (simp add: zeroed_def)
qed

theorem reset_loses_first_word_witness:
  "\<exists>t. rv32_reset (boot (program [Lui 7 1, Lui 8 2])) = Inr t
     \<and> take 4 (mem t) = [0, 0, 0, 0]
     \<and> drop 4 (mem t) = drop 4 (mem (boot (program [Lui 7 1, Lui 8 2])))"
proof -
  have "4 \<le> unat (mem_size (boot (program [Lui 7 1, Lui 8 2])))" by (simp add: boot_def)
  from reset_loses_first_word [OF boot_wf this, of emulator_platform silent] show ?thesis by auto
qed

section \<open>The command-line emulator\<close>

lemma emulator_report_fst: "emulator_report v = Inr v' \<Longrightarrow> fst v' = fst v"
  by (auto simp: emulator_report_def Let_def split: rv32_status.splits option.splits)

lemma emulator_report_running:
  "emulator_report v = Inr v' \<Longrightarrow> status (fst v') = RV32_RUNNING \<Longrightarrow> v' = v"
  by (auto simp: emulator_report_def Let_def split: rv32_status.splits option.splits)

lemma emulator_turns_run:
  "emulator_turns n v = Some (Inr v') \<Longrightarrow>
   \<exists>m w. m \<le> n \<and> rv32_run emulator_platform m v = Inr (fst v', w)"
proof (induction n arbitrary: v)
  case 0
  then show ?case
    by (cases v') (simp add: emulator_turns.simps [of 0 v] split: if_splits)
next
  case (Suc n)
  show ?case
  proof (cases "status (fst v) = RV32_RUNNING")
    case False
    with Suc.prems have "rv32_run emulator_platform 0 v = Inr (fst v', snd v)"
      by (simp add: emulator_turns.simps [of "Suc n" v])
    then show ?thesis by blast
  next
    case True
    with Suc.prems obtain u where turn: "emulator_turn v = Inr u"
      and rest: "emulator_turns n u = Some (Inr v')"
      by (auto simp: emulator_turns.simps [of "Suc n" v] split: sum.splits)
    then obtain c where cyc: "rv32_cycle emulator_platform v = Inr c"
      and rep: "emulator_report c = Inr u"
      by (auto simp: emulator_turn_def elim: bind_run_InrE)
    show ?thesis
    proof (cases "status (fst u) = RV32_RUNNING")
      case True
      then have "u = c" by (rule emulator_report_running [OF rep])
      with Suc.IH [OF rest] obtain m w where "m \<le> n" "rv32_run emulator_platform m c = Inr (fst v', w)"
        by blast
      then have "Suc m \<le> Suc n" "rv32_run emulator_platform (Suc m) v = Inr (fst v', w)"
        by (simp_all add: cyc)
      then show ?thesis by blast
    next
      case False
      with rest have "v' = u" by (simp add: emulator_turns.simps [of n u])
      then have "rv32_run emulator_platform (Suc 0) v = Inr (fst v', snd c)"
        using emulator_report_fst [OF rep] by (simp add: cyc)
      then show ?thesis by (metis Suc_le_mono le0)
    qed
  qed
qed

text \<open>
  C14. The main loop is a run of the machine: when it returns, the machine has stopped, and it is
  the machine after some number of cycles from the start. The bounded loop finds the same result
  with enough fuel.
\<close>

theorem emulator_loop_is_run:
  assumes "emulator_loop v = Some (Inr v')"
  shows "status (fst v') \<noteq> RV32_RUNNING
    \<and> (\<exists>n m w. emulator_turns n v = Some (Inr v') \<and> m \<le> n
         \<and> rv32_run emulator_platform m v = Inr (fst v', w))"
proof -
  obtain n where "emulator_turns n v = Some (Inr v')" using emulator_loop_turns [OF assms] by blast
  with emulator_turns_run emulator_turns_stopped show ?thesis by blast
qed

definition ebreak_machine :: rv32 where
  "ebreak_machine = boot (le_bytes 4 (0x00100073 :: u32))"

theorem emulator_loop_is_run_witness:
  "\<exists>s w. emulator_loop (ebreak_machine, silent) = Some (Inr (s, w)) \<and> status s = RV32_EBREAK
     \<and> (\<exists>m w'. rv32_run emulator_platform m (ebreak_machine, silent) = Inr (s, w'))"
proof -
  have "case emulator_turns 1 (ebreak_machine, silent) of
      Some (Inr (s, w)) \<Rightarrow> status s = RV32_EBREAK | _ \<Rightarrow> False" by code_simp
  then obtain s w where turns: "emulator_turns 1 (ebreak_machine, silent) = Some (Inr (s, w))"
    and st: "status s = RV32_EBREAK"
    by (auto split: option.splits sum.splits)
  have "emulator_loop (ebreak_machine, silent) = Some (Inr (s, w))"
    by (rule emulator_turns_loop [OF turns])
  with st emulator_loop_is_run [OF this] show ?thesis by auto
qed

text \<open>
  A wild program counter crashes the emulator: when a running machine that no interrupt or
  breakpoint holds back has its \<open>pc\<close> beyond the allocated memory, the cycle reports an invalid
  memory access, and the report of the emulator reads the instruction at \<open>mem[pc]\<close> outside the
  memory it allocated.
\<close>

lemma emulator_wild_pc:
  assumes "wf_rv32 s" "4 \<le> unat (mem_size s)" "status s = RV32_RUNNING" "wfi s = 0"
    and "deliver_interrupt s = s" "breakpoints s = {#}"
    and "length (mem s) < unat (pc s) + 4" "pc s \<noteq> RV32_INTERRUPT_CONTROLLER_ADDRESS"
  shows "rv32_cycle emulator_platform (s, w) = Inr (stop RV32_INVALID_MEMORY_ACCESS s, w)
    \<and> emulator_loop (s, w) = Some (Inl Out_Of_Bounds)"
proof -
  have "\<not> in_ram 4 s (pc s)" using in_ram_bound [OF assms(1,2)] assms(7) by fastforce
  then have "rv32_load32 emulator_platform (s, w) (pc s) = Inr (RV32_ERR, (s, w))"
    using assms(8) by (simp add: rv32_load32_def)
  moreover have "\<not> breakpoint_hit s" using assms(6) by (simp add: breakpoint_hit_iff)
  ultimately have cyc: "rv32_cycle emulator_platform (s, w) = Inr (stop RV32_INVALID_MEMORY_ACCESS s, w)"
    using assms(3-5) by (simp add: rv32_cycle_def)
  have "emulator_report (stop RV32_INVALID_MEMORY_ACCESS s, w) = Inl Out_Of_Bounds"
    using assms(7) by (simp add: emulator_report_def stop_def mem_get_def)
  then have "emulator_turns 1 (s, w) = Some (Inl Out_Of_Bounds)"
    using assms(3) by (simp add: emulator_turns.simps [of "Suc 0"] emulator_turn_def cyc)
  then show ?thesis using cyc emulator_turns_loop by blast
qed

lemma emulator_wild_pc_witness:
  "emulator_loop ((boot [0, 0, 0, 0])\<lparr>pc := 0x40000000\<rparr>, silent) = Some (Inl Out_Of_Bounds)"
proof -
  let ?s = "(boot [0, 0, 0, 0])\<lparr>pc := 0x40000000\<rparr>"
  have "wf_rv32 ?s" using boot_wf [of "[0, 0, 0, 0]"] by (simp add: wf_rv32_def)
  moreover have "4 \<le> unat (mem_size ?s)" "status ?s = RV32_RUNNING" "wfi ?s = 0"
    "deliver_interrupt ?s = ?s" "breakpoints ?s = {#}" "length (mem ?s) < unat (pc ?s) + 4"
    "pc ?s \<noteq> RV32_INTERRUPT_CONTROLLER_ADDRESS"
    by (simp_all add: boot_def deliver_interrupt_def breakpoints_def slots_def
        RV32_INTERRUPT_CONTROLLER_ADDRESS_def)
  ultimately show ?thesis using emulator_wild_pc by blast
qed

definition malloced :: "rv32 \<Rightarrow> u32 \<Rightarrow> bool" where
  "malloced m n \<longleftrightarrow> length (r m) = 32 \<and> length (bp m) = 8
     \<and> RV32_NEEDED_MEMORY (unat n) \<le> offsetof_mem + length (mem m)"

definition emulator_start :: "u8 list \<Rightarrow> rv32 \<Rightarrow> rv32" where
  "emulator_start file m = (zeroed m)\<lparr>mem_size := emulator_ram_size,
     mem := file @ drop (length file) (mem (zeroed m)), status := RV32_RUNNING\<rparr>"

definition at_exit :: "hart \<Rightarrow> bool" where
  "at_exit h \<longleftrightarrow> hart_quiet h \<and> gpr h 17 = 93
     \<and> fetch_bytes 4 (ram h) (unat (ipc h)) = Some (le_bytes 4 (0x73 :: u32))"

lemma emulator_main_start:
  assumes "malloced m emulator_ram_size" "file \<noteq> []" "length file \<le> unat emulator_ram_size"
    and "files path = Some file"
  shows "emulator_main [name, path] files (Some m) w =
    map_option (\<lambda>res. bind_run res (\<lambda>(t, w'). Inr (exit_code t, w')))
      (emulator_loop (emulator_start file m, w))"
proof -
  have "sizeof_RV32 \<le> offsetof_mem + length (mem m)"
    using assms(1) by (simp add: malloced_def RV32_NEEDED_MEMORY_def)
  with assms(2-4) show ?thesis
    by (simp add: emulator_main_def rv32_new_def load_program_def emulator_start_def not_less)
qed

lemma emulator_start_ready:
  assumes "malloced m emulator_ram_size" "length file \<le> unat emulator_ram_size"
  shows "ready (emulator_start file m)" "bp_mask (emulator_start file m) = 0"
proof -
  have "4 \<le> length (mem m)" using assms(1) by (simp add: malloced_def RV32_NEEDED_MEMORY_def RV32_layout)
  then have "length (mem (zeroed m)) = length (mem m)" by (simp add: zeroed_lengths)
  then have "wf_rv32 (emulator_start file m)"
    using assms
    by (simp add: malloced_def wf_rv32_def emulator_start_def zeroed_lengths RV32_NEEDED_MEMORY_def
        RV32_layout)
  then show "ready (emulator_start file m)"
    by (simp add: ready_def) (simp add: emulator_start_def zeroed_def breakpoint_hit_def)
  show "bp_mask (emulator_start file m) = 0" by (simp add: emulator_start_def zeroed_def)
qed

lemma emulator_turn_cycle:
  "rv32_cycle emulator_platform v = Inr v' \<Longrightarrow> status (fst v') \<in> {RV32_RUNNING, RV32_HALTED} \<Longrightarrow>
   emulator_turn v = Inr v'"
  by (auto simp: emulator_turn_def emulator_report_def Let_def)

lemma emulator_turns_simulate:
  assumes "hart_steps n h h'" "abs_hart s = h" "ready s" "bp_mask s = 0"
  shows "\<exists>s'. abs_hart s' = h' \<and> ready s' \<and>
    emulator_turns (n + k) (s, w) = emulator_turns k (s', w)"
  using assms
proof (induction arbitrary: s rule: hart_steps.induct)
  case (stay h)
  then show ?case by auto
next
  case (more h h1 n h2)
  from more.hyps(1) obtain i where "hart_quiet h" "fetches h i" "conformant i h" "isa_step i h = Some h1"
    by (rule hart_stepE)
  with more.prems cycle_simulates [of s i h1 emulator_platform w] obtain s1
    where cyc: "rv32_cycle emulator_platform (s, w) = Inr (s1, w)" and s1: "abs_hart s1 = h1" "frame s s1"
    by auto
  note next1 = ready_frame [OF more.prems(2) s1(2) more.prems(3)]
  from more.IH [OF s1(1) next1] obtain s' where s': "abs_hart s' = h2" "ready s'"
      "emulator_turns (n + k) (s1, w) = emulator_turns k (s', w)" by blast
  have "emulator_turn (s, w) = Inr (s1, w)"
    by (rule emulator_turn_cycle [OF cyc]) (use next1 in \<open>simp add: ready_def\<close>)
  then have "emulator_turns (Suc n + k) (s, w) = emulator_turns (n + k) (s1, w)"
    using more.prems(2) by (simp add: emulator_turns.simps [of "Suc (n + k)"] ready_def)
  with s' show ?case by metis
qed

lemma emulator_exit_turn:
  assumes rdy: "ready s" and e: "at_exit (abs_hart s)"
  shows "\<exists>t. emulator_turns 1 (s, w) = Some (Inr (t, w)) \<and> exit_code t = abs_gpr s 10"
proof -
  have wf: "wf_rv32 s" using rdy by (simp add: ready_def)
  have f: "fetch_bytes 4 (abs_ram s) (unat (pc s)) = Some (le_bytes 4 (0x73 :: u32))"
    and a7: "r s ! 17 = 93" and q: "deliver_interrupt s = s"
    using e deliver_quiet [of s] by (simp_all add: at_exit_def abs_gpr_def)
  have "(le_word (le_bytes 4 (0x73 :: u32)) :: u32) = 0x73"
    by (rule le_word_le_bytes_full) simp
  then have ld: "rv32_load32 emulator_platform (s, w) (pc s) = Inr (RV32_OK 0x73, (s, w))"
    using ram_access(2) [OF wf f] ram_access(4) [OF wf f, where w = w and ?'a = 32]
    by (simp add: rv32_load32_def)
  let ?t = "stop RV32_HALTED (write_reg 0 0 s)"
  have "rv32_execute emulator_platform 0x73 (write_reg 0 0 s, w) = Inr (?t, w)"
    using a7 by (simp add: rv32_execute_def exec_system_def exec_ecall_def emulator_ecall_def field_defs
        IMM_I_def Let_def write_reg_def stop_def)
  then have "rv32_cycle emulator_platform (s, w) = Inr (?t, w)"
    using rdy q ld by (simp add: rv32_cycle_def ready_def)
  then have "emulator_turn (s, w) = Inr (?t, w)" by (rule emulator_turn_cycle) (simp add: stop_def)
  then have "emulator_turns 1 (s, w) = Some (Inr (?t, w))"
    using rdy by (simp add: emulator_turns.simps [of "Suc 0"] emulator_turns.simps [of 0] ready_def stop_def)
  moreover have "exit_code ?t = abs_gpr s 10"
    by (simp add: exit_code_def stop_def write_reg_def abs_gpr_def)
  ultimately show ?thesis by blast
qed

text \<open>
  The whole emulator runs a program to its exit code: if the hart that holds the program file
  in its RAM takes \<open>n\<close> steps of the instruction set and arrives at an \<open>ecall\<close> with \<open>a7 = 93\<close>, the
  emulator returns the value of \<open>a0\<close> as exit code and prints nothing, whatever block \<open>malloc\<close>
  returned.
\<close>

lemma emulator_runs_program:
  assumes "malloced m emulator_ram_size" "file \<noteq> []" "length file \<le> unat emulator_ram_size"
    and "files path = Some file"
    and "hart_steps n (abs_hart (emulator_start file m)) h" "at_exit h"
  shows "emulator_main [name, path] files (Some m) w = Some (Inr (gpr h 10, w))"
proof -
  note start = emulator_start_ready [OF assms(1,3)]
  from emulator_turns_simulate [OF assms(5) refl start, of 1 w] obtain s
    where s: "abs_hart s = h" "ready s"
      "emulator_turns (n + 1) (emulator_start file m, w) = emulator_turns 1 (s, w)" by blast
  from emulator_exit_turn [OF s(2), of w] assms(6) s obtain t
    where "emulator_turns (n + 1) (emulator_start file m, w) = Some (Inr (t, w))"
      and "exit_code t = gpr h 10" by auto
  with emulator_main_start [of m "file" files path, OF assms(1-4)] emulator_turns_loop
  show ?thesis by force
qed

text \<open>The witness: \<open>li a0, 42; li a7, 93; ecall\<close>.\<close>

definition exit_program :: "u8 list" where
  "exit_program = program [OpImm Addi 10 0 42, OpImm Addi 17 0 93] @ le_bytes 4 (0x73 :: u32)"

definition heap_block :: rv32 where
  "heap_block = boot (replicate (unat emulator_ram_size) 0)"

lemma heap_block_malloced: "malloced heap_block emulator_ram_size"
  by (simp add: malloced_def heap_block_def boot_def RV32_NEEDED_MEMORY_def RV32_layout)

lemma exit_program_fetch:
  "k \<in> {0, 4, 8} \<Longrightarrow>
   fetch_bytes 4 (abs_ram (emulator_start exit_program heap_block)) k = Some (take 4 (drop k exit_program))"
proof -
  assume k: "k \<in> {0, 4, 8}"
  have len: "length exit_program = 12" by (simp add: exit_program_def)
  have wf: "wf_rv32 (emulator_start exit_program heap_block)"
    using emulator_start_ready(1) [OF heap_block_malloced, of exit_program] len
    by (simp add: ready_def emulator_ram_size_def)
  have size: "unat (mem_size (emulator_start exit_program heap_block)) = 0x20000004"
    and mem: "take 12 (mem (emulator_start exit_program heap_block)) = exit_program"
    using len by (simp_all add: emulator_start_def emulator_ram_size_def)
  have "take 4 (drop k ms) = take 4 (drop k (take 12 ms))" for ms :: "u8 list"
    using k by (auto simp: drop_take)
  from this [of "mem (emulator_start exit_program heap_block)"]
  have "take 4 (drop k (mem (emulator_start exit_program heap_block))) = take 4 (drop k exit_program)"
    by (simp only: mem)
  moreover have "k + 4 \<le> unat (mem_size (emulator_start exit_program heap_block))"
    using k by (auto simp: size)
  ultimately show ?thesis by (simp add: fetch_bytes_abs [OF wf])
qed

lemma exit_program_words:
  "take 4 (drop 0 exit_program) = le_bytes 4 (encode (OpImm Addi 10 0 42))"
  "take 4 (drop 4 exit_program) = le_bytes 4 (encode (OpImm Addi 17 0 93))"
  "take 4 (drop 8 exit_program) = le_bytes 4 (0x73 :: u32)"
  by (simp_all add: exit_program_def program_def del: encode.simps)

lemma exit_program_steps:
  "\<exists>h. hart_steps 2 (abs_hart (emulator_start exit_program heap_block)) h \<and> at_exit h \<and> gpr h 10 = 42"
proof -
  let ?h0 = "abs_hart (emulator_start exit_program heap_block)"
  let ?h1 = "next_instr (set_gpr 10 42 ?h0)"
  let ?h2 = "next_instr (set_gpr 17 93 ?h1)"
  have gpr0: "abs_gpr (emulator_start exit_program heap_block) 0 = 0"
    "pc (emulator_start exit_program heap_block) = 0"
    "rv32_read_csr (emulator_start exit_program heap_block) 0x300 = 0"
    by (simp_all add: abs_gpr_def emulator_start_def zeroed_def rv32_read_csr_def)
  have quiet: "hart_quiet ?h0" "hart_quiet ?h1" "hart_quiet ?h2"
    using gpr0 by (simp_all add: hart_quiet_def next_instr_def goto_def set_gpr_def)
  have at: "ram ?h1 = ram ?h0" "ram ?h2 = ram ?h0" "ipc ?h1 = 4" "ipc ?h2 = 8"
    using gpr0 by (simp_all add: next_instr_def goto_def set_gpr_def)
  have f0: "fetches ?h0 (OpImm Addi 10 0 42)" and f1: "fetches ?h1 (OpImm Addi 17 0 93)"
    using exit_program_fetch [of 0] exit_program_fetch [of 4]
    unfolding exit_program_words by (simp_all add: fetches_def at gpr0 del: encode.simps)
  have s0: "isa_step (OpImm Addi 10 0 42) ?h0 = Some ?h1"
    using gpr0 by simp
  have s1: "isa_step (OpImm Addi 17 0 93) ?h1 = Some ?h2"
    by (simp add: next_instr_def goto_def set_gpr_def)
  have "hart_steps 2 ?h0 ?h2"
    unfolding numeral_2_eq_2
    by (intro hart_steps.more [OF hart_step.intros [OF quiet(1) f0 _ s0]]
        hart_steps.more [OF hart_step.intros [OF quiet(2) f1 _ s1]] hart_steps.stay)
      (simp_all add: conformant_def)
  moreover have "at_exit ?h2"
    using exit_program_fetch [of 8] quiet(3)
    unfolding exit_program_words by (simp add: at_exit_def at)
      (simp add: next_instr_def goto_def set_gpr_def)
  moreover have "gpr ?h2 10 = 42" by (simp add: next_instr_def goto_def set_gpr_def)
  ultimately show ?thesis by blast
qed

lemma emulator_runs_program_witness:
  "emulator_main [''emulator'', ''exit.bin''] [''exit.bin'' \<mapsto> exit_program] (Some heap_block) silent
   = Some (Inr (42, silent))"
proof -
  obtain h where h: "hart_steps 2 (abs_hart (emulator_start exit_program heap_block)) h"
      "at_exit h" "gpr h 10 = 42"
    using exit_program_steps by blast
  have "length exit_program = 12" by (simp add: exit_program_def)
  then have "exit_program \<noteq> []" "length exit_program \<le> unat emulator_ram_size"
    by (auto simp: emulator_ram_size_def)
  from emulator_runs_program [OF heap_block_malloced this _ h(1,2), of "[''exit.bin'' \<mapsto> exit_program]"]
  show ?thesis by (simp add: h(3))
qed

end
