(* ===== verification/Newlib_Core.thy ===== *)
theory Newlib_Core
  imports Control_Properties
begin

text \<open>
  The emulator of \<open>src/examples/c-newlib-nano\<close>: an earlier core (\<open>rv32.c\<close>, \<open>rv32.h\<close>) with its
  own state and result type, its system call (\<open>ecall.c\<close>) and its main program (\<open>emulator.c\<close>). The
  decoding macros, the immediate arithmetic, the branch conditions and the multiply extension (but
  for the overflow of \<open>mul\<close>, a fault here) are the same C text as in \<open>src/src/rv32.h\<close> and share their
  definitions with it; what differs is written out here.
\<close>

section \<open>State\<close>

datatype nl_result = NL_OK | NL_INVALID_OPCODE | NL_INVALID_INSTRUCTION | NL_INVALID_MEMORY_ACCESS

primrec nl_result_code :: "nl_result \<Rightarrow> nat" where
  "nl_result_code NL_OK = 0"
| "nl_result_code NL_INVALID_OPCODE = 1"
| "nl_result_code NL_INVALID_INSTRUCTION = 2"
| "nl_result_code NL_INVALID_MEMORY_ACCESS = 3"

record nl_rv32 =
  nl_mem_size :: u32
  nl_halted :: u8
  nl_r :: "u32 list"
  nl_pc :: u32
  nl_mem :: "u8 list"

definition nl_members :: "(nat \<times> nat) list" where
  "nl_members = [(4, 4), (1, 1), (32 * 4, 4), (4, 4), (1, 1)]"

lemma nl_layout:
  "align_up (struct_end 0 nl_members) 4 = 144" "align_up (struct_end 0 (butlast nl_members)) 1 = 140"
  by (code_simp, code_simp)

text \<open>\<open>calloc(1, sizeof(RV32) + mem_size)\<close>: \<open>mem\<close> reaches to the end of the allocation.\<close>

definition nl_new :: "u32 \<Rightarrow> nl_rv32" where
  "nl_new n = \<lparr>nl_mem_size = n, nl_halted = 0, nl_r = replicate 32 0, nl_pc = 0,
     nl_mem = replicate (144 - 140 + unat n) 0\<rparr>"

definition nl_write :: "u32 \<Rightarrow> u32 \<Rightarrow> nl_rv32 \<Rightarrow> nl_rv32" where
  "nl_write d x s = s\<lparr>nl_r := (nl_r s)[unat d := x]\<rparr>"

definition nl_read :: "nl_rv32 \<Rightarrow> u32 \<Rightarrow> u32" where
  "nl_read s i = nl_r s ! unat i"

definition nl_advance :: "u32 \<Rightarrow> nl_rv32 \<Rightarrow> nl_rv32" where
  "nl_advance d s = s\<lparr>nl_pc := nl_pc s + d\<rparr>"

type_synonym nl_step = "(nl_result \<times> nl_rv32) run"

definition nl_fail :: "nl_result \<Rightarrow> nl_rv32 \<Rightarrow> nl_step" where
  "nl_fail e s = Inr (e, s)"

section \<open>Arithmetic\<close>

text \<open>The shifts by a register do not mask the amount, which is undefined from 32 on.\<close>

definition nl_shift :: "(nat \<Rightarrow> u32 \<Rightarrow> u32) \<Rightarrow> u32 \<Rightarrow> u32 \<Rightarrow> u32 run" where
  "nl_shift f a b = (if b < 32 then Inr (f (unat b) a) else Inl Undefined)"

definition nl_op_alu :: "u32 \<Rightarrow> u32 \<Rightarrow> u32 \<Rightarrow> u32 \<Rightarrow> u32 run option" where
  "nl_op_alu funct3 funct7 a b =
     (if funct3 = 0 then
        (if funct7 = 0 then Some (Inr (a + b)) else if funct7 = 0x20 then Some (Inr (a - b)) else None)
      else if funct3 = 4 then Some (Inr (a XOR b))
      else if funct3 = 6 then Some (Inr (a OR b))
      else if funct3 = 7 then Some (Inr (a AND b))
      else if funct3 = 1 then Some (nl_shift push_bit a b)
      else if funct3 = 5 then
        (if funct7 = 0 then Some (nl_shift drop_bit a b)
         else if funct7 = 0x20 then Some (nl_shift signed_drop_bit a b)
         else None)
      else if funct3 = 2 then Some (Inr (if sint a < sint b then 1 else 0))
      else if funct3 = 3 then Some (Inr (if a < b then 1 else 0))
      else None)"

text \<open>
  \<open>mul\<close> multiplies two words, extended without sign, as \<open>int64_t\<close>: a product of \<open>2 ^ 63\<close> or more is
  a signed overflow, which is undefined. The products of the other cases fit, or are unsigned.
\<close>

definition nl_mul_ext :: "u32 \<Rightarrow> u32 \<Rightarrow> u32 \<Rightarrow> u32 run option" where
  "nl_mul_ext funct3 a b =
     (if funct3 = 0 \<and> 2 ^ 63 \<le> uint a * uint b then Some (Inl Undefined)
      else map_option Inr (mul_ext funct3 a b))"

definition nl_exec_op :: "u32 \<Rightarrow> nl_rv32 \<Rightarrow> nl_step" where
  "nl_exec_op instr s =
     (let a = nl_read s (RS1 instr); b = nl_read s (RS2 instr)
      in case (if FUNCT7 instr = 1 then nl_mul_ext (FUNCT3 instr) a b
               else nl_op_alu (FUNCT3 instr) (FUNCT7 instr) a b) of
           None \<Rightarrow> nl_fail NL_INVALID_INSTRUCTION s
         | Some m \<Rightarrow> bind_run m (\<lambda>x. Inr (NL_OK, nl_advance 4 (nl_write (RD instr) x s))))"

definition nl_exec_op_imm :: "u32 \<Rightarrow> nl_rv32 \<Rightarrow> nl_step" where
  "nl_exec_op_imm instr s =
     (case op_imm instr (nl_read s (RS1 instr)) of
        None \<Rightarrow> nl_fail NL_INVALID_INSTRUCTION s
      | Some x \<Rightarrow> Inr (NL_OK, nl_advance 4 (nl_write (RD instr) x s)))"

section \<open>Memory\<close>

definition nl_byte :: "nl_rv32 \<Rightarrow> u32 \<Rightarrow> u32 run" where
  "nl_byte s a = (if unat a < length (nl_mem s) then Inr (ucast (nl_mem s ! unat a)) else Inl Out_Of_Bounds)"

text \<open>The byte at \<open>a\<close>, or the bytes at \<open>a\<close> and above joined, as an \<open>int\<close>.\<close>

fun nl_bytes :: "nat \<Rightarrow> nl_rv32 \<Rightarrow> u32 \<Rightarrow> u32 run" where
  "nl_bytes 0 s a = Inr 0"
| "nl_bytes (Suc n) s a =
     bind_run (nl_byte s a) (\<lambda>b. bind_run (nl_bytes n s (a + 1)) (\<lambda>x. Inr (b OR push_bit 8 x)))"

definition nl_exec_load :: "u32 \<Rightarrow> nl_rv32 \<Rightarrow> nl_step" where
  "nl_exec_load instr s =
     (let addr = nl_read s (RS1 instr) + SEXT_IMM_I instr; funct3 = FUNCT3 instr;
          load = (\<lambda>n bound ext.
            if bound \<le> addr then nl_fail NL_INVALID_MEMORY_ACCESS s
            else bind_run (nl_bytes n s addr) (\<lambda>x.
                   Inr (NL_OK, nl_advance 4 (nl_write (RD instr) (ext x) s))))
      in if funct3 = 0 then load 1 (nl_mem_size s) (\<lambda>x. SEXT x 8)
         else if funct3 = 1 then load 2 (nl_mem_size s - 1) (\<lambda>x. SEXT x 16)
         else if funct3 = 2 then load 4 (nl_mem_size s - 3) (\<lambda>x. x)
         else if funct3 = 4 then load 1 (nl_mem_size s) (\<lambda>x. x)
         else if funct3 = 5 then load 2 (nl_mem_size s - 1) (\<lambda>x. x)
         else nl_fail NL_INVALID_INSTRUCTION s)"

definition nl_put :: "u32 \<Rightarrow> u32 \<Rightarrow> nl_rv32 \<Rightarrow> nl_rv32 run" where
  "nl_put a x s =
     (if unat a < length (nl_mem s) then Inr (s\<lparr>nl_mem := (nl_mem s)[unat a := ucast x]\<rparr>) else Inl Out_Of_Bounds)"

fun nl_puts :: "nat \<Rightarrow> u32 \<Rightarrow> u32 \<Rightarrow> nl_rv32 \<Rightarrow> nl_rv32 run" where
  "nl_puts 0 a x s = Inr s"
| "nl_puts (Suc n) a x s = bind_run (nl_put a (x AND 0xff) s) (nl_puts n (a + 1) (drop_bit 8 x))"

definition nl_exec_store :: "u32 \<Rightarrow> nl_rv32 \<Rightarrow> nl_step" where
  "nl_exec_store instr s =
     (let addr = nl_read s (RS1 instr) + SEXT_IMM_S instr; funct3 = FUNCT3 instr;
          x = nl_read s (RS2 instr);
          store = (\<lambda>n bound.
            if bound \<le> addr then nl_fail NL_INVALID_MEMORY_ACCESS s
            else bind_run (nl_puts n addr x s) (\<lambda>s'. Inr (NL_OK, nl_advance 4 s')))
      in if funct3 = 0 then store 1 (nl_mem_size s)
         else if funct3 = 1 then store 2 (nl_mem_size s)
         else if funct3 = 2 then store 4 (nl_mem_size s - 3)
         else nl_fail NL_INVALID_INSTRUCTION s)"

section \<open>Control transfer\<close>

definition nl_exec_branch :: "u32 \<Rightarrow> nl_rv32 \<Rightarrow> nl_step" where
  "nl_exec_branch instr s =
     (case branch_taken (FUNCT3 instr) (nl_read s (RS1 instr)) (nl_read s (RS2 instr)) of
        None \<Rightarrow> nl_fail NL_INVALID_INSTRUCTION s
      | Some taken \<Rightarrow> Inr (NL_OK, nl_advance (if taken then SEXT_IMM_B instr else 4) s))"

definition nl_exec_jal :: "u32 \<Rightarrow> nl_rv32 \<Rightarrow> nl_step" where
  "nl_exec_jal instr s =
     Inr (NL_OK, nl_advance (SEXT_IMM_J instr) (nl_write (RD instr) (nl_pc s + 4) s))"

text \<open>The link register is written before the base register is read.\<close>

definition nl_exec_jalr :: "u32 \<Rightarrow> nl_rv32 \<Rightarrow> nl_step" where
  "nl_exec_jalr instr s =
     (let s' = nl_write (RD instr) (nl_pc s + 4) s
      in Inr (NL_OK, s'\<lparr>nl_pc := nl_read s' (RS1 instr) + SEXT_IMM_I instr\<rparr>))"

definition nl_exec_lui :: "u32 \<Rightarrow> nl_rv32 \<Rightarrow> nl_step" where
  "nl_exec_lui instr s = Inr (NL_OK, nl_advance 4 (nl_write (RD instr) (push_bit 12 (SEXT_IMM_U instr)) s))"

definition nl_exec_auipc :: "u32 \<Rightarrow> nl_rv32 \<Rightarrow> nl_step" where
  "nl_exec_auipc instr s =
     Inr (NL_OK, nl_advance 4 (nl_write (RD instr) (nl_pc s + push_bit 12 (SEXT_IMM_U instr)) s))"

section \<open>System calls\<close>

text \<open>The call writes a line about itself and then the bytes of guest memory, whatever \<open>a0\<close> is.\<close>

definition nl_ecall :: "nl_rv32 \<Rightarrow> host \<Rightarrow> host run" where
  "nl_ecall s w =
     (let a7 = nl_r s ! reg_index REG_A7; a0 = nl_r s ! reg_index REG_A0;
          a1 = nl_r s ! reg_index REG_A1; a2 = nl_r s ! reg_index REG_A2
      in if a7 = 1 \<or> a7 = 64 then
           (let w' = print_out (''write('' @ format_d a0 @ '', 0x'' @ format_08x a1 @ '', '' @ format_d a2
                       @ '')'' @ newline) w
            in if unat a1 + unat a2 \<le> length (nl_mem s)
               then Inr (print_out
                      (map (\<lambda>b. char_of (unat b)) (take (unat a2) (drop (unat a1) (nl_mem s)))) w')
               else Inl Out_Of_Bounds)
         else Inr (print_err (''Unknown system call: '' @ format_d a7 @ newline) w))"

definition nl_exec_system :: "u32 \<Rightarrow> nl_rv32 \<Rightarrow> host \<Rightarrow> ((nl_result \<times> nl_rv32) \<times> host) run" where
  "nl_exec_system instr s w =
     (if IMM_I instr = 0 then bind_run (nl_ecall s w) (\<lambda>w'. Inr ((NL_OK, nl_advance 4 s), w'))
      else if IMM_I instr = 1 then Inr ((NL_OK, nl_advance 4 s), w)
      else Inr ((NL_INVALID_INSTRUCTION, s), w))"

section \<open>The cycle\<close>

definition nl_plain :: "u32 \<Rightarrow> nl_rv32 \<Rightarrow> nl_step" where
  "nl_plain instr s =
     (let opcode = OPCODE instr
      in if opcode = 0x33 then nl_exec_op instr s
         else if opcode = 0x13 then nl_exec_op_imm instr s
         else if opcode = 0x03 then nl_exec_load instr s
         else if opcode = 0x23 then nl_exec_store instr s
         else if opcode = 0x63 then nl_exec_branch instr s
         else if opcode = 0x6f then nl_exec_jal instr s
         else if opcode = 0x67 then nl_exec_jalr instr s
         else if opcode = 0x37 then nl_exec_lui instr s
         else if opcode = 0x17 then nl_exec_auipc instr s
         else nl_fail NL_INVALID_OPCODE s)"

definition nl_fetch :: "nl_rv32 \<Rightarrow> u32 run" where
  "nl_fetch s =
     (case mem_get 4 (nl_mem s) (unat (nl_pc s)) of None \<Rightarrow> Inl Out_Of_Bounds | Some x \<Rightarrow> Inr x)"

definition nl_cycle :: "nl_rv32 \<Rightarrow> host \<Rightarrow> ((nl_result \<times> nl_rv32) \<times> host) run" where
  "nl_cycle s w =
     (if nl_mem_size s \<le> nl_pc s then Inr ((NL_INVALID_MEMORY_ACCESS, s), w)
      else bind_run (nl_fetch s) (\<lambda>instr.
        let s' = nl_write 0 0 s
        in if OPCODE instr = 0x73 then nl_exec_system instr s' w
           else bind_run (nl_plain instr s') (\<lambda>res. Inr (res, w))))"

section \<open>The main program\<close>

definition nl_report :: "nl_result \<Rightarrow> nl_rv32 \<Rightarrow> host \<Rightarrow> host run" where
  "nl_report res s w =
     bind_run (nl_fetch s) (\<lambda>instr.
       Inr (print_err (''Error '' @ decimal_nat (nl_result_code res) @ '' at pc='' @ format_08x (nl_pc s) @ newline
         @ ''instr = '' @ format_08x instr @ newline) w))"

partial_function (option) nl_loop :: "nl_rv32 \<Rightarrow> host \<Rightarrow> (nl_rv32 \<times> host) run option" where
  "nl_loop s w =
     (if nl_halted s \<noteq> 0 then Some (Inr (s, w))
      else case nl_cycle s w of
             Inl e \<Rightarrow> Some (Inl e)
           | Inr ((res, s'), w') \<Rightarrow>
               (if res \<noteq> NL_OK
                then Some (bind_run (nl_report res s' w') (\<lambda>w''. Inr (s', w'')))
                else nl_loop s' w'))"

text \<open>
  \<open>main\<close>: \<open>rv32_new\<close> writes through the pointer that \<open>calloc\<close> returned before \<open>main\<close> tests
  it; a program that is too big is reported but read anyway, beyond the allocation; after a failed
  read (of an empty file) the file is closed twice.
\<close>

definition nl_load :: "u8 list \<Rightarrow> host \<Rightarrow> (nl_rv32 \<times> host) run" where
  "nl_load file w =
     (let s = nl_new 65536;
          w1 = (if 65536 < length file then print_err (''Program too big.'' @ newline) w else w)
      in if file = [] then Inl Undefined
         else if length (nl_mem s) < length file then Inl Out_Of_Bounds
         else Inr (s\<lparr>nl_mem := file @ drop (length file) (nl_mem s),
                     nl_r := (nl_r s)[reg_index REG_SP := 60000], nl_pc := 0x60\<rparr>, w1))"

definition nl_main ::
  "string list \<Rightarrow> (string \<Rightarrow> u8 list option) \<Rightarrow> bool \<Rightarrow> host \<Rightarrow> (u32 \<times> host) run option" where
  "nl_main argv files calloc_ok w =
     (if length argv < 2 then emulator_error ''Please provide a program to run.'' w
      else case files (argv ! 1) of
        None \<Rightarrow> emulator_error (''Failed to open program '' @ argv ! 1) w
      | Some file \<Rightarrow>
        (if \<not> calloc_ok then Some (Inl Undefined)
         else case nl_load file w of
                Inl e \<Rightarrow> Some (Inl e)
              | Inr (s, w1) \<Rightarrow>
                  map_option (\<lambda>res. bind_run res (\<lambda>(_, w2). Inr (0, print_out newline w2))) (nl_loop s w1)))"

end
