(* ===== verification/Newlib_Facts.thy ===== *)
theory Newlib_Facts
  imports Newlib_Core
begin

text \<open>
  The earlier core of \<open>src/examples/c-newlib-nano\<close> against the current one: the embedding
  \<open>upgrade\<close> of its states, and one lemma per group of instructions saying that both cores
  compute the same step. Its byte-wise memory accesses are the multi-byte accesses of the
  current core, and what can go wrong in a step is characterised exactly.
\<close>

section \<open>Well-formed states and their images in the current core\<close>

definition nl_wf :: "nl_rv32 \<Rightarrow> bool" where
  "nl_wf s \<longleftrightarrow> length (nl_r s) = 32 \<and> length (nl_mem s) = unat (nl_mem_size s) + 4
     \<and> 4 \<le> unat (nl_mem_size s)"

definition upgrade :: "nl_rv32 \<Rightarrow> rv32" where
  "upgrade s =
     \<lparr>mem_size = nl_mem_size s, status = RV32_RUNNING, bp_mask = 0, bp = replicate 8 0,
      r = nl_r s, pc = nl_pc s, mstatus = 0, mie = 0, mip = 0, mtvec = 0, mepc = 0, mcause = 0,
      wfi = 0, interrupt_controller = \<lparr>ie = 0, ip = 0\<rparr>, mem = nl_mem s\<rparr>"

primrec nl_status :: "nl_result \<Rightarrow> rv32_status" where
  "nl_status NL_OK = RV32_RUNNING"
| "nl_status NL_INVALID_OPCODE = RV32_INVALID_INSTRUCTION"
| "nl_status NL_INVALID_INSTRUCTION = RV32_INVALID_INSTRUCTION"
| "nl_status NL_INVALID_MEMORY_ACCESS = RV32_INVALID_MEMORY_ACCESS"

text \<open>An embedder without devices: every access outside the RAM fails.\<close>

definition no_devices :: "'w platform" where
  "no_devices =
     \<lparr>mmio_load8 = (\<lambda>v a. (RV32_ERR, v)), mmio_load16 = (\<lambda>v a. (RV32_ERR, v)),
      mmio_load32 = (\<lambda>v a. (RV32_ERR, v)), mmio_store8 = (\<lambda>v a x. (RV32_ERR, v)),
      mmio_store16 = (\<lambda>v a x. (RV32_ERR, v)), mmio_store32 = (\<lambda>v a x. (RV32_ERR, v)),
      ecall = (\<lambda>v. v)\<rparr>"

lemma upgrade_simps [simp]:
  "r (upgrade s) = nl_r s" "pc (upgrade s) = nl_pc s" "mem (upgrade s) = nl_mem s"
  "mem_size (upgrade s) = nl_mem_size s" "status (upgrade s) = RV32_RUNNING"
  "wfi (upgrade s) = 0" "bp_mask (upgrade s) = 0" "mstatus (upgrade s) = 0"
  by (simp_all add: upgrade_def)

lemma upgrade_write [simp]: "write_reg d x (upgrade s) = upgrade (nl_write d x s)"
  by (simp add: upgrade_def write_reg_def nl_write_def)

lemma upgrade_read [simp]: "read_reg (upgrade s) i = nl_read s i"
  by (simp add: read_reg_def nl_read_def)

lemma upgrade_advance [simp]: "advance d (upgrade s) = upgrade (nl_advance d s)"
  by (simp add: upgrade_def advance_def nl_advance_def)

lemma upgrade_stop [simp]: "stop RV32_RUNNING (upgrade s) = upgrade s"
  by (simp add: upgrade_def stop_def)

lemma upgrade_mem [simp]: "(upgrade s)\<lparr>mem := ms\<rparr> = upgrade (s\<lparr>nl_mem := ms\<rparr>)"
  by (simp add: upgrade_def)

lemma upgrade_pc_r: "upgrade (s\<lparr>nl_pc := a, nl_r := x\<rparr>) = upgrade (s\<lparr>nl_r := x, nl_pc := a\<rparr>)"
  by (simp add: upgrade_def)

lemma upgrade_pc [simp]: "(upgrade s)\<lparr>pc := a\<rparr> = upgrade (s\<lparr>nl_pc := a\<rparr>)"
  by (simp add: upgrade_def)

text \<open>A step of the earlier core, as the outcome that the current core would have.\<close>

definition outcome :: "'w \<Rightarrow> nl_result \<times> nl_rv32 \<Rightarrow> 'w vm" where
  "outcome w res = (stop (nl_status (fst res)) (upgrade (snd res)), w)"

lemma outcome_simps [simp]:
  "outcome w (NL_OK, s) = (upgrade s, w)"
  "outcome w (NL_INVALID_OPCODE, s) = (stop RV32_INVALID_INSTRUCTION (upgrade s), w)"
  "outcome w (NL_INVALID_INSTRUCTION, s) = (stop RV32_INVALID_INSTRUCTION (upgrade s), w)"
  "outcome w (NL_INVALID_MEMORY_ACCESS, s) = (stop RV32_INVALID_MEMORY_ACCESS (upgrade s), w)"
  by (simp_all add: outcome_def)

section \<open>Byte-wise accesses\<close>

lemma nl_byte_in:
  "unat a < length (nl_mem s) \<Longrightarrow> nl_byte s a = Inr (ucast (nl_mem s ! unat a))"
  by (simp add: nl_byte_def)

lemma nl_bytes_eq:
  assumes "unat a + n \<le> length (nl_mem s)" "unat a + n < 2 ^ 32"
  shows "nl_bytes n s a = Inr (le_word (take n (drop (unat a) (nl_mem s))))"
  using assms
proof (induction n arbitrary: a)
  case 0
  show ?case by simp
next
  case (Suc n)
  have a: "unat (a + 1) = unat a + 1" using Suc.prems by (intro plus_one_small) simp
  have "nl_bytes n s (a + 1) = Inr (le_word (take n (drop (Suc (unat a)) (nl_mem s))))"
    using Suc.IH [of "a + 1"] Suc.prems a by simp
  moreover have "drop (unat a) (nl_mem s) = nl_mem s ! unat a # drop (Suc (unat a)) (nl_mem s)"
    using Suc.prems by (simp add: Cons_nth_drop_Suc)
  ultimately show ?case using Suc.prems by (simp add: nl_byte_in)
qed

lemma nl_puts_eq:
  assumes "unat a + n \<le> length (nl_mem s)" "unat a + n \<le> 2 ^ 32"
  shows "nl_puts n a x s =
     Inr (s\<lparr>nl_mem := take (unat a) (nl_mem s) @ le_bytes n x @ drop (unat a + n) (nl_mem s)\<rparr>)"
  using assms
proof (induction n arbitrary: a x s)
  case 0
  show ?case by simp
next
  case (Suc n)
  let ?ms = "(nl_mem s)[unat a := ucast x]"
  have byte: "ucast (x AND 0xff) = (ucast x :: u8)"
  proof -
    have "(0xff :: u32) = mask 8" by (simp add: mask_eq_exp_minus_1)
    then have "x AND 0xff = take_bit 8 x" by (simp add: take_bit_eq_mask)
    then show ?thesis by (simp add: bit_word_eqI bit_simps)
  qed
  have "nl_puts n (a + 1) (drop_bit 8 x) (s\<lparr>nl_mem := ?ms\<rparr>) =
      Inr (s\<lparr>nl_mem := take (Suc (unat a)) ?ms @ le_bytes n (drop_bit 8 x) @ drop (Suc (unat a) + n) ?ms\<rparr>)"
  proof (cases n)
    case 0
    have "take (Suc (unat a)) ?ms @ drop (Suc (unat a)) ?ms = ?ms" by (rule append_take_drop_id)
    with 0 show ?thesis by (simp only: nl_puts.simps le_bytes.simps append_Nil add_0_right)
  next
    case (Suc m)
    then have "unat (a + 1) = unat a + 1" using Suc.prems by (intro plus_one_small) simp
    then show ?thesis
      using Suc.IH [of "a + 1" "s\<lparr>nl_mem := ?ms\<rparr>" "drop_bit 8 x"] Suc.prems by simp
  qed
  moreover have "take (Suc (unat a)) ?ms = take (unat a) (nl_mem s) @ [ucast x]"
    using Suc.prems by (simp add: take_Suc_conv_app_nth)
  ultimately show ?case using Suc.prems by (simp add: nl_put_def byte)
qed

declare nl_bytes.simps [simp del] nl_puts.simps [simp del]

section \<open>Overflows\<close>

text \<open>The multiplications whose product does not fit \<open>int64_t\<close>.\<close>

definition nl_bad_mul :: "u32 \<Rightarrow> nl_rv32 \<Rightarrow> bool" where
  "nl_bad_mul instr s \<longleftrightarrow> OPCODE instr = 0x33 \<and> FUNCT7 instr = 1 \<and> FUNCT3 instr = 0
     \<and> 2 ^ 63 \<le> uint (nl_read s (RS1 instr)) * uint (nl_read s (RS2 instr))"

lemma nl_bad_mul_fault: "nl_bad_mul instr s \<Longrightarrow> nl_exec_op instr s = Inl Undefined"
  by (simp add: nl_bad_mul_def nl_exec_op_def nl_mul_ext_def)

lemma nl_mul_ext_eq:
  assumes "\<not> nl_bad_mul instr s" "OPCODE instr = 0x33" "FUNCT7 instr = 1"
  shows "nl_mul_ext (FUNCT3 instr) (nl_read s (RS1 instr)) (nl_read s (RS2 instr))
      = map_option Inr (mul_ext (FUNCT3 instr) (nl_read s (RS1 instr)) (nl_read s (RS2 instr)))"
  using assms by (auto simp: nl_mul_ext_def nl_bad_mul_def)

section \<open>Both cores compute the same steps\<close>

text \<open>
  What the current core does differently: it masks the amount of a shift, reads the base of a
  \<open>jalr\<close> before it writes the link register and clears bit 0 of the target, and answers word
  accesses at the address of its interrupt controller; and it refuses a halfword store at the
  last byte of the RAM.
\<close>

definition nl_shift_op :: "u32 \<Rightarrow> bool" where
  "nl_shift_op instr \<longleftrightarrow> OPCODE instr = 0x33 \<and> FUNCT7 instr \<noteq> 1
     \<and> (FUNCT3 instr = 1 \<or> FUNCT3 instr = 5 \<and> (FUNCT7 instr = 0 \<or> FUNCT7 instr = 0x20))"

definition nl_same_isa :: "u32 \<Rightarrow> nl_rv32 \<Rightarrow> bool" where
  "nl_same_isa instr s \<longleftrightarrow>
     (nl_shift_op instr \<longrightarrow> nl_read s (RS2 instr) < 32) \<and>
     (OPCODE instr = 0x67 \<longrightarrow> RD instr \<noteq> RS1 instr \<and> (nl_read s (RS1 instr) + SEXT_IMM_I instr) AND 1 = 0) \<and>
     (OPCODE instr = 0x03 \<and> FUNCT3 instr = 2 \<longrightarrow>
        nl_read s (RS1 instr) + SEXT_IMM_I instr \<noteq> RV32_INTERRUPT_CONTROLLER_ADDRESS) \<and>
     (OPCODE instr = 0x23 \<and> FUNCT3 instr = 2 \<longrightarrow>
        nl_read s (RS1 instr) + SEXT_IMM_S instr \<noteq> RV32_INTERRUPT_CONTROLLER_ADDRESS) \<and>
     (OPCODE instr = 0x23 \<and> FUNCT3 instr = 1 \<longrightarrow>
        nl_read s (RS1 instr) + SEXT_IMM_S instr \<noteq> nl_mem_size s - 1)"

lemma mask_5_id:
  assumes "b < 32"
  shows "b AND 0x1f = (b :: u32)"
proof -
  have "unat b < 2 ^ 5" using assms by (simp add: word_less_nat_alt)
  then have "take_bit 5 b = b"
    by (simp add: word_unat_eq_iff unsigned_take_bit_eq take_bit_nat_eq_self)
  moreover have "(0x1f :: u32) = mask 5" by (simp add: mask_eq_exp_minus_1)
  ultimately show ?thesis by (simp add: take_bit_eq_mask)
qed

lemma nl_op_alu_eq:
  assumes "FUNCT3 instr = 1 \<or> FUNCT3 instr = 5 \<and> (FUNCT7 instr = 0 \<or> FUNCT7 instr = 0x20) \<Longrightarrow> b < 32"
  shows "nl_op_alu (FUNCT3 instr) (FUNCT7 instr) a b = map_option Inr (op_alu (FUNCT3 instr) (FUNCT7 instr) a b)"
  unfolding nl_op_alu_def op_alu_def nl_shift_def
  using assms by (auto simp: mask_5_id)

lemma nl_exec_op_agrees:
  assumes "nl_same_isa instr s" "OPCODE instr = 0x33" "\<not> nl_bad_mul instr s"
  shows "Inr (exec_op instr (upgrade s), w) = bind_run (nl_exec_op instr s) (\<lambda>res. Inr (outcome w res))"
proof -
  have "FUNCT7 instr \<noteq> 1 \<Longrightarrow>
     nl_op_alu (FUNCT3 instr) (FUNCT7 instr) (nl_read s (RS1 instr)) (nl_read s (RS2 instr))
      = map_option Inr (op_alu (FUNCT3 instr) (FUNCT7 instr) (nl_read s (RS1 instr)) (nl_read s (RS2 instr)))"
    using assms by (intro nl_op_alu_eq) (simp add: nl_same_isa_def nl_shift_op_def)
  then show ?thesis
    unfolding exec_op_def nl_exec_op_def Let_def
    by (auto simp: nl_mul_ext_eq [OF assms(3,2)] nl_fail_def split: option.split)
qed

lemma nl_exec_op_imm_agrees:
  "Inr (exec_op_imm instr (upgrade s), w) = bind_run (nl_exec_op_imm instr s) (\<lambda>res. Inr (outcome w res))"
  unfolding exec_op_imm_def nl_exec_op_imm_def by (auto simp: nl_fail_def split: option.split)

lemma nl_exec_branch_agrees:
  "Inr (exec_branch instr (upgrade s), w) = bind_run (nl_exec_branch instr s) (\<lambda>res. Inr (outcome w res))"
  unfolding exec_branch_def nl_exec_branch_def by (auto simp: nl_fail_def split: option.split)

lemma nl_exec_jump_agrees:
  "Inr (exec_jal instr (upgrade s), w) = bind_run (nl_exec_jal instr s) (\<lambda>res. Inr (outcome w res))"
  "Inr (exec_lui instr (upgrade s), w) = bind_run (nl_exec_lui instr s) (\<lambda>res. Inr (outcome w res))"
  "Inr (exec_auipc instr (upgrade s), w) = bind_run (nl_exec_auipc instr s) (\<lambda>res. Inr (outcome w res))"
  by (simp_all add: exec_jal_def nl_exec_jal_def exec_lui_def nl_exec_lui_def exec_auipc_def nl_exec_auipc_def)

lemma even_clear_bit_0:
  assumes "(x :: u32) AND 1 = 0"
  shows "x AND - 2 = x"
proof -
  have "\<not> bit x 0" using assms bit_iff_and_push_bit_not_eq_0 [of x 0] by simp
  then have "x AND NOT 1 = x"
    by (intro bit_word_eqI) (auto simp: bit_simps intro: gr0I)
  then show ?thesis by simp
qed

lemma nl_exec_jalr_agrees:
  assumes "nl_same_isa instr s" "OPCODE instr = 0x67"
  shows "Inr (exec_jalr instr (upgrade s), w) = bind_run (nl_exec_jalr instr s) (\<lambda>res. Inr (outcome w res))"
proof -
  have ne: "RD instr \<noteq> RS1 instr" and even: "(nl_read s (RS1 instr) + SEXT_IMM_I instr) AND 1 = 0"
    using assms by (simp_all add: nl_same_isa_def)
  have "nl_read (nl_write (RD instr) x s) (RS1 instr) = nl_read s (RS1 instr)" for x
    using ne by (simp add: nl_read_def nl_write_def nth_list_update_neq flip: word_unat_eq_iff)
  then show ?thesis
    by (simp add: exec_jalr_def nl_exec_jalr_def even_clear_bit_0 [OF even] nl_write_def
        upgrade_pc_r)
qed

text \<open>The guards of the two cores, and the accesses behind them.\<close>

lemma nl_bound_iff:
  assumes "k < 4" "nl_wf s"
  shows "in_ram (Suc k) (upgrade s) a \<longleftrightarrow> \<not> nl_mem_size s - word_of_nat k \<le> a"
proof -
  have m: "4 \<le> unat (nl_mem_size s)" using assms by (simp add: nl_wf_def)
  have k: "unat (word_of_nat k :: u32) = k"
    using assms by (simp add: unsigned_of_nat take_bit_nat_eq_self)
  have "unat (nl_mem_size s - word_of_nat k) = unat (nl_mem_size s) - k"
    using assms m k by (simp add: unat_sub word_le_nat_alt)
  then show ?thesis
    using assms m by (auto simp: in_ram_iff word_le_nat_alt)
qed

lemmas nl_bounds =
  nl_bound_iff [of 0, simplified] nl_bound_iff [of 1, simplified, unfolded numeral_2_eq_2 [symmetric]]
  nl_bound_iff [of 3, simplified]

lemma nl_ram_bound:
  assumes "nl_wf s" "n \<le> 4" "in_ram n (upgrade s) a"
  shows "unat a + n \<le> length (nl_mem s)" "unat a + n < 2 ^ 32"
proof -
  have "unat a + n \<le> unat (nl_mem_size s)"
    using assms by (subst (asm) in_ram_iff) (auto simp: nl_wf_def)
  then show "unat a + n \<le> length (nl_mem s)" "unat a + n < 2 ^ 32"
    using assms unat_u32_less [of "nl_mem_size s"] by (simp_all add: nl_wf_def)
qed

lemma nl_load_in:
  assumes "nl_wf s" "n \<le> 4" "in_ram n (upgrade s) a"
  shows "nl_bytes n s a = Inr (le_word (take n (drop (unat a) (nl_mem s))))"
  using assms nl_ram_bound [OF assms] by (intro nl_bytes_eq) simp_all

lemma ram_read_upgrade:
  assumes "nl_wf s" "n \<le> 4" "in_ram n (upgrade s) a"
  shows "ram_read n (upgrade s, w) a =
     Inr (RV32_OK (le_word (take n (drop (unat a) (nl_mem s)))), (upgrade s, w))"
  using nl_ram_bound [OF assms] by (subst ram_read_Inr) simp_all

lemma ram_write_upgrade:
  assumes "nl_wf s" "n \<le> 4" "in_ram n (upgrade s) a" "le_bytes n x = le_bytes n y"
  shows "\<exists>s'. nl_puts n a y s = Inr s' \<and> ram_write n (upgrade s, w) a x = Inr (RV32_OK (), (upgrade s', w))"
  using nl_ram_bound [OF assms(1-3)] assms(4)
  by (simp add: nl_puts_eq ram_write_def mem_put_def)

lemma no_devices_simps [simp]:
  "mmio_load8 no_devices v a = (RV32_ERR, v)" "mmio_load16 no_devices v a = (RV32_ERR, v)"
  "mmio_load32 no_devices v a = (RV32_ERR, v)" "mmio_store8 no_devices v a x8 = (RV32_ERR, v)"
  "mmio_store16 no_devices v a x16 = (RV32_ERR, v)" "mmio_store32 no_devices v a x32 = (RV32_ERR, v)"
  by (simp_all add: no_devices_def)

lemma finish_simps [simp]:
  "finish_load instr ext (RV32_OK x, (s, w)) = Inr (advance 4 (write_reg (RD instr) (ext x) s), w)"
  "finish_load instr ext (RV32_ERR, (s, w)) = Inr (stop RV32_INVALID_MEMORY_ACCESS s, w)"
  "finish_store (RV32_OK u, (s, w)) = Inr (advance 4 s, w)"
  "finish_store (RV32_ERR, (s, w)) = Inr (stop RV32_INVALID_MEMORY_ACCESS s, w)"
  by (simp_all add: finish_load_def finish_store_def)

lemma ucast_bytes [simp]:
  "ucast (le_word (take 1 bs) :: u8) = (le_word (take 1 bs) :: u32)"
  "ucast (le_word (take 2 bs) :: u16) = (le_word (take 2 bs) :: u32)"
  "ucast (le_word (take (Suc 0) bs) :: u8) = (le_word (take (Suc 0) bs) :: u32)"
  by (rule ucast_le_word; simp)+

lemma nl_exec_load_agrees:
  assumes "nl_wf s" "nl_same_isa instr s" "OPCODE instr = 0x03"
  shows "exec_load no_devices instr (upgrade s, w)
      = bind_run (nl_exec_load instr s) (\<lambda>res. Inr (outcome w res))"
proof -
  have "FUNCT3 instr = 2 \<Longrightarrow> nl_read s (RS1 instr) + SEXT_IMM_I instr \<noteq> RV32_INTERRUPT_CONTROLLER_ADDRESS"
    using assms by (simp add: nl_same_isa_def)
  then show ?thesis
    unfolding exec_load_def nl_exec_load_def Let_def
    by (simp add: rv32_load8_def rv32_load16_def rv32_load32_def nl_bounds assms(1) nl_fail_def
        ram_read_upgrade nl_load_in)
qed

lemma le_bytes_masked:
  "le_bytes (Suc 0) (ucast (x AND 0xff) :: u8) = le_bytes (Suc 0) (x :: u32)"
  "le_bytes 2 (ucast (x AND 0xffff) :: u16) = le_bytes 2 (x :: u32)"
proof -
  have m: "(0xff :: u32) = mask 8" "(0xffff :: u32) = mask 16" by (simp_all add: mask_eq_exp_minus_1)
  show "le_bytes (Suc 0) (ucast (x AND 0xff) :: u8) = le_bytes (Suc 0) (x :: u32)"
    by (simp only: m le_bytes.simps list.inject simp_thms)
      (auto intro!: bit_word_eqI simp: bit_simps)
  show "le_bytes 2 (ucast (x AND 0xffff) :: u16) = le_bytes 2 (x :: u32)"
    by (simp only: m numeral_2_eq_2 le_bytes.simps list.inject simp_thms)
      (auto intro!: bit_word_eqI simp: bit_simps)
qed

lemma store_agrees:
  assumes "nl_wf s" "n \<le> 4" "le_bytes n x = le_bytes n y"
  shows "(in_ram n (upgrade s) a \<longrightarrow>
        bind_run (ram_write n (upgrade s, w) a x) finish_store
          = bind_run (nl_puts n a y s) (\<lambda>s'. Inr (upgrade (nl_advance 4 s'), w)))"
proof
  assume "in_ram n (upgrade s) a"
  from ram_write_upgrade [OF assms(1,2) this assms(3), of w] obtain s' where
    "nl_puts n a y s = Inr s'" "ram_write n (upgrade s, w) a x = Inr (RV32_OK (), (upgrade s', w))"
    by (elim exE conjE)
  then show "bind_run (ram_write n (upgrade s, w) a x) finish_store
      = bind_run (nl_puts n a y s) (\<lambda>s'. Inr (upgrade (nl_advance 4 s'), w))" by simp
qed

lemma nl_exec_store_agrees:
  assumes "nl_wf s" "nl_same_isa instr s" "OPCODE instr = 0x23"
  shows "exec_store no_devices instr (upgrade s, w)
      = bind_run (nl_exec_store instr s) (\<lambda>res. Inr (outcome w res))"
proof -
  let ?a = "nl_read s (RS1 instr) + SEXT_IMM_S instr" and ?x = "nl_read s (RS2 instr)"
  have half: "nl_mem_size s \<le> ?a \<longleftrightarrow> nl_mem_size s - 1 \<le> ?a" if "FUNCT3 instr = 1"
  proof -
    have "?a \<noteq> nl_mem_size s - 1" using that assms by (simp add: nl_same_isa_def)
    moreover have "unat (nl_mem_size s - 1) = unat (nl_mem_size s) - 1"
      using assms(1) by (simp add: nl_wf_def unat_sub word_le_nat_alt)
    ultimately show ?thesis
      by (auto simp: word_le_nat_alt word_unat_eq_iff)
  qed
  have word: "FUNCT3 instr = 2 \<Longrightarrow> ?a \<noteq> RV32_INTERRUPT_CONTROLLER_ADDRESS"
    using assms by (simp add: nl_same_isa_def)
  note st1 = store_agrees [OF assms(1) _ le_bytes_masked(1) [of ?x], where a = ?a and w = w]
    and st2 = store_agrees [OF assms(1) _ le_bytes_masked(2) [of ?x], where a = ?a and w = w]
    and st4 = store_agrees [OF assms(1) _ refl, of 4 ?a w ?x]
  consider "FUNCT3 instr = 0" | "FUNCT3 instr = 1" | "FUNCT3 instr = 2"
    | "FUNCT3 instr \<noteq> 0" "FUNCT3 instr \<noteq> 1" "FUNCT3 instr \<noteq> 2" by blast
  then show ?thesis
  proof cases
    case 1
    with st1 show ?thesis
      by (simp add: exec_store_def nl_exec_store_def rv32_store8_def nl_bounds assms(1) nl_fail_def
          bind_run_assoc Let_def)
  next
    case 2
    with st2 half show ?thesis
      by (simp add: exec_store_def nl_exec_store_def rv32_store16_def nl_bounds assms(1) nl_fail_def
          bind_run_assoc Let_def)
  next
    case 3
    with st4 word show ?thesis
      by (simp add: exec_store_def nl_exec_store_def rv32_store32_def nl_bounds assms(1) nl_fail_def
          bind_run_assoc Let_def)
  next
    case 4
    then show ?thesis by (simp add: exec_store_def nl_exec_store_def nl_fail_def Let_def)
  qed
qed

lemma nl_plain_agrees:
  assumes "nl_wf s" "nl_same_isa instr s" "OPCODE instr \<noteq> 0x73" "\<not> nl_bad_mul instr s"
  shows "rv32_execute no_devices instr (upgrade s, w)
      = bind_run (nl_plain instr s) (\<lambda>res. Inr (outcome w res))"
  unfolding rv32_execute_def nl_plain_def Let_def
  using assms(3) nl_exec_load_agrees [OF assms(1,2), where w = w]
    nl_exec_store_agrees [OF assms(1,2), where w = w]
    nl_exec_op_agrees [OF assms(2) _ assms(4), where w = w] nl_exec_jalr_agrees [OF assms(2), where w = w]
  by (auto simp: nl_exec_op_imm_agrees nl_exec_branch_agrees nl_exec_jump_agrees nl_fail_def)

section \<open>What can go wrong in a step\<close>

definition nl_bad_shift :: "u32 \<Rightarrow> nl_rv32 \<Rightarrow> bool" where
  "nl_bad_shift instr s \<longleftrightarrow> nl_shift_op instr \<and> 32 \<le> nl_read s (RS2 instr)"

definition nl_bad_op :: "u32 \<Rightarrow> nl_rv32 \<Rightarrow> bool" where
  "nl_bad_op instr s \<longleftrightarrow> nl_bad_shift instr s \<or> nl_bad_mul instr s"

lemma nl_bad_op_opcode: "nl_bad_op instr s \<Longrightarrow> OPCODE instr = 0x33"
  by (auto simp: nl_bad_op_def nl_bad_shift_def nl_shift_op_def nl_bad_mul_def)

definition nl_bad_write :: "nl_rv32 \<Rightarrow> bool" where
  "nl_bad_write s \<longleftrightarrow>
     (nl_r s ! reg_index REG_A7 = 1 \<or> nl_r s ! reg_index REG_A7 = 64) \<and>
     length (nl_mem s) < unat (nl_r s ! reg_index REG_A1) + unat (nl_r s ! reg_index REG_A2)"

definition nl_keeps :: "nl_rv32 \<Rightarrow> nl_step \<Rightarrow> bool" where
  "nl_keeps s m \<longleftrightarrow> run_ok m (\<lambda>(res, s'). length (nl_r s') = length (nl_r s)
     \<and> length (nl_mem s') = length (nl_mem s) \<and> nl_mem_size s' = nl_mem_size s
     \<and> nl_halted s' = nl_halted s)"

lemma nl_keeps_simps [simp]:
  "nl_keeps s (nl_fail e s)"
  "nl_keeps s (Inr (res, s))"
  "nl_keeps s (Inr (res, nl_advance d s))"
  "nl_keeps s (Inr (res, nl_advance d (nl_write i x s)))"
  "nl_keeps s (Inr (res, (nl_write i x s)\<lparr>nl_pc := a\<rparr>))"
  "\<not> nl_keeps s (Inl f)"
  by (simp_all add: nl_keeps_def nl_fail_def nl_advance_def nl_write_def)

lemma nl_exec_op_fault:
  assumes "OPCODE instr = 0x33"
  shows "if nl_bad_op instr s then nl_exec_op instr s = Inl Undefined else nl_keeps s (nl_exec_op instr s)"
proof (cases "nl_bad_mul instr s")
  case True
  then show ?thesis by (simp add: nl_bad_op_def nl_bad_mul_fault)
next
  case False
  show ?thesis
  proof (cases "FUNCT7 instr = 1")
    case True
    with False show ?thesis
      using assms nl_mul_ext_eq [OF False assms True]
      by (simp add: nl_exec_op_def nl_bad_op_def nl_bad_shift_def nl_shift_op_def Let_def split: option.split)
  next
    case other: False
    then show ?thesis
      using assms False
      unfolding nl_exec_op_def nl_bad_op_def nl_bad_shift_def nl_shift_op_def Let_def
      by (auto simp: nl_op_alu_def nl_shift_def not_le split: option.split)
  qed
qed

lemma nl_exec_load_keeps:
  assumes "nl_wf s"
  shows "nl_keeps s (nl_exec_load instr s)"
  unfolding nl_exec_load_def Let_def by (simp add: nl_bounds assms nl_load_in)

lemma nl_exec_store_keeps:
  assumes "nl_wf s"
  shows "nl_keeps s (nl_exec_store instr s)"
proof -
  have puts: "nl_keeps s (bind_run (nl_puts n a x s) (\<lambda>s'. Inr (NL_OK, nl_advance 4 s')))"
    if "unat a + n \<le> length (nl_mem s)" "unat a + n \<le> 2 ^ 32" for n a x
    using that by (simp add: nl_puts_eq nl_keeps_def nl_advance_def)
  have "nl_keeps s (bind_run (nl_puts n a x s) (\<lambda>s'. Inr (NL_OK, nl_advance 4 s')))"
    if "n \<le> 4" "in_ram n (upgrade s) a" for n a x
    using nl_ram_bound [OF assms that] by (intro puts) simp_all
  moreover have "nl_keeps s (bind_run (nl_puts 2 a x s) (\<lambda>s'. Inr (NL_OK, nl_advance 4 s')))"
    if "\<not> nl_mem_size s \<le> a" for a x
    using that assms unat_u32_less [of "nl_mem_size s"]
    by (intro puts) (auto simp: nl_wf_def word_le_nat_alt)
  ultimately show ?thesis
    unfolding nl_exec_store_def Let_def by (simp add: nl_bounds assms)
qed

lemma nl_plain_fault:
  assumes "nl_wf s"
  shows "if nl_bad_op instr s then nl_plain instr s = Inl Undefined else nl_keeps s (nl_plain instr s)"
proof (cases "OPCODE instr = 0x33")
  case True
  then show ?thesis using nl_exec_op_fault [of instr s] by (simp add: nl_plain_def)
next
  case False
  then have "\<not> nl_bad_op instr s" using nl_bad_op_opcode by blast
  moreover have "nl_keeps s (nl_plain instr s)"
    using False
    by (simp add: nl_plain_def nl_exec_load_keeps nl_exec_store_keeps assms nl_exec_op_imm_def
        nl_exec_branch_def nl_exec_jal_def nl_exec_jalr_def nl_exec_lui_def nl_exec_auipc_def Let_def
        split: option.split)
  ultimately show ?thesis by simp
qed

lemma nl_write_wf [simp]: "nl_wf (nl_write d x s) = nl_wf s"
  by (simp add: nl_wf_def nl_write_def)

lemma nl_fetch_in:
  assumes "nl_wf s" "nl_pc s < nl_mem_size s"
  obtains instr where "nl_fetch s = Inr instr"
  using assms by (simp add: nl_fetch_def mem_get_def nl_wf_def word_less_nat_alt)

lemma nl_fetch_upgrade:
  assumes "nl_wf s" "unat (nl_pc s) + 4 \<le> unat (nl_mem_size s)" "nl_fetch s = Inr instr"
  shows "rv32_load32 p (upgrade s, w) (nl_pc s) = Inr (RV32_OK instr, (upgrade s, w))"
  using assms
  by (simp add: rv32_load32_def in_ram_iff nl_wf_def ram_read_def nl_fetch_def split: option.splits)

lemma upgrade_cycle:
  assumes "nl_wf s" "unat (nl_pc s) + 4 \<le> unat (nl_mem_size s)" "nl_fetch s = Inr instr"
  shows "rv32_cycle p (upgrade s, w) = rv32_execute p instr (upgrade (nl_write 0 0 s), w)"
  using nl_fetch_upgrade [OF assms, of p w]
  by (simp add: rv32_cycle_def deliver_interrupt_def CSR_GET_BIT_def breakpoint_hit_def)

text \<open>The outcome of a cycle: a fault of one of three kinds, or a state of the same shape.\<close>

lemma nl_cycle_fault:
  assumes "nl_wf s" "nl_pc s < nl_mem_size s" "nl_fetch s = Inr instr"
  defines "t \<equiv> nl_write 0 0 s"
  shows "nl_cycle s w =
     (if OPCODE instr = 0x73 \<and> IMM_I instr = 0 \<and> nl_bad_write t then Inl Out_Of_Bounds
      else if nl_bad_op instr t then Inl Undefined else nl_cycle s w)"
proof -
  have "nl_ecall t w = Inl Out_Of_Bounds" if "nl_bad_write t"
    using that by (auto simp: nl_ecall_def nl_bad_write_def Let_def)
  moreover have "nl_bad_op instr t \<Longrightarrow> OPCODE instr = 0x33" by (rule nl_bad_op_opcode)
  ultimately show ?thesis
    using assms nl_plain_fault [of t instr]
    by (auto simp: nl_cycle_def nl_exec_system_def Let_def not_le)
qed

lemma nl_cycle_keeps:
  assumes "nl_wf s" "nl_pc s < nl_mem_size s" "nl_fetch s = Inr instr"
  defines "t \<equiv> nl_write 0 0 s"
  assumes "\<not> (OPCODE instr = 0x73 \<and> IMM_I instr = 0 \<and> nl_bad_write t)" "\<not> nl_bad_op instr t"
  shows "run_ok (nl_cycle s w) (\<lambda>((res, s'), w'). nl_wf s' \<and> nl_mem_size s' = nl_mem_size s
      \<and> nl_halted s' = nl_halted s)"
proof -
  have wf: "nl_wf t" using assms(1) by (simp add: t_def)
  have same: "run_ok m (\<lambda>((res, s'), w'). nl_wf s' \<and> nl_mem_size s' = nl_mem_size s
      \<and> nl_halted s' = nl_halted s)"
    if "run_ok m (\<lambda>((res, s'), w'). nl_keeps t (Inr (res, s')))" for m :: "((nl_result \<times> nl_rv32) \<times> host) run"
    using that assms(1)
    by (auto elim!: run_okE simp: nl_keeps_def nl_wf_def t_def nl_write_def)
  show ?thesis
  proof (cases "OPCODE instr = 0x73")
    case True
    have "nl_ecall t w \<noteq> Inl e" if "\<not> nl_bad_write t" for e
      using that by (auto simp: nl_ecall_def nl_bad_write_def Let_def)
    then have "\<not> nl_bad_write t \<Longrightarrow> \<exists>w'. nl_ecall t w = Inr w'"
      by (cases "nl_ecall t w") auto
    with True assms(2-5) show ?thesis
      by (intro same) (auto simp: nl_cycle_def nl_exec_system_def t_def [symmetric] not_le)
  next
    case False
    then have "nl_cycle s w = bind_run (nl_plain instr t) (\<lambda>res. Inr (res, w))"
      using assms(2,3) by (simp add: nl_cycle_def t_def not_le [symmetric])
    moreover have "nl_keeps t (nl_plain instr t)"
      using nl_plain_fault [OF wf, of instr] assms(6) by simp
    ultimately show ?thesis
      by (intro same) (auto simp: nl_keeps_def elim!: run_okE)
  qed
qed

lemma nl_cycle_wf:
  assumes "nl_wf s" "nl_cycle s w = Inr ((res, s'), w')"
  shows "nl_wf s'" "nl_halted s' = nl_halted s"
proof -
  have "nl_wf s' \<and> nl_halted s' = nl_halted s"
  proof (cases "nl_pc s < nl_mem_size s")
    case False
    then show ?thesis using assms by (simp add: nl_cycle_def not_less)
  next
    case True
    then obtain instr where instr: "nl_fetch s = Inr instr" using nl_fetch_in assms(1) by blast
    have "\<not> (OPCODE instr = 0x73 \<and> IMM_I instr = 0 \<and> nl_bad_write (nl_write 0 0 s))"
      "\<not> nl_bad_op instr (nl_write 0 0 s)"
      using nl_cycle_fault [OF assms(1) True instr, of w] assms(2) by (auto split: if_splits)
    from nl_cycle_keeps [OF assms(1) True instr this, of w] show ?thesis
      using assms(2) by simp
  qed
  then show "nl_wf s'" "nl_halted s' = nl_halted s" by simp_all
qed

end
