(* ===== verification/Newlib_Stubs.thy ===== *)
theory Newlib_Stubs
  imports Newlib_Facts
begin

text \<open>
  The system calls that a guest of \<open>src/examples/c-newlib-nano\<close> is linked with, \<open>stubs.c\<close>. All but
  \<open>write\<close> answer without the emulator: the result, and the value that is assigned to \<open>errno\<close>, if
  one is. \<open>write\<close> makes a system call, and its effect is the one that \<open>ecall.c\<close> gives it.
\<close>

section \<open>The calls that answer by themselves\<close>

datatype errno = ENOMEM | EAGAIN | EINVAL | EMLINK | ENOENT | ECHILD

datatype st_mode = S_IFCHR

type_synonym stub_result = "int \<times> errno option"

definition stub_close :: "int \<Rightarrow> stub_result" where "stub_close fd = (- 1, None)"

definition stub_environ :: "string option list" where "stub_environ = [None]"

definition stub_execve :: "string \<Rightarrow> string list \<Rightarrow> string list \<Rightarrow> stub_result" where
  "stub_execve name argv env = (- 1, Some ENOMEM)"

definition stub_fork :: stub_result where "stub_fork = (- 1, Some EAGAIN)"

definition stub_fstat :: "int \<Rightarrow> stub_result \<times> st_mode" where "stub_fstat fd = ((0, None), S_IFCHR)"

definition stub_getpid :: stub_result where "stub_getpid = (1, None)"

definition stub_isatty :: "int \<Rightarrow> stub_result" where "stub_isatty fd = (1, None)"

definition stub_kill :: "int \<Rightarrow> int \<Rightarrow> stub_result" where "stub_kill pid sig = (- 1, Some EINVAL)"

definition stub_link :: "string \<Rightarrow> string \<Rightarrow> stub_result" where "stub_link old new = (- 1, Some EMLINK)"

definition stub_lseek :: "int \<Rightarrow> int \<Rightarrow> int \<Rightarrow> stub_result" where "stub_lseek fd ptr dir = (0, None)"

definition stub_open :: "string \<Rightarrow> int \<Rightarrow> int \<Rightarrow> stub_result" where
  "stub_open name flags mode = (- 1, None)"

definition stub_read :: "int \<Rightarrow> u32 \<Rightarrow> int \<Rightarrow> stub_result" where "stub_read fd ptr len = (0, None)"

definition stub_stat :: "string \<Rightarrow> stub_result \<times> st_mode" where "stub_stat path = ((0, None), S_IFCHR)"

definition stub_times :: stub_result where "stub_times = (- 1, None)"

definition stub_unlink :: "string \<Rightarrow> stub_result" where "stub_unlink name = (- 1, Some ENOENT)"

definition stub_wait :: stub_result where "stub_wait = (- 1, Some ECHILD)"

section \<open>The call that reaches the emulator\<close>

text \<open>
  \<open>write(file, ptr, len)\<close> is entered with its arguments in \<open>a0\<close>, \<open>a1\<close> and \<open>a2\<close>; the four assembly
  statements act on these registers. The result is the value in \<open>a0\<close> at the return.
\<close>

definition reg_set :: "rv32_register \<Rightarrow> u32 \<Rightarrow> nl_rv32 \<Rightarrow> nl_rv32" where
  "reg_set x v s = s\<lparr>nl_r := (nl_r s)[reg_index x := v]\<rparr>"

definition stub_write :: "nl_rv32 \<Rightarrow> host \<Rightarrow> (nl_rv32 \<times> host) run" where
  "stub_write s w =
     (let a = (\<lambda>x. nl_r s ! reg_index x); len = a REG_A2
      in if a REG_A0 = 1 then
           (let s1 = reg_set REG_A7 1 s;
                s2 = reg_set REG_A0 (nl_r s1 ! reg_index REG_A1) s1;
                s3 = reg_set REG_A1 (nl_r s2 ! reg_index REG_A2) s2
            in bind_run (nl_ecall s3 w) (\<lambda>w'. Inr (reg_set REG_A0 len s3, w')))
         else Inr (reg_set REG_A0 (- 1) s, w))"

section \<open>The property\<close>

text \<open>
  The two sides of \<open>write\<close> disagree on the registers: the stub passes the pointer in \<open>a0\<close> and
  the length in \<open>a1\<close>, while the emulator takes the pointer from \<open>a1\<close> and the length from \<open>a2\<close>. So
  a call with any pointer prints the bytes of guest memory that start at the address \<open>len\<close>; it is
  undefined when these leave the memory, and it always reports that all was written.
\<close>

lemma newlib_write_garbled:
  assumes "length (nl_r s) = 32" "nl_r s ! reg_index REG_A0 = 1"
  defines "ptr \<equiv> nl_r s ! reg_index REG_A1" and "len \<equiv> nl_r s ! reg_index REG_A2"
  shows "if 2 * unat len \<le> length (nl_mem s)
    then \<exists>s'. stub_write s w = Inr (s', print_out
           (''write('' @ format_d ptr @ '', 0x'' @ format_08x len @ '', '' @ format_d len @ '')'' @ newline
            @ map (\<lambda>b. char_of (unat b)) (take (unat len) (drop (unat len) (nl_mem s)))) w)
         \<and> nl_r s' ! reg_index REG_A0 = len \<and> nl_mem s' = nl_mem s
    else stub_write s w = Inl Out_Of_Bounds"
  using assms(1,2)
  by (auto simp: stub_write_def reg_set_def nl_ecall_def Let_def ptr_def len_def print_out_def)

text \<open>The call \<open>write(1, 0x40, 2)\<close>: the text at \<open>0x40\<close> is not printed, the bytes at 2 are.\<close>

lemma newlib_write_garbled_witness:
  "\<exists>s s'. nl_r s ! reg_index REG_A1 = 0x40 \<and> stub_write s \<lparr>std_out = [], std_err = []\<rparr> =
     Inr (s', \<lparr>std_out = ''write(64, 0x00000002, 2)'' @ newline @ ''AB'', std_err = []\<rparr>)"
proof -
  let ?s = "(nl_new 96)\<lparr>nl_mem := [0, 0, 0x41, 0x42] @ replicate 96 0,
    nl_r := (replicate 32 0)[10 := 1, 11 := 0x40, 12 := 2]\<rparr>"
  have s: "length (nl_r ?s) = 32" "nl_r ?s ! reg_index REG_A0 = 1" by simp_all
  have r: "nl_r ?s ! reg_index REG_A1 = 0x40" "nl_r ?s ! reg_index REG_A2 = 2" by simp_all
  have f: "format_d 0x40 = ''64''" "format_08x 2 = ''00000002''" "format_d 2 = ''2''"
    "map (\<lambda>b. char_of (unat b)) (take (unat (2 :: u32)) (drop (unat (2 :: u32)) (nl_mem ?s))) = ''AB''"
    "2 * unat (2 :: u32) \<le> length (nl_mem ?s)"
    by code_simp+
  obtain s' where "stub_write ?s \<lparr>std_out = [], std_err = []\<rparr> = Inr (s', print_out
      (''write('' @ ''64'' @ '', 0x'' @ ''00000002'' @ '', '' @ ''2'' @ '')'' @ newline @ ''AB'') \<lparr>std_out = [], std_err = []\<rparr>)"
    using newlib_write_garbled [OF s, of "\<lparr>std_out = [], std_err = []\<rparr>"]
    unfolding r f(1-4) if_P [OF f(5)] by blast
  then show ?thesis
    using r(1) by (intro exI [of _ ?s] exI [of _ s']) (simp add: print_out_def)
qed

end
