(* ===== verification/Newlib_Properties.thy ===== *)
theory Newlib_Properties
  imports Newlib_Stubs
begin

text \<open>
  The properties of the emulator of \<open>src/examples/c-newlib-nano\<close>: its core takes the steps of the
  current one, what makes a cycle undefined, and how its main loop ends.
\<close>

section \<open>The two cores\<close>

text \<open>
  C27. On an instruction of which both cores have the same reading (\<open>nl_same_isa\<close>), fetched from
  within the RAM and not a system call, a cycle of the earlier core is a cycle of the current core
  without devices: the same registers, program counter and memory, and the status that corresponds
  to the result; nothing is printed.
\<close>

theorem newlib_cycle_agrees:
  assumes "nl_wf s" "unat (nl_pc s) + 4 \<le> unat (nl_mem_size s)" "nl_fetch s = Inr instr"
    and "OPCODE instr \<noteq> 0x73" "nl_same_isa instr (nl_write 0 0 s)"
    and "nl_cycle s h = Inr ((res, s'), h')"
  shows "rv32_cycle no_devices (upgrade s, w) = Inr (stop (nl_status res) (upgrade s'), w) \<and> h' = h"
proof -
  have "\<not> nl_mem_size s \<le> nl_pc s" using assms(2) by (simp add: word_le_nat_alt)
  then have "nl_plain instr (nl_write 0 0 s) = Inr (res, s')" and "h' = h"
    using assms(3,4,6) by (auto simp: nl_cycle_def elim!: bind_run_InrE)
  moreover from this(1) have "\<not> nl_bad_mul instr (nl_write 0 0 s)"
    using nl_bad_mul_fault by (auto simp: nl_plain_def nl_bad_mul_def)
  moreover have "nl_wf (nl_write 0 0 s)" using assms(1) by simp
  ultimately show ?thesis
    using nl_plain_agrees [OF _ assms(5,4), of w] upgrade_cycle [OF assms(1,2,3), of no_devices w]
    by (simp add: outcome_def)
qed

text \<open>The program that the agreement is applied to: \<open>addi x1, x0, 5\<close> in twelve bytes of RAM.\<close>

definition nl_addi :: nl_rv32 where
  "nl_addi = (nl_new 12)\<lparr>nl_mem := [0x93, 0x00, 0x50, 0x00] @ replicate 12 0\<rparr>"

theorem newlib_cycle_agrees_witness:
  "\<exists>s'. nl_r s' ! 1 = 5 \<and> nl_pc s' = 4 \<and>
     rv32_cycle no_devices (upgrade nl_addi, ()) = Inr (stop RV32_RUNNING (upgrade s'), ())"
proof -
  let ?s = "(nl_new 12)\<lparr>nl_r := (replicate 32 0)[1 := 5], nl_pc := 4,
    nl_mem := [0x93, 0x00, 0x50, 0x00] @ replicate 12 0\<rparr>" and ?h = "\<lparr>std_out = [], std_err = []\<rparr>"
  have "nl_wf nl_addi" "unat (nl_pc nl_addi) + 4 \<le> unat (nl_mem_size nl_addi)"
    "nl_fetch nl_addi = Inr 0x00500093" "OPCODE 0x00500093 \<noteq> 0x73"
    "nl_same_isa 0x00500093 (nl_write 0 0 nl_addi)"
    "nl_cycle nl_addi ?h = Inr ((NL_OK, ?s), ?h)"
    by code_simp+
  from newlib_cycle_agrees [OF this, of "()"] show ?thesis
    by (intro exI [of _ ?s]) simp
qed

section \<open>Faults\<close>

text \<open>
  C28. The cycle has undefined behaviour in exactly three cases. A \<open>write\<close> call reads outside the
  allocation when the range of guest memory it names does, since the range is not checked; a
  shift by a register is undefined when the amount is not below 32; and \<open>mul\<close> overflows when the
  product of its operands, read without sign, is not below \<open>2 ^ 63\<close>. No other instruction, of any
  encoding and from any state whose arrays have their sizes, leaves the memory of the machine, and
  the state after a cycle has the same sizes. The shifts of \<open>int\<close> by constants (\<open><< 24\<close> in a load,
  \<open><< 12\<close> of a negative immediate), the right shifts of negative numbers and the unaligned fetch of a
  word have the meaning that the compiler documents for them.
\<close>

theorem newlib_cycle_safe:
  assumes "nl_wf s"
  shows "(nl_cycle s w = Inl e \<longleftrightarrow> nl_pc s < nl_mem_size s \<and> (\<exists>instr. nl_fetch s = Inr instr
        \<and> (e = Out_Of_Bounds \<and> OPCODE instr = 0x73 \<and> IMM_I instr = 0 \<and> nl_bad_write (nl_write 0 0 s)
           \<or> e = Undefined \<and> (nl_bad_shift instr (nl_write 0 0 s) \<or> nl_bad_mul instr (nl_write 0 0 s)))))
    \<and> (\<forall>res s' w'. nl_cycle s w = Inr ((res, s'), w') \<longrightarrow> nl_wf s' \<and> nl_mem_size s' = nl_mem_size s)"
proof (cases "nl_pc s < nl_mem_size s")
  case False
  then show ?thesis using assms by (simp add: nl_cycle_def not_less)
next
  case True
  then obtain instr where instr: "nl_fetch s = Inr instr" using nl_fetch_in assms by blast
  note fault = nl_cycle_fault [OF assms True instr, of w]
  note op = nl_bad_op_opcode [of instr "nl_write 0 0 s"]
  show ?thesis
  proof (cases "(OPCODE instr = 0x73 \<and> IMM_I instr = 0 \<and> nl_bad_write (nl_write 0 0 s))
      \<or> nl_bad_op instr (nl_write 0 0 s)")
    case bad: True
    with fault instr op True show ?thesis
      unfolding nl_bad_op_def [symmetric] by (auto split: if_splits)
  next
    case False
    then have "run_ok (nl_cycle s w) (\<lambda>((res, s'), w'). nl_wf s' \<and> nl_mem_size s' = nl_mem_size s
        \<and> nl_halted s' = nl_halted s)"
      by (intro nl_cycle_keeps [OF assms True instr]) simp_all
    with False instr show ?thesis
      unfolding nl_bad_op_def [symmetric] by (auto elim!: run_okE)
  qed
qed

theorem newlib_cycle_safe_witness:
  "nl_wf nl_addi \<and> nl_cycle nl_addi \<lparr>std_out = [], std_err = []\<rparr> \<noteq> Inl Out_Of_Bounds"
proof -
  have wf: "nl_wf nl_addi" and "nl_fetch nl_addi = Inr 0x00500093" "OPCODE 0x00500093 \<noteq> 0x73" by code_simp+
  with newlib_cycle_safe [OF wf, of "\<lparr>std_out = [], std_err = []\<rparr>" Out_Of_Bounds] show ?thesis by auto
qed

section \<open>The main loop\<close>

definition nl_message :: "nl_result \<Rightarrow> u32 \<Rightarrow> u32 \<Rightarrow> string" where
  "nl_message res a instr =
     ''Error '' @ decimal_nat (nl_result_code res) @ '' at pc='' @ format_08x a @ newline
       @ ''instr = '' @ format_08x instr @ newline"

text \<open>
  The loop \<open>while(!rv32->halted)\<close> never ends by its condition, because no instruction or
  system call sets \<open>halted\<close>: when it ends it has reported an error of the machine, with the code of
  the result, the program counter and the instruction, as the last thing on standard error. The
  other way for it to return is a fault.
\<close>

lemma newlib_loop_ends_by_error:
  assumes "nl_wf s" "nl_halted s = 0" "nl_loop s w = Some (Inr (s', w'))"
  shows "\<exists>res instr before. res \<noteq> NL_OK \<and> nl_halted s' = 0 \<and> nl_wf s' \<and> nl_fetch s' = Inr instr
    \<and> std_err w' = before @ nl_message res (nl_pc s') instr"
proof -
  have "nl_wf s \<longrightarrow> nl_halted s = 0 \<longrightarrow> (\<forall>t v. y = Inr (t, v) \<longrightarrow>
      (\<exists>res instr before. res \<noteq> NL_OK \<and> nl_halted t = 0 \<and> nl_wf t \<and> nl_fetch t = Inr instr
        \<and> std_err v = before @ nl_message res (nl_pc t) instr))"
    if "nl_loop s w = Some y" for y
    using that
  proof (induction rule: nl_loop.raw_induct [rotated, consumes 1, case_names step])
    case (step loop s w y)
    have wf: "nl_wf t" "nl_halted t = nl_halted s" if "nl_wf s" "nl_cycle s w = Inr ((res, t), v)" for res t v
      using nl_cycle_wf [OF that] by simp_all
    have report: "\<exists>instr before. nl_fetch t = Inr instr \<and> std_err v' = before @ nl_message res (nl_pc t) instr"
      if "nl_report res t v = Inr v'" for res t v v'
      using that by (auto simp: nl_report_def nl_message_def print_err_def elim!: bind_run_InrE)
    show ?case
    proof (cases "nl_halted s = 0")
      case running: True
      show ?thesis
      proof (cases "nl_cycle s w")
        case (Inl e)
        with step(2) running show ?thesis by auto
      next
        case (Inr c)
        obtain res t v where c: "c = ((res, t), v)" by (cases c) auto
        show ?thesis
        proof (cases "res = NL_OK")
          case True
          with step(2) running Inr c have "loop t v = Some y" by simp
          from step(1) [OF this] wf Inr c running show ?thesis by simp
        next
          case False
          with step(2) running Inr c have "y = bind_run (nl_report res t v) (\<lambda>w''. Inr (t, w''))" by simp
          then show ?thesis using report wf Inr c running False
            by (auto elim!: bind_run_InrE)
        qed
      qed
    next
      case False
      then show ?thesis by simp
    qed
  qed
  with assms show ?thesis by simp
qed

text \<open>A machine with no program: the zero word is no instruction.\<close>

lemma newlib_loop_without_program:
  "\<exists>s' w' res instr before. nl_loop (nl_new 12) \<lparr>std_out = [], std_err = []\<rparr> = Some (Inr (s', w')) \<and>
     res \<noteq> NL_OK \<and> std_err w' = before @ nl_message res (nl_pc s') instr"
proof -
  let ?h = "\<lparr>std_out = [], std_err = []\<rparr>"
  have wf: "nl_wf (nl_new 12)" "nl_halted (nl_new 12) = 0" by code_simp+
  have "nl_cycle (nl_new 12) ?h = Inr ((NL_INVALID_OPCODE, nl_new 12), ?h)" by code_simp
  moreover obtain w' where "nl_report NL_INVALID_OPCODE (nl_new 12) ?h = Inr w'"
  proof -
    have "nl_fetch (nl_new 12) = Inr 0" by code_simp
    then show thesis using that by (simp add: nl_report_def)
  qed
  ultimately have "nl_loop (nl_new 12) ?h = Some (Inr (nl_new 12, w'))"
    using wf(2) by (subst nl_loop.simps) simp
  with newlib_loop_ends_by_error [OF wf this] show ?thesis by blast
qed

end
