(* ===== verification/Stub_Host.thy ===== *)
theory Stub_Host
  imports Gdb_Stub
begin

text \<open>
  The boards repeat the loop of \<open>src/gdb_stub/main.c\<close> with the protocol on a serial line of its own.
  The locale \<open>stub_host\<close> is what such a program promises: a turn handles at most one byte and then
  runs at most one cycle, the guest cannot reach the line, and a stop is reported on it. What a
  debugger can rely on is proved once, from these laws.
\<close>

text \<open>The turns of a loop, one for each answer of the call that asks for input.\<close>

fun host_turns ::
  "(bool \<Rightarrow> u8 list \<Rightarrow> 'x \<Rightarrow> (u8 list \<times> 'x) option run) \<Rightarrow> bool list \<Rightarrow> u8 list \<Rightarrow> 'x \<Rightarrow> (u8 list \<times> 'x) option run" where
  "host_turns turn [] cs x = Inr (Some (cs, x))"
| "host_turns turn (a # as) cs x =
     bind_run (turn a cs x) (\<lambda>res.
       case res of None \<Rightarrow> Inr None | Some (cs', x') \<Rightarrow> host_turns turn as cs' x')"

lemma gdb_turns_host: "gdb_turns junk polls = host_turns (gdb_turn junk) polls"
proof (induction polls)
  case (Cons a polls)
  show ?case by (intro ext) (simp add: Cons.IH)
qed (intro ext, simp)

locale stub_host = platform_contract p + world_order p "\<lambda>w w'. uart w' = uart w"
  for p :: "'w platform" and uart :: "'w \<Rightarrow> u8 list" +
  fixes set_uart :: "u8 list \<Rightarrow> 'w \<Rightarrow> 'w"
    and echo :: "u8 \<Rightarrow> 'w \<Rightarrow> 'w"
    and step :: "rsp_link \<times> 'w vm \<Rightarrow> (rsp_link \<times> 'w vm) run"
    and turn :: "rsp_handler_result \<Rightarrow> bool \<Rightarrow> u8 list \<Rightarrow> rsp_link \<times> 'w vm \<Rightarrow> (u8 list \<times> (rsp_link \<times> 'w vm)) option run"
  assumes get_set: "uart (set_uart out w) = out"
    and set_get: "set_uart (uart w) w = w"
    and step_runs: "status s = RV32_RUNNING \<Longrightarrow> step (l, (s, w)) =
      bind_run (rv32_cycle p (s, w)) (\<lambda>(s', w').
        bind_run (gdb_report (status s') (uart w')) (\<lambda>out. Inr (l, (s', set_uart out w'))))"
    and step_waits: "status s \<noteq> RV32_RUNNING \<Longrightarrow> step (l, (s, w)) = Inr (l, (s, w))"
    and turn_silent: "status s = RV32_RUNNING \<Longrightarrow>
      turn junk False cs (l, (s, w)) = bind_run (step (l, (s, w))) (\<lambda>x. Inr (Some (cs, x)))"
    and turn_end: "avail \<or> status s \<noteq> RV32_RUNNING \<Longrightarrow> turn junk avail [] (l, (s, w)) = Inr None"
    and turn_byte: "avail \<or> status s \<noteq> RV32_RUNNING \<Longrightarrow> turn junk avail (c # cs) (l, (s, w)) =
      bind_run (rsp_handle_byte junk c (l, (s, uart w))) (\<lambda>(l', (s', out)).
        bind_run (step (l', (s', set_uart out (echo c w)))) (\<lambda>x. Inr (Some (cs, x))))"
begin

lemma step_report:
  "status s = RV32_RUNNING \<Longrightarrow> rv32_cycle p (s, w) = Inr (s', w') \<Longrightarrow>
   step (l, (s, w)) = Inr (l, (s', set_uart (uart w @ stop_replies (status s')) w'))"
  using cycle_le [of "(s, w)" "(s', w')"] by (simp add: step_runs gdb_report_eq)

lemma step_inv:
  assumes "rsp_inv (l, (s, uart w))" "4 \<le> unat (mem_size s)"
  shows "\<exists>s' w'. step (l, (s, w)) = Inr (l, (s', w')) \<and> rsp_inv (l, (s', uart w')) \<and> same_shape s s'
    \<and> prefix (uart w) (uart w')"
proof (cases "status s = RV32_RUNNING")
  case False
  with assms(1) show ?thesis by (simp add: step_waits)
next
  case True
  have wf: "wf_rv32 s" using assms(1) by (simp add: rsp_inv_def)
  then obtain s' w' where c: "rv32_cycle p (s, w) = Inr (s', w')" and sh: "same_shape s s'"
    using cycle_ok [of "(s, w)"] assms(2) by (auto elim: run_okE)
  moreover have "rsp_inv (l, (s', out))" for out
    using assms(1) same_shape_keeps(1) [OF sh wf] by (simp add: rsp_inv_def)
  ultimately show ?thesis using True by (simp add: step_report get_set)
qed

lemma turn_inv:
  assumes "rsp_inv (l, (s, uart w))" "4 \<le> unat (mem_size s)" "turn junk a cs (l, (s, w)) = Inr (Some (cs', (l', (s', w'))))"
  shows "rsp_inv (l', (s', uart w')) \<and> same_shape s s' \<and> prefix (uart w) (uart w') \<and> suffix cs' cs"
proof (cases "a \<or> status s \<noteq> RV32_RUNNING")
  case False
  with assms(3) step_inv [OF assms(1,2)] show ?thesis by (auto simp: turn_silent)
next
  case True
  with assms(3) obtain c where cs: "cs = c # cs'" by (cases cs) (auto simp: turn_end turn_byte elim!: bind_run_InrE)
  with assms(3) True obtain l1 s1 out where
    byte: "rsp_handle_byte junk c (l, (s, uart w)) = Inr (l1, (s1, out))"
    and st: "step (l1, (s1, set_uart out (echo c w))) = Inr (l', (s', w'))"
    by (auto simp: turn_byte elim!: bind_run_InrE)
  note b = handle_byte_inv [OF assms(1) byte]
  then have "rsp_inv (l1, (s1, uart (set_uart out (echo c w))))" "4 \<le> unat (mem_size s1)"
    using assms(2) by (auto simp: get_set same_shape_def)
  from step_inv [OF this] st b show ?thesis
    by (auto simp: get_set cs same_shape_def suffix_def intro: prefix_order.order_trans prefixI)
qed

lemma turns_inv:
  assumes "host_turns (turn junk) polls cs (l, (s, w)) = Inr (Some (cs', (l', (s', w'))))"
    and "rsp_inv (l, (s, uart w))" "4 \<le> unat (mem_size s)"
  shows "rsp_inv (l', (s', uart w')) \<and> mem_size s' = mem_size s \<and> prefix (uart w) (uart w') \<and> suffix cs' cs"
  using assms
proof (induction polls arbitrary: cs l s w)
  case Nil
  then show ?case by simp
next
  case (Cons a polls)
  from Cons.prems(1) obtain cs1 l1 s1 w1 where
    one: "turn junk a cs (l, (s, w)) = Inr (Some (cs1, (l1, (s1, w1))))"
    and rest: "host_turns (turn junk) polls cs1 (l1, (s1, w1)) = Inr (Some (cs', (l', (s', w'))))"
    by (auto elim!: bind_run_InrE split: option.splits prod.splits)
  note i = turn_inv [OF Cons.prems(2,3) one]
  then have "mem_size s1 = mem_size s" by (simp add: same_shape_def)
  with Cons.IH [OF rest] i Cons.prems(3) show ?case
    by (auto intro: prefix_order.order_trans suffix_order.order_trans)
qed

text \<open>While the guest runs and the debugger is silent, the line carries only the stop replies.\<close>

lemma runs_to_stop:
  assumes "rv32_run p (Suc n) (s, w) = Inr (s', w')"
    and "\<And>k. k \<le> n \<Longrightarrow> \<exists>u. rv32_run p k (s, w) = Inr u \<and> status (fst u) = RV32_RUNNING"
  shows "host_turns (turn junk) (replicate (Suc n) False) cs (l, (s, w))
    = Inr (Some (cs, (l, (s', set_uart (uart w @ stop_replies (status s')) w'))))"
  using assms
proof (induction n arbitrary: s w)
  case 0
  from "0.prems"(2) [of 0] have "status s = RV32_RUNNING" by simp
  with "0.prems"(1) show ?case by (auto simp: turn_silent step_report elim!: bind_run_InrE)
next
  case (Suc n)
  from Suc.prems(2) [of 0] have run: "status s = RV32_RUNNING" by simp
  from Suc.prems(1) obtain s1 w1 where c: "rv32_cycle p (s, w) = Inr (s1, w1)"
    and rest: "rv32_run p (Suc n) (s1, w1) = Inr (s', w')" by (auto elim!: bind_run_InrE)
  from Suc.prems(2) [of 1] c have "status s1 = RV32_RUNNING" by simp
  moreover have same: "uart w1 = uart w" using cycle_le [OF c] by simp
  ultimately have "turn junk False cs (l, (s, w)) = Inr (Some (cs, (l, (s1, w1))))"
    using set_get [of w1] by (simp add: turn_silent [OF run] step_report [OF run c] stop_replies_def)
  moreover have "host_turns (turn junk) (replicate (Suc n) False) cs (l, (s1, w1))
      = Inr (Some (cs, (l, (s', set_uart (uart w1 @ stop_replies (status s')) w'))))"
  proof (rule Suc.IH [OF rest])
    show "\<exists>u. rv32_run p k (s1, w1) = Inr u \<and> status (fst u) = RV32_RUNNING" if "k \<le> n" for k
      using Suc.prems(2) [of "Suc k"] that c by simp
  qed
  ultimately show ?case by (simp add: same)
qed

end

end
