(* ===== verification/Sketch.thy ===== *)
theory Sketch
  imports Stub_Host Arduino Machine_Properties
begin

text \<open>
  The sketch \<open>src/examples/arduino/rv32_gdb/rv32_gdb.ino\<close>: the stub on a board without a screen. The
  protocol goes over \<open>Serial1\<close>; what the guest prints and the messages of the program go to \<open>Serial\<close>.
  As in the other embedders, names of an earlier \<open>rv32.h\<close> are read as the current ones.
\<close>

record sketch =
  uart1 :: "u8 list"
  monitor :: string

definition print_monitor :: "string \<Rightarrow> sketch \<Rightarrow> sketch" where
  "print_monitor t w = w\<lparr>monitor := monitor w @ t\<rparr>"

section \<open>The platform\<close>

definition sketch_store8 :: "sketch vm \<Rightarrow> u32 \<Rightarrow> u8 \<Rightarrow> unit rv32_result \<times> sketch vm" where
  "sketch_store8 v addr val =
     (if addr = 0x80000000
      then (RV32_OK (), (fst v, print_monitor (format_c (ucast val)) (snd v)))
      else (RV32_ERR, v))"

text \<open>The two tests of the system call are independent of each other.\<close>

definition sketch_ecall :: "sketch vm \<Rightarrow> sketch vm" where
  "sketch_ecall v =
     (let s = fst v; w = snd v; a7 = r s ! reg_index REG_A7; a0 = r s ! reg_index REG_A0;
          w' = (if a7 = 2 then print_monitor (format_d a0 @ newline) w else w);
          s' = (if a7 = 93 then stop RV32_HALTED s else s)
      in (s', w'))"

definition sketch_platform :: "sketch platform" where
  "sketch_platform =
     \<lparr>mmio_load8 = (\<lambda>v a. (RV32_ERR, v)), mmio_load16 = (\<lambda>v a. (RV32_ERR, v)),
      mmio_load32 = (\<lambda>v a. (RV32_ERR, v)), mmio_store8 = sketch_store8,
      mmio_store16 = (\<lambda>v a x. (RV32_ERR, v)), mmio_store32 = (\<lambda>v a x. (RV32_ERR, v)),
      ecall = sketch_ecall\<rparr>"

section \<open>Setup and loop\<close>

text \<open>
  \<open>setup\<close> waits forever (\<open>Inl\<close>) when there is no memory, after saying so, and until the monitor is
  opened (\<open>opens\<close>); \<open>memory\<close> is the block of \<open>calloc\<close>, \<open>address\<close> the pointer that is printed.
\<close>

definition sketch_setup :: "rv32 option \<Rightarrow> bool \<Rightarrow> u32 \<Rightarrow> sketch \<Rightarrow> sketch + sketch vm run" where
  "sketch_setup memory opens address w =
     (case memory of
        None \<Rightarrow> Inl (print_monitor (println (''Not enough memory'' @ newline)) w)
      | Some m \<Rightarrow>
          (case rv32_new m 0x10000 of
             Inl e \<Rightarrow> Inr (Inl e)
           | Inr s \<Rightarrow>
               (if opens then Inr (
                  case mem_get 4 (mem s) 0 of
                    None \<Rightarrow> Inl Out_Of_Bounds
                  | Some x \<Rightarrow> Inr (stop RV32_PAUSED s, print_monitor (''rv32 = 0x'' @ format_x address @ newline
                      @ ''test1: 0x'' @ format_x x @ newline) w))
                else Inl w)))"

definition sketch_input ::
  "rsp_handler_result \<Rightarrow> bool \<Rightarrow> u8 list \<Rightarrow> rsp_link \<times> sketch vm \<Rightarrow> (u8 list \<times> (rsp_link \<times> sketch vm)) option run" where
  "sketch_input junk avail cs x =
     (let l = fst x; s = fst (snd x); w = snd (snd x)
      in if avail \<or> status s \<noteq> RV32_RUNNING then
           (case cs of
              [] \<Rightarrow> Inr None
            | c # cs' \<Rightarrow>
                bind_run (rsp_handle_byte junk c (l, (s, uart1 w))) (\<lambda>(l', (s', out)).
                  Inr (Some (cs', (l', (s', w\<lparr>uart1 := out\<rparr>))))))
         else Inr (Some (cs, x)))"

text \<open>The switch after a cycle; the case of an invalid instruction falls through to the default.\<close>

definition sketch_report :: "rv32_status \<Rightarrow> u8 list \<Rightarrow> u8 list run" where
  "sketch_report st out =
     (case st of
        RV32_RUNNING \<Rightarrow> Inr out
      | RV32_INVALID_MEMORY_ACCESS \<Rightarrow> rsp_report_signal RSP_SIGSEGV out
      | RV32_INVALID_INSTRUCTION \<Rightarrow>
          bind_run (rsp_report_signal RSP_SIGILL out) (rsp_report_signal RSP_SIGTRAP)
      | _ \<Rightarrow> rsp_report_signal RSP_SIGTRAP out)"

definition sketch_step :: "rsp_link \<times> sketch vm \<Rightarrow> (rsp_link \<times> sketch vm) run" where
  "sketch_step x =
     (if status (fst (snd x)) = RV32_RUNNING
      then bind_run (rv32_cycle sketch_platform (snd x)) (\<lambda>v.
             bind_run (sketch_report (status (fst v)) (uart1 (snd v))) (\<lambda>out.
               Inr (fst x, (fst v, (snd v)\<lparr>uart1 := out\<rparr>))))
      else Inr x)"

text \<open>One call of \<open>loop\<close>; \<open>None\<close> when it waits for a byte that never arrives.\<close>

definition sketch_loop ::
  "rsp_handler_result \<Rightarrow> bool \<Rightarrow> u8 list \<Rightarrow> rsp_link \<times> sketch vm \<Rightarrow> (u8 list \<times> (rsp_link \<times> sketch vm)) option run" where
  "sketch_loop junk avail cs x =
     bind_run (sketch_input junk avail cs x) (\<lambda>res.
       case res of
         None \<Rightarrow> Inr None
       | Some (cs', x') \<Rightarrow> bind_run (sketch_step x') (\<lambda>x''. Inr (Some (cs', x''))))"

section \<open>The boards keep the promises of a stub host\<close>

interpretation sketch: platform_contract sketch_platform
  by unfold_locales (simp_all add: sketch_platform_def sketch_store8_def sketch_ecall_def Let_def)

text \<open>A turn that reads a byte.\<close>

lemma sketch_loop_byte:
  "avail \<or> status s \<noteq> RV32_RUNNING \<Longrightarrow> sketch_loop junk avail (c # cs) (l, (s, w)) =
     bind_run (rsp_handle_byte junk c (l, (s, uart1 w))) (\<lambda>(l', (s', out)).
       bind_run (sketch_step (l', (s', w\<lparr>uart1 := out\<rparr>))) (\<lambda>x. Inr (Some (cs, x))))"
  by (cases "rsp_handle_byte junk c (l, (s, uart1 w))")
    (auto simp: sketch_loop_def sketch_input_def)

lemma board_loop_byte:
  "avail \<or> status s \<noteq> RV32_RUNNING \<Longrightarrow> board_loop lib junk avail (c # cs) (l, (s, b)) =
     bind_run (rsp_handle_byte junk c (l, (s, serial1 b))) (\<lambda>(l', (s', out)).
       bind_run (board_step lib (l', (s', (print_console [char_of (unat c)] b)\<lparr>serial1 := out\<rparr>)))
         (\<lambda>x. Inr (Some (cs, x))))"
proof -
  have swap: "print_console t (b\<lparr>serial1 := out\<rparr>) = (print_console t b)\<lparr>serial1 := out\<rparr>" for t out
    by (simp add: print_console_def)
  show "avail \<or> status s \<noteq> RV32_RUNNING \<Longrightarrow> ?thesis"
    by (cases "rsp_handle_byte junk c (l, (s, serial1 b))") (auto simp: board_loop_def board_input_def swap)
qed

text \<open>The report of the sketch is that of the stub.\<close>

lemma sketch_report_gdb: "sketch_report = gdb_report"
  by (intro ext) (simp add: sketch_report_def gdb_report_def)

interpretation sketch_stub: stub_host sketch_platform uart1 "\<lambda>out w. w\<lparr>uart1 := out\<rparr>" "\<lambda>c w. w" sketch_step sketch_loop
  by unfold_locales
    (simp_all add: sketch_loop_byte, simp_all add: sketch_platform_def sketch_store8_def sketch_ecall_def
      print_monitor_def sketch_step_def sketch_report_gdb sketch_loop_def sketch_input_def case_prod_unfold Let_def)

interpretation board_stub: stub_host "board_platform lib" serial1 "\<lambda>out b. b\<lparr>serial1 := out\<rparr>"
    "\<lambda>c. print_console [char_of (unat c)]" "board_step lib" "board_loop lib"
  by unfold_locales
    (simp_all add: board_loop_byte, simp_all add: board_platform_def board_store8_def board_store16_def
      board_ecall_def sprite_put_def print_console_def board_step_def board_loop_def board_input_def
      case_prod_unfold Let_def split: option.split)


section \<open>Properties\<close>

text \<open>
  A session on the board, whatever the debugger sends and however its bytes and the cycles of
  the guest interleave: the packet buffer, the running checksum and the machine keep their
  invariant, the RAM keeps its size, what was sent to the debugger is only extended, and its bytes
  are read in order.
\<close>

lemma board_keeps_session:
  assumes "host_turns (board_loop lib junk) polls cs (l, (s, b)) = Inr (Some (cs', (l', (s', b'))))"
    and "rsp_inv (l, (s, serial1 b))" "4 \<le> unat (mem_size s)"
  shows "rsp_inv (l', (s', serial1 b')) \<and> mem_size s' = mem_size s
    \<and> prefix (serial1 b) (serial1 b') \<and> suffix cs' cs"
  using assms by (rule board_stub.turns_inv)

lemma board_keeps_session_witness:
  "\<exists>lib l' s' b'. host_turns (board_loop lib RSP_PACKET_SENT) [True] [0x24, 0x67]
       (rsp_link_start, (stop RV32_PAUSED (boot (replicate 8 0)), \<lparr>sprite = [], panel = [], serial1 = [], console = []\<rparr>))
     = Inr (Some ([0x67], (l', (s', b')))) \<and> rsp_inv (l', (s', serial1 b')) \<and> mem_size s' = 8"
proof -
  let ?lib = "\<lparr>panel_pixels = 2, sprite_width = 2, sprite_height = 1,
    fill_rect = (\<lambda>x y w h c px. px), draw_char = (\<lambda>c x y px. px)\<rparr>"
  let ?s = "stop RV32_PAUSED (boot (replicate 8 0))"
  let ?b = "\<lparr>sprite = [], panel = [], serial1 = [], console = []\<rparr>"
  have "wf_rv32 ?s" using same_shape_wf [OF stop_shape] boot_wf [of "replicate 8 0"] by simp
  then have inv: "rsp_inv (rsp_link_start, (?s, serial1 ?b))" by (simp add: rsp_inv_def rsp_link_start_def)
  have m: "mem_size ?s = 8" by (simp add: stop_def boot_def)
  obtain l' s' b' where
    "host_turns (board_loop ?lib RSP_PACKET_SENT) [True] [0x24, 0x67] (rsp_link_start, (?s, ?b)) = Inr (Some ([0x67], (l', (s', b'))))"
    by (simp add: board_loop_def board_input_def board_step_def rsp_handle_byte_def rsp_link_start_def stop_def)
  with board_keeps_session [OF this inv] m show ?thesis by auto
qed

text \<open>
  C40. The output of a guest cannot disturb the debugger on the sketch: while the guest runs and no
  byte arrives, whatever it prints or stores, the turns of the loop are its cycles, the line to the
  debugger stays silent, and at the first cycle that stops the machine it carries just the stop
  replies, one packet, or two for an invalid instruction.
\<close>

theorem sketch_line_is_clean:
  assumes "rv32_run sketch_platform (Suc n) (s, w) = Inr (s', w')"
    and "\<And>k. k \<le> n \<Longrightarrow> \<exists>u. rv32_run sketch_platform k (s, w) = Inr u \<and> status (fst u) = RV32_RUNNING"
  shows "host_turns (sketch_loop junk) (replicate (Suc n) False) cs (l, (s, w))
      = Inr (Some (cs, (l, (s', w'\<lparr>uart1 := uart1 w @ stop_replies (status s')\<rparr>))))
    \<and> uart1 w' = uart1 w"
  using sketch_stub.runs_to_stop [OF assms] sketch_stub.run_le [OF assms(1)] by simp

text \<open>A guest that prints the letter A by a store and then meets a word that is no instruction.\<close>

definition shouting :: rv32 where
  "shouting = boot (program [Lui 5 0x80000, OpImm Addi 6 0 65, Store Sb 5 6 0] @ [0, 0, 0, 0])"

lemma shouting_runs:
  "map_sum id (\<lambda>v. (status (fst v), snd v)) (rv32_run sketch_platform 3 (shouting, \<lparr>uart1 = [], monitor = []\<rparr>))
     = Inr (RV32_RUNNING, \<lparr>uart1 = [], monitor = ''A''\<rparr>)"
  "map_sum id (\<lambda>v. (status (fst v), snd v)) (rv32_run sketch_platform 4 (shouting, \<lparr>uart1 = [], monitor = []\<rparr>))
     = Inr (RV32_INVALID_INSTRUCTION, \<lparr>uart1 = [], monitor = ''A''\<rparr>)"
  "\<forall>k \<in> {0, 1, 2 :: nat}. map_sum id (\<lambda>v. status (fst v))
     (rv32_run sketch_platform k (shouting, \<lparr>uart1 = [], monitor = []\<rparr>)) = Inr RV32_RUNNING"
  by code_simp+

theorem sketch_line_is_clean_witness:
  "\<exists>s. host_turns (sketch_loop RSP_PACKET_SENT) (replicate 4 False) []
      (rsp_link_start, (shouting, \<lparr>uart1 = [], monitor = []\<rparr>))
    = Inr (Some ([], (rsp_link_start, (s, \<lparr>uart1 = bytes ''$S04#b7$S05#b8'', monitor = ''A''\<rparr>))))"
proof -
  let ?w = "\<lparr>uart1 = [], monitor = []\<rparr>"
  obtain s where s: "rv32_run sketch_platform (Suc 3) (shouting, ?w) = Inr (s, \<lparr>uart1 = [], monitor = ''A''\<rparr>)"
    "status s = RV32_INVALID_INSTRUCTION"
    using shouting_runs(2) by (cases "rv32_run sketch_platform 4 (shouting, ?w)") auto
  have "\<exists>u. rv32_run sketch_platform k (shouting, ?w) = Inr u \<and> status (fst u) = RV32_RUNNING" if "k \<le> 3" for k
  proof -
    have "k \<in> {0, 1, 2} \<or> k = 3" using that by auto
    then show ?thesis
      using shouting_runs(1,3) by (cases "rv32_run sketch_platform k (shouting, ?w)") auto
  qed
  from sketch_line_is_clean [OF s(1) this, of RSP_PACKET_SENT "[]" rsp_link_start] s(2)
  show ?thesis by (auto simp: stop_replies_def eval_nat_numeral)
qed

end
