(* ===== verification/Elf.thy ===== *)
theory Elf
  imports Machine
begin

text \<open>
  The data structures of \<open>src/elf/elf.h\<close>. A structure is the list of its members, each with its
  size and alignment; the members are placed as C places them, and a member of a structure that a
  pointer cast puts over a byte buffer is read at its offset. Of the constants of the header only
  those are defined that the program uses.
\<close>

section \<open>Types\<close>

text \<open>The integer types, by their sizes.\<close>

definition Elf32_Half :: nat where "Elf32_Half = 2"
definition Elf64_Half :: nat where "Elf64_Half = 2"
definition Elf32_Word :: nat where "Elf32_Word = 4"
definition Elf32_Sword :: nat where "Elf32_Sword = 4"
definition Elf64_Word :: nat where "Elf64_Word = 4"
definition Elf64_Sword :: nat where "Elf64_Sword = 4"
definition Elf32_Xword :: nat where "Elf32_Xword = 8"
definition Elf32_Sxword :: nat where "Elf32_Sxword = 8"
definition Elf64_Xword :: nat where "Elf64_Xword = 8"
definition Elf64_Sxword :: nat where "Elf64_Sxword = 8"
definition Elf32_Addr :: nat where "Elf32_Addr = 4"
definition Elf64_Addr :: nat where "Elf64_Addr = 8"
definition Elf32_Off :: nat where "Elf32_Off = 4"
definition Elf64_Off :: nat where "Elf64_Off = 8"
definition Elf32_Section :: nat where "Elf32_Section = 2"
definition Elf64_Section :: nat where "Elf64_Section = 2"

definition EI_NIDENT :: nat where "EI_NIDENT = 16"

lemmas elf_types =
  Elf32_Half_def Elf64_Half_def Elf32_Word_def Elf32_Sword_def Elf64_Word_def Elf64_Sword_def Elf32_Xword_def Elf32_Sxword_def Elf64_Xword_def Elf64_Sxword_def Elf32_Addr_def Elf64_Addr_def Elf32_Off_def Elf64_Off_def Elf32_Section_def Elf64_Section_def EI_NIDENT_def

type_synonym c_member = "string \<times> nat \<times> nat"
type_synonym c_struct = "c_member list"

definition scalar :: "nat \<Rightarrow> string \<Rightarrow> c_member" where "scalar n name = (name, n, n)"
definition array_of :: "nat \<Rightarrow> nat \<Rightarrow> string \<Rightarrow> c_member" where "array_of k n name = (name, k * n, n)"

section \<open>Structures\<close>

text \<open>The arms of the unions in \<open>Elf32_Dyn\<close>, \<open>Elf64_Dyn\<close> and the auxiliary vectors have the same size.\<close>

definition Elf32_Ehdr :: c_struct where
  "Elf32_Ehdr =
     [array_of EI_NIDENT 1 ''e_ident'', scalar Elf32_Half ''e_type'',
      scalar Elf32_Half ''e_machine'', scalar Elf32_Word ''e_version'',
      scalar Elf32_Addr ''e_entry'', scalar Elf32_Off ''e_phoff'',
      scalar Elf32_Off ''e_shoff'', scalar Elf32_Word ''e_flags'',
      scalar Elf32_Half ''e_ehsize'', scalar Elf32_Half ''e_phentsize'',
      scalar Elf32_Half ''e_phnum'', scalar Elf32_Half ''e_shentsize'',
      scalar Elf32_Half ''e_shnum'', scalar Elf32_Half ''e_shstrndx'']"

definition Elf64_Ehdr :: c_struct where
  "Elf64_Ehdr =
     [array_of EI_NIDENT 1 ''e_ident'', scalar Elf64_Half ''e_type'',
      scalar Elf64_Half ''e_machine'', scalar Elf64_Word ''e_version'',
      scalar Elf64_Addr ''e_entry'', scalar Elf64_Off ''e_phoff'',
      scalar Elf64_Off ''e_shoff'', scalar Elf64_Word ''e_flags'',
      scalar Elf64_Half ''e_ehsize'', scalar Elf64_Half ''e_phentsize'',
      scalar Elf64_Half ''e_phnum'', scalar Elf64_Half ''e_shentsize'',
      scalar Elf64_Half ''e_shnum'', scalar Elf64_Half ''e_shstrndx'']"

definition Elf32_Shdr :: c_struct where
  "Elf32_Shdr =
     [scalar Elf32_Word ''sh_name'', scalar Elf32_Word ''sh_type'',
      scalar Elf32_Word ''sh_flags'', scalar Elf32_Addr ''sh_addr'',
      scalar Elf32_Off ''sh_offset'', scalar Elf32_Word ''sh_size'',
      scalar Elf32_Word ''sh_link'', scalar Elf32_Word ''sh_info'',
      scalar Elf32_Word ''sh_addralign'', scalar Elf32_Word ''sh_entsize'']"

definition Elf64_Shdr :: c_struct where
  "Elf64_Shdr =
     [scalar Elf64_Word ''sh_name'', scalar Elf64_Word ''sh_type'',
      scalar Elf64_Xword ''sh_flags'', scalar Elf64_Addr ''sh_addr'',
      scalar Elf64_Off ''sh_offset'', scalar Elf64_Xword ''sh_size'',
      scalar Elf64_Word ''sh_link'', scalar Elf64_Word ''sh_info'',
      scalar Elf64_Xword ''sh_addralign'', scalar Elf64_Xword ''sh_entsize'']"

definition Elf32_Chdr :: c_struct where
  "Elf32_Chdr =
     [scalar Elf32_Word ''ch_type'', scalar Elf32_Word ''ch_size'',
      scalar Elf32_Word ''ch_addralign'']"

definition Elf64_Chdr :: c_struct where
  "Elf64_Chdr =
     [scalar Elf64_Word ''ch_type'', scalar Elf64_Word ''ch_reserved'',
      scalar Elf64_Xword ''ch_size'', scalar Elf64_Xword ''ch_addralign'']"

definition Elf32_Sym :: c_struct where
  "Elf32_Sym =
     [scalar Elf32_Word ''st_name'', scalar Elf32_Addr ''st_value'',
      scalar Elf32_Word ''st_size'', scalar 1 ''st_info'', scalar 1 ''st_other'',
      scalar Elf32_Section ''st_shndx'']"

definition Elf64_Sym :: c_struct where
  "Elf64_Sym =
     [scalar Elf64_Word ''st_name'', scalar 1 ''st_info'', scalar 1 ''st_other'',
      scalar Elf64_Section ''st_shndx'', scalar Elf64_Addr ''st_value'',
      scalar Elf64_Xword ''st_size'']"

definition Elf32_Syminfo :: c_struct where
  "Elf32_Syminfo =
     [scalar Elf32_Half ''si_boundto'', scalar Elf32_Half ''si_flags'']"

definition Elf64_Syminfo :: c_struct where
  "Elf64_Syminfo =
     [scalar Elf64_Half ''si_boundto'', scalar Elf64_Half ''si_flags'']"

definition Elf32_Rel :: c_struct where
  "Elf32_Rel =
     [scalar Elf32_Addr ''r_offset'', scalar Elf32_Word ''r_info'']"

definition Elf64_Rel :: c_struct where
  "Elf64_Rel =
     [scalar Elf64_Addr ''r_offset'', scalar Elf64_Xword ''r_info'']"

definition Elf32_Rela :: c_struct where
  "Elf32_Rela =
     [scalar Elf32_Addr ''r_offset'', scalar Elf32_Word ''r_info'',
      scalar Elf32_Sword ''r_addend'']"

definition Elf64_Rela :: c_struct where
  "Elf64_Rela =
     [scalar Elf64_Addr ''r_offset'', scalar Elf64_Xword ''r_info'',
      scalar Elf64_Sxword ''r_addend'']"

definition Elf32_Phdr :: c_struct where
  "Elf32_Phdr =
     [scalar Elf32_Word ''p_type'', scalar Elf32_Off ''p_offset'',
      scalar Elf32_Addr ''p_vaddr'', scalar Elf32_Addr ''p_paddr'',
      scalar Elf32_Word ''p_filesz'', scalar Elf32_Word ''p_memsz'',
      scalar Elf32_Word ''p_flags'', scalar Elf32_Word ''p_align'']"

definition Elf64_Phdr :: c_struct where
  "Elf64_Phdr =
     [scalar Elf64_Word ''p_type'', scalar Elf64_Word ''p_flags'',
      scalar Elf64_Off ''p_offset'', scalar Elf64_Addr ''p_vaddr'',
      scalar Elf64_Addr ''p_paddr'', scalar Elf64_Xword ''p_filesz'',
      scalar Elf64_Xword ''p_memsz'', scalar Elf64_Xword ''p_align'']"

definition Elf32_Dyn :: c_struct where
  "Elf32_Dyn =
     [scalar Elf32_Sword ''d_tag'', scalar Elf32_Word ''d_un'']"

definition Elf64_Dyn :: c_struct where
  "Elf64_Dyn =
     [scalar Elf64_Sxword ''d_tag'', scalar Elf64_Xword ''d_un'']"

definition Elf32_Verdef :: c_struct where
  "Elf32_Verdef =
     [scalar Elf32_Half ''vd_version'', scalar Elf32_Half ''vd_flags'',
      scalar Elf32_Half ''vd_ndx'', scalar Elf32_Half ''vd_cnt'',
      scalar Elf32_Word ''vd_hash'', scalar Elf32_Word ''vd_aux'',
      scalar Elf32_Word ''vd_next'']"

definition Elf64_Verdef :: c_struct where
  "Elf64_Verdef =
     [scalar Elf64_Half ''vd_version'', scalar Elf64_Half ''vd_flags'',
      scalar Elf64_Half ''vd_ndx'', scalar Elf64_Half ''vd_cnt'',
      scalar Elf64_Word ''vd_hash'', scalar Elf64_Word ''vd_aux'',
      scalar Elf64_Word ''vd_next'']"

definition Elf32_Verdaux :: c_struct where
  "Elf32_Verdaux =
     [scalar Elf32_Word ''vda_name'', scalar Elf32_Word ''vda_next'']"

definition Elf64_Verdaux :: c_struct where
  "Elf64_Verdaux =
     [scalar Elf64_Word ''vda_name'', scalar Elf64_Word ''vda_next'']"

definition Elf32_Verneed :: c_struct where
  "Elf32_Verneed =
     [scalar Elf32_Half ''vn_version'', scalar Elf32_Half ''vn_cnt'',
      scalar Elf32_Word ''vn_file'', scalar Elf32_Word ''vn_aux'',
      scalar Elf32_Word ''vn_next'']"

definition Elf64_Verneed :: c_struct where
  "Elf64_Verneed =
     [scalar Elf64_Half ''vn_version'', scalar Elf64_Half ''vn_cnt'',
      scalar Elf64_Word ''vn_file'', scalar Elf64_Word ''vn_aux'',
      scalar Elf64_Word ''vn_next'']"

definition Elf32_Vernaux :: c_struct where
  "Elf32_Vernaux =
     [scalar Elf32_Word ''vna_hash'', scalar Elf32_Half ''vna_flags'',
      scalar Elf32_Half ''vna_other'', scalar Elf32_Word ''vna_name'',
      scalar Elf32_Word ''vna_next'']"

definition Elf64_Vernaux :: c_struct where
  "Elf64_Vernaux =
     [scalar Elf64_Word ''vna_hash'', scalar Elf64_Half ''vna_flags'',
      scalar Elf64_Half ''vna_other'', scalar Elf64_Word ''vna_name'',
      scalar Elf64_Word ''vna_next'']"

definition Elf32_auxv_t :: c_struct where
  "Elf32_auxv_t =
     [scalar 4 ''a_type'', scalar 4 ''a_un'']"

definition Elf64_auxv_t :: c_struct where
  "Elf64_auxv_t =
     [scalar 8 ''a_type'', scalar 8 ''a_un'']"

definition Elf32_Nhdr :: c_struct where
  "Elf32_Nhdr =
     [scalar Elf32_Word ''n_namesz'', scalar Elf32_Word ''n_descsz'',
      scalar Elf32_Word ''n_type'']"

definition Elf64_Nhdr :: c_struct where
  "Elf64_Nhdr =
     [scalar Elf64_Word ''n_namesz'', scalar Elf64_Word ''n_descsz'',
      scalar Elf64_Word ''n_type'']"

definition Elf32_Move :: c_struct where
  "Elf32_Move =
     [scalar Elf32_Xword ''m_value'', scalar Elf32_Word ''m_info'',
      scalar Elf32_Word ''m_poffset'', scalar Elf32_Half ''m_repeat'',
      scalar Elf32_Half ''m_stride'']"

definition Elf64_Move :: c_struct where
  "Elf64_Move =
     [scalar Elf64_Xword ''m_value'', scalar Elf64_Xword ''m_info'',
      scalar Elf64_Xword ''m_poffset'', scalar Elf64_Half ''m_repeat'',
      scalar Elf64_Half ''m_stride'']"

definition Elf32_RegInfo :: c_struct where
  "Elf32_RegInfo =
     [scalar Elf32_Word ''ri_gprmask'', array_of 4 Elf32_Word ''ri_cprmask'',
      scalar Elf32_Sword ''ri_gp_value'']"

definition Elf_Options :: c_struct where
  "Elf_Options =
     [scalar 1 ''kind'', scalar 1 ''size'', scalar Elf32_Section ''section'',
      scalar Elf32_Word ''info'']"

definition Elf_Options_Hw :: c_struct where
  "Elf_Options_Hw =
     [scalar Elf32_Word ''hwp_flags1'', scalar Elf32_Word ''hwp_flags2'']"

definition Elf32_Lib :: c_struct where
  "Elf32_Lib =
     [scalar Elf32_Word ''l_name'', scalar Elf32_Word ''l_time_stamp'',
      scalar Elf32_Word ''l_checksum'', scalar Elf32_Word ''l_version'',
      scalar Elf32_Word ''l_flags'']"

definition Elf64_Lib :: c_struct where
  "Elf64_Lib =
     [scalar Elf64_Word ''l_name'', scalar Elf64_Word ''l_time_stamp'',
      scalar Elf64_Word ''l_checksum'', scalar Elf64_Word ''l_version'',
      scalar Elf64_Word ''l_flags'']"

definition Elf_MIPS_ABIFlags_v0 :: c_struct where
  "Elf_MIPS_ABIFlags_v0 =
     [scalar Elf32_Half ''version'', scalar 1 ''isa_level'', scalar 1 ''isa_rev'',
      scalar 1 ''gpr_size'', scalar 1 ''cpr1_size'', scalar 1 ''cpr2_size'',
      scalar 1 ''fp_abi'', scalar Elf32_Word ''isa_ext'', scalar Elf32_Word ''ases'',
      scalar Elf32_Word ''flags1'', scalar Elf32_Word ''flags2'']"

text \<open>All structures, with the sizes that the object file format gives them.\<close>

definition elf_structs :: "(c_struct \<times> nat) list" where
  "elf_structs =
     [(Elf32_Ehdr, 52), (Elf64_Ehdr, 64), (Elf32_Shdr, 40), (Elf64_Shdr, 64),
      (Elf32_Chdr, 12), (Elf64_Chdr, 24), (Elf32_Sym, 16), (Elf64_Sym, 24),
      (Elf32_Syminfo, 4), (Elf64_Syminfo, 4), (Elf32_Rel, 8), (Elf64_Rel, 16),
      (Elf32_Rela, 12), (Elf64_Rela, 24), (Elf32_Phdr, 32), (Elf64_Phdr, 56),
      (Elf32_Dyn, 8), (Elf64_Dyn, 16), (Elf32_Verdef, 20), (Elf64_Verdef, 20),
      (Elf32_Verdaux, 8), (Elf64_Verdaux, 8), (Elf32_Verneed, 16), (Elf64_Verneed, 16),
      (Elf32_Vernaux, 16), (Elf64_Vernaux, 16), (Elf32_auxv_t, 8), (Elf64_auxv_t, 16),
      (Elf32_Nhdr, 12), (Elf64_Nhdr, 12), (Elf32_Move, 24), (Elf64_Move, 32),
      (Elf32_RegInfo, 24), (Elf_Options, 8), (Elf_Options_Hw, 8), (Elf32_Lib, 20),
      (Elf64_Lib, 20), (Elf_MIPS_ABIFlags_v0, 24)]"

lemmas elf_struct_defs =
  Elf32_Ehdr_def Elf64_Ehdr_def Elf32_Shdr_def Elf64_Shdr_def
  Elf32_Chdr_def Elf64_Chdr_def Elf32_Sym_def Elf64_Sym_def
  Elf32_Syminfo_def Elf64_Syminfo_def Elf32_Rel_def Elf64_Rel_def
  Elf32_Rela_def Elf64_Rela_def Elf32_Phdr_def Elf64_Phdr_def
  Elf32_Dyn_def Elf64_Dyn_def Elf32_Verdef_def Elf64_Verdef_def
  Elf32_Verdaux_def Elf64_Verdaux_def Elf32_Verneed_def Elf64_Verneed_def
  Elf32_Vernaux_def Elf64_Vernaux_def Elf32_auxv_t_def Elf64_auxv_t_def
  Elf32_Nhdr_def Elf64_Nhdr_def Elf32_Move_def Elf64_Move_def
  Elf32_RegInfo_def Elf_Options_def Elf_Options_Hw_def Elf32_Lib_def
  Elf64_Lib_def Elf_MIPS_ABIFlags_v0_def

section \<open>Placement\<close>

fun layout :: "nat \<Rightarrow> c_struct \<Rightarrow> (string \<times> nat \<times> nat) list" where
  "layout n [] = []"
| "layout n ((name, sz, al) # ms) =
     (name, align_up n al, sz) # layout (align_up n al + sz) ms"

definition member :: "c_struct \<Rightarrow> string \<Rightarrow> (nat \<times> nat) option" where
  "member st = map_of (layout 0 st)"

definition alignment :: "c_struct \<Rightarrow> nat" where
  "alignment st = fold max (map (snd \<circ> snd) st) 1"

definition sizeof :: "c_struct \<Rightarrow> nat" where
  "sizeof st = align_up (struct_end 0 (map snd st)) (alignment st)"

text \<open>\<open>((T *)(buffer + base))->m\<close>, for a member that fits 64 bits.\<close>

definition read_member :: "c_struct \<Rightarrow> string \<Rightarrow> u8 list \<Rightarrow> nat \<Rightarrow> u64 run" where
  "read_member st m buffer base =
     (case member st m of
        None \<Rightarrow> Inl Undefined
      | Some (off, sz) \<Rightarrow>
          if base + off + sz \<le> length buffer
          then Inr (le_word (take sz (drop (base + off) buffer)))
          else Inl Out_Of_Bounds)"

text \<open>The bytes of a structure with given members, and zeros in the padding.\<close>

fun print_members :: "nat \<Rightarrow> c_struct \<Rightarrow> (string \<Rightarrow> u64) \<Rightarrow> u8 list" where
  "print_members n [] v = []"
| "print_members n ((name, sz, al) # ms) v =
     replicate (align_up n al - n) 0 @ le_bytes sz (v name) @ print_members (align_up n al + sz) ms v"

definition print_struct :: "c_struct \<Rightarrow> (string \<Rightarrow> u64) \<Rightarrow> u8 list" where
  "print_struct st v =
     (let bs = print_members 0 st v in bs @ replicate (sizeof st - length bs) 0)"

lemma align_up_le:
  assumes "0 < al"
  shows "n \<le> align_up n al"
proof -
  let ?x = "n + (al - 1)"
  have "al * (?x div al) + ?x mod al = ?x" by (rule mult_div_mod_eq)
  moreover have "?x mod al < al" using assms by simp
  ultimately have "n \<le> al * (?x div al)" by linarith
  then show ?thesis by (simp only: align_up_def mult.commute)
qed

lemma length_print_members:
  "\<forall>m \<in> set ms. 0 < snd (snd m) \<Longrightarrow> length (print_members n ms v) + n = struct_end n (map snd ms)"
proof (induction n ms v rule: print_members.induct)
  case (1 n v)
  show ?case by simp
next
  case (2 n name sz al ms v)
  then show ?case using align_up_le [of al n] by simp
qed

lemma layout_sound:
  assumes "(m, off, sz) \<in> set (layout n ms)" "\<forall>m \<in> set ms. 0 < snd (snd m)"
  shows "n \<le> off \<and> take sz (drop (off - n) (print_members n ms v)) = le_bytes sz (v m)
    \<and> off - n + sz \<le> length (print_members n ms v)"
  using assms
proof (induction n ms v rule: print_members.induct)
  case (1 n v)
  then show ?case by simp
next
  case (2 n name s al ms v)
  let ?a = "align_up n al"
  have le: "n \<le> ?a" using align_up_le 2 by simp
  show ?case
  proof (cases "(m, off, sz) = (name, ?a, s)")
    case True
    then show ?thesis using le by simp
  next
    case False
    then have IH: "?a + s \<le> off" "take sz (drop (off - (?a + s)) (print_members (?a + s) ms v)) = le_bytes sz (v m)"
      "off - (?a + s) + sz \<le> length (print_members (?a + s) ms v)"
      using 2 by auto
    have "off - n - (?a - n) - s = off - (?a + s)" using IH(1) le by simp
    with IH le show ?thesis by simp
  qed
qed


lemma member_in_layout:
  assumes "distinct (map fst ms)" "(m, sz, al) \<in> set ms"
  shows "\<exists>off. map_of (layout n ms) m = Some (off, sz)"
  using assms
proof (induction n ms rule: layout.induct)
  case (1 n)
  then show ?case by simp
next
  case (2 n name s a ms)
  then show ?case by force
qed

text \<open>A printed structure is read back member by member.\<close>

lemma read_print:
  assumes "distinct (map fst st)" "\<forall>m \<in> set st. 0 < snd (snd m)" "(m, sz, al) \<in> set st"
  shows "read_member st m (pre @ print_struct st v @ post) (length pre) = Inr (take_bit (8 * sz) (v m))"
proof -
  obtain off where off: "member st m = Some (off, sz)"
    using member_in_layout [OF assms(1,3)] by (auto simp: member_def)
  then have "(m, off, sz) \<in> set (layout 0 st)" by (auto simp: member_def dest: map_of_SomeD)
  from layout_sound [OF this assms(2), of v]
  have bytes: "take sz (drop off (print_members 0 st v)) = le_bytes sz (v m)"
    and len: "off + sz \<le> length (print_members 0 st v)" by simp_all
  then show ?thesis
    by (simp add: read_member_def off print_struct_def Let_def drop_append le_word_le_bytes)
qed

lemma elf_structs_wf:
  "list_all (\<lambda>(st, n). distinct (map fst st) \<and> list_all (\<lambda>m. 0 < snd (snd m)) st \<and> sizeof st = n) elf_structs"
  by code_simp

end
