(* ===== verification/Loadelf.thy ===== *)
theory Loadelf
  imports Elf Emulator
begin

text \<open>
  The program \<open>src/elf/loadelf.c\<close>, which prints the entry point and the executable segments of an
  ELF file, with the macros of \<open>elf.h\<close> that take a packed word apart, and its properties.
\<close>

section \<open>Packed words\<close>

definition ELF32_ST_BIND :: "u32 \<Rightarrow> u32" where "ELF32_ST_BIND val = drop_bit 4 (ucast (ucast val :: u8))"
definition ELF32_ST_TYPE :: "u32 \<Rightarrow> u32" where "ELF32_ST_TYPE val = val AND 0xf"
definition ELF32_ST_INFO :: "u32 \<Rightarrow> u32 \<Rightarrow> u32" where
  "ELF32_ST_INFO bind type = push_bit 4 bind + (type AND 0xf)"
definition ELF32_ST_VISIBILITY :: "u32 \<Rightarrow> u32" where "ELF32_ST_VISIBILITY x = x AND 0x03"

definition ELF32_R_SYM :: "u32 \<Rightarrow> u32" where "ELF32_R_SYM val = drop_bit 8 val"
definition ELF32_R_TYPE :: "u32 \<Rightarrow> u32" where "ELF32_R_TYPE val = val AND 0xff"
definition ELF32_R_INFO :: "u32 \<Rightarrow> u32 \<Rightarrow> u32" where
  "ELF32_R_INFO symbol type = push_bit 8 symbol + (type AND 0xff)"

definition ELF64_R_SYM :: "u64 \<Rightarrow> u64" where "ELF64_R_SYM i = drop_bit 32 i"
definition ELF64_R_TYPE :: "u64 \<Rightarrow> u64" where "ELF64_R_TYPE i = i AND 0xffffffff"
definition ELF64_R_INFO :: "u64 \<Rightarrow> u64 \<Rightarrow> u64" where "ELF64_R_INFO symbol type = push_bit 32 symbol + type"

definition ELF32_M_SYM :: "u32 \<Rightarrow> u32" where "ELF32_M_SYM info = drop_bit 8 info"
definition ELF32_M_SIZE :: "u32 \<Rightarrow> u8" where "ELF32_M_SIZE info = ucast info"
definition ELF32_M_INFO :: "u32 \<Rightarrow> u32 \<Rightarrow> u32" where
  "ELF32_M_INFO symbol sz = push_bit 8 symbol + ucast (ucast sz :: u8)"

definition PF_X :: u32 where "PF_X = 1"

section \<open>The program\<close>

definition member32 :: "c_struct \<Rightarrow> string \<Rightarrow> u8 list \<Rightarrow> nat \<Rightarrow> u32 run" where
  "member32 st m buffer base = bind_run (read_member st m buffer base) (\<lambda>x. Inr (ucast x))"

definition format_02x :: "u8 \<Rightarrow> string" where
  "format_02x b = [digit_char (unat b div 16), digit_char (unat b mod 16)]"

text \<open>
  The inner loop, with \<open>n\<close> bytes left after \<open>j\<close>: the index \<open>file_offset+j\<close> is computed in 32 bits
  and not compared with the size of the buffer.
\<close>

fun loadelf_dump :: "nat \<Rightarrow> nat \<Rightarrow> u32 \<Rightarrow> u8 list \<Rightarrow> string \<Rightarrow> string run" where
  "loadelf_dump 0 j file_offset buffer out = Inr out"
| "loadelf_dump (Suc n) j file_offset buffer out =
     (let i = unat (file_offset + word_of_nat j)
      in if i < length buffer
         then loadelf_dump n (Suc j) file_offset buffer
                (out @ format_02x (buffer ! i) @ '' '' @ (if (j + 1) mod 0x10 = 0 then newline else []))
         else Inl Out_Of_Bounds)"

definition loadelf_segment :: "u8 list \<Rightarrow> nat \<Rightarrow> string \<Rightarrow> string run" where
  "loadelf_segment buffer phdr out =
     bind_run (member32 Elf32_Phdr ''p_vaddr'' buffer phdr) (\<lambda>vaddr.
     bind_run (member32 Elf32_Phdr ''p_flags'' buffer phdr) (\<lambda>flags.
     bind_run (member32 Elf32_Phdr ''p_offset'' buffer phdr) (\<lambda>file_offset.
     bind_run (member32 Elf32_Phdr ''p_filesz'' buffer phdr) (\<lambda>segment_size_file.
     bind_run (member32 Elf32_Phdr ''p_memsz'' buffer phdr) (\<lambda>segment_size_mem.
       if flags AND PF_X \<noteq> 0
       then bind_run (loadelf_dump (unat segment_size_file) 0 file_offset buffer
              (out @ ''vaddr=0x'' @ format_08x vaddr @ newline
                @ ''size in file: '' @ format_d segment_size_file @ newline
                @ ''size in memory: '' @ format_d segment_size_mem @ newline))
              (\<lambda>out. Inr (out @ newline))
       else Inr out)))))"

text \<open>The outer loop, with \<open>n\<close> segments left from \<open>i\<close>.\<close>

fun loadelf_segments :: "nat \<Rightarrow> nat \<Rightarrow> u8 list \<Rightarrow> u32 \<Rightarrow> string \<Rightarrow> string run" where
  "loadelf_segments 0 i buffer phoff out = Inr out"
| "loadelf_segments (Suc n) i buffer phoff out =
     bind_run (loadelf_segment buffer (unat phoff + i * sizeof Elf32_Phdr) out)
       (loadelf_segments n (Suc i) buffer phoff)"

definition loadelf_buffer :: "u8 list \<Rightarrow> string run" where
  "loadelf_buffer buffer =
     bind_run (member32 Elf32_Ehdr ''e_entry'' buffer 0) (\<lambda>entry.
     bind_run (member32 Elf32_Ehdr ''e_phoff'' buffer 0) (\<lambda>phoff.
     bind_run (member32 Elf32_Ehdr ''e_phnum'' buffer 0) (\<lambda>phnum.
       loadelf_segments (unat phnum) 0 buffer phoff
         (''entry: 0x'' @ format_08x entry @ newline @ ''phoff: '' @ format_d phoff @ newline))))"

text \<open>
  \<open>main\<close>. When the file cannot be opened the program goes on with the null stream; the size of the
  file is kept in an \<open>int\<close>, so that from 2 GiB on \<open>malloc\<close> gets a huge number and fails, and its
  result is not tested.
\<close>

definition loadelf_main :: "string list \<Rightarrow> (string \<Rightarrow> u8 list option) \<Rightarrow> host \<Rightarrow> (u32 \<times> host) run" where
  "loadelf_main argv files w =
     (if length argv < 2 then Inr (1, print_err (''no file provided'' @ newline) w)
      else case files (argv ! 1) of
        None \<Rightarrow> Inl Undefined
      | Some file \<Rightarrow>
          (let size = sint (word_of_nat (length file) :: u32)
           in if size < 0 then Inl Undefined
              else bind_run (loadelf_buffer (take (nat size) file)) (\<lambda>out. Inr (0, print_out out w))))"

section \<open>Properties\<close>

text \<open>
  Structures read back what was written: for every structure of the header and every member of
  it that is not longer than eight bytes, reading the member through a pointer at the start of a
  printed structure, anywhere in a buffer, gives its value, cut to the width of the member; and the
  structures have the sizes of the object file format.
\<close>

lemma elf_structs_round_trip:
  assumes "(st, n) \<in> set elf_structs" "(m, sz, al) \<in> set st"
  shows "read_member st m (pre @ print_struct st v @ post) (length pre) = Inr (take_bit (8 * sz) (v m)) \<and> sizeof st = n"
proof -
  have "distinct (map fst st)" "\<forall>m \<in> set st. 0 < snd (snd m)" "sizeof st = n"
    using elf_structs_wf assms(1) by (auto simp: list_all_iff)
  with read_print [OF this(1,2) assms(2)] show ?thesis by simp
qed

lemma elf_header_round_trip:
  "read_member Elf32_Ehdr ''e_entry'' ([7] @ print_struct Elf32_Ehdr (\<lambda>m. 0x10074) @ []) 1 = Inr 0x10074"
proof -
  have "(Elf32_Ehdr, 52) \<in> set elf_structs" by (simp add: elf_structs_def)
  moreover have "(''e_entry'', 4, 4) \<in> set Elf32_Ehdr"
    by (simp add: Elf32_Ehdr_def elf_types scalar_def array_of_def)
  ultimately have "read_member Elf32_Ehdr ''e_entry'' ([7] @ print_struct Elf32_Ehdr (\<lambda>m. 0x10074) @ []) (length [7 :: u8])
      = Inr (take_bit (8 * 4) 0x10074)"
    using elf_structs_round_trip [of Elf32_Ehdr 52 "''e_entry''" 4 4 "[7]" "\<lambda>m. 0x10074" "[]"] by blast
  moreover have "take_bit (8 * 4) (0x10074 :: u64) = 0x10074" by code_simp
  ultimately show ?thesis by simp
qed

text \<open>
  A file as the program needs it, over the offsets of the object file format: of the header the 46
  bytes up to the end of \<open>e_phnum\<close>, of every program header the 28 bytes up to the end of \<open>p_flags\<close>,
  and the bytes of the executable segments. Then the text of such a file, over the same offsets.
\<close>

definition word_at :: "nat \<Rightarrow> u8 list \<Rightarrow> nat \<Rightarrow> u32" where
  "word_at n file a = le_word (take n (drop a file))"

definition segment_ok :: "u8 list \<Rightarrow> nat \<Rightarrow> bool" where
  "segment_ok file a \<longleftrightarrow> a + 28 \<le> length file \<and>
     (bit (word_at 4 file (a + 24)) 0 \<longrightarrow>
        (\<forall>j < unat (word_at 4 file (a + 16)). (unat (word_at 4 file (a + 4)) + j) mod 2 ^ 32 < length file))"

definition elf_ok :: "u8 list \<Rightarrow> bool" where
  "elf_ok file \<longleftrightarrow> 46 \<le> length file \<and>
     (\<forall>i < unat (word_at 2 file 44). segment_ok file (unat (word_at 4 file 28) + i * 32))"

definition dump_text :: "u8 list \<Rightarrow> nat \<Rightarrow> nat list \<Rightarrow> string" where
  "dump_text file off js = concat (map (\<lambda>j. format_02x (file ! ((off + j) mod 2 ^ 32)) @ '' ''
     @ (if (j + 1) mod 16 = 0 then newline else [])) js)"

definition segment_text :: "u8 list \<Rightarrow> nat \<Rightarrow> string" where
  "segment_text file a =
     (if bit (word_at 4 file (a + 24)) 0
      then ''vaddr=0x'' @ format_08x (word_at 4 file (a + 8)) @ newline
        @ ''size in file: '' @ format_d (word_at 4 file (a + 16)) @ newline
        @ ''size in memory: '' @ format_d (word_at 4 file (a + 20)) @ newline
        @ dump_text file (unat (word_at 4 file (a + 4))) [0..<unat (word_at 4 file (a + 16))] @ newline
      else [])"

definition elf_text :: "u8 list \<Rightarrow> string" where
  "elf_text file =
     ''entry: 0x'' @ format_08x (word_at 4 file 24) @ newline
     @ ''phoff: '' @ format_d (word_at 4 file 28) @ newline
     @ concat (map (\<lambda>i. segment_text file (unat (word_at 4 file 28) + i * 32)) [0..<unat (word_at 2 file 44)])"

lemma member32_eq:
  assumes "member st m = Some (off, sz)" "sz \<le> 4"
  shows "member32 st m buffer base =
    (if base + off + sz \<le> length buffer then Inr (word_at sz buffer (base + off)) else Inl Out_Of_Bounds)"
proof -
  have "ucast (le_word bs :: u64) = (le_word bs :: u32)" if "length bs = sz" for bs
    using that assms(2) by (intro ucast_le_word) simp
  then show ?thesis
    using assms by (simp add: member32_def read_member_def word_at_def)
qed

lemma members:
  "member Elf32_Ehdr ''e_entry'' = Some (24, 4)" "member Elf32_Ehdr ''e_phoff'' = Some (28, 4)"
  "member Elf32_Ehdr ''e_phnum'' = Some (44, 2)" "member Elf32_Phdr ''p_vaddr'' = Some (8, 4)"
  "member Elf32_Phdr ''p_flags'' = Some (24, 4)" "member Elf32_Phdr ''p_offset'' = Some (4, 4)"
  "member Elf32_Phdr ''p_filesz'' = Some (16, 4)" "member Elf32_Phdr ''p_memsz'' = Some (20, 4)"
  "sizeof Elf32_Phdr = 32"
  by code_simp+

lemma all_Suc_shift: "(\<forall>k < Suc n. P (j + k)) \<longleftrightarrow> P j \<and> (\<forall>k < n. P (Suc j + k))"
proof -
  have "P (j + k)" if "P j" "\<forall>k < n. P (Suc j + k)" "k < Suc n" for k
    using that by (cases k) auto
  moreover have "P (Suc j + k)" if "\<forall>k < Suc n. P (j + k)" "k < n" for k
    using that by (metis add_Suc_shift Suc_less_eq)
  moreover have "(\<forall>k < Suc n. P (j + k)) \<Longrightarrow> P j" by (metis add_0_right zero_less_Suc)
  ultimately show ?thesis by blast
qed

lemma unat_plus_of_nat: "unat (off + word_of_nat k :: u32) = (unat off + k) mod 2 ^ 32"
  by (simp add: unat_word_ariths unsigned_of_nat take_bit_eq_mod mod_simps)

lemma dump_defined:
  "loadelf_dump n j off img out =
    (if \<forall>k < n. (unat off + (j + k)) mod 2 ^ 32 < length img
     then Inr (out @ dump_text img (unat off) [j..<j + n]) else Inl Out_Of_Bounds)"
proof (induction n arbitrary: j out)
  case 0
  show ?case by (simp add: dump_text_def)
next
  case (Suc n)
  let ?P = "\<lambda>k. (unat off + k) mod 2 ^ 32 < length img"
  note all = all_Suc_shift [of n ?P j]
  have range: "[j..<j + Suc n] = j # [Suc j..<Suc j + n]" by (simp add: upt_conv_Cons)
  show ?case
  proof (cases "?P j")
    case False
    then show ?thesis unfolding all by (simp add: Let_def unat_plus_of_nat)
  next
    case True
    then show ?thesis
      unfolding all range Suc.IH [of "Suc j"] loadelf_dump.simps Let_def unat_plus_of_nat
      by (simp add: dump_text_def)
  qed
qed

lemma segment_defined:
  "loadelf_segment img a out =
    (if segment_ok img a then Inr (out @ segment_text img a) else Inl Out_Of_Bounds)"
proof (cases "a + 28 \<le> length img")
  case False
  then show ?thesis by (auto simp: loadelf_segment_def segment_ok_def member32_eq members)
next
  case True
  have flag: "word_at 4 img (a + 24) AND PF_X \<noteq> 0 \<longleftrightarrow> bit (word_at 4 img (a + 24)) 0"
    using bit_iff_and_push_bit_not_eq_0 [of "word_at 4 img (a + 24)" 0] by (simp add: PF_X_def)
  have "loadelf_segment img a out =
     (if word_at 4 img (a + 24) AND PF_X \<noteq> 0
      then bind_run (loadelf_dump (unat (word_at 4 img (a + 16))) 0 (word_at 4 img (a + 4)) img
             (out @ ''vaddr=0x'' @ format_08x (word_at 4 img (a + 8)) @ newline
               @ ''size in file: '' @ format_d (word_at 4 img (a + 16)) @ newline
               @ ''size in memory: '' @ format_d (word_at 4 img (a + 20)) @ newline))
             (\<lambda>out. Inr (out @ newline))
      else Inr out)"
    using True by (simp add: loadelf_segment_def member32_eq members)
  then show ?thesis
    unfolding flag segment_ok_def segment_text_def dump_defined using True by simp
qed

lemma segments_defined:
  "loadelf_segments n i img phoff out =
    (if \<forall>k < n. segment_ok img (unat phoff + (i + k) * 32)
     then Inr (out @ concat (map (\<lambda>k. segment_text img (unat phoff + k * 32)) [i..<i + n]))
     else Inl Out_Of_Bounds)"
proof (induction n arbitrary: i out)
  case 0
  show ?case by simp
next
  case (Suc n)
  let ?P = "\<lambda>k. segment_ok img (unat phoff + k * 32)"
  note all = all_Suc_shift [of n ?P i]
  have range: "[i..<i + Suc n] = i # [Suc i..<Suc i + n]" by (simp add: upt_conv_Cons)
  show ?case
    unfolding all range loadelf_segments.simps members segment_defined
    by (simp add: Suc.IH [of "Suc i"] del: upt_Suc)
qed

text \<open>
  C33. What the ELF dumper does on a file of less than 2 GiB. When the members that it reads lie
  within the file (the first 46 bytes of the header, the first 28 of each of the \<open>e_phnum\<close> program
  headers at \<open>e_phoff\<close>, and the bytes of the executable segments, whose addresses are taken modulo
  \<open>2 ^ 32\<close>) it prints exactly the entry point, the offset of the program headers, and address, sizes
  and bytes of each executable segment, at the offsets of the object file format; on any other file
  it reads outside its buffer. It checks neither the magic number nor any of these bounds.
\<close>

theorem loadelf_defined_iff:
  assumes "files path = Some file" "length file < 2 ^ 31"
  shows "loadelf_main [prog, path] files w =
    (if elf_ok file then Inr (0, print_out (elf_text file) w) else Inl Out_Of_Bounds)"
proof -
  have size: "sint (word_of_nat (length file) :: u32) = int (length file)"
    using assms(2) by (simp add: signed_of_nat signed_take_bit_int_eq_self)
  then have main: "loadelf_main [prog, path] files w =
      bind_run (loadelf_buffer file) (\<lambda>out. Inr (0, print_out out w))"
    using assms(1) by (simp add: loadelf_main_def)
  show ?thesis
  proof (cases "46 \<le> length file")
    case False
    then show ?thesis unfolding main by (auto simp: elf_ok_def loadelf_buffer_def member32_eq members)
  next
    case True
    then have "loadelf_buffer file = loadelf_segments (unat (word_at 2 file 44)) 0 file (word_at 4 file 28)
        (''entry: 0x'' @ format_08x (word_at 4 file 24) @ newline @ ''phoff: '' @ format_d (word_at 4 file 28) @ newline)"
      by (simp add: loadelf_buffer_def member32_eq members)
    then show ?thesis
      unfolding main elf_ok_def segments_defined elf_text_def using True by simp
  qed
qed

text \<open>
  A file with one program header at offset 52 and an executable segment of two bytes at the end; and
  the same file without its last byte.
\<close>

definition small_elf :: "u8 list" where
  "small_elf = replicate 24 0 @ [0x78, 0x56, 0x34, 0x12] @ [52, 0, 0, 0] @ replicate 12 0 @ [1, 0]
     @ replicate 6 0 @ replicate 4 0 @ [84, 0, 0, 0] @ [0, 0x10, 0, 0] @ replicate 4 0 @ [2, 0, 0, 0]
     @ [3, 0, 0, 0] @ [5, 0, 0, 0] @ replicate 4 0 @ [0xab, 0xcd]"

theorem loadelf_defined_iff_witness:
  "loadelf_main [''loadelf'', ''a''] [''a'' \<mapsto> small_elf] \<lparr>std_out = [], std_err = []\<rparr>
      = Inr (0, \<lparr>std_out = ''entry: 0x12345678'' @ newline @ ''phoff: 52'' @ newline
          @ ''vaddr=0x00001000'' @ newline @ ''size in file: 2'' @ newline @ ''size in memory: 3'' @ newline
          @ ''ab cd '' @ newline, std_err = []\<rparr>)
   \<and> loadelf_main [''loadelf'', ''b''] [''b'' \<mapsto> butlast small_elf] \<lparr>std_out = [], std_err = []\<rparr> = Inl Out_Of_Bounds"
proof -
  have words: "word_at 4 small_elf 24 = 0x12345678" "word_at 4 small_elf 28 = 52" "word_at 2 small_elf 44 = 1"
    "word_at 4 small_elf 56 = 84" "word_at 4 small_elf 60 = 0x1000" "word_at 4 small_elf 68 = 2"
    "word_at 4 small_elf 72 = 3" "word_at 4 small_elf 76 = 5"
    by code_simp+
  have cut: "word_at 4 (butlast small_elf) 28 = 52" "word_at 2 (butlast small_elf) 44 = 1"
    "word_at 4 (butlast small_elf) 56 = 84" "word_at 4 (butlast small_elf) 68 = 2"
    "word_at 4 (butlast small_elf) 76 = 5"
    by code_simp+
  have len: "length small_elf = 86" and last: "small_elf ! 84 = 0xab" "small_elf ! 85 = 0xcd"
    by code_simp+
  have ok: "elf_ok small_elf" by (simp add: elf_ok_def segment_ok_def words len less_2_cases_iff)
  have bad: "\<not> elf_ok (butlast small_elf)"
    by (simp add: elf_ok_def segment_ok_def cut len less_2_cases_iff)
  have texts: "format_08x 0x12345678 = ''12345678''" "format_08x 0x1000 = ''00001000''" "format_d 52 = ''52''"
    "format_d 2 = ''2''" "format_d 3 = ''3''" "format_02x 0xab = ''ab''" "format_02x 0xcd = ''cd''"
    by code_simp+
  have "elf_text small_elf = ''entry: 0x12345678'' @ newline @ ''phoff: 52'' @ newline
      @ ''vaddr=0x00001000'' @ newline @ ''size in file: 2'' @ newline @ ''size in memory: 3'' @ newline
      @ ''ab cd '' @ newline"
    by (simp add: elf_text_def segment_text_def dump_text_def words last texts upt_rec [of 0] upt_rec [of "Suc 0"])
  with ok bad len show ?thesis
    by (simp add: loadelf_defined_iff [of _ _ small_elf] loadelf_defined_iff [of _ _ "butlast small_elf"]
        print_out_def)
qed

end
