(* ===== verification/Guest.thy ===== *)
theory Guest
  imports Prelude
begin

text \<open>
  Two functions of the demonstration guests that compute something: the colours of
  \<open>src/examples/fantasy-computer\<close> (\<open>rgb565\<close> of \<open>example.c\<close> and of the menu's \<open>lib.c\<close>) and \<open>fib\<close> of
  \<open>src/examples/c/c_program.c\<close>.
\<close>

section \<open>Colours\<close>

text \<open>The channels are shifted in their own type; the result of the \<open>int\<close> expression is cut to 16 bits.\<close>

definition rgb565 :: "u8 \<Rightarrow> u8 \<Rightarrow> u8 \<Rightarrow> u16" where
  "rgb565 r g b =
     (let r = drop_bit 2 r; g = drop_bit 1 g; b = drop_bit 2 b
      in ucast (push_bit 11 (ucast r) OR push_bit 5 (ucast g) OR (ucast b :: u32)))"

text \<open>
  Each channel keeps one bit more than its field has: the highest bit of red is cut off, and the
  lowest bits of red and green coincide with the highest bits of green and blue.
\<close>

lemma rgb565_bits:
  "bit (rgb565 r g b) n \<longleftrightarrow>
     (if n < 5 then bit b (n + 2)
      else if n = 5 then bit b 7 \<or> bit g 1
      else if n < 11 then bit g (n - 4)
      else if n = 11 then bit g 7 \<or> bit r 2
      else n < 16 \<and> bit r (n - 9))"
proof -
  have sums: "11 \<le> n \<Longrightarrow> 2 + (n - 11) = n - 9" "5 \<le> n \<Longrightarrow> Suc (n - 5) = n - 4" by arith+
  have bit: "bit (rgb565 r g b) n \<longleftrightarrow> n < 16 \<and>
      (11 \<le> n \<and> bit r (n - 9) \<or> 5 \<le> n \<and> bit g (n - 4) \<or> bit b (n + 2))"
    using sums by (auto simp: rgb565_def bit_simps add.commute [of n 2] dest: bit_imp_le_length)
  have high: "n - 9 < 8 \<or> \<not> bit r (n - 9)" "n - 4 < 8 \<or> \<not> bit g (n - 4)" "n + 2 < 8 \<or> \<not> bit b (n + 2)"
    by (auto dest: bit_imp_le_length)
  consider "n < 5" | "n = 5" | "5 < n" "n < 11" | "n = 11" | "11 < n" "n < 16" | "16 \<le> n" by linarith
  then show ?thesis
    by cases (use bit high in auto)
qed

lemma rgb565_bright_red: "rgb565 0x80 0 0 = 0" "rgb565 0xff 0xff 0xff = 0xffff"
  by code_simp+

section \<open>Fibonacci numbers\<close>

text \<open>
  The loop with \<open>n\<close> rounds left; a sum beyond \<open>int\<close> is undefined. For a negative argument \<open>c\<close> is
  returned without having been assigned.
\<close>

fun fib_loop :: "nat \<Rightarrow> int \<Rightarrow> int \<Rightarrow> int \<Rightarrow> int run" where
  "fib_loop 0 a b c = Inr c"
| "fib_loop (Suc n) a b c =
     (if a + b < 2 ^ 31 then fib_loop n b (a + b) (a + b) else Inl Undefined)"

definition fib :: "int \<Rightarrow> int run" where
  "fib n =
     (if n = 0 then Inr 0
      else if n = 1 then Inr 1
      else if n < 0 then Inl Undefined
      else fib_loop (nat (n - 1)) 0 1 0)"

text \<open>The code returns the Fibonacci number as long as it fits an \<open>int\<close>, that is up to 46.\<close>

fun fibonacci :: "nat \<Rightarrow> int" where
  "fibonacci 0 = 0"
| "fibonacci (Suc 0) = 1"
| "fibonacci (Suc (Suc n)) = fibonacci n + fibonacci (Suc n)"

lemma fibonacci_nonneg: "0 \<le> fibonacci n"
  by (induction n rule: fibonacci.induct) simp_all

lemma fibonacci_mono: "fibonacci (Suc n) \<le> fibonacci (Suc (n + k))"
  by (induction k) (auto intro: order_trans simp: fibonacci_nonneg)

lemma fib_loop_fibonacci:
  "fib_loop (Suc n) (fibonacci k) (fibonacci (Suc k)) c =
     (if fibonacci (Suc (Suc k) + n) < 2 ^ 31 then Inr (fibonacci (Suc (Suc k) + n)) else Inl Undefined)"
proof (induction n arbitrary: k c)
  case 0
  show ?case by simp
next
  case (Suc n)
  show ?case
  proof (cases "fibonacci (Suc (Suc k)) < 2 ^ 31")
    case True
    then show ?thesis
      using Suc.IH [of "Suc k" "fibonacci (Suc (Suc k))"]
      by (subst fib_loop.simps(2)) (simp del: fib_loop.simps(2))
  next
    case False
    moreover have "fibonacci (Suc (Suc k)) \<le> fibonacci (Suc (Suc k) + Suc n)"
      using fibonacci_mono [of "Suc k" "Suc n"] by simp
    ultimately show ?thesis by (subst fib_loop.simps(2)) simp
  qed
qed

lemma fib_fibonacci:
  "fib (int n) = (if fibonacci n < 2 ^ 31 then Inr (fibonacci n) else Inl Undefined)"
proof (cases n rule: fibonacci.cases)
  case (3 m)
  then have "nat (int n - 1) = Suc m" by simp
  then show ?thesis
    using 3 fib_loop_fibonacci [of m 0 0] by (simp add: fib_def del: fib_loop.simps(2))
qed (simp_all add: fib_def)

end
