(* ===== verification/Guest_Math.thy ===== *)
theory Guest_Math
  imports Prelude Complex_Main
begin

text \<open>
  The computations in floating point of \<open>src/examples/fantasy-computer/example/example.c\<close>:
  \<open>my_sqrt\<close>, \<open>my_abs\<close> and \<open>mandelbrot\<close>. The guest is built for a processor without floating point
  (\<open>rv32im\<close>), so each operation on a \<open>double\<close> is a call of the compiler's library: the operations
  are an argument. \<open>double_library\<close> states what the library is documented to do; \<open>rounded\<close> is an
  instance of it, and \<open>exact\<close> are the real numbers that both approximate.
\<close>

section \<open>The operations of the library\<close>

record 'd fp =
  fadd :: "'d \<Rightarrow> 'd \<Rightarrow> 'd"
  fsub :: "'d \<Rightarrow> 'd \<Rightarrow> 'd"
  fmul :: "'d \<Rightarrow> 'd \<Rightarrow> 'd"
  fdiv :: "'d \<Rightarrow> 'd \<Rightarrow> 'd"
  fgt :: "'d \<Rightarrow> 'd \<Rightarrow> bool"
  fle :: "'d \<Rightarrow> 'd \<Rightarrow> bool"
  of_integer :: "int \<Rightarrow> 'd"
  milli :: 'd
  to_i32 :: "'d \<Rightarrow> u32"
  to_u8 :: "'d \<Rightarrow> u8"

text \<open>
  The conversions to integers cut the fraction off. Beyond the range of the type they are undefined in C;
  what the instances below return there is of no importance.
\<close>

definition truncated :: "real \<Rightarrow> int" where
  "truncated x = (if x < 0 then \<lceil>x\<rceil> else \<lfloor>x\<rfloor>)"

text \<open>
  What the library is documented to do, which is IEEE arithmetic in double precision: \<open>val\<close> is the
  value of a finite \<open>double\<close>; an operation whose result is not near the overflow returns it rounded
  to the nearest (half a unit in the last of 53 places, and half of the smallest number near zero);
  comparisons of finite numbers, and small integers, are exact; the conversion to \<open>int\<close> is defined only
  where \<open>int\<close> has the result.
\<close>

definition near :: "('d \<Rightarrow> real option) \<Rightarrow> real \<Rightarrow> 'd \<Rightarrow> bool" where
  "near val y d \<longleftrightarrow> (\<exists>z. val d = Some z \<and> \<bar>z - y\<bar> \<le> \<bar>y\<bar> / 2 ^ 53 + 1 / 2 ^ 1075)"

definition double_library :: "'d fp \<Rightarrow> ('d \<Rightarrow> real option) \<Rightarrow> bool" where
  "double_library F val \<longleftrightarrow>
     (\<forall>a b x y. val a = Some x \<longrightarrow> val b = Some y \<longrightarrow>
        (\<bar>x + y\<bar> \<le> 2 ^ 1023 \<longrightarrow> near val (x + y) (fadd F a b)) \<and>
        (\<bar>x - y\<bar> \<le> 2 ^ 1023 \<longrightarrow> near val (x - y) (fsub F a b)) \<and>
        (\<bar>x * y\<bar> \<le> 2 ^ 1023 \<longrightarrow> near val (x * y) (fmul F a b)) \<and>
        (y \<noteq> 0 \<and> \<bar>x / y\<bar> \<le> 2 ^ 1023 \<longrightarrow> near val (x / y) (fdiv F a b)) \<and>
        (fgt F a b \<longleftrightarrow> x > y) \<and> (fle F a b \<longleftrightarrow> x \<le> y)) \<and>
     (\<forall>k. \<bar>k\<bar> < 2 ^ 32 \<longrightarrow> val (of_integer F k) = Some (of_int k)) \<and>
     near val (1 / 1000) (milli F) \<and>
     (\<forall>a x. val a = Some x \<longrightarrow> - (2 ^ 31) - 1 < x \<longrightarrow> x < 2 ^ 31 \<longrightarrow> to_i32 F a = word_of_int (truncated x))"

definition exact :: "real fp" where
  "exact = \<lparr>fadd = (+), fsub = (-), fmul = (*), fdiv = (/), fgt = (>), fle = (\<le>), of_integer = of_int,
     milli = 1 / 1000, to_i32 = (\<lambda>x. word_of_int (truncated x)), to_u8 = (\<lambda>x. word_of_int (truncated x))\<rparr>"

lemma exact_simps [simp]:
  "fadd exact = (+)" "fsub exact = (-)" "fmul exact = (*)" "fdiv exact = (/)" "fgt exact = (>)" "fle exact = (\<le>)"
  "of_integer exact k = of_int k" "milli exact = 1 / 1000"
  "to_u8 exact = (\<lambda>x. word_of_int (truncated x))" "to_i32 exact = (\<lambda>x. word_of_int (truncated x))"
  by (simp_all add: exact_def)

section \<open>Square roots\<close>

text \<open>The loop need not end for every library; \<open>None\<close> is a call that does not return.\<close>

partial_function (option) sqrt_loop :: "'d fp \<Rightarrow> 'd \<Rightarrow> 'd \<Rightarrow> 'd option" where
  "sqrt_loop F x guess =
     (if fgt F (fsub F (fmul F guess guess) x) (milli F)
      then sqrt_loop F x (fdiv F (fadd F guess (fdiv F x guess)) (of_integer F 2))
      else Some guess)"

text \<open>\<open>my_sqrt\<close> prints its argument as an \<open>int\<close> first: the result is what it prints and returns.\<close>

definition my_sqrt :: "'d fp \<Rightarrow> 'd \<Rightarrow> (u32 \<times> 'd) option" where
  "my_sqrt F x = map_option (\<lambda>guess. (to_i32 F x, guess)) (sqrt_loop F x (of_integer F 1))"

lemma newton_step:
  fixes g x :: real
  assumes "0 < g" "0 \<le> x" "x \<le> g * g"
  defines "h \<equiv> (g + x / g) / 2"
  shows "0 < h" "x \<le> h * h" "h * h - x \<le> (g * g - x) / 4"
proof -
  have h: "h = (g * g + x) / (2 * g)" using assms(1) by (simp add: h_def field_simps)
  show "0 < h" using assms(1,2) by (simp add: h add_pos_nonneg)
  have sq: "h * h - x = (g * g - x) * ((g * g - x) / (4 * (g * g)))"
    using assms(1) by (simp add: h field_simps)
  have q: "0 \<le> (g * g - x) / (4 * (g * g))" "(g * g - x) / (4 * (g * g)) \<le> 1 / 4"
    using assms(1-3) by (simp_all add: field_simps)
  have pos: "0 \<le> g * g - x" using assms(3) by simp
  have "0 \<le> h * h - x" unfolding sq by (rule mult_nonneg_nonneg [OF pos q(1)])
  moreover have "h * h - x \<le> (g * g - x) * (1 / 4)" unfolding sq by (rule mult_left_mono [OF q(2) pos])
  ultimately show "x \<le> h * h" "h * h - x \<le> (g * g - x) / 4" by simp_all
qed

text \<open>The error of an operation on the small numbers of the loop.\<close>

definition eps :: real where "eps = 1 / 10 ^ 15"

lemma eps_facts: "0 < eps" "eps < 1 / 1000000000000" "1 / 10 ^ 14 = 10 * eps"
  by (simp_all add: eps_def)

text \<open>A rounded result is off by \<open>10 ^ -15\<close> at most, on the small numbers of the loop.\<close>

lemma near_small:
  assumes "near val y d" "\<bar>y\<bar> \<le> 4"
  shows "\<exists>z. val d = Some z \<and> \<bar>z - y\<bar> \<le> eps"
proof -
  obtain z where z: "val d = Some z" "\<bar>z - y\<bar> \<le> \<bar>y\<bar> / 2 ^ 53 + 1 / 2 ^ 1075"
    using assms(1) by (auto simp: near_def)
  have "\<bar>y\<bar> / 2 ^ 53 \<le> 4 / 2 ^ 53" by (rule divide_right_mono [OF assms(2)]) simp
  moreover have "4 / 2 ^ 53 + 1 / 2 ^ 1075 \<le> eps" by (simp add: eps_def)
  ultimately have "\<bar>z - y\<bar> \<le> eps" using z(2) by (meson add_right_mono order_trans)
  with z(1) show ?thesis by blast
qed

lemma small_range: "\<bar>y\<bar> \<le> 4 \<Longrightarrow> \<bar>y\<bar> \<le> (2 ^ 1023 :: real)"
proof -
  have "(4 :: real) \<le> 2 ^ 1023" by simp
  then show "\<bar>y\<bar> \<le> 4 \<Longrightarrow> \<bar>y\<bar> \<le> (2 ^ 1023 :: real)" by (rule order_trans [rotated])
qed

lemma library_small:
  assumes "double_library F val" "val a = Some x" "val b = Some y"
  shows "\<bar>x + y\<bar> \<le> 4 \<Longrightarrow> \<exists>z. val (fadd F a b) = Some z \<and> \<bar>z - (x + y)\<bar> \<le> eps"
    and "\<bar>x - y\<bar> \<le> 4 \<Longrightarrow> \<exists>z. val (fsub F a b) = Some z \<and> \<bar>z - (x - y)\<bar> \<le> eps"
    and "\<bar>x * y\<bar> \<le> 4 \<Longrightarrow> \<exists>z. val (fmul F a b) = Some z \<and> \<bar>z - x * y\<bar> \<le> eps"
    and "y \<noteq> 0 \<Longrightarrow> \<bar>x / y\<bar> \<le> 4 \<Longrightarrow> \<exists>z. val (fdiv F a b) = Some z \<and> \<bar>z - x / y\<bar> \<le> eps"
  using assms unfolding double_library_def by (meson near_small small_range)+

lemma library_exact:
  assumes "double_library F val"
  shows "val (of_integer F 1) = Some 1" "val (of_integer F 2) = Some 2"
    and "val a = Some x \<Longrightarrow> val b = Some y \<Longrightarrow> fgt F a b \<longleftrightarrow> x > y"
    and "\<exists>z. val (milli F) = Some z \<and> \<bar>z - 1 / 1000\<bar> \<le> eps"
proof -
  have ints: "\<forall>k. \<bar>k\<bar> < 2 ^ 32 \<longrightarrow> val (of_integer F k) = Some (of_int k)" and m: "near val (1 / 1000) (milli F)"
    using assms by (simp_all add: double_library_def)
  show "val (of_integer F 1) = Some 1" "val (of_integer F 2) = Some 2"
    using ints [rule_format, of 1] ints [rule_format, of 2] by simp_all
  show "\<exists>z. val (milli F) = Some z \<and> \<bar>z - 1 / 1000\<bar> \<le> eps" using near_small [OF m] by simp
  show "val a = Some x \<Longrightarrow> val b = Some y \<Longrightarrow> fgt F a b \<longleftrightarrow> x > y"
    using assms by (simp add: double_library_def)
qed

text \<open>The test of the loop, and a round of it.\<close>

lemma sqrt_test:
  assumes F: "double_library F val" and x: "val x = Some v" "0 \<le> v" "v \<le> 1"
    and g: "val g = Some w" "0 < w" "w * w \<le> 2"
  shows "if fgt F (fsub F (fmul F g g) x) (milli F) then 1 / 1000 - 10 * eps \<le> w * w - v
    else w * w - v \<le> 1 / 1000 + 10 * eps"
proof -
  have pos: "0 < w * w" using g(2) by simp
  with g(3) obtain m where m: "val (fmul F g g) = Some m" "\<bar>m - w * w\<bar> \<le> eps"
    using library_small(3) [OF F g(1) g(1)] by auto
  with x(2,3) pos g(3) eps_facts(2) have "\<bar>m - v\<bar> \<le> 4" by linarith
  from library_small(2) [OF F m(1) x(1) this] obtain s
    where s: "val (fsub F (fmul F g g) x) = Some s" "\<bar>s - (m - v)\<bar> \<le> eps" by blast
  obtain k where k: "val (milli F) = Some k" "\<bar>k - 1 / 1000\<bar> \<le> eps"
    using library_exact(4) [OF F] by blast
  have "fgt F (fsub F (fmul F g g) x) (milli F) \<longleftrightarrow> s > k" by (rule library_exact(3) [OF F s(1) k(1)])
  with m(2) s(2) k(2) eps_facts(1) show ?thesis
    unfolding abs_le_iff by (cases "s > k") (simp_all only: if_True if_False, linarith+)
qed

lemma mean_error:
  fixes z a w q p e :: real
  assumes "\<bar>z - a / 2\<bar> \<le> e" "\<bar>a - (w + q)\<bar> \<le> e" "\<bar>q - p\<bar> \<le> e"
  shows "\<bar>z - (w + p) / 2\<bar> \<le> 2 * e"
  using assms unfolding abs_le_iff by (simp add: field_simps)

lemma mean_bounds:
  fixes w p :: real
  assumes "1 / 100 < w" "w < 3 / 2" "0 \<le> p" "p \<le> w"
  shows "1 / 200 < (w + p) / 2" "(w + p) / 2 < 3 / 2"
  using assms by simp_all

lemma quarter:
  "a \<le> e / 4 + 7 * eps \<Longrightarrow> e \<le> 1 \<Longrightarrow> a \<le> 1"
  "a \<le> e / 4 + 7 * eps \<Longrightarrow> e \<le> 4 * k + 10 * eps \<Longrightarrow> a \<le> k + 10 * eps"
  using eps_facts(1,2) by simp_all

lemma square_shift: "z * z = h * h + (z - h) * (2 * h + (z - h))" for z h :: real
  by (simp add: algebra_simps)

lemma error_added:
  fixes e v h k :: real
  assumes "\<bar>e\<bar> \<le> 7 * eps" "v \<le> h" "h - v \<le> k"
  shows "- (10 * eps) \<le> h + e - v" "h + e - v \<le> k + 7 * eps"
  using assms eps_facts(1) by (simp_all add: abs_le_iff)

lemma sqrt_round:
  assumes F: "double_library F val" and x: "val x = Some v" "0 \<le> v" "v \<le> 1"
    and g: "val g = Some w" "0 < w" "w * w \<le> 2" "9 / 10000 \<le> w * w - v"
  shows "\<exists>z. val (fdiv F (fadd F g (fdiv F x g)) (of_integer F 2)) = Some z \<and> 0 < z
    \<and> - (10 * eps) \<le> z * z - v \<and> z * z - v \<le> (w * w - v) / 4 + 7 * eps"
proof -
  let ?h = "(w + v / w) / 2"
  have "w < 3 / 2"
  proof (rule ccontr)
    assume "\<not> w < 3 / 2"
    then have "3 / 2 * (3 / 2) \<le> w * w" by (intro mult_mono) simp_all
    with g(3) show False by simp
  qed
  moreover have "1 / 100 < w"
  proof (rule ccontr)
    assume "\<not> 1 / 100 < w"
    then have "w * w \<le> 1 / 100 * (1 / 100)" using g(2) by (intro mult_mono) simp_all
    with g(4) x(2) show False by simp
  qed
  moreover have "0 \<le> v / w" "v / w \<le> w" using g(2,4) x(2) by (simp_all add: field_simps)
  ultimately have bounds: "1 / 100 < w" "w < 3 / 2" "0 \<le> v / w" "v / w \<le> w" by simp_all
  then have "\<bar>v / w\<bar> \<le> 4" by linarith
  with g(2) obtain q where q: "val (fdiv F x g) = Some q" "\<bar>q - v / w\<bar> \<le> eps"
    using library_small(4) [OF F x(1) g(1)] by blast
  with bounds eps_facts(2) have "\<bar>w + q\<bar> \<le> 4" by linarith
  from library_small(1) [OF F g(1) q(1) this] obtain a
    where a: "val (fadd F g (fdiv F x g)) = Some a" "\<bar>a - (w + q)\<bar> \<le> eps" by blast
  with \<open>\<bar>w + q\<bar> \<le> 4\<close> eps_facts(2) have "\<bar>a / 2\<bar> \<le> 4" by linarith
  from library_small(4) [OF F a(1) library_exact(2) [OF F] _ this] obtain z
    where z: "val (fdiv F (fadd F g (fdiv F x g)) (of_integer F 2)) = Some z" "\<bar>z - a / 2\<bar> \<le> eps" by auto
  define d where "d = z - ?h"
  have d: "\<bar>d\<bar> \<le> 2 * eps" unfolding d_def by (rule mean_error [OF z(2) a(2) q(2)])
  have h: "1 / 200 < ?h" "?h < 3 / 2" using mean_bounds [OF bounds] by simp_all
  with d eps_facts(2) have "\<bar>2 * ?h + d\<bar> \<le> 31 / 10" by linarith
  with d have "\<bar>d * (2 * ?h + d)\<bar> \<le> 2 * eps * (31 / 10)"
    unfolding abs_mult using eps_facts(1) by (intro mult_mono) simp_all
  then have err: "\<bar>d * (2 * ?h + d)\<bar> \<le> 7 * eps"
    by (rule order_trans) (use eps_facts(1) in simp)
  have sq: "z * z = ?h * ?h + d * (2 * ?h + d)" unfolding d_def by (rule square_shift)
  note newton = newton_step [OF g(2) x(2)]
  have "v \<le> ?h * ?h" "?h * ?h - v \<le> (w * w - v) / 4" using newton(2,3) g(4) by simp_all
  from error_added [OF err this]
  have "- (10 * eps) \<le> z * z - v" "z * z - v \<le> (w * w - v) / 4 + 7 * eps" unfolding sq .
  moreover have "0 < z"
    using h(1) d eps_facts(2) unfolding d_def by linarith
  ultimately show ?thesis using z(1) by blast
qed

text \<open>Each round divides the error by four, so seven tests are enough from the first guess.\<close>

lemma sqrt_loop_double:
  assumes F: "double_library F val" and x: "val x = Some v" "0 \<le> v" "v \<le> 1"
    and g: "val g = Some w" "0 < w" "- (10 * eps) \<le> w * w - v" "w * w - v \<le> 1"
    and n: "w * w - v \<le> 4 ^ n * (9 / 10000) + 10 * eps"
  shows "\<exists>h z. sqrt_loop F x g = Some h \<and> val h = Some z \<and> 0 < z
    \<and> - (10 * eps) \<le> z * z - v \<and> z * z - v \<le> 1 / 1000 + 10 * eps"
  using g n
proof (induction n arbitrary: g w)
  case (0 g w)
  then have "w * w \<le> 2" using x(3) by simp
  note test = sqrt_test [OF F x "0.prems"(1,2) this]
  have "\<not> 1 / 1000 - 10 * eps \<le> w * w - v" using "0.prems"(5) eps_facts(2) by simp
  with test "0.prems" show ?case by (subst sqrt_loop.simps) (auto split: if_splits)
next
  case (Suc n g w)
  then have small: "w * w \<le> 2" using x(3) by simp
  note test = sqrt_test [OF F x Suc.prems(1,2) small]
  show ?case
  proof (cases "fgt F (fsub F (fmul F g g) x) (milli F)")
    case False
    with test Suc.prems show ?thesis by (subst sqrt_loop.simps) auto
  next
    case True
    let ?g = "fdiv F (fadd F g (fdiv F x g)) (of_integer F 2)"
    from True test eps_facts(2) have "9 / 10000 \<le> w * w - v" by simp
    from sqrt_round [OF F x Suc.prems(1,2) small this] obtain z where z: "val ?g = Some z" "0 < z"
      "- (10 * eps) \<le> z * z - v" "z * z - v \<le> (w * w - v) / 4 + 7 * eps" by blast
    moreover have "z * z - v \<le> 1" by (rule quarter(1) [OF z(4) Suc.prems(4)])
    moreover have "z * z - v \<le> 4 ^ n * (9 / 10000) + 10 * eps"
      using Suc.prems(5) by (intro quarter(2) [OF z(4)]) simp
    ultimately show ?thesis using Suc.IH [of ?g z] True by (subst sqrt_loop.simps) simp
  qed
qed

lemma sqrt_loop_large:
  assumes F: "double_library F val" and x: "val x = Some v" "1 < v" "v < 2 ^ 31"
  shows "sqrt_loop F x (of_integer F 1) = Some (of_integer F 1)"
proof -
  let ?one = "of_integer F 1"
  obtain m where m: "val (fmul F ?one ?one) = Some m" "\<bar>m - 1\<bar> \<le> eps"
    using library_small(3) [OF F library_exact(1) [OF F] library_exact(1) [OF F]] by auto
  obtain k where k: "val (milli F) = Some k" "\<bar>k - 1 / 1000\<bar> \<le> eps"
    using library_exact(4) [OF F] by blast
  have "v < 2147483648" using x(3) by simp
  with m(2) x(2) eps_facts(2) have "\<bar>m - v\<bar> \<le> 4294967296" by linarith
  then have range: "\<bar>m - v\<bar> \<le> 2 ^ 32" by simp
  moreover have "(2 ^ 32 :: real) \<le> 2 ^ 1023" by simp
  ultimately have "\<bar>m - v\<bar> \<le> 2 ^ 1023" by (rule order_trans)
  then have "near val (m - v) (fsub F (fmul F ?one ?one) x)"
    using F m(1) x(1) unfolding double_library_def by blast
  then obtain s where s: "val (fsub F (fmul F ?one ?one) x) = Some s"
      "\<bar>s - (m - v)\<bar> \<le> \<bar>m - v\<bar> / 2 ^ 53 + 1 / 2 ^ 1075" by (auto simp: near_def)
  have "s \<le> 1 / 10000"
  proof -
    have "\<bar>m - v\<bar> / 2 ^ 53 \<le> 2 ^ 32 / 2 ^ 53" using range by (rule divide_right_mono) simp
    moreover have "2 ^ 32 / 2 ^ 53 + 1 / 2 ^ 1075 \<le> (1 / 100000 :: real)" by simp
    ultimately have "\<bar>s - (m - v)\<bar> \<le> 1 / 100000" using s(2) by (meson add_right_mono order_trans)
    then show ?thesis using m(2) x(2) eps_facts(2) by linarith
  qed
  then have "\<not> fgt F (fsub F (fmul F ?one ?one) x) (milli F)"
    using library_exact(3) [OF F s(1) k(1)] k(2) eps_facts(2) by linarith
  then show ?thesis by (subst sqrt_loop.simps) simp
qed

text \<open>
  C38. The square root, with any library of IEEE double arithmetic (\<open>double_library\<close>: every result is the
  rounded one) and for every argument from 0 to what an \<open>int\<close> holds, beyond which the conversion for
  \<open>print_int\<close> is undefined. The call prints the argument without its fraction and returns. Up to 1
  its result is a root: the square is above the argument by a thousandth at most, up to the rounding, which
  stays below \<open>10 ^ -14\<close>. Above 1 it is always the first guess, 1: the test compares
  \<open>guess * guess - x\<close> without its absolute value, so the loop does not start.
\<close>

theorem my_sqrt_double:
  assumes "double_library F val" "val x = Some v" "0 \<le> v" "v < 2 ^ 31"
  shows "\<exists>g w. my_sqrt F x = Some (word_of_int \<lfloor>v\<rfloor>, g) \<and> val g = Some w
    \<and> (if v \<le> 1 then 0 < w \<and> v - 1 / 10 ^ 14 \<le> w * w \<and> w * w \<le> v + 1 / 1000 + 1 / 10 ^ 14 else w = 1)"
proof -
  have "to_i32 F x = word_of_int (truncated v)"
    using assms unfolding double_library_def by (auto simp: algebra_simps)
  then have printed: "to_i32 F x = word_of_int \<lfloor>v\<rfloor>" using assms(3) by (simp add: truncated_def)
  note one = library_exact(1) [OF assms(1)]
  show ?thesis
  proof (cases "v \<le> 1")
    case True
    have "4 ^ 6 * (9 / 10000) + 10 * eps \<ge> (1 :: real)" using eps_facts(1) by simp
    with True assms(3) eps_facts(1) sqrt_loop_double [OF assms(1-3) True one, of 6] obtain g w where
      "sqrt_loop F x (of_integer F 1) = Some g" "val g = Some w" "0 < w"
      "- (10 * eps) \<le> w * w - v" "w * w - v \<le> 1 / 1000 + 10 * eps" by auto
    with True printed show ?thesis by (intro exI [of _ g] exI [of _ w]) (simp add: my_sqrt_def eps_def)
  next
    case False
    with sqrt_loop_large [OF assms(1,2) _ assms(4)] printed one show ?thesis by (simp add: my_sqrt_def)
  qed
qed

text \<open>
  A library that rounds every result to 53 binary places, to the nearest, with no least exponent and no
  greatest one.
\<close>

definition round53 :: "real \<Rightarrow> real" where
  "round53 y = (if y = 0 then 0
     else let u = 2 powr (of_int \<lfloor>log 2 \<bar>y\<bar>\<rfloor> - 52) in of_int (round (y / u)) * u)"

definition rounded :: "real fp" where
  "rounded = \<lparr>fadd = (\<lambda>x y. round53 (x + y)), fsub = (\<lambda>x y. round53 (x - y)), fmul = (\<lambda>x y. round53 (x * y)),
     fdiv = (\<lambda>x y. round53 (x / y)), fgt = (>), fle = (\<le>), of_integer = of_int, milli = round53 (1 / 1000),
     to_i32 = (\<lambda>x. word_of_int (truncated x)), to_u8 = (\<lambda>x. word_of_int (truncated x))\<rparr>"

lemma round53_error: "\<bar>round53 y - y\<bar> \<le> \<bar>y\<bar> / 2 ^ 53"
proof (cases "y = 0")
  case True
  then show ?thesis by (simp add: round53_def)
next
  case False
  define e where "e = \<lfloor>log 2 \<bar>y\<bar>\<rfloor>"
  define u where "u = 2 powr (of_int e - 52 :: real)"
  have u: "0 < u" by (simp add: u_def)
  have "2 powr of_int e \<le> 2 powr (log 2 \<bar>y\<bar>)" by (simp add: e_def)
  then have size: "u \<le> \<bar>y\<bar> / 2 ^ 52"
    using False by (simp add: u_def powr_diff powr_numeral)
  have "round53 y - y = (of_int (round (y / u)) - y / u) * u"
    using False u by (simp add: round53_def e_def [symmetric] u_def [symmetric] left_diff_distrib)
  then have "\<bar>round53 y - y\<bar> = \<bar>of_int (round (y / u)) - y / u\<bar> * u" using u by (simp add: abs_mult)
  also have "\<dots> \<le> 1 / 2 * u" using of_int_round_abs_le [of "y / u"] u by (intro mult_right_mono) simp_all
  also have "\<dots> \<le> \<bar>y\<bar> / 2 ^ 53" using size by simp
  finally show ?thesis .
qed

lemma near_round53: "near Some y (round53 y)"
  using round53_error [of y] by (simp add: near_def add_increasing2)

lemma rounded_library: "double_library rounded Some"
  by (simp add: double_library_def rounded_def near_round53)

theorem my_sqrt_double_witness:
  "\<exists>g. my_sqrt rounded (1 / 4) = Some (0, g) \<and> 1 / 4 - 1 / 10 ^ 14 \<le> g * g \<and> g * g \<le> 1 / 4 + 1 / 1000 + 1 / 10 ^ 14"
  using my_sqrt_double [OF rounded_library, of "1 / 4" "1 / 4"] by auto


section \<open>The Mandelbrot set\<close>

definition my_abs :: "'d fp \<Rightarrow> 'd \<Rightarrow> 'd \<Rightarrow> 'd" where
  "my_abs F x y = fadd F (fmul F x x) (fmul F y y)"

definition max_iter :: nat where "max_iter = 80"

text \<open>The body of the loop; the second assignment reads the new \<open>zx\<close>.\<close>

definition mandel_step :: "'d fp \<Rightarrow> 'd \<Rightarrow> 'd \<Rightarrow> 'd \<times> 'd \<Rightarrow> 'd \<times> 'd" where
  "mandel_step F cx cy z =
     (let zx = fadd F (fsub F (fmul F (fst z) (fst z)) (fmul F (snd z) (snd z))) cx;
          zy = fadd F (fmul F (fmul F (of_integer F 2) zx) (snd z)) cy
      in (zx, zy))"

function mandel_loop :: "'d fp \<Rightarrow> 'd \<Rightarrow> 'd \<Rightarrow> nat \<Rightarrow> 'd \<times> 'd \<Rightarrow> nat" where
  "mandel_loop F cx cy i z =
     (if fle F (my_abs F (fst z) (snd z)) (of_integer F 4) \<and> i < max_iter
      then mandel_loop F cx cy (Suc i) (mandel_step F cx cy z)
      else i)"
  by pat_completeness auto
termination
  by (relation "measure (\<lambda>(F, cx, cy, i, z). max_iter - i)") auto

declare mandel_loop.simps [simp del]

definition mandelbrot :: "'d fp \<Rightarrow> 'd \<Rightarrow> 'd \<Rightarrow> nat" where
  "mandelbrot F cx cy = mandel_loop F cx cy 0 (of_integer F 0, of_integer F 0)"

text \<open>The specification: the points that the step visits, and the first one outside the circle.\<close>

definition orbit :: "'d fp \<Rightarrow> 'd \<Rightarrow> 'd \<Rightarrow> nat \<Rightarrow> 'd \<times> 'd" where
  "orbit F cx cy n = (mandel_step F cx cy ^^ n) (of_integer F 0, of_integer F 0)"

definition inside :: "'d fp \<Rightarrow> 'd \<times> 'd \<Rightarrow> bool" where
  "inside F z \<longleftrightarrow> fle F (my_abs F (fst z) (snd z)) (of_integer F 4)"

lemma mandel_loop_escape:
  assumes "i \<le> max_iter" "\<forall>j < i. inside F (orbit F cx cy j)" "k = mandel_loop F cx cy i (orbit F cx cy i)"
  shows "k \<le> max_iter \<and> (\<forall>j < k. inside F (orbit F cx cy j)) \<and> (k < max_iter \<longrightarrow> \<not> inside F (orbit F cx cy k))"
  using assms
proof (induction "max_iter - i" arbitrary: i)
  case 0
  then have "i = max_iter" by simp
  with "0.prems" have "k = max_iter" by (simp add: mandel_loop.simps [of F cx cy max_iter])
  with "0.prems"(2) \<open>i = max_iter\<close> show ?case by simp
next
  case (Suc d)
  show ?case
  proof (cases "inside F (orbit F cx cy i) \<and> i < max_iter")
    case False
    then have "k = i" using Suc.prems(3) by (auto simp: mandel_loop.simps [of F cx cy i] inside_def)
    with False Suc.prems show ?thesis by auto
  next
    case True
    moreover have "orbit F cx cy (Suc i) = mandel_step F cx cy (orbit F cx cy i)" by (simp add: orbit_def)
    ultimately have "k = mandel_loop F cx cy (Suc i) (orbit F cx cy (Suc i))"
      using Suc.prems(3) by (simp add: mandel_loop.simps [of F cx cy i] inside_def)
    then show ?thesis
      using True Suc.prems(2) Suc.hyps(2) by (intro Suc.hyps(1)) (auto simp: less_Suc_eq)
  qed
qed

lemma mandelbrot_escape:
  "k = mandelbrot F cx cy \<Longrightarrow>
   k \<le> max_iter \<and> (\<forall>j < k. inside F (orbit F cx cy j)) \<and> (k < max_iter \<longrightarrow> \<not> inside F (orbit F cx cy k))"
  using mandel_loop_escape [of 0 F cx cy k] by (simp add: mandelbrot_def orbit_def)

text \<open>In exact arithmetic a step should be the one of the complex polynomial.\<close>

lemma mandel_step_complex:
  "Complex (fst (mandel_step exact cx cy z)) (snd (mandel_step exact cx cy z)) = Complex (fst z) (snd z) ^ 2 + Complex cx cy
   \<longleftrightarrow> snd z = 0 \<or> fst (mandel_step exact cx cy z) = fst z"
proof -
  obtain x y where z: "z = (x, y)" by (cases z)
  have re: "fst (mandel_step exact cx cy z) = x * x - y * y + cx"
    and im: "snd (mandel_step exact cx cy z) = 2 * fst (mandel_step exact cx cy z) * y + cy"
    by (simp_all add: mandel_step_def z Let_def)
  have "Complex x y ^ 2 + Complex cx cy = Complex (x * x - y * y + cx) (2 * x * y + cy)"
    by (simp add: complex_eq_iff power2_eq_square)
  moreover have "2 * a * y + cy = 2 * x * y + cy \<longleftrightarrow> y = 0 \<or> a = x" for a by simp
  ultimately show ?thesis by (simp only: z fst_conv snd_conv complex.inject im [unfolded z] re [unfolded z] simp_thms)
qed

text \<open>
  The rounds that \<open>mandelbrot\<close> counts, for any library of operations: at most 80, every point
  before the result lies in the circle of radius 2, and with fewer rounds the last one lies outside.
  The points are not those of the Mandelbrot set: the step computes \<open>z * z + c\<close>, in exact arithmetic,
  only where the imaginary part is zero or the real part does not change, since it uses the new real
  part for the imaginary one.
\<close>

lemma mandelbrot_rounds:
  "(let k = mandelbrot F cx cy
    in k \<le> max_iter \<and> (\<forall>j < k. inside F (orbit F cx cy j)) \<and> (k < max_iter \<longrightarrow> \<not> inside F (orbit F cx cy k)))
    \<and> (let z' = mandel_step exact u v z
       in Complex (fst z') (snd z') = Complex (fst z) (snd z) ^ 2 + Complex u v \<longleftrightarrow> snd z = 0 \<or> fst z' = fst z)"
  unfolding Let_def using mandelbrot_escape [OF refl, of F cx cy] mandel_step_complex [of u v z] by blast

lemma mandelbrot_rounds_witness:
  "mandelbrot exact (3 / 4) 1 \<le> max_iter
   \<and> (let z' = mandel_step exact (3 / 4) 1 (3 / 4, 1) in Complex (fst z') (snd z') \<noteq> Complex (3 / 4) 1 ^ 2 + Complex (3 / 4) 1)"
proof -
  have "fst (mandel_step exact (3 / 4) 1 (3 / 4, 1)) \<noteq> 3 / 4" by (simp add: mandel_step_def)
  with mandelbrot_rounds [of exact "3 / 4" 1 "3 / 4" 1 "(3 / 4, 1)"] show ?thesis by (auto simp: Let_def)
qed

text \<open>At this point the set is left after two rounds, and the code counts three.\<close>

lemma mandelbrot_miscounts:
  "mandelbrot exact (3 / 4) 1 = 3" "4 < (cmod (Complex (3 / 4) 1 ^ 2 + Complex (3 / 4) 1))\<^sup>2"
proof -
  show "mandelbrot exact (3 / 4) 1 = 3"
    by (simp add: mandelbrot_def max_iter_def mandel_loop.simps my_abs_def mandel_step_def)
  have "Complex (3 / 4) 1 ^ 2 + Complex (3 / 4) 1 = Complex (5 / 16) (5 / 2)"
    by (simp add: complex_eq_iff power2_eq_square)
  then show "4 < (cmod (Complex (3 / 4) 1 ^ 2 + Complex (3 / 4) 1))\<^sup>2"
    by (simp only: cmod_power2) (simp add: power2_eq_square)
qed

end
