(* ===== verification/Guest_Asm.thy ===== *)
theory Guest_Asm
  imports Control_Properties Fantasy_Properties Arduino
begin

text \<open>
  The inline assembly of the demonstration guests (\<open>src/examples/c\<close> and
  \<open>src/examples/fantasy-computer\<close>) as the instructions the assembler makes of it, and what a machine
  does when it reaches them. The calling convention of the compiler is the state of the registers
  before a block: the arguments of a wrapper lie in \<open>a0\<close>, \<open>a1\<close> and so on.
\<close>

section \<open>Blocks of instructions\<close>

datatype asm = Insn instr | Ecall | Wfi

primrec asm_word :: "asm \<Rightarrow> u32" where
  "asm_word (Insn i) = encode i"
| "asm_word Ecall = 0x73"
| "asm_word Wfi = i_type 0x73 0 0 0 0x105"

text \<open>The pseudo-instruction \<open>li\<close>: one instruction for a small constant, two for \<open>0x800\<close>.\<close>

definition li :: "5 word \<Rightarrow> 12 word \<Rightarrow> asm list" where
  "li rd k = [Insn (OpImm Addi rd 0 k)]"

definition li_0x800 :: "5 word \<Rightarrow> asm list" where
  "li_0x800 rd = [Insn (Lui rd 1), Insn (OpImm Addi rd rd 0x800)]"

abbreviation "a0 \<equiv> 10 :: 5 word"
abbreviation "a7 \<equiv> 17 :: 5 word"
abbreviation "t0 \<equiv> 5 :: 5 word"

text \<open>The wrappers: the number of the call in \<open>a7\<close>, then the call.\<close>

definition print_int_asm :: "asm list" where "print_int_asm = li a7 2 @ [Ecall]"

text \<open>The answer in \<open>a0\<close> is stored to the variable \<open>res\<close>, which lies at an offset from a register.\<close>

definition get_screen_width_asm :: "5 word \<Rightarrow> 12 word \<Rightarrow> asm list" where
  "get_screen_width_asm base off = li a7 3 @ [Ecall, Insn (Store Sw base a0 off)]"

definition get_screen_height_asm :: "5 word \<Rightarrow> 12 word \<Rightarrow> asm list" where
  "get_screen_height_asm base off = li a7 4 @ [Ecall, Insn (Store Sw base a0 off)]"

definition render_asm :: "asm list" where "render_asm = li a7 5 @ [Ecall]"
definition draw_rectangle_asm :: "asm list" where "draw_rectangle_asm = li a7 6 @ [Ecall]"
definition draw_char_asm :: "asm list" where "draw_char_asm = li a7 7 @ [Ecall]"

text \<open>
  The last three statements of \<open>interrupt_handler\<close>, which are assembly: they clear the external bit of
  \<open>mip\<close> and return. What stands before them is the compiler's: the entry of the function and the call
  of \<open>print_int(42)\<close>, or its body. Then the statements by which \<open>main\<close> turns interrupts on;
  \<open>handler\<close> is the register that holds the address of the handler.
\<close>

definition interrupt_handler_tail :: "asm list" where
  "interrupt_handler_tail = li_0x800 t0 @ [Insn (Csr Csrrc 0 t0 0x344), Insn Mret]"

definition enable_interrupts_asm :: "5 word \<Rightarrow> asm list" where
  "enable_interrupts_asm handler = [Insn (Csr Csrrw 0 handler 0x305)] @ li_0x800 t0
     @ [Insn (Csr Csrrs 0 t0 0x304), Insn (CsrImm Csrrs 0 8 0x300)]"

section \<open>A machine at a block\<close>

definition word_at :: "rv32 \<Rightarrow> u32 \<Rightarrow> u32 \<Rightarrow> bool" where
  "word_at s a x \<longleftrightarrow> unat a + 4 \<le> unat (mem_size s) \<and> mem_get 4 (mem s) (unat a) = Some x"

fun block_at :: "rv32 \<Rightarrow> u32 \<Rightarrow> asm list \<Rightarrow> bool" where
  "block_at s a [] \<longleftrightarrow> True"
| "block_at s a (i # is) \<longleftrightarrow> word_at s a (asm_word i) \<and> block_at s (a + 4) is"

text \<open>Nothing holds the machine back: it runs, has no breakpoints, and no interrupt is deliverable.\<close>

definition awake :: "rv32 \<Rightarrow> bool" where
  "awake s \<longleftrightarrow> wf_rv32 s \<and> status s = RV32_RUNNING \<and> wfi s = 0 \<and> bp_mask s = 0
     \<and> \<not> (bit (mstatus s) CSR_MSTATUS_MIE \<and> mie s AND mip s \<noteq> 0)"

lemma block_at_cong: "mem t = mem s \<Longrightarrow> mem_size t = mem_size s \<Longrightarrow> block_at t a is = block_at s a is"
  by (induction "is" arbitrary: a) (simp_all add: word_at_def)

lemma awake_length: "awake s \<Longrightarrow> length (r s) = 32"
  by (simp add: awake_def wf_rv32_def)

lemma awake_quiet: "awake s \<Longrightarrow> deliver_interrupt s = s"
  by (auto simp: awake_def deliver_interrupt_def)

text \<open>A cycle at a word in RAM executes it.\<close>

lemma cycle_at:
  assumes "awake s" "word_at s (pc s) x"
  shows "rv32_cycle p (s, w) = rv32_execute p x (write_reg 0 0 s, w)"
proof -
  have "rv32_load32 p (s, w) (pc s) = Inr (RV32_OK x, (s, w))"
    using load32_in_ram [of s "pc s" p w] assms by (simp add: awake_def word_at_def)
  with assms(1) awake_quiet [OF assms(1)] show ?thesis
    by (simp add: rv32_cycle_def awake_def breakpoint_hit_def)
qed

text \<open>The instructions of the blocks, on a machine whose register zero was just cleared.\<close>

lemma execute_li:
  assumes "r s ! 0 = 0"
  shows "rv32_execute p (encode (OpImm Addi rd 0 k)) (s, w) = Inr (advance 4 (write_reg (ucast rd) (scast k) s), w)"
  using assms op_imm_isa [of Addi rd 0 k 0]
  by (simp add: rv32_execute_def decode exec_op_imm_def imm_result_def read_reg_def)

lemma execute_addi:
  assumes "r s ! unat rs = x"
  shows "rv32_execute p (encode (OpImm Addi rd rs k)) (s, w) = Inr (advance 4 (write_reg (ucast rd) (x + scast k) s), w)"
  using assms op_imm_isa [of Addi rd rs k x]
  by (simp add: rv32_execute_def decode exec_op_imm_def imm_result_def read_reg_def)

lemma execute_lui:
  "rv32_execute p (encode (Lui rd k)) (s, w) = Inr (advance 4 (write_reg (ucast rd) (push_bit 12 (ucast k)) s), w)"
  by (simp add: rv32_execute_def decode exec_lui_def)

lemma execute_ecall: "rv32_execute p 0x73 v = Inr (exec_ecall p v)"
  by (simp add: rv32_execute_def exec_system_def OPCODE_def FUNCT3_def IMM_I_def)

lemma execute_csr:
  "rv32_execute p (encode (Csr f rd rs k)) (s, w) = Inr (advance 4 (write_reg (ucast rd) (rv32_read_csr s (ucast k))
     (rv32_write_csr s (ucast k) (isa_csr f (rv32_read_csr s (ucast k)) (r s ! unat rs)))), w)"
  by (cases f) (simp_all add: rv32_execute_def exec_system_def decode exec_csr_def csr_value_def read_reg_def Let_def)

lemma execute_csr_imm:
  "rv32_execute p (encode (CsrImm f rd z k)) (s, w) = Inr (advance 4 (write_reg (ucast rd) (rv32_read_csr s (ucast k))
     (rv32_write_csr s (ucast k) (isa_csr f (rv32_read_csr s (ucast k)) (ucast z)))), w)"
  by (cases f) (simp_all add: rv32_execute_def exec_system_def decode exec_csr_def csr_value_def read_reg_def Let_def)

lemma execute_mret: "rv32_execute p (encode Mret) (s, w) = Inr (exec_mret s, w)"
  by (simp add: rv32_execute_def exec_system_def decode)


section \<open>System calls\<close>

text \<open>The machine at the call itself: the number in \<open>a7\<close>, and everything else as before.\<close>

definition at_call :: "12 word \<Rightarrow> rv32 \<Rightarrow> rv32" where
  "at_call k s = s\<lparr>r := (r s)[0 := 0, 17 := scast k], pc := pc s + 4\<rparr>"

lemma at_call_li: "advance 4 (write_reg (ucast a7) (scast k) (write_reg 0 0 s)) = at_call k s"
  by (simp add: at_call_def write_reg_def advance_def)

lemma at_call_clear: "write_reg 0 0 (at_call k s) = at_call k s"
  by (simp add: at_call_def write_reg_def list_update_swap [of 0 17])

lemma awake_at_call: "awake s \<Longrightarrow> awake (at_call k s)"
  by (simp add: awake_def at_call_def wf_rv32_def)

lemma at_call_regs:
  assumes "awake s"
  shows "r (at_call k s) ! 17 = scast k" "i \<noteq> 17 \<Longrightarrow> i \<noteq> 0 \<Longrightarrow> r (at_call k s) ! i = r s ! i"
  using awake_length [OF assms] by (simp_all add: at_call_def)

lemma li_cycle:
  assumes "awake s" "block_at s (pc s) (li rd k)"
  shows "rv32_cycle p (s, w) = Inr (advance 4 (write_reg (ucast rd) (scast k) (write_reg 0 0 s)), w)"
proof -
  have "r (write_reg 0 0 s) ! 0 = 0" using awake_length [OF assms(1)] by (simp add: write_reg_def)
  with assms show ?thesis by (simp add: cycle_at li_def execute_li del: encode.simps)
qed

lemma ecall_cycle:
  "awake s \<Longrightarrow> word_at s (pc s) 0x73 \<Longrightarrow> rv32_cycle p (s, w) = Inr (exec_ecall p (write_reg 0 0 s, w))"
  by (simp add: cycle_at execute_ecall)

lemma guest_system_call_aux:
  assumes "awake s" "block_at s (pc s) (li a7 k @ [Ecall])"
  shows "rv32_run p 2 (s, w) = Inr (exec_ecall p (at_call k s, w))"
proof -
  have two: "2 = Suc (Suc 0)" by simp
  have "block_at s (pc s) (li a7 k)" and "word_at s (pc s + 4) 0x73"
    using assms(2) by (simp_all add: li_def del: encode.simps)
  then have li: "rv32_cycle p (s, w) = Inr (at_call k s, w)" and "word_at (at_call k s) (pc (at_call k s)) 0x73"
    using li_cycle [OF assms(1), of a7 k p w] by (simp only: at_call_li, simp add: at_call_def word_at_def)
  from ecall_cycle [OF awake_at_call [OF assms(1)] this(2), of p w]
  show ?thesis by (simp only: two rv32_run.simps li bind_run_simps at_call_clear)
qed

text \<open>
  The system call of the guests, two instructions in line, on any embedder: after two cycles
  the embedder has been called once, with the number in \<open>a7\<close>, the arguments where the caller put
  them and the memory unchanged, and the guest continues after the call, or where the embedder
  stopped it.
\<close>

lemma guest_system_call:
  assumes "awake s" "block_at s (pc s) (li a7 k @ [Ecall])"
  shows "rv32_run p 2 (s, w) = Inr (exec_ecall p (at_call k s, w))
    \<and> r (at_call k s) ! 17 = scast k \<and> (\<forall>i \<in> {10..16}. r (at_call k s) ! i = r s ! i)
    \<and> mem (at_call k s) = mem s \<and> pc (at_call k s) = pc s + 4"
  using guest_system_call_aux [OF assms, of p w] at_call_regs [OF assms(1), where k = k]
  by (simp add: at_call_def)


text \<open>The machine after a call that gives no answer.\<close>

definition after_call :: "12 word \<Rightarrow> rv32 \<Rightarrow> rv32" where
  "after_call k s = (at_call k s)\<lparr>pc := pc s + 8\<rparr>"

lemma exec_ecall_returns:
  "ecall p (at_call k s, w) = (at_call k s, w') \<Longrightarrow> status s = RV32_RUNNING \<Longrightarrow>
   exec_ecall p (at_call k s, w) = (after_call k s, w')"
  by (simp add: exec_ecall_def Let_def advance_def after_call_def) (simp add: at_call_def)

lemma wrapper_run:
  assumes "awake s" "block_at s (pc s) (li a7 k @ [Ecall])" "ecall p (at_call k s, w) = (at_call k s, w')"
  shows "rv32_run p 2 (s, w) = Inr (after_call k s, w')"
  using guest_system_call_aux [OF assms(1,2), of p w] exec_ecall_returns [OF assms(3)] assms(1)
  by (simp add: awake_def)

lemma at_call_arguments:
  assumes "awake s"
  shows "r (at_call k s) ! 10 = r s ! 10" "r (at_call k s) ! 11 = r s ! 11" "r (at_call k s) ! 12 = r s ! 12"
    "r (at_call k s) ! 13 = r s ! 13" "r (at_call k s) ! 14 = r s ! 14"
  using at_call_regs(2) [OF assms] by simp_all

lemma guest_wrappers_print:
  assumes "awake s" "block_at s (pc s) print_int_asm"
  shows "rv32_run fantasy_platform 2 (s, w) = Inr (after_call 2 s, print_screen (format_d (r s ! 10) @ newline) w)"
  by (rule wrapper_run [OF assms(1)])
    (use assms in \<open>simp_all add: print_int_asm_def at_call_regs at_call_arguments fantasy_ecall_def\<close>)

text \<open>
  C34. The wrappers of the guests, on the console with the screen and on the board: \<open>print_int\<close>
  prints its argument in decimal, \<open>render\<close> asks for a frame or shows it, and \<open>draw_rectangle\<close> and
  \<open>draw_char\<close> draw with their arguments on the board and do nothing on the console, which does not
  know them. Every wrapper returns to the next instruction, having changed \<open>a7\<close> only.
\<close>

theorem guest_wrappers:
  assumes "awake s"
  shows "(block_at s (pc s) print_int_asm \<longrightarrow>
        rv32_run fantasy_platform 2 (s, w) = Inr (after_call 2 s, print_screen (format_d (r s ! 10) @ newline) w)
      \<and> rv32_run (board_platform lib) 2 (s, b) = Inr (after_call 2 s, print_console (format_d (r s ! 10) @ newline) b))
    \<and> (block_at s (pc s) render_asm \<longrightarrow>
        rv32_run fantasy_platform 2 (s, w) = Inr (after_call 5 s, w\<lparr>render := True\<rparr>)
      \<and> rv32_run (board_platform lib) 2 (s, b) = Inr (after_call 5 s, b\<lparr>panel := sprite b\<rparr>))
    \<and> (block_at s (pc s) draw_rectangle_asm \<longrightarrow>
        rv32_run fantasy_platform 2 (s, w) = Inr (after_call 6 s, w)
      \<and> rv32_run (board_platform lib) 2 (s, b) = Inr (after_call 6 s, b\<lparr>sprite :=
          fill_rect lib (r s ! 10) (r s ! 11) (r s ! 12) (r s ! 13) (r s ! 14) (sprite b)\<rparr>))
    \<and> (block_at s (pc s) draw_char_asm \<longrightarrow>
        rv32_run fantasy_platform 2 (s, w) = Inr (after_call 7 s, w)
      \<and> rv32_run (board_platform lib) 2 (s, b) = Inr (after_call 7 s, b\<lparr>sprite :=
          draw_char lib (r s ! 10) (r s ! 11) (r s ! 12) (sprite b)\<rparr>))"
proof -
  note regs = at_call_regs(1) [OF assms] at_call_arguments [OF assms]
  show ?thesis
    unfolding print_int_asm_def render_asm_def draw_rectangle_asm_def draw_char_asm_def
    by (intro conjI impI; rule wrapper_run [OF assms]; assumption?)
      (simp_all add: regs fantasy_ecall_def board_platform_def board_ecall_def Let_def)
qed


text \<open>The machine after a call whose answer in \<open>a0\<close> was stored to memory.\<close>

definition after_answer :: "12 word \<Rightarrow> u32 \<Rightarrow> u8 list \<Rightarrow> rv32 \<Rightarrow> rv32" where
  "after_answer k x ms s = s\<lparr>r := (r s)[0 := 0, 17 := scast k, 10 := x], mem := ms, pc := pc s + 12\<rparr>"

lemma execute_sw:
  assumes "wf_rv32 s" "unat (r s ! unat base + scast off) + 4 \<le> unat (mem_size s)"
    and "mem_put 4 (mem s) (unat (r s ! unat base + scast off)) (r s ! unat src) = Some ms"
  shows "rv32_execute p (encode (Store Sw base src off)) (s, w) = Inr (advance 4 (s\<lparr>mem := ms\<rparr>), w)"
proof -
  have "rv32_store32 p (s, w) (r s ! unat base + scast off) (r s ! unat src) = Inr (RV32_OK (), (s\<lparr>mem := ms\<rparr>, w))"
    using assms by (simp add: rv32_store32_def in_ram_iff ram_write_def)
  then show ?thesis
    by (simp add: rv32_execute_def decode exec_store_def Let_def read_reg_def finish_store_def)
qed

lemma answer_run:
  assumes a: "awake s" and b: "block_at s (pc s) (li a7 k @ [Ecall, Insn (Store Sw base a0 off)])"
    and res: "res = r s ! unat base + scast off" "unat res + 4 \<le> unat (mem_size s)" "base \<notin> {0, 10, 17}"
    and call: "fantasy_ecall (at_call k s, w) = (set_a0 x (at_call k s), w)"
    and ms: "mem_put 4 (mem s) (unat res) x = Some ms"
  shows "rv32_run fantasy_platform 3 (s, w) = Inr (after_answer k x ms s, w)"
proof -
  let ?c = "set_a0 x (at_call k s)"
  let ?t = "advance 4 ?c"
  have three: "3 = 2 + Suc 0" by simp
  have st: "status s = RV32_RUNNING" and len: "length (r s) = 32"
    using a awake_length by (simp_all add: awake_def)
  have b1: "block_at s (pc s) (li a7 k @ [Ecall])" and b2: "word_at s (pc s + 8) (encode (Store Sw base a0 off))"
    using b by (simp_all add: li_def add.commute [of 8] del: encode.simps)
  have run: "rv32_run fantasy_platform 2 (s, w) = Inr (?t, w)"
    using guest_system_call_aux [OF a b1, of fantasy_platform w] st
    by (simp add: exec_ecall_def call Let_def) (simp add: set_a0_def at_call_def)
  have aw: "awake ?t"
    using awake_at_call [OF a, of k] by (simp add: awake_def advance_def set_a0_def wf_rv32_def)
  have "word_at ?t (pc ?t) (encode (Store Sw base a0 off))"
    using b2 by (simp add: word_at_def advance_def set_a0_def at_call_def add.commute [of 8] del: encode.simps)
  note cyc = cycle_at [OF aw this, of fantasy_platform w]
  let ?u = "write_reg 0 0 ?t"
  have regs: "r ?u = (r s)[0 := 0, 17 := scast k, 10 := x]"
    using len by (simp add: write_reg_def advance_def set_a0_def at_call_def list_update_swap [of 0])
  have idx: "unat base \<noteq> 0" "unat base \<noteq> 10" "unat base \<noteq> 17" "unat base < 32"
    using res(3) unat_5_less [of base] by (auto simp: word_unat_eq_iff)
  have ub: "r ?u ! unat base = r s ! unat base" and ua: "r ?u ! 10 = x"
    using idx len by (simp_all add: regs)
  have um: "mem ?u = mem s" "mem_size ?u = mem_size s" "wf_rv32 ?u"
    using a len by (simp_all add: write_reg_def advance_def set_a0_def at_call_def awake_def wf_rv32_def)
  have "rv32_execute fantasy_platform (encode (Store Sw base a0 off)) (?u, w) = Inr (advance 4 (?u\<lparr>mem := ms\<rparr>), w)"
    by (rule execute_sw) (use um ub ua res ms in simp_all)
  moreover have "advance 4 (?u\<lparr>mem := ms\<rparr>) = after_answer k x ms s"
    by (simp add: after_answer_def write_reg_def advance_def set_a0_def at_call_def list_update_swap [of 0])
  ultimately have "rv32_run fantasy_platform (Suc 0) (?t, w) = Inr (after_answer k x ms s, w)"
    by (simp add: cyc del: encode.simps)
  with run show ?thesis unfolding three rv32_run_append by simp
qed


text \<open>
  Asking for the size of the screen on the console: the width or height is stored to the
  variable. The call also leaves it in \<open>a0\<close> and its number in \<open>a7\<close>, although the statement names
  no register that it changes: a caller that keeps a value in one of them loses it.
\<close>

lemma screen_size_wrappers:
  assumes "awake s" "res = r s ! unat base + scast off" "unat res + 4 \<le> unat (mem_size s)" "base \<notin> {0, 10, 17}"
    and "block_at s (pc s) (if wide then get_screen_width_asm base off else get_screen_height_asm base off)"
  shows "\<exists>t. rv32_run fantasy_platform 3 (s, w) = Inr (t, w) \<and> pc t = pc s + 12
    \<and> mem_get 4 (mem t) (unat res) = Some (if wide then 320 else 240 :: u32)
    \<and> r t = (r s)[0 := 0, 17 := if wide then 3 else 4, 10 := if wide then 320 else 240]"
proof -
  let ?k = "if wide then 3 else 4 :: 12 word" and ?x = "if wide then 320 else 240 :: u32"
  have "unat res + 4 \<le> length (mem s)" using assms(1,3) wf_rv32_mem [of s] by (simp add: awake_def)
  then obtain ms where ms: "mem_put 4 (mem s) (unat res) ?x = Some ms"
    using cell32.put_total [of "unat res" "mem s" ?x] by auto
  have call: "fantasy_ecall (at_call ?k s, w) = (set_a0 ?x (at_call ?k s), w)"
    using at_call_regs(1) [OF assms(1), of ?k] by (simp add: fantasy_ecall_def SCREEN_WIDTH_def SCREEN_HEIGHT_def)
  have "rv32_run fantasy_platform 3 (s, w) = Inr (after_answer ?k ?x ms s, w)"
    by (rule answer_run [OF assms(1) _ assms(2-4) call ms])
      (use assms(5) in \<open>simp add: get_screen_width_asm_def get_screen_height_asm_def split: if_splits del: block_at.simps asm_word.simps\<close>)
  moreover have "mem_get 4 ms (unat res) = Some ?x" using ms by (rule cell32.get_put)
  ultimately show ?thesis by (simp add: after_answer_def)
qed


section \<open>The interrupt handler\<close>

lemma step_at:
  assumes "awake s" "word_at s (pc s) x" "rv32_execute p x (write_reg 0 0 s, w) = Inr v"
  shows "rv32_run p (Suc n) (s, w) = rv32_run p n v"
  using assms by (simp add: cycle_at)

text \<open>The machine while the handler runs: the registers \<open>rs\<close>, at the instruction at offset \<open>d\<close>.\<close>

definition in_handler :: "rv32 \<Rightarrow> u32 list \<Rightarrow> u32 \<Rightarrow> rv32" where
  "in_handler t rs d = t\<lparr>r := rs, pc := pc t + d\<rparr>"

lemma in_handler_awake: "awake t \<Longrightarrow> length rs = 32 \<Longrightarrow> awake (in_handler t rs d)"
  by (simp add: awake_def in_handler_def wf_rv32_def)

lemma in_handler_word: "word_at (in_handler t rs d) a x = word_at t a x"
  by (simp add: word_at_def in_handler_def)

lemma in_handler_write:
  "write_reg x y (in_handler t rs d) = in_handler t (rs[unat x := y]) d"
  "advance e (in_handler t rs d) = in_handler t rs (d + e)" "r (in_handler t rs d) = rs" "pc (in_handler t rs d) = pc t + d"
  by (simp_all add: write_reg_def advance_def in_handler_def add.assoc)

lemma tail_words:
  assumes "block_at t (pc t) interrupt_handler_tail"
  shows "word_at t (pc t) (encode (Lui t0 1))" "word_at t (pc t + 4) (encode (OpImm Addi t0 t0 0x800))"
    "word_at t (pc t + 8) (encode (Csr Csrrc 0 t0 0x344))" "word_at t (pc t + 12) (encode Mret)"
  using assms by (simp_all add: interrupt_handler_tail_def li_0x800_def add.commute [of _ "pc t"] del: encode.simps)

lemma handler_constants:
  "push_bit 12 (ucast (1 :: 20 word)) = (0x1000 :: u32)" "0x1000 + scast (0x800 :: 12 word) = (0x800 :: u32)"
  by code_simp+


lemma zero_cleared: "xs ! 0 = 0 \<Longrightarrow> xs[0 := 0] = xs" for xs :: "u32 list"
  by (metis list_update_id)

text \<open>The statements clear the pending bit and return.\<close>

lemma tail_run:
  assumes a: "awake t" and off: "\<not> bit (mstatus t) CSR_MSTATUS_MIE"
    and b: "block_at t (pc t) interrupt_handler_tail"
  shows "rv32_run p 4 (t, w) =
    Inr (exec_mret (t\<lparr>r := (r t)[0 := 0, 5 := 0x800], mip := mip t AND NOT 0x800, pc := pc t + 12\<rparr>), w)"
proof -
  let ?h = "in_handler t"
  define rs where "rs = (r t)[0 := 0]"
  define r4 where "r4 = rs[5 := 0x1000]"
  define r5 where "r5 = rs[5 := 0x800]"
  have len: "length rs = 32" and zero: "rs ! 0 = 0" using awake_length [OF a] by (simp_all add: rs_def)
  then have lens: "length r4 = 32" "length r5 = 32" and zeros: "rs[0 := 0] = rs" "r4[0 := 0] = r4" "r5[0 := 0] = r5"
    and r5: "r5 ! 5 = 0x800" "r4[5 := 0x800] = r5"
    by (simp_all add: r4_def r5_def zero_cleared)
  note words = tail_words [OF b]
  note eval = eval_nat_numeral in_handler_word in_handler_write
  have "write_reg 0 0 t = ?h rs 0" by (simp add: in_handler_def write_reg_def rs_def)
  then have "rv32_execute p (encode (Lui t0 1)) (write_reg 0 0 t, w) = Inr (?h r4 4, w)"
    by (simp add: execute_lui in_handler_write handler_constants r4_def del: encode.simps)
  from step_at [OF a _ this, of 3] words(1)
  have s4: "rv32_run p 4 (t, w) = rv32_run p 3 (?h r4 4, w)" by (simp add: eval del: encode.simps)
  have "r4 ! unat t0 = 0x1000" using len by (simp add: r4_def)
  then have "rv32_execute p (encode (OpImm Addi t0 t0 0x800)) (write_reg 0 0 (?h r4 4), w) = Inr (?h r5 8, w)"
    by (simp add: execute_addi [of _ _ "0x1000"] in_handler_write zeros handler_constants r5 del: encode.simps)
  from step_at [OF in_handler_awake [OF a lens(1)] _ this, of 2] words(2)
  have s5: "rv32_run p 3 (?h r4 4, w) = rv32_run p 2 (?h r5 8, w)" by (simp add: eval del: encode.simps)
  define u where "u = (?h (r5[0 := mip t]) 12)\<lparr>mip := mip t AND NOT 0x800\<rparr>"
  have "rv32_execute p (encode (Csr Csrrc 0 t0 0x344)) (write_reg 0 0 (?h r5 8), w) = Inr (u, w)"
    by (simp add: execute_csr in_handler_write zeros r5 rv32_read_csr_def rv32_write_csr_def u_def del: encode.simps)
      (simp add: in_handler_def write_reg_def advance_def)
  from step_at [OF in_handler_awake [OF a lens(2)] _ this, of 1] words(3)
  have s6: "rv32_run p 2 (?h r5 8, w) = rv32_run p 1 (u, w)" by (simp add: eval del: encode.simps)
  have u: "awake u" using a off lens by (simp add: u_def awake_def in_handler_def wf_rv32_def)
  have "word_at u (pc u) (encode Mret)" using words(4) by (simp add: u_def word_at_def in_handler_def del: encode.simps)
  from step_at [OF u this execute_mret, where n = 0]
  have s7: "rv32_run p 1 (u, w) = Inr (exec_mret (write_reg 0 0 u), w)"
    by (simp add: eval_nat_numeral del: encode.simps)
  have "write_reg 0 0 u = t\<lparr>r := (r t)[0 := 0, 5 := 0x800], mip := mip t AND NOT 0x800, pc := pc t + 12\<rparr>"
    using zeros(3) by (simp add: u_def write_reg_def in_handler_def r5_def rs_def)
  with s4 s5 s6 s7 show ?thesis by simp
qed

text \<open>
  Delivery and the first instruction of the handler share a cycle: it makes no difference whether
  the interrupt was delivered before.
\<close>

lemma run_delivered:
  assumes "deliver_interrupt s = t" "deliver_interrupt t = t"
  shows "rv32_run p (Suc n) (s, w) = rv32_run p (Suc n) (t, w)"
proof -
  have "rv32_cycle p (s, w) = rv32_cycle p (t, w)"
    unfolding rv32_cycle_def by (simp add: assms)
  then show ?thesis by simp
qed

section \<open>Concrete machines\<close>

definition asm_program :: "asm list \<Rightarrow> u8 list" where
  "asm_program is = concat (map (\<lambda>i. le_bytes 4 (asm_word i)) is)"

lemma length_li [simp]: "length (li rd k) = 1"
  by (simp add: li_def)

lemma length_asm_program [simp]: "length (asm_program is) = 4 * length is"
  by (induction "is") (simp_all add: asm_program_def)

lemma boot_word:
  assumes "length ms < 2 ^ 32" "a + 4 \<le> length ms" "take 4 (drop a ms) = le_bytes 4 x"
  shows "word_at (boot ms) (word_of_nat a) x"
proof -
  have n: "unat (word_of_nat b :: u32) = b" if "b \<le> length ms" for b
    using that assms(1) by (simp add: unsigned_of_nat take_bit_nat_eq_self)
  have "(le_word (le_bytes 4 x) :: u32) = x" by (rule le_word_le_bytes_full) simp
  with assms n [of a] n [of "length ms"] show ?thesis
    by (simp add: word_at_def boot_def mem_get_def)
qed

lemma boot_block:
  "length ms < 2 ^ 32 \<Longrightarrow> a + 4 * length is \<le> length ms \<Longrightarrow> take (4 * length is) (drop a ms) = asm_program is \<Longrightarrow>
   block_at (boot ms) (word_of_nat a) is"
proof (induction "is" arbitrary: a)
  case Nil
  then show ?case by simp
next
  case (Cons i js)
  let ?d = "drop a ms"
  have prog: "asm_program (i # js) = le_bytes 4 (asm_word i) @ asm_program js" by (simp add: asm_program_def)
  have "take (4 + 4 * length js) ?d = take 4 ?d @ take (4 * length js) (drop 4 ?d)" by (simp add: take_add)
  then have split: "take 4 ?d @ take (4 * length js) (drop 4 ?d) = le_bytes 4 (asm_word i) @ asm_program js"
    using Cons.prems(3) prog by simp
  moreover have "length (take 4 ?d) = length (le_bytes 4 (asm_word i))" using Cons.prems(2) by simp
  ultimately have one: "take 4 ?d = le_bytes 4 (asm_word i)" and rest: "take (4 * length js) (drop (a + 4) ms) = asm_program js"
    by (simp_all add: append_eq_append_conv add.commute)
  have "word_at (boot ms) (word_of_nat a) (asm_word i)"
    using Cons.prems one by (intro boot_word) simp_all
  moreover have "block_at (boot ms) (word_of_nat (a + 4)) js"
    using Cons.prems rest by (intro Cons.IH) simp_all
  ultimately show ?case by (simp add: add.commute)
qed

lemma boot_awake: "length ms < 2 ^ 32 \<Longrightarrow> awake (boot ms)"
  using boot_wf [of ms] by (simp add: awake_def) (simp add: boot_def)

lemma guest_system_call_witness:
  "rv32_run emulator_platform 2 (boot (asm_program (li a7 93 @ [Ecall])), silent)
   = Inr (stop RV32_HALTED (at_call 93 (boot (asm_program (li a7 93 @ [Ecall])))), silent)"
proof -
  let ?is = "li a7 93 @ [Ecall]"
  let ?s = "boot (asm_program ?is)"
  have "block_at ?s (word_of_nat 0) ?is" by (rule boot_block) simp_all
  then have block: "block_at ?s (pc ?s) ?is" by (simp add: boot_def)
  have "awake ?s" by (rule boot_awake) simp
  from guest_system_call [OF this block, of emulator_platform silent]
  show ?thesis
    by (simp add: exec_ecall_def emulator_ecall_def Let_def) (simp add: stop_def)
qed

theorem guest_wrappers_witness:
  "\<forall>w. \<exists>t. rv32_run fantasy_platform 2 (boot (asm_program render_asm), w) = Inr (t, w\<lparr>render := True\<rparr>)"
proof
  fix w
  let ?s = "boot (asm_program render_asm)"
  have len: "length render_asm = 2" by (simp add: render_asm_def li_def)
  have "block_at ?s (word_of_nat 0) render_asm" by (rule boot_block) (simp_all add: len)
  then have "block_at ?s (pc ?s) render_asm" by (simp add: boot_def)
  with guest_wrappers [OF boot_awake, of "asm_program render_asm" w] len
  show "\<exists>t. rv32_run fantasy_platform 2 (?s, w) = Inr (t, w\<lparr>render := True\<rparr>)" by auto
qed

lemma screen_size_wrappers_witness:
  "\<exists>t. rv32_run fantasy_platform 3 (boot (asm_program (get_screen_width_asm 2 16) @ replicate 8 0), w) = Inr (t, w)
     \<and> mem_get 4 (mem t) 16 = Some (320 :: u32)"
proof -
  let ?is = "get_screen_width_asm 2 16"
  let ?s = "boot (asm_program ?is @ replicate 8 0)"
  have len: "length ?is = 3" by (simp add: get_screen_width_asm_def li_def)
  have "block_at ?s (word_of_nat 0) ?is" by (rule boot_block) (simp_all add: len)
  then have block: "block_at ?s (pc ?s) ?is" by (simp add: boot_def)
  have res: "16 = r ?s ! unat (2 :: 5 word) + scast (16 :: 12 word)" by (simp add: boot_def)
  have size: "unat (16 :: u32) + 4 \<le> unat (mem_size ?s)" by (simp add: boot_def len)
  have "awake ?s" by (rule boot_awake) (simp add: len)
  from screen_size_wrappers [OF this res size, of True w] block show ?thesis by auto
qed

section \<open>Turning interrupts on\<close>

lemma enable_words:
  assumes "block_at s a (enable_interrupts_asm h)"
  shows "word_at s a (encode (Csr Csrrw 0 h 0x305))" "word_at s (a + 4) (encode (Lui t0 1))"
    "word_at s (a + 8) (encode (OpImm Addi t0 t0 0x800))" "word_at s (a + 12) (encode (Csr Csrrs 0 t0 0x304))"
    "word_at s (a + 16) (encode (CsrImm Csrrs 0 8 0x300))"
  using assms by (simp_all add: enable_interrupts_asm_def li_0x800_def add.commute [of _ a] del: encode.simps)

text \<open>The start of \<open>main\<close>: from a machine without interrupts to the state in which the guest waits.\<close>

lemma enable_run:
  assumes a: "awake s" and off: "\<not> bit (mstatus s) CSR_MSTATUS_MIE" and b: "block_at s (pc s) (enable_interrupts_asm h)"
  shows "\<exists>t. rv32_run p 5 (s, w) = Inr (t, w) \<and> mtvec t = (r s)[0 := 0] ! unat h \<and> mie t = mie s OR 0x800
    \<and> mstatus t = mstatus s OR 8 \<and> mip t = mip s \<and> wfi t = 0 \<and> status t = RV32_RUNNING
    \<and> interrupt_controller t = interrupt_controller s \<and> pc t = pc s + 20
    \<and> mem t = mem s \<and> mem_size t = mem_size s \<and> bp_mask t = 0 \<and> wf_rv32 t"
proof -
  let ?z = "(r s)[0 := 0]"
  have len: "length (r s) = 32" using a by (rule awake_length)
  have zero: "xs ! 0 = 0 \<Longrightarrow> xs[0 := 0] = xs" for xs :: "u32 list" by (metis list_update_id)
  note w = enable_words [OF b]
  define s1 where "s1 = s\<lparr>mtvec := ?z ! unat h\<rparr>"
  have a1: "awake s1" and w1: "word_at s1 = word_at s" and pc1: "pc s1 = pc s"
    using a by (auto simp: s1_def awake_def wf_rv32_def word_at_def fun_eq_iff)
  let ?h = "in_handler s1"
  have e1: "rv32_execute p (encode (Csr Csrrw 0 h 0x305)) (write_reg 0 0 s, w) = Inr (?h (?z[0 := mtvec s]) 4, w)"
    by (simp add: execute_csr rv32_read_csr_def rv32_write_csr_def del: encode.simps)
      (simp add: s1_def in_handler_def write_reg_def advance_def)
  let ?r2 = "?z[5 := 0x1000]" and ?r3 = "?z[5 := 0x800]"
  have e2: "rv32_execute p (encode (Lui t0 1)) (write_reg 0 0 (?h (?z[0 := mtvec s]) 4), w) = Inr (?h ?r2 8, w)"
    by (simp add: execute_lui in_handler_write handler_constants del: encode.simps)
  have e3: "rv32_execute p (encode (OpImm Addi t0 t0 0x800)) (write_reg 0 0 (?h ?r2 8), w) = Inr (?h ?r3 12, w)"
    using len by (simp add: execute_addi [of _ _ "0x1000"] in_handler_write zero handler_constants del: encode.simps)
  define s4 where "s4 = (?h (?r3[0 := mie s]) 16)\<lparr>mie := mie s OR 0x800\<rparr>"
  have e4: "rv32_execute p (encode (Csr Csrrs 0 t0 0x304)) (write_reg 0 0 (?h ?r3 12), w) = Inr (s4, w)"
    using len by (simp add: execute_csr in_handler_write zero rv32_read_csr_def rv32_write_csr_def del: encode.simps)
      (simp add: s4_def s1_def in_handler_def write_reg_def advance_def)
  have a4: "awake s4" using a1 off by (simp add: s4_def in_handler_def awake_def wf_rv32_def s1_def)
  have w4: "word_at s4 (pc s4) (encode (CsrImm Csrrs 0 8 0x300))"
    using w(5) by (simp add: s4_def in_handler_def word_at_def s1_def del: encode.simps)
  have run: "rv32_run p 5 (s, w) = rv32_run p 1 (s4, w)"
    using step_at [OF a w(1) e1, of 4] step_at [OF in_handler_awake [OF a1] _ e2, of 3]
      step_at [OF in_handler_awake [OF a1] _ e3, of 2] step_at [OF in_handler_awake [OF a1] _ e4, of 1] w(2-4) len
    by (simp add: eval_nat_numeral in_handler_word in_handler_write w1 pc1 del: encode.simps rv32_run.simps)
  let ?t = "advance 4 (write_reg 0 (mstatus s4) ((write_reg 0 0 s4)\<lparr>mstatus := mstatus s4 OR 8\<rparr>))"
  have e5: "rv32_execute p (encode (CsrImm Csrrs 0 8 0x300)) (write_reg 0 0 s4, w) = Inr (?t, w)"
    by (simp add: execute_csr_imm rv32_read_csr_def rv32_write_csr_def del: encode.simps)
      (simp add: write_reg_def)
  have "rv32_run p 5 (s, w) = Inr (?t, w)"
    unfolding run using step_at [OF a4 w4 e5, of 0] by (simp add: eval_nat_numeral del: encode.simps)
  then show ?thesis
    using a by (intro exI [of _ ?t]) (simp add: s4_def s1_def in_handler_def write_reg_def advance_def awake_def wf_rv32_def)
qed

end
