(* ===== verification/Guest_Programs.thy ===== *)
theory Guest_Programs
  imports Guest Guest_Math Guest_Asm
begin

text \<open>
  The \<open>main\<close> functions of the demonstration guests as the sequences of what they ask of the machine:
  \<open>src/examples/fantasy-computer/example/example.c\<close>, \<open>menu-fantasy-computer/src/menu.c\<close> and
  \<open>src/examples/c/c_program.c\<close>. The actions are played against the platforms of the embedders; the
  theory \<open>Guest_Asm\<close> shows that the wrappers reach them.
\<close>

section \<open>What a guest asks for\<close>

datatype guest_action =
  Print u32
| Store16 u32 u16
| Show_frame
| Rectangle u32 u32 u32 u32 u16
| Character u16 u32 u32
| Sleep

text \<open>A call of a wrapper: the number in \<open>a7\<close>, the arguments from \<open>a0\<close> on.\<close>

definition with_args :: "u32 \<Rightarrow> u32 list \<Rightarrow> rv32 \<Rightarrow> rv32" where
  "with_args k xs s = s\<lparr>r := fold (\<lambda>(i, x) rs. rs[i := x]) (zip [10..<15] xs) ((r s)[17 := k])\<rparr>"

definition call_out :: "'w platform \<Rightarrow> u32 \<Rightarrow> u32 list \<Rightarrow> 'w vm \<Rightarrow> (unit rv32_result \<times> 'w vm) run" where
  "call_out p k xs v = Inr (RV32_OK (), ecall p (with_args k xs (fst v), snd v))"

text \<open>The colour of a rectangle is a \<open>short\<close>, which is passed with its sign.\<close>

fun perform :: "'w platform \<Rightarrow> guest_action \<Rightarrow> 'w vm \<Rightarrow> (unit rv32_result \<times> 'w vm) run" where
  "perform p (Print x) v = call_out p 2 [x] v"
| "perform p (Store16 a x) v = rv32_store16 p v a x"
| "perform p Show_frame v = call_out p 5 [] v"
| "perform p (Rectangle x y w h c) v = call_out p 6 [x, y, w, h, scast c] v"
| "perform p (Character c x y) v = call_out p 7 [ucast c, x, y] v"
| "perform p Sleep v = Inr (RV32_ERR, v)"

text \<open>
  The actions one after the other, up to the first at which the guest stays: it sleeps, or the
  store fails. The rest of the actions is returned.
\<close>

fun play :: "'w platform \<Rightarrow> guest_action list \<Rightarrow> 'w vm \<Rightarrow> (guest_action list \<times> 'w vm) run" where
  "play p [] v = Inr ([], v)"
| "play p (a # as) v =
     bind_run (perform p a v) (\<lambda>(res, v').
       case res of RV32_ERR \<Rightarrow> Inr (a # as, v') | RV32_OK _ \<Rightarrow> play p as v')"

lemma play_append: "play p as v = Inr ([], v') \<Longrightarrow> play p (as @ bs) v = play p bs v'"
  by (induction "as" arbitrary: v) (auto elim!: bind_run_InrE split: prod.splits rv32_result.splits)

section \<open>The example of the fantasy computer\<close>

definition re_start :: int where "re_start = - 2"
definition re_end :: int where "re_end = 1"
definition im_start :: int where "im_start = - 1"
definition im_end :: int where "im_end = 1"

text \<open>The coordinate of a column or row, between the ends of its axis.\<close>

definition coordinate :: "'d fp \<Rightarrow> int \<Rightarrow> int \<Rightarrow> nat \<Rightarrow> nat \<Rightarrow> 'd" where
  "coordinate F a b i n =
     fadd F (of_integer F a) (fmul F (fdiv F (of_integer F (int i)) (of_integer F (int n)))
       (fsub F (of_integer F b) (of_integer F a)))"

definition pixel_colour :: "'d fp \<Rightarrow> nat \<Rightarrow> nat \<Rightarrow> nat \<Rightarrow> nat \<Rightarrow> u16" where
  "pixel_colour F w h x y =
     (let cx = coordinate F re_start re_end x w;
          cy = coordinate F im_start im_end y h;
          m = mandelbrot F cx cy;
          color = to_u8 F (fsub F (of_integer F 255)
            (fdiv F (fmul F (of_integer F (int m)) (of_integer F 255)) (of_integer F (int max_iter))))
      in rgb565 color color color)"

definition example_pixel :: "'d fp \<Rightarrow> nat \<Rightarrow> nat \<Rightarrow> nat \<Rightarrow> nat \<Rightarrow> guest_action list" where
  "example_pixel F w h y x =
     (if x = 0 \<and> y = h div 2 then [Sleep] else [])
       @ [Store16 (word_of_nat (0x80000000 + 2 * (y * w + x))) (pixel_colour F w h x y)]"

definition example_row :: "'d fp \<Rightarrow> nat \<Rightarrow> nat \<Rightarrow> nat \<Rightarrow> guest_action list" where
  "example_row F w h y = Print (word_of_nat y) # concat (map (example_pixel F w h y) [0..<w]) @ [Show_frame]"

text \<open>\<open>main\<close> after it turned interrupts on, with the size of the screen that it asked for.\<close>

definition example_main :: "'d fp \<Rightarrow> nat \<Rightarrow> nat \<Rightarrow> guest_action list" where
  "example_main F w h =
     [Print (word_of_nat w), Print (word_of_nat h)] @ concat (map (example_row F w h) [0..<h]) @ [Show_frame]"

section \<open>The menu\<close>

definition menu_main :: "u32 \<Rightarrow> u32 \<Rightarrow> guest_action list" where
  "menu_main w h =
     [Print w, Print h, Rectangle 0 0 w h (rgb565 0 0 0), Rectangle 0 0 w h (rgb565 0 0 255)]
       @ map (\<lambda>i. Character (97 + word_of_nat i) (10 + 10 * word_of_nat i) 100) [0..<26] @ [Show_frame]"

section \<open>The program in C\<close>

text \<open>What \<open>main\<close> prints, and what it returns.\<close>

definition c_program_main :: "(guest_action list \<times> u32) run" where
  "c_program_main =
     (let x = 0 + 1; y = x * 2 + 1
      in bind_run (fib 45) (\<lambda>f.
           Inr ([Print (word_of_int y), Print (word_of_int f), Print (word_of_int (45 * 53)),
                 Print (word_of_int (15 sdiv 5))], 45)))"


section \<open>Playing on the fantasy computer\<close>

lemma with_args_length [simp]: "length (r (with_args k xs s)) = length (r s)"
proof -
  have "length (fold (\<lambda>(i, x) rs. rs[i := x]) ixs rs) = length rs" for ixs and rs :: "u32 list"
    by (induction ixs arbitrary: rs) auto
  then show ?thesis by (simp add: with_args_def)
qed

lemma with_args_mem [simp]: "mem_size (with_args k xs s) = mem_size s" "status (with_args k xs s) = status s"
  by (simp_all add: with_args_def)

lemma with_args_regs:
  assumes "length (r s) = 32"
  shows "r (with_args k [] s) ! 17 = k" "r (with_args k [x] s) ! 17 = k" "r (with_args k [x] s) ! 10 = x"
    "r (with_args k [x, y, z] s) ! 17 = k" "r (with_args k [x, y, z] s) ! 10 = x"
    "r (with_args k [x, y, z] s) ! 11 = y" "r (with_args k [x, y, z] s) ! 12 = z"
    "r (with_args k [x, y, z, u, v] s) ! 17 = k" "r (with_args k [x, y, z, u, v] s) ! 10 = x"
    "r (with_args k [x, y, z, u, v] s) ! 11 = y" "r (with_args k [x, y, z, u, v] s) ! 12 = z"
    "r (with_args k [x, y, z, u, v] s) ! 13 = u" "r (with_args k [x, y, z, u, v] s) ! 14 = v"
  using assms by (simp_all add: with_args_def upt_conv_Cons)

text \<open>The machine can play: its registers are there, and its RAM ends before the screen begins.\<close>

definition can_play :: "rv32 \<Rightarrow> bool" where
  "can_play s \<longleftrightarrow> length (r s) = 32 \<and> 2 \<le> unat (mem_size s) \<and> unat (mem_size s) \<le> fb_base"

lemma can_play_args [simp]: "can_play (with_args k xs s) = can_play s"
  by (simp add: can_play_def)

lemma perform_fantasy:
  assumes "can_play s"
  shows "perform fantasy_platform (Print x) (s, w) = Inr (RV32_OK (), (with_args 2 [x] s, print_screen (format_d x @ newline) w))"
    and "perform fantasy_platform Show_frame (s, w) = Inr (RV32_OK (), (with_args 5 [] s, w\<lparr>render := True\<rparr>))"
  using assms by (simp_all add: can_play_def call_out_def fantasy_ecall_def Let_def with_args_regs)

text \<open>The store of pixel \<open>i\<close>.\<close>

definition set_pixel :: "nat \<Rightarrow> u16 \<Rightarrow> u8 list \<Rightarrow> u8 list" where
  "set_pixel i c px = take (2 * i) px @ le_bytes 2 c @ drop (2 * i + 2) px"

lemma pixel_address:
  assumes "i < SCREEN_WIDTH * SCREEN_HEIGHT"
  shows "unat (word_of_nat (0x80000000 + 2 * i) :: u32) = fb_base + 2 * i"
proof -
  have "0x80000000 + 2 * i < 2 ^ 32" using assms by (simp add: SCREEN_WIDTH_def SCREEN_HEIGHT_def)
  then show ?thesis unfolding fb_base_def by (simp only: unsigned_of_nat) (simp add: take_bit_nat_eq_self)
qed

lemma perform_store:
  assumes "can_play s" "length (pixels w) = fb_size" "i < SCREEN_WIDTH * SCREEN_HEIGHT" "unat a = fb_base + 2 * i"
  shows "perform fantasy_platform (Store16 a c) (s, w) = Inr (RV32_OK (), (s, w\<lparr>pixels := set_pixel i c (pixels w)\<rparr>))"
proof -
  have "\<not> in_ram 2 s a" using assms(1,4) by (simp add: can_play_def in_ram_iff)
  moreover have "fantasy_store16 (s, w) a c = fb_store (le_bytes 2 c) (s, w) a"
    using fb_store_guard [of "(s, w)" 2 a c] assms(2) by (simp add: fantasy_store16_def)
  ultimately show ?thesis
    using assms(3,4) by (simp add: rv32_store16_def fb_store_def fb_size_def set_pixel_def Let_def)
qed

lemmas perform_pixel = perform_store [OF _ _ _ pixel_address]

section \<open>Painting\<close>

text \<open>The colour of the pixel at an index of the buffer, and the buffer with the first \<open>n\<close> painted.\<close>

definition colour_at :: "'d fp \<Rightarrow> nat \<Rightarrow> u16" where
  "colour_at F i = pixel_colour F SCREEN_WIDTH SCREEN_HEIGHT (i mod SCREEN_WIDTH) (i div SCREEN_WIDTH)"

definition painted :: "'d fp \<Rightarrow> nat \<Rightarrow> u8 list \<Rightarrow> u8 list" where
  "painted F n px = concat (map (\<lambda>i. le_bytes 2 (colour_at F i)) [0..<n]) @ drop (2 * n) px"

lemma length_painted: "2 * n \<le> length px \<Longrightarrow> length (painted F n px) = length px"
  by (simp add: painted_def length_concat comp_def sum_list_triv)

lemma set_pixel_painted:
  assumes "2 * n + 2 \<le> length px"
  shows "set_pixel n (colour_at F n) (painted F n px) = painted F (Suc n) px"
proof -
  have "length (concat (map (\<lambda>i. le_bytes 2 (colour_at F i)) [0..<n])) = 2 * n"
    by (simp add: length_concat comp_def sum_list_triv)
  then show ?thesis by (simp add: set_pixel_def painted_def)
qed

text \<open>Actions that take a buffer with \<open>n\<close> painted pixels to one with \<open>m\<close>, and run to their end.\<close>

definition paints :: "'d fp \<Rightarrow> u8 list \<Rightarrow> guest_action list \<Rightarrow> nat \<Rightarrow> nat \<Rightarrow> bool" where
  "paints F px as n m \<longleftrightarrow> (\<forall>s w. can_play s \<longrightarrow> pixels w = painted F n px \<longrightarrow>
     (\<exists>s' w'. play fantasy_platform as (s, w) = Inr ([], (s', w')) \<and> can_play s' \<and> pixels w' = painted F m px))"

lemma paints_Nil: "paints F px [] n n"
  by (simp add: paints_def)

lemma paints_append: "paints F px as n m \<Longrightarrow> paints F px bs m k \<Longrightarrow> paints F px (as @ bs) n k"
  unfolding paints_def by (metis play_append)

lemma paints_still: "paints F px [Print x] n n" "paints F px [Show_frame] n n"
  by (simp_all add: paints_def perform_fantasy print_screen_def del: perform.simps)

lemma paints_pixel:
  assumes "length px = fb_size" "n < SCREEN_WIDTH * SCREEN_HEIGHT"
  shows "paints F px [Store16 (word_of_nat (0x80000000 + 2 * n)) (colour_at F n)] n (Suc n)"
proof -
  have n: "2 * n + 2 \<le> length px" using assms by (simp add: fb_size_def)
  then have "length (painted F n px) = fb_size" using assms(1) by (simp add: length_painted)
  then show ?thesis
    using assms(2) n by (simp add: paints_def perform_pixel set_pixel_painted del: perform.simps of_nat_add of_nat_mult)
qed

lemma paints_concat:
  assumes "a \<le> b" "\<And>x. a \<le> x \<Longrightarrow> x < b \<Longrightarrow> paints F px (f x) (g x) (g (Suc x))"
  shows "paints F px (concat (map f [a..<b])) (g a) (g b)"
  using assms
proof (induction b)
  case 0
  then show ?case by (simp add: paints_Nil)
next
  case (Suc b)
  show ?case
  proof (cases "a = Suc b")
    case True
    then show ?thesis by (simp add: paints_Nil)
  next
    case False
    with Suc.prems(1) have "a \<le> b" by simp
    with Suc.IH Suc.prems(2) have "paints F px (concat (map f [a..<b])) (g a) (g b)" "paints F px (f b) (g b) (g (Suc b))"
      by simp_all
    then show ?thesis using \<open>a \<le> b\<close> by (simp add: paints_append)
  qed
qed

lemma paints_example_pixels:
  assumes "length px = fb_size" "y < SCREEN_HEIGHT" "a \<le> SCREEN_WIDTH" "y \<noteq> SCREEN_HEIGHT div 2 \<or> 0 < a"
  shows "paints F px (concat (map (example_pixel F SCREEN_WIDTH SCREEN_HEIGHT y) [a..<SCREEN_WIDTH]))
    (y * SCREEN_WIDTH + a) (y * SCREEN_WIDTH + SCREEN_WIDTH)"
proof (rule paints_concat [where g = "\<lambda>x. y * SCREEN_WIDTH + x", OF assms(3)])
  fix x
  assume x: "a \<le> x" "x < SCREEN_WIDTH"
  let ?n = "y * SCREEN_WIDTH + x"
  have "?n < SCREEN_WIDTH * SCREEN_HEIGHT"
    using assms(2) x(2) by (simp add: SCREEN_WIDTH_def SCREEN_HEIGHT_def)
  moreover have "colour_at F ?n = pixel_colour F SCREEN_WIDTH SCREEN_HEIGHT x y"
    using x(2) by (simp add: colour_at_def)
  moreover have "example_pixel F SCREEN_WIDTH SCREEN_HEIGHT y x
      = [Store16 (word_of_nat (0x80000000 + 2 * ?n)) (pixel_colour F SCREEN_WIDTH SCREEN_HEIGHT x y)]"
    using x(1) assms(4) by (auto simp: example_pixel_def)
  ultimately show "paints F px (example_pixel F SCREEN_WIDTH SCREEN_HEIGHT y x) ?n (y * SCREEN_WIDTH + Suc x)"
    using paints_pixel [OF assms(1), of ?n F] by simp
qed


text \<open>The rows that do not sleep, and the two halves of \<open>main\<close> around the one that does.\<close>

abbreviation "example_actions F \<equiv> example_main F SCREEN_WIDTH SCREEN_HEIGHT"
abbreviation "row_of F \<equiv> example_row F SCREEN_WIDTH SCREEN_HEIGHT"
abbreviation "pixel_of F \<equiv> example_pixel F SCREEN_WIDTH SCREEN_HEIGHT"

definition before_sleep :: "'d fp \<Rightarrow> guest_action list" where
  "before_sleep F = [Print 320] @ [Print 240] @ concat (map (row_of F) [0..<120]) @ [Print 120]"

definition after_sleep :: "'d fp \<Rightarrow> guest_action list" where
  "after_sleep F = [Store16 (word_of_nat (0x80000000 + 2 * 38400)) (colour_at F 38400)]
     @ concat (map (pixel_of F 120) [1..<320]) @ [Show_frame] @ concat (map (row_of F) [121..<240]) @ [Show_frame]"

lemma sleeping_row: "row_of F 120 = Print 120 # Sleep #
    Store16 (word_of_nat (0x80000000 + 2 * 38400)) (colour_at F 38400) # concat (map (pixel_of F 120) [1..<320]) @ [Show_frame]"
proof -
  have "[0..<SCREEN_WIDTH] = 0 # [1..<320]" by (simp add: SCREEN_WIDTH_def upt_conv_Cons del: upt_rec_numeral)
  then show ?thesis
    by (simp add: example_row_def del: upt_rec_numeral)
      (simp add: example_pixel_def colour_at_def SCREEN_WIDTH_def SCREEN_HEIGHT_def del: upt_rec_numeral)
qed

lemma example_split: "example_actions F = before_sleep F @ Sleep # after_sleep F"
proof -
  have rows: "[0..<SCREEN_HEIGHT] = [0..<120] @ 120 # [121..<240]"
    using upt_add_eq_append [of 0 120 120] by (simp add: SCREEN_HEIGHT_def upt_conv_Cons [of 120 240] del: upt_rec_numeral)
  have "concat (map (row_of F) [0..<SCREEN_HEIGHT])
      = concat (map (row_of F) [0..<120]) @ row_of F 120 @ concat (map (row_of F) [121..<240])"
    unfolding rows by (simp only: map_append list.map concat_append concat.simps)
  then show ?thesis
    unfolding example_main_def before_sleep_def after_sleep_def sleeping_row
    by (simp add: SCREEN_WIDTH_def SCREEN_HEIGHT_def del: upt_rec_numeral)
qed

lemma paints_row:
  assumes "length px = fb_size" "y < SCREEN_HEIGHT" "y \<noteq> SCREEN_HEIGHT div 2"
  shows "paints F px (row_of F y) (y * SCREEN_WIDTH) (Suc y * SCREEN_WIDTH)"
proof -
  have "paints F px (concat (map (pixel_of F y) [0..<SCREEN_WIDTH])) (y * SCREEN_WIDTH + 0) (y * SCREEN_WIDTH + SCREEN_WIDTH)"
    by (rule paints_example_pixels [OF assms(1,2)]) (simp_all add: assms(3))
  then have p: "paints F px (concat (map (pixel_of F y) [0..<SCREEN_WIDTH])) (y * SCREEN_WIDTH) (Suc y * SCREEN_WIDTH)"
    by (simp add: add.commute)
  have "row_of F y = [Print (word_of_nat y)] @ concat (map (pixel_of F y) [0..<SCREEN_WIDTH]) @ [Show_frame]"
    by (simp add: example_row_def)
  then show ?thesis
    using paints_append [OF paints_still(1) paints_append [OF p paints_still(2)]] by simp
qed

lemma paints_rows:
  assumes "length px = fb_size" "a \<le> b" "b \<le> SCREEN_HEIGHT" "b \<le> SCREEN_HEIGHT div 2 \<or> SCREEN_HEIGHT div 2 < a"
  shows "paints F px (concat (map (row_of F) [a..<b])) (a * SCREEN_WIDTH) (b * SCREEN_WIDTH)"
  by (rule paints_concat [where g = "\<lambda>y. y * SCREEN_WIDTH", OF assms(2)])
    (rule paints_row [OF assms(1)]; use assms in auto)

lemma paints_before: "length px = fb_size \<Longrightarrow> paints F px (before_sleep F) 0 38400"
proof -
  assume px: "length px = fb_size"
  have "paints F px (concat (map (row_of F) [0..<120])) 0 38400"
    using paints_rows [OF px, of 0 120 F] by (simp add: SCREEN_WIDTH_def SCREEN_HEIGHT_def del: upt_rec_numeral)
  from paints_append [OF paints_still(1) paints_append [OF paints_still(1) paints_append [OF this paints_still(1)]]]
  show ?thesis by (simp add: before_sleep_def del: upt_rec_numeral)
qed

lemma paints_after:
  assumes px: "length px = fb_size"
  shows "paints F px (after_sleep F) 38400 76800"
proof -
  have first: "paints F px [Store16 (word_of_nat (0x80000000 + 2 * 38400)) (colour_at F 38400)] 38400 38401"
    using paints_pixel [OF px, of 38400 F] by (simp add: SCREEN_WIDTH_def SCREEN_HEIGHT_def)
  have row: "paints F px (concat (map (pixel_of F 120) [1..<320])) 38401 38720"
    using paints_example_pixels [OF px, of 120 1 F] by (simp add: SCREEN_WIDTH_def SCREEN_HEIGHT_def del: upt_rec_numeral)
  have rows: "paints F px (concat (map (row_of F) [121..<240])) 38720 76800"
    using paints_rows [OF px, of 121 240 F] by (simp add: SCREEN_WIDTH_def SCREEN_HEIGHT_def del: upt_rec_numeral)
  show ?thesis unfolding after_sleep_def
    by (rule paints_append [OF first paints_append [OF row paints_append [OF paints_still(2) paints_append [OF rows paints_still(2)]]]])
qed

text \<open>
  C37. The picture of the example on the fantasy computer, for any library of floating point: up to
  the point where it waits for a key, the guest has painted exactly the upper half of the screen,
  each pixel with the colour of its coordinates, and left the lower half as it was; if it is let
  continue it paints the lower half in the same way. No store of it is refused.
\<close>

theorem example_paints_screen:
  assumes "can_play s" "length (pixels w) = fb_size"
  shows "\<exists>s' w' s'' w''. play fantasy_platform (example_main F 320 240) (s, w) = Inr (Sleep # after_sleep F, (s', w'))
    \<and> pixels w' = concat (map (\<lambda>i. le_bytes 2 (pixel_colour F 320 240 (i mod 320) (i div 320))) [0..<38400])
        @ drop 76800 (pixels w)
    \<and> play fantasy_platform (after_sleep F) (s', w') = Inr ([], (s'', w''))
    \<and> pixels w'' = concat (map (\<lambda>i. le_bytes 2 (pixel_colour F 320 240 (i mod 320) (i div 320))) [0..<76800])"
proof -
  let ?px = "pixels w"
  have "painted F 0 ?px = ?px" by (simp add: painted_def)
  then obtain s' w' where half: "play fantasy_platform (before_sleep F) (s, w) = Inr ([], (s', w'))" "can_play s'"
      "pixels w' = painted F 38400 ?px"
    using paints_before [OF assms(2), of F] assms(1) unfolding paints_def by metis
  then obtain s'' w'' where whole: "play fantasy_platform (after_sleep F) (s', w') = Inr ([], (s'', w''))"
      "pixels w'' = painted F 76800 ?px"
    using paints_after [OF assms(2), of F] unfolding paints_def by metis
  have "play fantasy_platform (example_actions F) (s, w) = Inr (Sleep # after_sleep F, (s', w'))"
    by (simp only: example_split play_append [OF half(1)]) simp
  moreover have "drop (2 * 76800) ?px = []" using assms(2) by (simp add: fb_size_value)
  moreover have "colour_at F = (\<lambda>i. pixel_colour F 320 240 (i mod 320) (i div 320))"
    by (simp add: colour_at_def fun_eq_iff SCREEN_WIDTH_def SCREEN_HEIGHT_def)
  ultimately show ?thesis
    using half(3) whole by (simp add: painted_def SCREEN_WIDTH_def SCREEN_HEIGHT_def del: upt_rec_numeral)
qed


lemma boot_can_play: "length ms < 2 ^ 31 \<Longrightarrow> 2 \<le> length ms \<Longrightarrow> can_play (boot ms)"
  by (simp add: can_play_def boot_def fb_base_def unsigned_of_nat take_bit_nat_eq_self)

theorem example_paints_screen_witness:
  "\<exists>v w. play fantasy_platform (example_main exact 320 240)
      (boot [0, 0], \<lparr>pixels = replicate fb_size 7, render = False, texture = [], host = \<lparr>std_out = [], std_err = []\<rparr>\<rparr>)
    = Inr (Sleep # after_sleep exact, (v, w)) \<and> drop 76800 (pixels w) = replicate 76800 7"
proof -
  let ?w = "\<lparr>pixels = replicate fb_size 7, render = False, texture = [], host = \<lparr>std_out = [], std_err = []\<rparr>\<rparr>"
  have "can_play (boot [0, 0])" by (rule boot_can_play) simp_all
  moreover have "length (concat (map (\<lambda>i. le_bytes 2 (f i)) [0..<38400])) = 76800" for f :: "nat \<Rightarrow> u16"
    by (simp add: length_concat comp_def sum_list_triv)
  ultimately show ?thesis
    using example_paints_screen [of "boot [0, 0]" ?w exact] by (auto simp: fb_size_value)
qed

section \<open>The menu on the board\<close>

lemma play_characters:
  assumes "length (r s) = 32"
  shows "\<exists>s'. play (board_platform lib) (map (\<lambda>i. Character (f i) (x i) 100) is @ as) (s, b)
    = play (board_platform lib) as (s', b\<lparr>sprite := fold (\<lambda>i. draw_char lib (ucast (f i)) (x i) 100) is (sprite b)\<rparr>)
    \<and> length (r s') = 32"
  using assms
proof (induction "is" arbitrary: s b)
  case Nil
  then show ?case by (intro exI [of _ s]) simp
next
  case (Cons i js)
  let ?s = "with_args 7 [ucast (f i), x i, 100] s" and ?b = "b\<lparr>sprite := draw_char lib (ucast (f i)) (x i) 100 (sprite b)\<rparr>"
  have "perform (board_platform lib) (Character (f i) (x i) 100) (s, b) = Inr (RV32_OK (), (?s, ?b))"
    using Cons.prems by (simp add: call_out_def board_platform_def board_ecall_def with_args_regs)
  with Cons.IH [of ?s ?b] Cons.prems show ?case by (simp del: perform.simps)
qed

text \<open>
  The menu fills the screen black, then with the colour \<open>0x3f\<close> (the brightest blue, with the lowest
  bit of green, see \<open>rgb565_bits\<close>), writes the alphabet and shows the result.
\<close>

lemma menu_on_board:
  assumes "length (r s) = 32"
  shows "\<exists>s' b'. play (board_platform lib) (menu_main (sprite_width lib) (sprite_height lib)) (s, b) = Inr ([], (s', b'))
    \<and> panel b' = sprite b' \<and> sprite b' = fold (\<lambda>i. draw_char lib (ucast (97 + word_of_nat i :: u16)) (10 + 10 * word_of_nat i) 100) [0..<26]
        (fill_rect lib 0 0 (sprite_width lib) (sprite_height lib) 0x3f
          (fill_rect lib 0 0 (sprite_width lib) (sprite_height lib) 0 (sprite b)))"
proof -
  let ?p = "board_platform lib" and ?w = "sprite_width lib" and ?h = "sprite_height lib"
  have colours: "scast (rgb565 0 0 0) = (0 :: u32)" "scast (rgb565 0 0 255) = (0x3f :: u32)" by code_simp+
  define b2 where "b2 = print_console (format_d ?h @ newline) (print_console (format_d ?w @ newline) b)"
  define b4 where "b4 = b2\<lparr>sprite := fill_rect lib 0 0 ?w ?h 0x3f (fill_rect lib 0 0 ?w ?h 0 (sprite b))\<rparr>"
  have print: "perform ?p (Print x) (t, c) = Inr (RV32_OK (), (with_args 2 [x] t, print_console (format_d x @ newline) c))"
    and rect: "perform ?p (Rectangle 0 0 ?w ?h k) (t, c)
      = Inr (RV32_OK (), (with_args 6 [0, 0, ?w, ?h, scast k] t, c\<lparr>sprite := fill_rect lib 0 0 ?w ?h (scast k) (sprite c)\<rparr>))"
    and frame: "perform ?p Show_frame (t, c) = Inr (RV32_OK (), (with_args 5 [] t, c\<lparr>panel := sprite c\<rparr>))"
    if "length (r t) = 32" for t x c k
    using that by (simp_all add: call_out_def board_platform_def board_ecall_def with_args_regs Let_def)
  define t where "t = with_args 6 [0, 0, ?w, ?h, 0x3f] (with_args 6 [0, 0, ?w, ?h, 0] (with_args 2 [?h] (with_args 2 [?w] s)))"
  have t: "length (r t) = 32" "play ?p (menu_main ?w ?h) (s, b)
      = play ?p (map (\<lambda>i. Character (97 + word_of_nat i) (10 + 10 * word_of_nat i) 100) [0..<26] @ [Show_frame]) (t, b4)"
    using assms
    by (simp_all add: t_def menu_main_def print rect colours b4_def b2_def print_console_def del: perform.simps upt_conv_Cons)
  from play_characters [OF t(1), of lib "\<lambda>i. 97 + word_of_nat i" "\<lambda>i. 10 + 10 * word_of_nat i" "[0..<26]" "[Show_frame]" b4]
  obtain u where u: "length (r u) = 32"
    "play ?p (menu_main ?w ?h) (s, b) = play ?p [Show_frame]
      (u, b4\<lparr>sprite := fold (\<lambda>i. draw_char lib (ucast (97 + word_of_nat i :: u16)) (10 + 10 * word_of_nat i) 100) [0..<26] (sprite b4)\<rparr>)"
    unfolding t(2) by blast
  then show ?thesis by (simp add: frame b4_def del: perform.simps upt_conv_Cons)
qed

section \<open>The output of the program in C\<close>

lemma decimal_examples: "format_d 3 = ''3''" "format_d 1134903170 = ''1134903170''" "format_d 2385 = ''2385''"
  by (simp_all add: format_d_def decimal_nat.simps digit_char_def) code_simp+

lemma fib_45: "fib 45 = Inr 1134903170"
  by (simp add: fib_def eval_nat_numeral)

text \<open>
  The program in C on the command-line emulator: it prints 3, the 45th Fibonacci number, 2385
  and 3, one to a line, and returns 45. No sum of the loop leaves the range of \<open>int\<close>.
\<close>

lemma c_program_output:
  assumes "length (r s) = 32"
  shows "\<exists>as s'. c_program_main = Inr (as, 45)
    \<and> play emulator_platform as (s, w) = Inr ([], (s', print_out
        (''3'' @ newline @ ''1134903170'' @ newline @ ''2385'' @ newline @ ''3'' @ newline) w))"
proof -
  have print: "perform emulator_platform (Print x) (t, v)
      = Inr (RV32_OK (), (with_args 2 [x] t, print_out (format_d x @ newline) v))" if "length (r t) = 32" for t x v
    using that by (simp add: call_out_def emulator_ecall_def with_args_regs Let_def)
  let ?as = "[Print 3, Print 1134903170, Print 2385, Print 3]"
  have "c_program_main = Inr (?as, 45)" by (simp add: c_program_main_def fib_45)
  moreover have "\<exists>s'. play emulator_platform ?as (s, w) = Inr ([], (s', print_out
      (''3'' @ newline @ ''1134903170'' @ newline @ ''2385'' @ newline @ ''3'' @ newline) w))"
    using assms by (simp add: print decimal_examples print_out_def del: perform.simps)
  ultimately show ?thesis by blast
qed

lemma c_program_output_witness:
  "\<exists>as s'. c_program_main = Inr (as, 45) \<and> play emulator_platform as (boot [], silent)
    = Inr ([], (s', print_out (''3'' @ newline @ ''1134903170'' @ newline @ ''2385'' @ newline @ ''3'' @ newline) silent))"
  by (rule c_program_output) (simp add: boot_def)

end
