(* ===== verification/Program_Io.thy ===== *)
theory Program_Io
  imports Control_Properties
begin

text \<open>
  Whole programs on the command-line emulator, with what they print. The environment a guest of
  \<open>src/examples/embedding\<close> sees is stated over the instruction set: an \<open>ecall\<close> that prints a
  character or a number (\<open>ecall.c\<close>), a byte stored at \<open>0x80000000\<close> (\<open>emulator.c\<close>), and the two
  ways a program ends, the exit call and a breakpoint instruction. A simulation then gives what
  \<open>main\<close> returns and prints for every program the environment describes.
\<close>

section \<open>The environment of a guest program\<close>

definition at_word :: "hart \<Rightarrow> u32 \<Rightarrow> bool" where
  "at_word h x \<longleftrightarrow> hart_quiet h \<and> fetch_bytes 4 (ram h) (unat (ipc h)) = Some (le_bytes 4 x)"

definition call_text :: "u32 \<Rightarrow> u32 \<Rightarrow> string" where
  "call_text k x =
     (if k = 1 then [char_of (unat x mod 256)]
      else if k = 2
      then (if sint x < 0 then ''-'' @ decimal_nat (nat \<bar>sint x\<bar>) else decimal_nat (nat (sint x))) @ [CHR 0x0A]
      else [])"

inductive env_step :: "hart \<Rightarrow> string \<Rightarrow> hart \<Rightarrow> bool" where
  computes: "hart_step h h' \<Longrightarrow> env_step h [] h'"
| calls: "at_word h 0x73 \<Longrightarrow> gpr h 17 \<noteq> 93 \<Longrightarrow>
    env_step h (call_text (gpr h 17) (gpr h 10)) (next_instr h)"
| console: "at_word h (encode (Store Sb rs1 rs2 imm)) \<Longrightarrow> gpr h rs1 + scast imm = 0x80000000 \<Longrightarrow>
    ram h 0x80000000 = None \<Longrightarrow> env_step h [char_of (unat (gpr h rs2) mod 256)] (next_instr h)"

inductive env_steps :: "nat \<Rightarrow> hart \<Rightarrow> string \<Rightarrow> hart \<Rightarrow> bool" where
  stay: "env_steps 0 h [] h"
| more: "env_step h t h1 \<Longrightarrow> env_steps n h1 u h2 \<Longrightarrow> env_steps (Suc n) h (t @ u) h2"

text \<open>\<open>env_ends h c e\<close>: the program ends at \<open>h\<close> with exit code \<open>c\<close> and the text \<open>e\<close> on standard error.\<close>

inductive env_ends :: "hart \<Rightarrow> u32 \<Rightarrow> string \<Rightarrow> bool" where
  exits: "at_word h 0x73 \<Longrightarrow> gpr h 17 = 93 \<Longrightarrow> env_ends h (gpr h 10) []"
| breaks: "at_word h 0x100073 \<Longrightarrow>
    env_ends h 1 (''ebreak at pc='' @ format_08x (ipc h + 4) @ [CHR 0x0A])"

section \<open>The texts of \<open>printf\<close>\<close>

lemma low_byte: "unat (x AND 0xff :: u32) = unat x mod 256"
proof -
  have "x AND 0xff = take_bit 8 x" by (simp add: take_bit_eq_mask mask_eq_exp_minus_1)
  then show ?thesis by (simp add: take_bit_eq_mod unat_mod)
qed

lemma narrow_byte: "(ucast (ucast (x AND 0xff :: u32) :: u8) :: u32) = x AND 0xff"
  by (rule word32_eqI; simp add: bit_simps mask_test)

lemma sint_nonneg: "0 \<le> sint (x :: u32) \<Longrightarrow> unat x = nat (sint x)"
proof -
  assume "0 \<le> sint x"
  then have "uint (word_of_int (sint x) :: u32) = sint x"
    using sint_u32_bounds(2) [of x] by (simp only: uint_word_of_int) simp
  then show ?thesis by (metis sint_eqD unat_eq_nat_uint)
qed

lemma call_text_code: "(if k = 1 then format_c x else if k = 2 then format_d x @ newline else []) = call_text k x"
  by (auto simp: call_text_def format_c_def format_d_def newline_def low_byte sint_nonneg not_less)

section \<open>One turn of the emulator\<close>

lemma cycle_word:
  assumes "ready s" "at_word (abs_hart s) x"
  shows "rv32_cycle p (s, w) = rv32_execute p x (write_reg 0 0 s, w)"
proof -
  have wf: "wf_rv32 s" using assms(1) by (simp add: ready_def)
  have f: "fetch_bytes 4 (abs_ram s) (unat (pc s)) = Some (le_bytes 4 x)"
    and q: "deliver_interrupt s = s"
    using assms(2) deliver_quiet [of s] by (simp_all add: at_word_def)
  have "(le_word (le_bytes 4 x) :: u32) = x" by (rule le_word_le_bytes_full) simp
  then have "rv32_load32 p (s, w) (pc s) = Inr (RV32_OK x, (s, w))"
    using ram_access(2) [OF wf f] ram_access(4) [OF wf f, where w = w and ?'a = 32]
    by (simp add: rv32_load32_def)
  then show ?thesis using assms(1) q by (simp add: rv32_cycle_def ready_def)
qed

lemma system_words:
  "rv32_execute p 0x73 v = Inr (exec_ecall p v)"
  "rv32_execute p 0x100073 (s, w) = Inr (advance 4 (stop RV32_EBREAK s), w)"
  by (simp_all add: rv32_execute_def exec_system_def OPCODE_def FUNCT3_def IMM_I_def)

lemma print_nothing [simp]: "print_out [] w = w" "print_err [] w = w"
  by (simp_all add: print_out_def print_err_def)

lemma print_append: "print_out u (print_out t w) = print_out (t @ u) w"
  by (simp add: print_out_def)

lemma clear_frame: "frame s (advance 4 (write_reg 0 0 s))" "frame s (write_reg 0 0 s)"
  by (rule frame_trans [OF write_reg_frame advance_frame]) (rule write_reg_frame)

lemma clear_regs: "k \<noteq> 0 \<Longrightarrow> r (write_reg 0 0 s) ! k = r s ! k"
  by (simp add: write_reg_def)

lemma env_call_cycle:
  assumes "ready s" "at_word (abs_hart s) 0x73" "abs_gpr s 17 \<noteq> 93"
  shows "rv32_cycle emulator_platform (s, w) =
    Inr (advance 4 (write_reg 0 0 s), print_out (call_text (abs_gpr s 17) (abs_gpr s 10)) w)"
proof -
  have "emulator_ecall (write_reg 0 0 s, w)
      = (write_reg 0 0 s, print_out (call_text (abs_gpr s 17) (abs_gpr s 10)) w)"
    using assms(3)
    by (simp add: emulator_ecall_def Let_def clear_regs abs_gpr_def flip: call_text_code)
  then show ?thesis
    using assms(1) clear_frame(2) [of s]
    by (simp add: cycle_word [OF assms(1,2)] system_words exec_ecall_def Let_def ready_def frame_def)
qed

lemma env_console_cycle:
  assumes "ready s" "at_word (abs_hart s) (encode (Store Sb rs1 rs2 imm))"
    and "abs_gpr s rs1 + scast imm = 0x80000000" "abs_ram s 0x80000000 = None"
  shows "rv32_cycle emulator_platform (s, w) =
    Inr (advance 4 (write_reg 0 0 s), print_out [char_of (unat (abs_gpr s rs2) mod 256)] w)"
proof -
  let ?s = "write_reg 0 0 s"
  have wf: "wf_rv32 s" using assms(1) by (simp add: ready_def)
  note s0 = wf_clear_zero [OF wf]
  have gpr: "abs_gpr ?s = abs_gpr s" using abs_clear_zero [of s] by (metis abs_hart_simps(1))
  have "fetch_bytes 4 (abs_ram s) (unat (pc s)) = Some (le_bytes 4 (encode (Store Sb rs1 rs2 imm)))"
    using assms(2) by (simp add: at_word_def)
  from ram_access(1) [OF wf this] have "4 \<le> unat (mem_size ?s)" by (simp add: write_reg_def)
  moreover have "unat (mem_size ?s) \<le> 0x80000000"
    using assms(4) by (simp add: abs_ram_def write_reg_def split: if_splits)
  ultimately have "\<not> in_ram 1 ?s 0x80000000" by (simp add: in_ram_iff)
  then show ?thesis
    using assms(3)
    by (simp add: cycle_word [OF assms(1,2)] dispatch exec_store_def s0 gpr rv32_store8_def
        emulator_store8_def finish_store_def format_c_def narrow_byte low_byte)
qed

lemma env_step_cycle:
  assumes "env_step h t h'" "abs_hart s = h" "ready s"
  shows "\<exists>s'. rv32_cycle emulator_platform (s, w) = Inr (s', print_out t w)
    \<and> abs_hart s' = h' \<and> frame s s'"
  using assms(1)
proof cases
  case computes
  from computes(2) obtain i where "hart_quiet h" "fetches h i" "conformant i h" "isa_step i h = Some h'"
    by (rule hart_stepE)
  with assms(2,3) cycle_simulates [of s i h' emulator_platform w] computes(1) show ?thesis by auto
next
  case calls
  with assms env_call_cycle [of s w] show ?thesis
    by (auto simp: abs_advance abs_clear_zero next_instr_def clear_frame)
next
  case (console rs1 rs2 imm)
  with assms env_console_cycle [of s rs1 rs2 imm w] show ?thesis
    by (auto simp: abs_advance abs_clear_zero next_instr_def clear_frame)
qed

section \<open>Runs and their end\<close>

lemma env_steps_turns:
  assumes "env_steps n h t h'" "abs_hart s = h" "ready s" "bp_mask s = 0"
  shows "\<exists>s'. abs_hart s' = h' \<and> ready s' \<and>
    emulator_turns (n + k) (s, w) = emulator_turns k (s', print_out t w)"
  using assms
proof (induction arbitrary: s w rule: env_steps.induct)
  case (stay h)
  then show ?case by auto
next
  case (more h t h1 n u h2)
  from env_step_cycle [OF more.hyps(1) more.prems(1,2), of w] obtain s1
    where cyc: "rv32_cycle emulator_platform (s, w) = Inr (s1, print_out t w)"
      and s1: "abs_hart s1 = h1" "frame s s1" by blast
  note next1 = ready_frame [OF more.prems(2) s1(2) more.prems(3)]
  from more.IH [OF s1(1) next1, of "print_out t w"] obtain s' where s': "abs_hart s' = h2" "ready s'"
      "emulator_turns (n + k) (s1, print_out t w) = emulator_turns k (s', print_out (t @ u) w)"
    by (auto simp: print_append)
  have "emulator_turn (s, w) = Inr (s1, print_out t w)"
    by (rule emulator_turn_cycle [OF cyc]) (use next1 in \<open>simp add: ready_def\<close>)
  then have "emulator_turns (Suc n + k) (s, w) = emulator_turns (n + k) (s1, print_out t w)"
    using more.prems(2) by (simp add: emulator_turns.simps [of "Suc (n + k)"] ready_def)
  with s' show ?case by metis
qed

lemma env_ends_turn:
  assumes "env_ends h c e" "abs_hart s = h" "ready s"
  shows "\<exists>t. emulator_turns 1 (s, w) = Some (Inr (t, print_err e w)) \<and> exit_code t = c"
  using assms(1)
proof cases
  case exits
  then have "at_exit (abs_hart s)" using assms(2) by (simp add: at_exit_def at_word_def)
  with emulator_exit_turn [OF assms(3), of w] exits assms(2) show ?thesis by auto
next
  case breaks
  let ?t = "advance 4 (stop RV32_EBREAK (write_reg 0 0 s))"
  have "rv32_cycle emulator_platform (s, w) = Inr (?t, w)"
    using breaks(3) assms(2) by (simp add: cycle_word [OF assms(3)] system_words)
  moreover have "status ?t = RV32_EBREAK" "pc ?t = pc s + 4" "exit_code ?t = 1"
    by (simp_all add: advance_def stop_def exit_code_def)
  ultimately have "emulator_turns 1 (s, w) = Some (Inr (?t, print_err e w))"
    using assms(2,3) breaks(2)
    by (auto simp: emulator_turns.simps [of "Suc 0"] emulator_turns.simps [of 0] emulator_turn_def
        emulator_report_def Let_def ready_def newline_def)
  with \<open>exit_code ?t = 1\<close> breaks(1) show ?thesis by blast
qed

lemma env_run_main:
  assumes "malloced m emulator_ram_size" "file \<noteq> []" "length file \<le> unat emulator_ram_size"
    and "files path = Some file"
    and "env_steps n (abs_hart (emulator_start file m)) t h" "env_ends h c e"
  shows "emulator_main [name, path] files (Some m) w = Some (Inr (c, print_err e (print_out t w)))"
proof -
  note start = emulator_start_ready [OF assms(1,3)]
  from env_steps_turns [OF assms(5) refl start, of 1 w] obtain s
    where s: "abs_hart s = h" "ready s"
      "emulator_turns (n + 1) (emulator_start file m, w) = emulator_turns 1 (s, print_out t w)" by blast
  from env_ends_turn [OF assms(6) s(1,2), of "print_out t w"] s(3) obtain u
    where "emulator_turns (n + 1) (emulator_start file m, w) = Some (Inr (u, print_err e (print_out t w)))"
      and "exit_code u = c" by auto
  with emulator_main_start [of m "file" files path, OF assms(1-4)] emulator_turns_loop
  show ?thesis by force
qed

section \<open>A program on the emulator\<close>

text \<open>\<open>straight ws k h\<close>: the words \<open>ws\<close> are at the start of the RAM of \<open>h\<close>, which is at the \<open>k\<close>-th.\<close>

definition straight :: "u32 list \<Rightarrow> nat \<Rightarrow> hart \<Rightarrow> bool" where
  "straight ws k h \<longleftrightarrow> csrs h 0x300 = 0 \<and> ipc h = word_of_nat (4 * k) \<and> length ws < 2 ^ 29
     \<and> (\<forall>j < length ws. fetch_bytes 4 (ram h) (4 * j) = Some (le_bytes 4 (ws ! j)))"

lemma straight_word: "straight ws k h \<Longrightarrow> k < length ws \<Longrightarrow> at_word h (ws ! k)"
  using word_of_nat_unat_less [of "4 * k"]
  by (simp add: straight_def at_word_def hart_quiet_def del: of_nat_mult)

lemma straight_next:
  assumes "straight ws k h"
  shows "straight ws (Suc k) (next_instr h)" "straight ws (Suc k) (next_instr (set_gpr d x h))"
  using assms by (simp_all add: straight_def next_instr_def goto_def set_gpr_def)

lemma straight_computes:
  assumes "straight ws k h" "k < length ws" "ws ! k = encode i" "conformant i h" "isa_step i h = Some h1"
    and "env_steps n h1 t h2"
  shows "env_steps (Suc n) h t h2"
proof -
  have "at_word h (encode i)" using straight_word [OF assms(1,2)] assms(3) by simp
  then have "hart_step h h1" using assms(4,5) by (auto simp: at_word_def fetches_def intro: hart_step.intros)
  from env_steps.more [OF computes [OF this] assms(6)] show ?thesis by simp
qed

lemma straight_jump:
  assumes "straight ws k h" "ipc h' = word_of_nat (4 * k')" "ram h' = ram h" "csrs h' = csrs h"
  shows "straight ws k' h'"
  using assms by (simp add: straight_def)

definition words_bytes :: "u32 list \<Rightarrow> u8 list" where
  "words_bytes ws = concat (map (le_bytes 4) ws)"

lemma length_words_bytes [simp]: "length (words_bytes ws) = 4 * length ws"
  by (induction ws) (simp_all add: words_bytes_def)

lemma words_bytes_nth: "j < length ws \<Longrightarrow> take 4 (drop (4 * j) (words_bytes ws)) = le_bytes 4 (ws ! j)"
  unfolding words_bytes_def by (induction ws arbitrary: j) (auto simp: nth_Cons split: nat.splits)

lemma emulator_start_mem:
  assumes "malloced m emulator_ram_size" "length file \<le> unat emulator_ram_size"
  shows "k + n \<le> 0x20000004 \<Longrightarrow> fetch_bytes n (ram (abs_hart (emulator_start file m))) k
      = Some (take n (drop k (file @ drop (length file) (mem (zeroed m)))))"
proof -
  let ?s = "emulator_start file m"
  have wf: "wf_rv32 ?s" using emulator_start_ready(1) [OF assms] by (simp add: ready_def)
  show "k + n \<le> 0x20000004 \<Longrightarrow> fetch_bytes n (ram (abs_hart ?s)) k
      = Some (take n (drop k (file @ drop (length file) (mem (zeroed m)))))"
    by (simp add: fetch_bytes_abs [OF wf]) (simp add: emulator_start_def emulator_ram_size_def)
qed

lemma emulator_start_straight:
  assumes "malloced m emulator_ram_size" "4 * length ws + length ds \<le> unat emulator_ram_size"
  shows "straight ws 0 (abs_hart (emulator_start (words_bytes ws @ ds) m))"
proof -
  note start = emulator_start_mem [OF assms(1), of "words_bytes ws @ ds"]
  have ram: "4 * length ws + length ds \<le> 0x20000004" using assms(2) by (simp add: emulator_ram_size_def)
  have "fetch_bytes 4 (ram (abs_hart (emulator_start (words_bytes ws @ ds) m))) (4 * j) = Some (le_bytes 4 (ws ! j))"
    if j: "j < length ws" for j
    using j ram words_bytes_nth [OF j] start [of "4 * j" 4] assms(2) by simp
  with ram show ?thesis
    by (simp add: straight_def) (simp add: emulator_start_def zeroed_def rv32_read_csr_def)
qed

text \<open>
  A program that prints \<open>H\<close> with a system call, \<open>i\<close> through the console byte and \<open>-7\<close> with a system
  call, then runs into an \<open>ebreak\<close>.
\<close>

definition hi_program :: "u32 list" where
  "hi_program = [encode (OpImm Addi 10 0 72), encode (OpImm Addi 17 0 1), 0x73,
     encode (Lui 15 0x80000), encode (OpImm Addi 11 0 105), encode (Store Sb 15 11 0),
     encode (OpImm Addi 10 0 (- 7)), encode (OpImm Addi 17 0 2), 0x73, 0x100073]"

lemma straight_calls:
  assumes "straight ws k h" "k < length ws" "ws ! k = 0x73" "gpr h 17 \<noteq> 93"
    and "env_steps n (next_instr h) u h2" "t = call_text (gpr h 17) (gpr h 10) @ u"
  shows "env_steps (Suc n) h t h2"
  using env_steps.more [OF calls assms(5)] straight_word [OF assms(1,2)] assms(3,4,6) by simp

lemma straight_console:
  assumes "straight ws k h" "k < length ws" "ws ! k = encode (Store Sb rs1 rs2 imm)"
    and "gpr h rs1 + scast imm = 0x80000000" "ram h 0x80000000 = None"
    and "env_steps n (next_instr h) u h2" "t = char_of (unat (gpr h rs2) mod 256) # u"
  shows "env_steps (Suc n) h t h2"
  using env_steps.more [OF console assms(6)] straight_word [OF assms(1,2)] assms(3-5,7) by simp

lemma next_hart [simp]:
  "gpr (next_instr h) = gpr h" "ram (next_instr h) = ram h" "ipc (next_instr h) = ipc h + 4"
  by (simp_all add: next_instr_def goto_def)

lemma set_gpr_hart [simp]:
  "gpr (set_gpr d x h) i = (if i = 0 then 0 else if i = d then x else gpr h i)" "ram (set_gpr d x h) = ram h"
  by (simp_all add: set_gpr_def)

lemma hi_texts:
  "call_text 1 72 = ''H''" "call_text 2 4294967289 = ''-7'' @ [CHR 0x0A]"
  "format_08x 40 = ''00000028''" "char_of (105 :: nat) = CHR ''i''"
  by (simp_all add: call_text_def format_08x_def digit_char_def decimal_nat.simps [of 7]) code_simp+

lemma hi_program_steps:
  assumes start: "straight hi_program 0 h" and zero: "gpr h 0 = 0" and none: "ram h 0x80000000 = None"
  shows "\<exists>h'. env_steps 9 h (''Hi-7'' @ [CHR 0x0A]) h'
    \<and> env_ends h' 1 (''ebreak at pc=00000028'' @ [CHR 0x0A])"
proof -
  let ?h1 = "next_instr (set_gpr 10 72 h)"
  let ?h2 = "next_instr (set_gpr 17 1 ?h1)"
  let ?h3 = "next_instr ?h2"
  let ?h4 = "next_instr (set_gpr 15 0x80000000 ?h3)"
  let ?h5 = "next_instr (set_gpr 11 105 ?h4)"
  let ?h6 = "next_instr ?h5"
  let ?h7 = "next_instr (set_gpr 10 4294967289 ?h6)"
  let ?h8 = "next_instr (set_gpr 17 2 ?h7)"
  let ?h9 = "next_instr ?h8"
  note s1 = straight_next(2) [OF start, where d = 10 and x = 72]
  note s2 = straight_next(2) [OF s1, where d = 17 and x = 1]
  note s3 = straight_next(1) [OF s2]
  note s4 = straight_next(2) [OF s3, where d = 15 and x = "0x80000000"]
  note s5 = straight_next(2) [OF s4, where d = 11 and x = 105]
  note s6 = straight_next(1) [OF s5]
  note s7 = straight_next(2) [OF s6, where d = 10 and x = 4294967289]
  note s8 = straight_next(2) [OF s7, where d = 17 and x = 2]
  note s9 = straight_next(1) [OF s8]
  note words = hi_program_def conformant_def zero none
  have "env_steps 1 ?h8 (''-7'' @ [CHR 0x0A]) ?h9"
    unfolding One_nat_def
    by (rule straight_calls [OF s8 _ _ _ env_steps.stay]) (simp_all add: words hi_texts del: encode.simps)
  then have "env_steps (Suc (Suc 1)) ?h6 (''-7'' @ [CHR 0x0A]) ?h9"
    by (intro straight_computes [OF s6, where ?h1.0 = "?h7" and i = "OpImm Addi 10 0 (- 7)"]
        straight_computes [OF s7, where ?h1.0 = "?h8" and i = "OpImm Addi 17 0 2"]) (simp_all add: words del: encode.simps)
  then have "env_steps (Suc (Suc (Suc 1))) ?h5 (''i-7'' @ [CHR 0x0A]) ?h9"
    by (rule straight_console [OF s5, rotated 4, where ?rs1.0 = 15 and ?rs2.0 = 11 and imm = 0])
      (simp_all add: words hi_texts del: encode.simps)
  then have "env_steps (Suc (Suc (Suc (Suc (Suc 1))))) ?h3 (''i-7'' @ [CHR 0x0A]) ?h9"
    by (intro straight_computes [OF s3, where ?h1.0 = "?h4" and i = "Lui 15 0x80000"]
        straight_computes [OF s4, where ?h1.0 = "?h5" and i = "OpImm Addi 11 0 105"]) (simp_all add: words del: encode.simps)
  then have "env_steps (Suc (Suc (Suc (Suc (Suc (Suc 1)))))) ?h2 (''Hi-7'' @ [CHR 0x0A]) ?h9"
    by (rule straight_calls [OF s2, rotated 3]) (simp_all add: words hi_texts del: encode.simps)
  then have "env_steps (Suc (Suc (Suc (Suc (Suc (Suc (Suc (Suc 1)))))))) h (''Hi-7'' @ [CHR 0x0A]) ?h9"
    by (intro straight_computes [OF start, where ?h1.0 = "?h1" and i = "OpImm Addi 10 0 72"]
        straight_computes [OF s1, where ?h1.0 = "?h2" and i = "OpImm Addi 17 0 1"]) (simp_all add: words del: encode.simps)
  moreover have "env_ends ?h9 1 (''ebreak at pc=00000028'' @ [CHR 0x0A])"
    using breaks [of ?h9] straight_word [OF s9] start by (simp add: words hi_texts straight_def)
  ultimately show ?thesis by (auto simp: eval_nat_numeral)
qed

lemma hi_program_prints:
  "emulator_main [''emulator'', ''hi.bin''] [''hi.bin'' \<mapsto> words_bytes hi_program]
     (Some heap_block) silent
   = Some (Inr (1, \<lparr>std_out = ''Hi-7'' @ [CHR 0x0A], std_err = ''ebreak at pc=00000028'' @ [CHR 0x0A]\<rparr>))"
proof -
  let ?file = "words_bytes hi_program"
  let ?h = "abs_hart (emulator_start ?file heap_block)"
  have "straight hi_program 0 ?h"
    using emulator_start_straight [OF heap_block_malloced, of hi_program "[]"]
    by (simp add: hi_program_def emulator_ram_size_def)
  moreover have "gpr ?h 0 = 0" "ram ?h 0x80000000 = None"
    by (simp_all add: abs_gpr_def abs_ram_def emulator_start_def emulator_ram_size_def)
  ultimately obtain h where h: "env_steps 9 ?h (''Hi-7'' @ [CHR 0x0A]) h"
      "env_ends h 1 (''ebreak at pc=00000028'' @ [CHR 0x0A])"
    using hi_program_steps by blast
  have "length ?file = 40" by (simp add: hi_program_def)
  then have "?file \<noteq> []" "length ?file \<le> unat emulator_ram_size"
    by (simp_all add: emulator_ram_size_def flip: length_0_conv)
  from env_run_main [OF heap_block_malloced this _ h, of "[''hi.bin'' \<mapsto> ?file]" "''hi.bin''"]
  show ?thesis by (simp add: print_err_def print_out_def silent_def)
qed

end
