(* ===== verification/Guest_Assembly.thy ===== *)
theory Guest_Assembly
  imports Program_Io Guest_Asm
begin

text \<open>
  The guests written in assembly, \<open>src/examples/asm\<close>, assembled without relaxation and run by the
  command-line emulator: their loops on the instruction set, and through the simulation of
  \<open>Program_Io\<close> what the emulator prints and returns.
\<close>

section \<open>The programs\<close>

abbreviation "t1 \<equiv> 6 :: 5 word"
abbreviation "t2 \<equiv> 7 :: 5 word"
abbreviation "t3 \<equiv> 28 :: 5 word"

text \<open>
  \<open>asm_program.s\<close>. The labels: \<open>loop\<close> is instruction 8, \<open>end\<close> is instruction 16; branches and
  jumps hold their distance in halfwords.
\<close>

definition asm_program :: "asm list" where
  "asm_program = li t0 0 @ li t1 10 @ li t2 10 @ li t3 1
     @ [Insn (OpImm Addi a7 0 2)] @ li a0 45 @ [Insn (Op Xor' a0 a0 t1), Ecall]
     @ [Insn (OpImm Addi t0 t0 1), Insn (Branch Beq t0 t1 14),
        Insn (OpImm Addi a7 0 2), Insn (OpImm Addi a0 t0 0), Insn (Op Add a0 a0 t2),
        Insn (Op Sub a0 a0 t3), Ecall, Insn (Jal 0 (- 14))]
     @ [Insn (OpImm Addi a7 0 93), Insn (OpImm Addi a0 0 0), Ecall]"

text \<open>
  \<open>hello.s\<close>. The labels: \<open>loop\<close> is instruction 3, \<open>end\<close> is instruction 9, and \<open>hello\<close> follows the
  last instruction; \<open>la\<close> is the pair \<open>auipc\<close>, \<open>addi\<close>.
\<close>

definition hello_asm :: "asm list" where
  "hello_asm = li a7 1 @ [Insn (Auipc t0 0), Insn (OpImm Addi t0 t0 44)]
     @ li t1 0 @ [Insn (Load Lw a0 t0 0), Insn (Branch Beq a0 t1 8), Ecall,
        Insn (OpImm Addi t0 t0 1), Insn (Jal 0 (- 10))]
     @ li a7 93 @ li a0 0 @ [Ecall]"

definition asciz :: "string \<Rightarrow> u8 list" where
  "asciz t = map (\<lambda>c. word_of_nat (of_char c)) t @ [0]"

definition assemble :: "asm list \<Rightarrow> u8 list \<Rightarrow> u8 list" where
  "assemble as ds = words_bytes (map asm_word as) @ ds"

section \<open>Walking through a program\<close>

definition reaches :: "hart \<Rightarrow> string \<Rightarrow> hart \<Rightarrow> bool" where
  "reaches h t h' \<longleftrightarrow> (\<exists>n. env_steps n h t h')"

lemma reaches_refl: "reaches h [] h"
  unfolding reaches_def by (blast intro: env_steps.stay)

lemma reaches_step: "env_step h t h' \<Longrightarrow> reaches h t h'"
  unfolding reaches_def using env_steps.more [OF _ env_steps.stay] by fastforce

lemma reaches_trans [trans]:
  assumes "reaches h t h1" "reaches h1 u h2"
  shows "reaches h (t @ u) h2"
proof -
  have "env_steps n h t h1 \<Longrightarrow> env_steps m h1 u h2 \<Longrightarrow> \<exists>k. env_steps k h (t @ u) h2" for n m
    by (induction rule: env_steps.induct) (auto simp del: append_assoc simp: append_assoc intro: env_steps.more)
  with assms show ?thesis by (auto simp: reaches_def)
qed

lemma silently: "reaches h [] h1 \<Longrightarrow> reaches h1 u h2 \<Longrightarrow> reaches h u h2"
  using reaches_trans [of h "[]" h1 u h2] by simp

lemma then_silently: "reaches h t h1 \<Longrightarrow> reaches h1 [] h2 \<Longrightarrow> reaches h t h2"
  using reaches_trans [of h t h1 "[]" h2] by simp

lemma goto_hart [simp]: "gpr (goto a h) = gpr h" "ram (goto a h) = ram h" "ipc (goto a h) = a" "csrs (goto a h) = csrs h"
  by (simp_all add: goto_def)

lemma csrs_kept [simp]: "csrs (next_instr h) = csrs h" "csrs (set_gpr d x h) = csrs h"
  by (simp_all add: next_instr_def set_gpr_def)

text \<open>Instructions that only compute and fall through, and a block of them.\<close>

fun plain :: "instr \<Rightarrow> bool" where
  "plain (Op f rd rs1 rs2) \<longleftrightarrow> True"
| "plain (OpImm f rd rs1 imm) \<longleftrightarrow> f \<noteq> Sltiu"
| "plain (Load f rd rs1 imm) \<longleftrightarrow> True"
| "plain (Auipc rd imm) \<longleftrightarrow> True"
| "plain i \<longleftrightarrow> False"

primrec isa_block :: "instr list \<Rightarrow> hart \<Rightarrow> hart option" where
  "isa_block [] h = Some h"
| "isa_block (i # is) h = (case isa_step i h of None \<Rightarrow> None | Some h' \<Rightarrow> isa_block is h')"

lemma plain_step:
  assumes "straight ws k h" "k < length ws" "ws ! k = encode i" "plain i" "isa_step i h = Some h'"
  shows "env_step h [] h'" "straight ws (Suc k) h'"
proof -
  have "conformant i h" using assms(4) by (cases i) (simp_all add: conformant_def)
  moreover have "at_word h (encode i)" using straight_word [OF assms(1,2)] assms(3) by simp
  ultimately have "hart_step h h'" using assms(5) by (auto simp: at_word_def fetches_def intro: hart_step.intros)
  then show "env_step h [] h'" by (rule computes)
  show "straight ws (Suc k) h'"
    using straight_next [OF assms(1)] assms(4,5) by (cases i) (auto split: option.splits)
qed

lemma walk_block:
  assumes "straight ws k h" "take (length is) (drop k ws) = map encode is" "list_all plain is"
    and "isa_block is h = Some h'"
  shows "reaches h [] h' \<and> straight ws (k + length is) h'"
  using assms
proof (induction "is" arbitrary: k h)
  case Nil
  then show ?case by (simp add: reaches_refl)
next
  case (Cons i "is")
  from Cons.prems(4) obtain h1 where h1: "isa_step i h = Some h1" "isa_block is h1 = Some h'"
    by (auto split: option.splits)
  from Cons.prems(2) have k: "k < length ws" by (cases "k < length ws") simp_all
  then have ws: "ws ! k = encode i" "take (length is) (drop (Suc k) ws) = map encode is"
    using Cons.prems(2) by (simp_all add: Cons_nth_drop_Suc [symmetric])
  note step = plain_step [OF Cons.prems(1) k ws(1) _ h1(1)]
  from Cons.IH [OF _ ws(2) _ h1(2)] step Cons.prems(3)
    reaches_trans [OF reaches_step, of h "[]" h1 "[]" h']
  show ?case by simp
qed

lemma walk_jump:
  assumes "straight ws k h" "k < length ws" "ws ! k = encode i" "conformant i h" "isa_step i h = Some h'"
    and "ipc h' = word_of_nat (4 * k')" "ram h' = ram h" "csrs h' = csrs h"
  shows "reaches h [] h' \<and> straight ws k' h'"
proof -
  have "at_word h (encode i)" using straight_word [OF assms(1,2)] assms(3) by simp
  then have "hart_step h h'"
    using assms(4,5) by (auto simp: at_word_def fetches_def intro: hart_step.intros)
  with straight_jump [OF assms(1,6-8)] show ?thesis by (auto intro: reaches_step computes)
qed

lemma walk_call:
  assumes "straight ws k h" "k < length ws" "ws ! k = 0x73" "gpr h 17 \<noteq> 93"
  shows "reaches h (call_text (gpr h 17) (gpr h 10)) (next_instr h) \<and> straight ws (Suc k) (next_instr h)"
  using straight_word [OF assms(1,2)] straight_next(1) [OF assms(1)] assms(3,4)
  by (auto intro: reaches_step calls)

section \<open>Counting to ten\<close>

text \<open>The registers at the label \<open>loop\<close> after \<open>k\<close> rounds.\<close>

definition counted :: "nat \<Rightarrow> hart \<Rightarrow> bool" where
  "counted k h \<longleftrightarrow> straight (map asm_word asm_program) 8 h \<and> gpr h 0 = 0
     \<and> gpr h t0 = word_of_nat k \<and> gpr h t1 = 10 \<and> gpr h t2 = 10 \<and> gpr h t3 = 1"

lemmas program_steps = li_def conformant_def jal_exact_def

lemma counted_round:
  assumes "counted k h" "k < 9"
  shows "\<exists>h'. reaches h (call_text 2 (word_of_nat (k + 10))) h' \<and> counted (Suc k) h'"
proof -
  let ?ws = "map asm_word asm_program"
  note ws = asm_program_def program_steps
  define x where "x = gpr h t0 + 1"
  have s: "straight ?ws 8 h" and g: "gpr h 0 = 0" "gpr h t1 = 10" "gpr h t2 = 10" "gpr h t3 = 1"
    and k: "gpr h t0 = word_of_nat k"
    using assms(1) by (simp_all add: counted_def)
  have x: "x = word_of_nat (Suc k)" "9 + x = word_of_nat (k + 10)" using k by (simp_all add: x_def)
  have "x \<noteq> 10"
    using assms(2) of_nat_inverse [of "Suc k" x] by (auto simp: x(1) dest: arg_cong [where f = unat])
  let ?h1 = "next_instr (set_gpr t0 x h)"
  let ?h2 = "next_instr ?h1"
  let ?h3 = "next_instr (set_gpr a0 (9 + x) (next_instr (set_gpr a0 (x + 10)
    (next_instr (set_gpr a0 x (next_instr (set_gpr a7 2 ?h2)))))))"
  let ?h4 = "next_instr ?h3"
  let ?h5 = "goto 32 (set_gpr 0 (ipc ?h4 + 4) ?h4)"
  have 1: "reaches h [] ?h1 \<and> straight ?ws (8 + length [OpImm Addi t0 t0 1]) ?h1"
    by (rule walk_block [OF s]) (simp_all add: ws x_def del: encode.simps)
  have 2: "reaches ?h1 [] ?h2 \<and> straight ?ws 10 ?h2"
    by (rule walk_jump [OF conjunct2 [OF 1], where i = "Branch Beq t0 t1 14"])
      (use 1 g \<open>x \<noteq> 10\<close> in \<open>simp_all add: ws straight_def del: encode.simps\<close>)
  have 3: "reaches ?h2 [] ?h3 \<and> straight ?ws (10 + length [OpImm Addi a7 0 2, OpImm Addi a0 t0 0, Op Add a0 a0 t2, Op Sub a0 a0 t3]) ?h3"
    by (rule walk_block [OF conjunct2 [OF 2]]) (simp_all add: ws g del: encode.simps)
  have 4: "reaches ?h3 (call_text (gpr ?h3 17) (gpr ?h3 10)) ?h4 \<and> straight ?ws (Suc 14) ?h4"
    by (rule walk_call) (use 3 in \<open>simp_all add: ws del: encode.simps\<close>)
  have 5: "reaches ?h4 [] ?h5 \<and> straight ?ws 8 ?h5"
    by (rule walk_jump [OF conjunct2 [OF 4], where i = "Jal 0 (- 14)"])
      (use 4 in \<open>simp_all add: ws straight_def del: encode.simps\<close>)
  have "reaches h (call_text (gpr ?h3 17) (gpr ?h3 10)) ?h5"
    by (rule silently [OF conjunct1 [OF 1] silently [OF conjunct1 [OF 2] silently [OF conjunct1 [OF 3]
        then_silently [OF conjunct1 [OF 4] conjunct1 [OF 5]]]]])
  moreover have "counted (Suc k) ?h5" using 5 g x(1) by (simp add: counted_def)
  ultimately show ?thesis using x(2) by auto
qed

lemma counted_end:
  assumes "counted 9 h"
  shows "\<exists>h'. reaches h [] h' \<and> env_ends h' 0 []"
proof -
  let ?ws = "map asm_word asm_program"
  note ws = asm_program_def program_steps
  have s: "straight ?ws 8 h" and g: "gpr h 0 = 0" "gpr h t1 = 10" "gpr h t0 = 9"
    using assms by (simp_all add: counted_def)
  let ?h1 = "next_instr (set_gpr t0 10 h)"
  let ?h2 = "goto (ipc ?h1 + 28) ?h1"
  let ?h3 = "next_instr (set_gpr a0 0 (next_instr (set_gpr a7 93 ?h2)))"
  have 1: "reaches h [] ?h1 \<and> straight ?ws (8 + length [OpImm Addi t0 t0 1]) ?h1"
    by (rule walk_block [OF s]) (simp_all add: ws g del: encode.simps)
  have 2: "reaches ?h1 [] ?h2 \<and> straight ?ws 16 ?h2"
    by (rule walk_jump [OF conjunct2 [OF 1], where i = "Branch Beq t0 t1 14"])
      (use 1 g in \<open>simp_all add: ws straight_def del: encode.simps\<close>)
  have 3: "reaches ?h2 [] ?h3 \<and> straight ?ws (16 + length [OpImm Addi a7 0 93, OpImm Addi a0 0 0]) ?h3"
    by (rule walk_block [OF conjunct2 [OF 2]]) (simp_all add: ws g del: encode.simps)
  have "env_ends ?h3 0 []"
    using exits [of ?h3] straight_word [OF conjunct2 [OF 3]] by (simp add: ws del: encode.simps)
  moreover have "reaches h [] ?h3"
    by (rule silently [OF conjunct1 [OF 1] silently [OF conjunct1 [OF 2] conjunct1 [OF 3]]])
  ultimately show ?thesis by blast
qed

lemma counted_loop:
  "counted k h \<Longrightarrow> k \<le> 9 \<Longrightarrow>
   \<exists>h'. reaches h (concat (map (\<lambda>n. call_text 2 (word_of_nat n)) [k + 10..<19])) h' \<and> env_ends h' 0 []"
proof (induction "9 - k" arbitrary: k h)
  case 0
  then show ?case using counted_end [of h] by (cases "k = 9") auto
next
  case (Suc n)
  then have k: "k < 9" by simp
  from counted_round [OF Suc.prems(1) this] obtain h1
    where h1: "reaches h (call_text 2 (word_of_nat (k + 10))) h1" "counted (Suc k) h1" by blast
  have "n = 9 - Suc k" "Suc k \<le> 9" using Suc.hyps(2) k by simp_all
  from Suc.hyps(1) [OF this(1) h1(2) this(2)] obtain h' where h':
    "reaches h1 (concat (map (\<lambda>n. call_text 2 (word_of_nat n)) [Suc k + 10..<19])) h'" "env_ends h' 0 []"
    by blast
  from reaches_trans [OF h1(1) h'(1)] h'(2) k show ?case by (auto simp: upt_conv_Cons)
qed

lemma asm_program_start:
  assumes "straight (map asm_word asm_program) 0 h" "gpr h 0 = 0"
  shows "\<exists>h'. reaches h (call_text 2 39) h' \<and> counted 0 h'"
proof -
  let ?ws = "map asm_word asm_program"
  note ws = asm_program_def program_steps
  let ?is = "[OpImm Addi t0 0 0, OpImm Addi t1 0 10, OpImm Addi t2 0 10, OpImm Addi t3 0 1,
    OpImm Addi a7 0 2, OpImm Addi a0 0 45, Op Xor' a0 a0 t1]"
  obtain h1 where h1: "isa_block ?is h = Some h1" by simp
  then have g: "gpr h1 0 = 0" "gpr h1 t0 = 0" "gpr h1 t1 = 10" "gpr h1 t2 = 10" "gpr h1 t3 = 1"
      "gpr h1 17 = 2" "gpr h1 10 = 39"
    using assms(2) by auto
  have 1: "reaches h [] h1 \<and> straight ?ws (0 + length ?is) h1"
    by (rule walk_block [OF assms(1) _ _ h1]) (simp_all add: ws del: encode.simps)
  then have "straight ?ws 7 h1" by (simp add: eval_nat_numeral)
  then have 2: "reaches h1 (call_text (gpr h1 17) (gpr h1 10)) (next_instr h1) \<and> straight ?ws (Suc 7) (next_instr h1)"
    by (rule walk_call) (use g in \<open>simp_all add: ws del: encode.simps\<close>)
  from 1 2 g reaches_trans [of h "[]" h1] show ?thesis by (fastforce simp: counted_def)
qed

text \<open>The lines that the program prints: the exclusive or of 45 and 10, then 10 to 18.\<close>

lemma asm_program_prints:
  assumes "malloced m emulator_ram_size" "files path = Some (assemble asm_program [])"
  shows "emulator_main [name, path] files (Some m) w
    = Some (Inr (0, print_out (concat (map (\<lambda>n. decimal_nat n @ newline) (39 # [10..<19]))) w))"
proof -
  let ?file = "assemble asm_program []"
  have len: "length ?file = 76" by (simp add: assemble_def asm_program_def li_def)
  then have fits: "?file \<noteq> []" "length ?file \<le> unat emulator_ram_size"
    by (simp_all add: emulator_ram_size_def flip: length_0_conv)
  let ?h = "abs_hart (emulator_start ?file m)"
  have "straight (map asm_word asm_program) 0 ?h"
    using emulator_start_straight [OF assms(1), of "map asm_word asm_program" "[]"] fits(2)
    by (simp add: assemble_def)
  moreover have "gpr ?h 0 = 0" by (simp add: abs_gpr_def)
  ultimately obtain h1 where h1: "reaches ?h (call_text 2 39) h1" "counted 0 h1"
    using asm_program_start by blast
  from counted_loop [OF h1(2)] obtain h2 where h2:
    "reaches h1 (concat (map (\<lambda>n. call_text 2 (word_of_nat n)) [10..<19])) h2" "env_ends h2 0 []"
    by auto
  have line: "call_text 2 (word_of_nat n) = decimal_nat n @ newline" if "n < 2 ^ 31" for n
    using that by (simp add: call_text_def newline_def signed_of_nat signed_take_bit_int_eq_self)
  have "concat (map (\<lambda>n. call_text 2 (word_of_nat n)) (39 # [10..<19]))
    = concat (map (\<lambda>n. decimal_nat n @ newline) (39 # [10..<19]))"
    by (rule arg_cong [where f = concat], rule map_cong [OF refl], rule line) auto
  with reaches_trans [OF h1(1) h2(1)]
  have "reaches ?h (concat (map (\<lambda>n. decimal_nat n @ newline) (39 # [10..<19]))) h2" by simp
  then show ?thesis
    using env_run_main [where files = files, OF assms(1) fits assms(2) _ h2(2)]
    by (auto simp: reaches_def)
qed

section \<open>The greeting\<close>

definition byte_char :: "u8 \<Rightarrow> char" where "byte_char b = char_of (unat b)"

text \<open>What the loop prints: the bytes in front of the first four zero bytes in a row.\<close>

fun text_until :: "u8 list \<Rightarrow> u8 list option" where
  "text_until [] = None"
| "text_until (b # bs) =
     (if length bs < 3 then None
      else if take 4 (b # bs) = [0, 0, 0, 0] then Some []
      else map_option (\<lambda>out. b # out) (text_until bs))"

lemma text_until_asciz:
  assumes "0 \<notin> set bs" "3 \<le> length after"
  shows "take 3 after = [0, 0, 0] \<Longrightarrow> text_until (bs @ 0 # after) = Some bs"
    and "text_until (bs @ 0 # after) = Some bs \<Longrightarrow> take 3 after = [0, 0, 0]"
  using assms by (induction bs) (auto simp: numeral_eq_Suc split: if_splits)

lemma le_word_low: "unat (le_word (b # bs) :: u32) mod 256 = unat b"
proof -
  have "ucast (le_word (b # bs) :: u32) = b" by (rule bit_word_eqI) (simp add: bit_simps)
  moreover have "unat (ucast x :: u8) = unat x mod 256" for x :: u32
    by (simp add: unsigned_ucast_eq take_bit_eq_mod)
  ultimately show ?thesis by metis
qed

lemma le_word_zero: "length bs = 4 \<Longrightarrow> (le_word bs :: u32) = 0 \<longleftrightarrow> bs = [0, 0, 0, 0]"
proof -
  assume "length bs = 4"
  then have "le_bytes 4 (le_word bs :: u32) = bs" using le_bytes_le_word [of bs, where ?'a = 32] by simp
  moreover have "le_bytes 4 (0 :: u32) = [0, 0, 0, 0]" by (simp add: numeral_eq_Suc)
  ultimately show ?thesis by force
qed

text \<open>The registers at the label \<open>loop\<close>, with the address of the next character.\<close>

definition greeted :: "nat \<Rightarrow> (u32 \<Rightarrow> u8 option) \<Rightarrow> hart \<Rightarrow> bool" where
  "greeted a m h \<longleftrightarrow> straight (map asm_word hello_asm) 3 h \<and> gpr h 0 = 0 \<and> gpr h a7 = 1
     \<and> gpr h t0 = word_of_nat a \<and> ram h = m"

lemma greeted_word:
  assumes "greeted a m h" "fetch_bytes 4 m a = Some bs" "a < 2 ^ 32"
  defines "h1 \<equiv> next_instr (set_gpr a0 (le_word bs) (next_instr (set_gpr t1 0 h)))"
  shows "reaches h [] h1 \<and> straight (map asm_word hello_asm) 5 h1"
proof -
  let ?is = "[OpImm Addi t1 0 0, Load Lw a0 t0 0]"
  have s: "straight (map asm_word hello_asm) 3 h" and g: "gpr h 0 = 0" "gpr h t0 = word_of_nat a" "ram h = m"
    using assms(1) by (simp_all add: greeted_def)
  have "isa_block ?is h = Some h1"
    using assms(2) word_of_nat_unat_less [OF assms(3)] by (simp add: g h1_def)
  from walk_block [OF s _ _ this] show ?thesis
    by (simp add: hello_asm_def program_steps del: encode.simps)
qed

lemma greeted_round:
  assumes h: "greeted a m h" "fetch_bytes 4 m a = Some (b # bs)" "a < 2 ^ 32"
    and more: "(le_word (b # bs) :: u32) \<noteq> 0"
  shows "\<exists>h'. reaches h [byte_char b] h' \<and> greeted (Suc a) m h'"
proof -
  let ?ws = "map asm_word hello_asm" and ?x = "le_word (b # bs) :: u32"
  note ws = hello_asm_def program_steps
  have g: "gpr h 0 = 0" "gpr h a7 = 1" "gpr h t0 = word_of_nat a" "ram h = m"
    using h(1) by (simp_all add: greeted_def)
  let ?h1 = "next_instr (set_gpr a0 ?x (next_instr (set_gpr t1 0 h)))"
  let ?h2 = "next_instr ?h1"
  let ?h3 = "next_instr ?h2"
  let ?h4 = "next_instr (set_gpr t0 (word_of_nat a + 1) ?h3)"
  let ?h5 = "goto 12 (set_gpr 0 (ipc ?h4 + 4) ?h4)"
  note 1 = greeted_word [OF h]
  have 2: "reaches ?h1 [] ?h2 \<and> straight ?ws 6 ?h2"
    by (rule walk_jump [OF conjunct2 [OF 1], where i = "Branch Beq a0 t1 8"])
      (use 1 g more in \<open>simp_all add: ws straight_def del: encode.simps le_word.simps\<close>)
  have 3: "reaches ?h2 (call_text (gpr ?h2 17) (gpr ?h2 10)) ?h3 \<and> straight ?ws (Suc 6) ?h3"
    by (rule walk_call) (use 2 g in \<open>simp_all add: ws del: encode.simps le_word.simps\<close>)
  then have "straight ?ws 7 ?h3" by simp
  then have 4: "reaches ?h3 [] ?h4 \<and> straight ?ws (7 + length [OpImm Addi t0 t0 1]) ?h4"
    by (rule walk_block) (simp_all add: ws g del: encode.simps le_word.simps)
  have 5: "reaches ?h4 [] ?h5 \<and> straight ?ws 3 ?h5"
    by (rule walk_jump [OF conjunct2 [OF 4], where i = "Jal 0 (- 10)"])
      (use 4 in \<open>simp_all add: ws straight_def del: encode.simps le_word.simps\<close>)
  have "reaches h (call_text (gpr ?h2 17) (gpr ?h2 10)) ?h5"
    by (rule silently [OF conjunct1 [OF 1] silently [OF conjunct1 [OF 2] then_silently [OF conjunct1 [OF 3]
        silently [OF conjunct1 [OF 4] conjunct1 [OF 5]]]]])
  moreover have "call_text (gpr ?h2 17) (gpr ?h2 10) = [byte_char b]"
    by (simp add: g call_text_def byte_char_def le_word_low del: le_word.simps)
  moreover have "greeted (Suc a) m ?h5" using 5 g by (simp add: greeted_def del: le_word.simps)
  ultimately show ?thesis by metis
qed

lemma greeted_end:
  assumes h: "greeted a m h" "fetch_bytes 4 m a = Some bs" "a < 2 ^ 32"
    and stop: "(le_word bs :: u32) = 0"
  shows "\<exists>h'. reaches h [] h' \<and> env_ends h' 0 []"
proof -
  let ?ws = "map asm_word hello_asm"
  note ws = hello_asm_def program_steps
  have g: "gpr h 0 = 0" using h(1) by (simp add: greeted_def)
  let ?h1 = "next_instr (set_gpr a0 0 (next_instr (set_gpr t1 0 h)))"
  let ?h2 = "goto (ipc ?h1 + 16) ?h1"
  let ?h3 = "next_instr (set_gpr a0 0 (next_instr (set_gpr a7 93 ?h2)))"
  note 1 = greeted_word [OF h, unfolded stop]
  have 2: "reaches ?h1 [] ?h2 \<and> straight ?ws 9 ?h2"
    by (rule walk_jump [OF conjunct2 [OF 1], where i = "Branch Beq a0 t1 8"])
      (use 1 g in \<open>simp_all add: ws straight_def del: encode.simps\<close>)
  have 3: "reaches ?h2 [] ?h3 \<and> straight ?ws (9 + length [OpImm Addi a7 0 93, OpImm Addi a0 0 0]) ?h3"
    by (rule walk_block [OF conjunct2 [OF 2]]) (simp_all add: ws g del: encode.simps)
  have "env_ends ?h3 0 []"
    using exits [of ?h3] straight_word [OF conjunct2 [OF 3]] by (simp add: ws del: encode.simps)
  moreover have "reaches h [] ?h3"
    by (rule silently [OF conjunct1 [OF 1] silently [OF conjunct1 [OF 2] conjunct1 [OF 3]]])
  ultimately show ?thesis by blast
qed

lemma greeted_loop:
  assumes "text_until bs = Some out" "greeted a m h" "a + length bs < 2 ^ 32"
    and "\<And>k. k + 4 \<le> length bs \<Longrightarrow> fetch_bytes 4 m (a + k) = Some (take 4 (drop k bs))"
  shows "\<exists>h'. reaches h (map byte_char out) h' \<and> env_ends h' 0 []"
  using assms
proof (induction bs arbitrary: a h out)
  case Nil
  then show ?case by simp
next
  case (Cons b bs)
  from Cons.prems(1) have len: "3 \<le> length bs" by (auto split: if_splits)
  with Cons.prems(4) [of 0] have f: "fetch_bytes 4 m a = Some (b # take 3 bs)" by simp
  note word = le_word_zero [of "b # take 3 bs"]
  show ?case
  proof (cases "b # take 3 bs = [0, 0, 0, 0]")
    case True
    then have "out = []" using Cons.prems(1) len by simp
    with greeted_end [OF Cons.prems(2) f] word True len Cons.prems(3) show ?thesis by auto
  next
    case False
    then obtain rest where rest: "out = b # rest" "text_until bs = Some rest"
      using Cons.prems(1) len by auto
    from greeted_round [OF Cons.prems(2) f] word False len Cons.prems(3)
    obtain h1 where h1: "reaches h [byte_char b] h1" "greeted (Suc a) m h1" by auto
    have "fetch_bytes 4 m (Suc a + k) = Some (take 4 (drop k bs))" if "k + 4 \<le> length bs" for k
      using Cons.prems(4) [of "Suc k"] that by simp
    with Cons.IH [OF rest(2) h1(2)] Cons.prems(3) obtain h'
      where "reaches h1 (map byte_char rest) h'" "env_ends h' 0 []" by auto
    with reaches_trans [OF h1(1)] rest(1) show ?thesis by fastforce
  qed
qed

lemma hello_start:
  assumes "straight (map asm_word hello_asm) 0 h" "gpr h 0 = 0"
  shows "\<exists>h'. reaches h [] h' \<and> greeted 48 (ram h) h'"
proof -
  let ?is = "[OpImm Addi a7 0 1, Auipc t0 0, OpImm Addi t0 t0 44]"
  let ?h1 = "next_instr (set_gpr t0 48 (next_instr (set_gpr t0 4 (next_instr (set_gpr a7 1 h)))))"
  have "ipc h = 0" using assms(1) by (simp add: straight_def)
  then have "isa_block ?is h = Some ?h1" by (simp add: assms(2))
  from walk_block [OF assms(1) _ _ this]
  have "reaches h [] ?h1 \<and> straight (map asm_word hello_asm) 3 ?h1"
    by (simp add: hello_asm_def program_steps eval_nat_numeral del: encode.simps)
  with assms(2) show ?thesis by (auto simp: greeted_def)
qed

text \<open>The file of the program with a text, and the RAM from the text on once it is loaded.\<close>

definition hello_file :: "string \<Rightarrow> u8 list" where
  "hello_file t = assemble hello_asm (asciz t)"

definition ram_after :: "u8 list \<Rightarrow> rv32 \<Rightarrow> u8 list" where
  "ram_after file m = drop (length file) (take (unat emulator_ram_size) (mem m))"

lemma length_hello: "length hello_asm = 12"
  by (simp add: hello_asm_def li_def)

lemma length_hello_file: "length (hello_file t) = 49 + length t"
  by (simp add: hello_file_def assemble_def length_hello asciz_def)

lemma append_take: "xs @ take n ys = take (length xs + n) (xs @ ys)"
  by simp

lemma take_inside: "k + n \<le> length (take l xs) \<Longrightarrow> take n (drop k xs) = take n (take (l - k) (drop k xs))"
  by (auto simp: min_def split: if_splits)

lemma hello_ram_size:
  assumes "malloced m emulator_ram_size" "length t + 49 \<le> unat emulator_ram_size"
  shows "48 + length (asciz t @ ram_after (hello_file t) m) = unat emulator_ram_size"
  using assms
  by (simp add: malloced_def RV32_NEEDED_MEMORY_def RV32_layout ram_after_def asciz_def length_hello_file)

lemma hello_ram:
  assumes "malloced m emulator_ram_size" "length t + 49 \<le> unat emulator_ram_size"
    and "k + 4 \<le> length (asciz t @ ram_after (hello_file t) m)"
  shows "fetch_bytes 4 (ram (abs_hart (emulator_start (hello_file t) m))) (48 + k)
    = Some (take 4 (drop k (asciz t @ ram_after (hello_file t) m)))"
proof -
  let ?f = "hello_file t"
  have "drop (length ?f) (mem (zeroed m)) = drop (length ?f) (mem m)"
    by (simp add: zeroed_def RV32_layout length_hello_file)
  then have loaded: "drop (48 + k) (?f @ drop (length ?f) (mem (zeroed m)))
      = drop k (asciz t @ drop (length ?f) (mem m))"
    by (simp add: hello_file_def assemble_def length_hello drop_append)
  have inside: "take 4 (drop k (asciz t @ drop (length ?f) (mem m))) = take 4 (drop k (asciz t @ ram_after ?f m))"
    using assms(3) unfolding ram_after_def drop_take append_take by (rule take_inside)
  have "length ?f \<le> unat emulator_ram_size" "48 + k + 4 \<le> unat emulator_ram_size"
    using assms(2,3) hello_ram_size [OF assms(1,2)] by (simp_all add: length_hello_file)
  then have "length ?f \<le> unat emulator_ram_size" "48 + k + 4 \<le> 0x20000004"
    by (simp_all add: emulator_ram_size_def)
  from emulator_start_mem [OF assms(1) this] show ?thesis by (simp only: loaded inside)
qed

lemma asciz_zero: "CHR 0x00 \<notin> set t \<Longrightarrow> 0 \<notin> set (map (\<lambda>c. word_of_nat (of_char c) :: u8) t)"
proof -
  have "c = CHR 0x00" if "(word_of_nat (of_char c) :: u8) = 0" for c
  proof -
    have "unat (word_of_nat (of_char c) :: u8) = of_char c"
      by (simp add: unsigned_of_nat take_bit_nat_eq_self)
    with that have "of_char c = (0 :: nat)" by simp
    moreover have "char_of (0 :: nat) = CHR 0x00" by code_simp
    ultimately show ?thesis by (metis char_of_char)
  qed
  then show "CHR 0x00 \<notin> set t \<Longrightarrow> 0 \<notin> set (map (\<lambda>c. word_of_nat (of_char c) :: u8) t)" by auto
qed

lemma byte_char_bytes: "map byte_char (map (\<lambda>c. word_of_nat (of_char c)) t) = t"
  by (induction t) (simp_all add: byte_char_def unsigned_of_nat take_bit_nat_eq_self)

lemma byte_char_inject: "map byte_char xs = map byte_char ys \<longleftrightarrow> xs = ys"
proof -
  have "inj byte_char"
  proof (rule injI)
    fix x y
    assume "byte_char x = byte_char y"
    then have "unat x mod 256 = unat y mod 256" by (metis byte_char_def of_char_of)
    then show "x = y" using unsigned_less [of x, where ?'a = nat] unsigned_less [of y, where ?'a = nat] by (simp add: word_unat_eq_iff)
  qed
  then show ?thesis by (simp add: inj_map_eq_map)
qed

lemma hello_main:
  assumes "malloced m emulator_ram_size" "length t + 52 \<le> unat emulator_ram_size"
    and "files path = Some (hello_file t)"
    and "text_until (asciz t @ ram_after (hello_file t) m) = Some out"
  shows "emulator_main [name, path] files (Some m) w = Some (Inr (0, print_out (map byte_char out) w))"
proof -
  let ?f = "hello_file t" and ?h = "abs_hart (emulator_start (hello_file t) m)"
  let ?bs = "asciz t @ ram_after ?f m"
  have fits: "?f \<noteq> []" "length ?f \<le> unat emulator_ram_size"
    using assms(2) by (simp_all add: length_hello_file flip: length_0_conv)
  have len: "length t + 49 \<le> unat emulator_ram_size" using assms(2) by simp
  have size: "48 + length ?bs = unat emulator_ram_size" by (rule hello_ram_size [OF assms(1) len])
  have "straight (map asm_word hello_asm) 0 ?h"
    using emulator_start_straight [OF assms(1), of "map asm_word hello_asm" "asciz t"] fits(2)
    by (simp add: hello_file_def assemble_def)
  moreover have "gpr ?h 0 = 0" by (simp add: abs_gpr_def)
  ultimately obtain h1 where h1: "reaches ?h [] h1" "greeted 48 (ram ?h) h1"
    using hello_start by blast
  from greeted_loop [OF assms(4) h1(2) _ hello_ram [OF assms(1) len]] size
  obtain h2 where h2: "reaches h1 (map byte_char out) h2" "env_ends h2 0 []"
    by (auto simp: emulator_ram_size_def)
  from silently [OF h1(1) h2(1)] show ?thesis
    using env_run_main [where files = files, OF assms(1) fits assms(3) _ h2(2)]
    by (auto simp: reaches_def)
qed

text \<open>
  C39. The greeting, for any text: the loop loads words where it should load bytes, so it prints the
  bytes from the text on up to the first four zero bytes in a row. When such bytes exist in RAM the
  emulator prints exactly these bytes and returns 0, and what it prints is the text if and only if
  the three bytes behind the program file, which no one writes after \<open>malloc\<close>, are zero.
\<close>

theorem hello_prints:
  assumes "malloced m emulator_ram_size" "length t + 52 \<le> unat emulator_ram_size"
    and "files path = Some (hello_file t)" "CHR 0x00 \<notin> set t"
    and "text_until (asciz t @ ram_after (hello_file t) m) = Some out"
  shows "emulator_main [name, path] files (Some m) w = Some (Inr (0, print_out (map byte_char out) w))
    \<and> (map byte_char out = t \<longleftrightarrow> take 3 (ram_after (hello_file t) m) = [0, 0, 0])"
proof
  show "emulator_main [name, path] files (Some m) w = Some (Inr (0, print_out (map byte_char out) w))"
    by (rule hello_main [where files = files, OF assms(1-3,5)])
  let ?bs = "map (\<lambda>c. word_of_nat (of_char c)) t :: u8 list" and ?after = "ram_after (hello_file t) m"
  have "3 \<le> length ?after"
    using hello_ram_size [OF assms(1), of t] assms(2) by (simp add: asciz_def)
  note until = text_until_asciz [OF asciz_zero [OF assms(4)] this]
  have "text_until (?bs @ 0 # ?after) = Some out" using assms(5) by (simp add: asciz_def)
  with until have "out = ?bs \<longleftrightarrow> take 3 ?after = [0, 0, 0]" by auto
  then show "map byte_char out = t \<longleftrightarrow> take 3 ?after = [0, 0, 0]"
    by (metis byte_char_bytes byte_char_inject)
qed

text \<open>On a block of zeros the program of the repository prints its text.\<close>

definition hello_text :: string where "hello_text = ''Hello, world!'' @ newline"

theorem hello_prints_witness:
  "emulator_main [''emulator'', ''hello.bin''] [''hello.bin'' \<mapsto> hello_file hello_text] (Some heap_block) silent
   = Some (Inr (0, print_out hello_text silent))"
proof -
  let ?after = "ram_after (hello_file hello_text) heap_block"
  let ?bs = "map (\<lambda>c. word_of_nat (of_char c)) hello_text :: u8 list"
  have fits: "length hello_text + 52 \<le> unat emulator_ram_size" and clean: "CHR 0x00 \<notin> set hello_text"
    by (simp_all add: hello_text_def newline_def emulator_ram_size_def)
  have "take 3 ?after = replicate 3 0"
    by (simp add: ram_after_def heap_block_def boot_def length_hello_file hello_text_def newline_def
        emulator_ram_size_def min_def)
  then have zeros: "take 3 ?after = [0, 0, 0]" by (simp add: numeral_eq_Suc)
  from arg_cong [OF this, of length] have "3 \<le> length ?after" by simp
  from text_until_asciz(1) [OF asciz_zero [OF clean] this zeros]
  have "text_until (asciz hello_text @ ?after) = Some ?bs" by (simp add: asciz_def)
  from hello_prints [OF heap_block_malloced fits _ clean this, of "[''hello.bin'' \<mapsto> hello_file hello_text]"
      "''hello.bin''" "''emulator''" silent]
  show ?thesis by (simp only: byte_char_bytes) simp
qed

end
