(* ===== verification/Gdb_Session.thy ===== *)
theory Gdb_Session
  imports Gdb_Stub Machine_Properties
begin

text \<open>
  A debugging session from end to end: the bytes of a debugger, the state machine of the protocol,
  the dispatch of its commands, the breakpoint slots, the main loop of \<open>src/gdb_stub/main.c\<close> and the
  cycles of the guest, composed, and seen from the instruction set.
\<close>

section \<open>Turns that only read\<close>

lemma gdb_turns_append:
  "gdb_turns junk (as @ bs) cs x = bind_run (gdb_turns junk as cs x) (\<lambda>res.
     case res of None \<Rightarrow> Inr None | Some (cs', x') \<Rightarrow> gdb_turns junk bs cs' x')"
proof (induction as arbitrary: cs x)
  case Nil
  show ?case by simp
next
  case (Cons a as)
  show ?case
    by (cases "gdb_turn junk a cs x") (auto simp: Cons.IH split: option.splits)
qed

text \<open>\<open>reads n cs x ds y\<close>: in \<open>n\<close> turns the stub consumes the bytes up to \<open>ds\<close>, whatever is polled.\<close>

definition reads :: "rsp_handler_result \<Rightarrow> nat \<Rightarrow> u8 list \<Rightarrow> stub \<Rightarrow> u8 list \<Rightarrow> stub \<Rightarrow> bool" where
  "reads junk n cs x ds y \<longleftrightarrow> gdb_turns junk (replicate n False) cs x = Inr (Some (ds, y))"

lemma reads_trans: "reads junk m cs x ds y \<Longrightarrow> reads junk n ds y es z \<Longrightarrow> reads junk (m + n) cs x es z"
  by (simp add: reads_def replicate_add gdb_turns_append)

lemma reads_byte:
  assumes "status (fst v) \<noteq> RV32_RUNNING" "rsp_handle_byte junk c (l, v) = Inr (l', v')"
    and "status (fst v') \<noteq> RV32_RUNNING"
  shows "reads junk 1 (c # cs) (l, v) cs (l', v')"
  using assms by (simp add: reads_def gdb_turn_def gdb_input_def gdb_step_def)

text \<open>A byte that starts the machine is followed by the first cycle in the same turn.\<close>

lemma last_byte:
  assumes "status (fst v) \<noteq> RV32_RUNNING" "rsp_handle_byte junk c (l, v) = Inr (l', v')"
    and "status (fst v') = RV32_RUNNING"
  shows "gdb_turns junk (replicate (Suc n) False) (c # cs) (l, v)
    = gdb_turns junk (replicate (Suc n) False) cs (l', v')"
  using assms by (simp add: gdb_turn_def gdb_input_def bind_run_assoc)

lemma reads_body:
  assumes "receiving body l" "link_state l = RSP_PACKET_DATA" "0x23 \<notin> set cs"
    and "length body + length cs \<le> RSP_BUFFER_SIZE" "status (fst v) \<noteq> RV32_RUNNING"
  shows "\<exists>l'. reads junk (length cs) (cs @ ds) (l, v) ds (l', v) \<and> receiving (body @ cs) l'
    \<and> link_state l' = RSP_PACKET_DATA"
  using assms
proof (induction cs arbitrary: body l)
  case Nil
  then show ?case by (auto simp: reads_def)
next
  case (Cons c cs)
  then obtain l1 where l1: "rsp_handle_byte junk c (l, v) = Inr (l1, v)" "receiving (body @ [c]) l1"
      "link_state l1 = RSP_PACKET_DATA"
    using receive_byte(1) [of body l c junk v] by auto
  from Cons.IH [OF l1(2,3)] Cons.prems obtain l' where l': "reads junk (length cs) (cs @ ds) (l1, v) ds (l', v)"
      "receiving (body @ [c] @ cs) l'" "link_state l' = RSP_PACKET_DATA" by auto
  have "reads junk (1 + length cs) (c # cs @ ds) (l, v) ds (l', v)"
    by (rule reads_trans [OF reads_byte [OF Cons.prems(5) l1(1) Cons.prems(5)] l'(1)])
  with l'(2,3) show ?case by (intro exI [of _ l']) simp
qed

text \<open>A frame up to its last byte, and what the last byte does.\<close>

lemma reads_frame:
  assumes "link_state l = RSP_WAIT_START" "length (in_buffer l) = RSP_BUFFER_SIZE"
    and "0x23 \<notin> set body" "length body \<le> RSP_BUFFER_SIZE" "status (fst v) \<noteq> RV32_RUNNING"
  shows "\<exists>c l1 l2 buf. reads junk (length body + 3) (rsp_frame body @ ds) (l, v) (c # ds) (l1, v)
    \<and> length (in_buffer l2) = RSP_BUFFER_SIZE \<and> length buf = RSP_BUFFER_SIZE \<and> take (length body) buf = body
    \<and> rsp_handle_byte junk c (l1, v) =
        bind_run (rsp_handle_packet (fst v, snd v @ bytes ''+'') buf (word_of_nat (length body)))
          (\<lambda>(res, v'). Inr (l2\<lparr>link_state :=
             (if res = RSP_PACKET_SENT then RSP_WAIT_ACK else RSP_WAIT_START)\<rparr>, v'))"
proof -
  let ?k = "sum_list body"
  let ?d1 = "hex1 (drop_bit 4 ?k AND 0xf)" and ?d2 = "hex1 (?k AND 0xf)"
  note quiet = assms(5)
  from receive_start [OF assms(1,2)] obtain a where a: "rsp_handle_byte junk 0x24 (l, v) = Inr (a, v)"
      "receiving [] a" "link_state a = RSP_PACKET_DATA" by blast
  from reads_body [OF a(2,3) assms(3) _ quiet] assms(4) obtain b
    where b: "reads junk (length body) (body @ 0x23 # ?d1 # ?d2 # ds) (a, v) (0x23 # ?d1 # ?d2 # ds) (b, v)"
      "receiving body b" "link_state b = RSP_PACKET_DATA" by fastforce
  define c where "c = b\<lparr>link_state := RSP_CHECKSUM_1\<rparr>"
  define d where "d = c\<lparr>sum2 := push_bit 4 (drop_bit 4 ?k AND 0xf), link_state := RSP_CHECKSUM_2\<rparr>"
  have c: "rsp_handle_byte junk 0x23 (b, v) = Inr (c, v)"
    using b(3) by (simp add: rsp_handle_byte_def c_def)
  have d: "rsp_handle_byte junk ?d1 (c, v) = Inr (d, v)"
    by (simp add: rsp_handle_byte_def c_def d_def hex1_digit)
  have "reads junk (1 + (length body + (1 + 1))) (0x24 # body @ 0x23 # ?d1 # ?d2 # ds) (l, v) (?d2 # ds) (d, v)"
    by (rule reads_trans [OF reads_byte [OF quiet a(1) quiet] reads_trans [OF b(1)
          reads_trans [OF reads_byte [OF quiet c quiet] reads_byte [OF quiet d quiet]]]])
  then have 1: "reads junk (length body + 3) (rsp_frame body @ ds) (l, v) (?d2 # ds) (d, v)"
    by (simp add: rsp_frame_def hex2_def numeral_3_eq_3)
  have buf: "length (in_buffer b) = RSP_BUFFER_SIZE" "take (length body) (in_buffer b) = body"
    "iptr b = word_of_nat (length body)" "sum1 b = ?k"
    using b(2) by (simp_all add: receiving_def)
  have "rsp_handle_byte junk ?d2 (d, v) =
        bind_run (rsp_handle_packet (fst v, snd v @ bytes ''+'') (in_buffer b) (word_of_nat (length body)))
          (\<lambda>(res, v'). Inr (d\<lparr>sum2 := ?k, link_state :=
             (if res = RSP_PACKET_SENT then RSP_WAIT_ACK else RSP_WAIT_START)\<rparr>, v'))"
    using nibbles_join [of ?k] buf
    by (cases v) (simp add: rsp_handle_byte_def c_def d_def hex1_digit Let_def case_prod_unfold)
  with 1 buf show ?thesis
    by (intro exI [of _ ?d2] exI [of _ d] exI [of _ "d\<lparr>sum2 := ?k\<rparr>"] exI [of _ "in_buffer b"])
      (simp add: c_def d_def)
qed

section \<open>The run to a breakpoint\<close>

text \<open>\<open>hart_path B n h h'\<close>: \<open>n\<close> steps of the instruction set that start outside the addresses \<open>B\<close>.\<close>

inductive hart_path :: "u32 set \<Rightarrow> nat \<Rightarrow> hart \<Rightarrow> hart \<Rightarrow> bool" for B where
  arrived: "hart_path B 0 h h"
| onward: "ipc h \<notin> B \<Longrightarrow> hart_step h h1 \<Longrightarrow> hart_path B n h1 h2 \<Longrightarrow> hart_path B (Suc n) h h2"

definition debuggee :: "u32 multiset \<Rightarrow> rv32 \<Rightarrow> bool" where
  "debuggee B s \<longleftrightarrow> wf_rv32 s \<and> wfi s = 0 \<and> breakpoints s = B"

lemma debuggee_frame: "debuggee B s \<Longrightarrow> frame s t \<Longrightarrow> debuggee B t"
  using same_shape_wf [of s t]
  by (auto simp: debuggee_def frame_def breakpoints_def slots_def)

lemma status_abs [simp]:
  "abs_hart (s\<lparr>status := st\<rparr>) = abs_hart s" "breakpoints (s\<lparr>status := st\<rparr>) = breakpoints s"
  "debuggee B (s\<lparr>status := st\<rparr>) = debuggee B s"
proof -
  show "breakpoints (s\<lparr>status := st\<rparr>) = breakpoints s" by (simp add: breakpoints_def slots_def)
  then show "debuggee B (s\<lparr>status := st\<rparr>) = debuggee B s" by (simp add: debuggee_def wf_rv32_def)
  have "abs_gpr (s\<lparr>status := st\<rparr>) = abs_gpr s" "abs_ram (s\<lparr>status := st\<rparr>) = abs_ram s"
    "rv32_read_csr (s\<lparr>status := st\<rparr>) = rv32_read_csr s"
    by (rule ext, simp add: abs_gpr_def abs_ram_def rv32_read_csr_def)+
  then show "abs_hart (s\<lparr>status := st\<rparr>) = abs_hart s" by (simp add: abs_hart_def)
qed

lemma path_turns:
  assumes "hart_path (set_mset B) n h h'" "abs_hart s = h" "debuggee B s" "status s = RV32_RUNNING"
    and "hart_quiet h'" "ipc h' \<in># B"
  shows "\<exists>s'. gdb_turns junk (replicate (Suc n) False) cs (l, (s, out))
      = Inr (Some (cs, (l, (s', out @ bytes ''$S05#b8''))))
    \<and> abs_hart s' = h' \<and> status s' = RV32_PAUSED \<and> debuggee B s'"
  using assms
proof (induction arbitrary: s rule: hart_path.induct)
  case (arrived h)
  let ?t = "stop RV32_PAUSED s"
  have "breakpoint_hit s" using arrived.prems by (auto simp: breakpoint_hit_iff debuggee_def)
  then have "rv32_cycle gdb_platform (s, out) = Inr (?t, out)"
    using arrived.prems deliver_quiet [of s] by (simp add: rv32_cycle_def debuggee_def)
  then have "gdb_turns junk (replicate (Suc 0) False) cs (l, (s, out))
      = Inr (Some (cs, (l, (?t, out @ bytes ''$S05#b8''))))"
    using arrived.prems by (simp add: gdb_turn_def gdb_input_def gdb_step_def gdb_report_eq)
      (simp add: stop_def stop_replies_def)
  moreover have "abs_hart ?t = h" "status ?t = RV32_PAUSED" "debuggee B ?t"
    using arrived.prems by (simp_all add: stop_def)
  ultimately show ?case by blast
next
  case (onward h h1 n h2)
  from onward.hyps(2) obtain i where i: "hart_quiet h" "fetches h i" "conformant i h" "isa_step i h = Some h1"
    by (rule hart_stepE)
  have "ready s"
    using onward.prems onward.hyps(1) by (auto simp: ready_def debuggee_def breakpoint_hit_iff)
  with i onward.prems(1) cycle_simulates [of s i h1 gdb_platform out] obtain s1
    where s1: "rv32_cycle gdb_platform (s, out) = Inr (s1, out)" "abs_hart s1 = h1" "frame s s1" by auto
  then have run: "status s1 = RV32_RUNNING" using onward.prems(3) by (simp add: frame_def)
  have "gdb_turn junk False cs (l, (s, out)) = Inr (Some (cs, (l, (s1, out))))"
    using s1(1) run onward.prems(3)
    by (simp add: gdb_turn_def gdb_input_def gdb_step_def gdb_report_eq stop_replies_def)
  with onward.IH [OF s1(2) debuggee_frame [OF onward.prems(2) s1(3)] run onward.prems(4,5)]
  show ?case by simp
qed

section \<open>The commands of the session\<close>

lemma set_breakpoint_abs:
  "abs_hart (snd (rv32_set_breakpoint s a)) = abs_hart s" "status (snd (rv32_set_breakpoint s a)) = status s"
  "wfi (snd (rv32_set_breakpoint s a)) = wfi s"
  by (cases rule: set_breakpoint_cases [where s = s and addr = a];
      simp add: abs_hart_def abs_gpr_def abs_ram_def rv32_read_csr_def fun_eq_iff)+

lemma breakpoint_set:
  assumes "bp_inv s" "\<forall>d \<in> set ds. rsp_is_hex_digit d" "length ds + length kind \<le> 1000"
    and "size (breakpoints s) < 8"
  shows "rsp_handle_packet (s, out) (breakpoint_message 0x5a ds kind @ rest)
      (word_of_nat (length (breakpoint_message 0x5a ds kind)))
    = Inr (RSP_PACKET_SENT, (snd (rv32_set_breakpoint s (hex_value 0 ds)), out @ rsp_frame (bytes ''OK'')))"
  using bps.add_room [OF assms(1), of "hex_value 0 ds"] assms(4)
  by (simp add: breakpoint_dispatched [OF assms(3)] rsp_set_software_breakpoint_def
      breakpoint_address_message [OF assms(2) breakpoint_dispatched(3) [OF assms(3)]] reply_ok case_prod_unfold)

lemma continued:
  assumes "status s = RV32_PAUSED"
  shows "rsp_handle_packet (s, out) (bytes ''c'' @ rest) 1
    = Inr (RSP_NO_PACKET_SENT, (s\<lparr>status := RV32_RUNNING\<rparr>, out))"
  using assms by (simp add: rsp_handle_packet_def isprefix_def bytes_def rsp_continue_def rv32_resume_def)

text \<open>What the debugger sends to set a breakpoint, to acknowledge the reply, and to continue.\<close>

definition break_and_continue :: "u8 list \<Rightarrow> u8 list \<Rightarrow> u8 list" where
  "break_and_continue ds kind =
     rsp_frame (breakpoint_message 0x5a ds kind) @ bytes ''+'' @ rsp_frame (bytes ''c'')"

lemma length_rsp_frame [simp]: "length (rsp_frame body) = length body + 4"
  by (simp add: rsp_frame_def hex2_def)

lemma reads_break:
  assumes l: "link_state l = RSP_WAIT_START" "length (in_buffer l) = RSP_BUFFER_SIZE"
    and s: "debuggee B s" "status s = RV32_PAUSED" "size B < 8"
    and d: "\<forall>d \<in> set ds. rsp_is_hex_digit d" and len: "length ds + length kind \<le> 1000" and k: "0x23 \<notin> set kind"
  defines "t \<equiv> snd (rv32_set_breakpoint s (hex_value 0 ds))" and "msg \<equiv> breakpoint_message 0x5a ds kind"
  shows "\<exists>l'. reads junk (5 + length msg) (rsp_frame msg @ 0x2b # cs) (l, (s, out)) cs
      (l', (t, out @ bytes ''+'' @ rsp_frame (bytes ''OK'')))
    \<and> link_state l' = RSP_WAIT_START \<and> length (in_buffer l') = RSP_BUFFER_SIZE"
proof -
  let ?v = "(s, out)" and ?u = "(t, out @ bytes ''+'' @ rsp_frame (bytes ''OK''))"
  have bp: "bp_inv s" "size (breakpoints s) < 8" using s by (simp_all add: debuggee_def bp_inv_def wf_rv32_def)
  have quiet: "status s \<noteq> RV32_RUNNING" "status t \<noteq> RV32_RUNNING"
    using s(2) by (simp_all add: t_def set_breakpoint_abs)
  have "\<not> rsp_is_hex_digit 0x23" by (simp add: rsp_is_hex_digit_def)
  then have body: "0x23 \<notin> set msg" "length msg \<le> RSP_BUFFER_SIZE"
    using d len k by (auto simp: msg_def breakpoint_message_def RSP_BUFFER_SIZE_def)
  from reads_frame [OF l body, of ?v junk "0x2b # cs"] quiet(1) obtain c l1 l2 buf
    where r1: "reads junk (length msg + 3) (rsp_frame msg @ 0x2b # cs) (l, ?v) (c # 0x2b # cs) (l1, ?v)"
      and b: "length (in_buffer l2) = RSP_BUFFER_SIZE" "take (length msg) buf = msg"
      and h: "rsp_handle_byte junk c (l1, ?v) =
        bind_run (rsp_handle_packet (s, out @ bytes ''+'') buf (word_of_nat (length msg)))
          (\<lambda>(res, v'). Inr (l2\<lparr>link_state :=
             (if res = RSP_PACKET_SENT then RSP_WAIT_ACK else RSP_WAIT_START)\<rparr>, v'))"
    by auto
  from b(2) have "buf = msg @ drop (length msg) buf" by (metis append_take_drop_id)
  with breakpoint_set [OF bp(1) d len bp(2), of "out @ bytes ''+''" "drop (length msg) buf"] h
  have h: "rsp_handle_byte junk c (l1, ?v) = Inr (l2\<lparr>link_state := RSP_WAIT_ACK\<rparr>, ?u)"
    by (simp add: msg_def t_def)
  have ack: "rsp_handle_byte junk 0x2b (l2\<lparr>link_state := RSP_WAIT_ACK\<rparr>, ?u)
      = Inr (l2\<lparr>link_state := RSP_WAIT_START\<rparr>, ?u)"
    by (simp add: rsp_handle_byte_def)
  have "reads junk (length msg + 3 + (1 + 1)) (rsp_frame msg @ 0x2b # cs) (l, ?v) cs (l2\<lparr>link_state := RSP_WAIT_START\<rparr>, ?u)"
    using quiet by (intro reads_trans [OF r1 reads_trans [OF reads_byte [OF _ h] reads_byte [OF _ ack]]]) simp_all
  then show ?thesis
    using b(1) by (intro exI [of _ "l2\<lparr>link_state := RSP_WAIT_START\<rparr>"]) simp
qed

lemma continue_turns:
  assumes l: "link_state l = RSP_WAIT_START" "length (in_buffer l) = RSP_BUFFER_SIZE"
    and s: "debuggee B s" "status s = RV32_PAUSED"
    and path: "hart_path (set_mset B) n (abs_hart s) h" "hart_quiet h" "ipc h \<in># B"
  shows "\<exists>l' s'. gdb_turns junk (replicate (5 + n) False) (rsp_frame (bytes ''c'')) (l, (s, out))
      = Inr (Some ([], (l', (s', out @ bytes ''+$S05#b8''))))
    \<and> abs_hart s' = h \<and> status s' = RV32_PAUSED \<and> debuggee B s' \<and> link_state l' = RSP_WAIT_START"
proof -
  let ?v = "(s, out)" and ?c = "bytes ''c''" and ?s = "s\<lparr>status := RV32_RUNNING\<rparr>"
  have body: "0x23 \<notin> set ?c" "length ?c \<le> RSP_BUFFER_SIZE" by (simp_all add: bytes_def RSP_BUFFER_SIZE_def)
  have quiet: "status (fst ?v) \<noteq> RV32_RUNNING" using s(2) by simp
  from reads_frame [OF l body quiet, of junk "[]"] obtain c l1 l2 buf
    where r: "reads junk 4 (rsp_frame ?c) (l, ?v) [c] (l1, ?v)" and b: "take 1 buf = ?c"
      and h: "rsp_handle_byte junk c (l1, ?v) =
        bind_run (rsp_handle_packet (s, out @ bytes ''+'') buf 1)
          (\<lambda>(res, v'). Inr (l2\<lparr>link_state :=
             (if res = RSP_PACKET_SENT then RSP_WAIT_ACK else RSP_WAIT_START)\<rparr>, v'))"
    by (auto simp: bytes_def)
  from b have "buf = ?c @ drop 1 buf" by (metis append_take_drop_id)
  with continued [OF s(2), of "out @ bytes ''+''" "drop 1 buf"] h
  have h: "rsp_handle_byte junk c (l1, ?v) = Inr (l2\<lparr>link_state := RSP_WAIT_START\<rparr>, (?s, out @ bytes ''+''))"
    by simp
  have running: "status (fst (?s, out @ bytes ''+'')) = RV32_RUNNING" by simp
  from path_turns [OF path(1) _ _ _ path(2,3), of ?s junk "[]" "l2\<lparr>link_state := RSP_WAIT_START\<rparr>" "out @ bytes ''+''"] s
  obtain s' where s': "gdb_turns junk (replicate (Suc n) False) [] (l2\<lparr>link_state := RSP_WAIT_START\<rparr>, (?s, out @ bytes ''+''))
      = Inr (Some ([], (l2\<lparr>link_state := RSP_WAIT_START\<rparr>, (s', out @ bytes ''+$S05#b8''))))"
      "abs_hart s' = h" "status s' = RV32_PAUSED" "debuggee B s'" by (auto simp: bytes_def)
  have "gdb_turns junk (replicate (4 + Suc n) False) (rsp_frame ?c) (l, ?v)
      = Inr (Some ([], (l2\<lparr>link_state := RSP_WAIT_START\<rparr>, (s', out @ bytes ''+$S05#b8''))))"
    using r s'(1) last_byte [OF quiet h running, of n "[]"]
    unfolding replicate_add gdb_turns_append by (simp add: reads_def del: replicate_Suc)
  with s'(2-4) show ?thesis
    by (intro exI [of _ "l2\<lparr>link_state := RSP_WAIT_START\<rparr>"] exI [of _ s']) (simp add: add.commute)
qed

text \<open>
  C26. A debugging session: a stub that waits with a free breakpoint slot receives the packet that
  sets a breakpoint at \<open>a\<close>, an acknowledgement and the packet that continues. If the program under
  debug takes \<open>n\<close> steps of the instruction set that start away from all breakpoints and arrives at
  one, then after one turn for each byte and each step the input is consumed, the debugger has
  received \<open>+\<close>, \<open>OK\<close>, \<open>+\<close> and one stop reply with signal 5 and nothing else, the machine is
  paused in exactly the state of the instruction set with the breakpoint added to its bag, and
  the stub waits for the next packet.
\<close>

theorem breakpoint_session:
  assumes "link_state l = RSP_WAIT_START" "length (in_buffer l) = RSP_BUFFER_SIZE"
    and "wf_rv32 s" "wfi s = 0" "status s = RV32_PAUSED" "size (breakpoints s) < 8"
    and "\<forall>d \<in> set ds. rsp_is_hex_digit d" "length ds + length kind \<le> 1000" "0x23 \<notin> set kind"
    and "B = add_mset (hex_value 0 ds) (breakpoints s)"
    and "hart_path (set_mset B) n (abs_hart s) h" "hart_quiet h" "ipc h \<in># B"
  shows "\<exists>l' s'. gdb_turns junk (replicate (length (break_and_continue ds kind) + n) False)
        (break_and_continue ds kind) (l, (s, out))
      = Inr (Some ([], (l', (s', out @ bytes ''+'' @ rsp_frame (bytes ''OK'') @ bytes ''+$S05#b8''))))
    \<and> abs_hart s' = h \<and> status s' = RV32_PAUSED \<and> breakpoints s' = B \<and> link_state l' = RSP_WAIT_START"
proof -
  let ?t = "snd (rv32_set_breakpoint s (hex_value 0 ds))" and ?msg = "breakpoint_message 0x5a ds kind"
  let ?c = "rsp_frame (bytes ''c'')" and ?out = "out @ bytes ''+'' @ rsp_frame (bytes ''OK'')"
  have s: "debuggee (breakpoints s) s" using assms(3,4) by (simp add: debuggee_def)
  from reads_break [OF assms(1,2) s assms(5) _ assms(7-9), of junk ?c out] assms(6)
  obtain l1 where l1: "reads junk (5 + length ?msg) (rsp_frame ?msg @ 0x2b # ?c) (l, (s, out)) ?c (l1, (?t, ?out))"
      "link_state l1 = RSP_WAIT_START" "length (in_buffer l1) = RSP_BUFFER_SIZE" by auto
  have "bp_inv s" using assms(3) by (simp add: bp_inv_def wf_rv32_def)
  from bps.add_bag [OF this, of "hex_value 0 ds"] bps.add_room [OF this, of "hex_value 0 ds"] have t: "debuggee B ?t"
    using assms(3,4,6,10) same_shape_wf [OF breakpoint_shape(1)]
    by (simp add: debuggee_def set_breakpoint_abs)
  from continue_turns [OF l1(2,3) t _ _ assms(12,13), of n junk ?out] assms(5,11)
  obtain l2 s' where c: "gdb_turns junk (replicate (5 + n) False) ?c (l1, (?t, ?out))
      = Inr (Some ([], (l2, (s', ?out @ bytes ''+$S05#b8''))))"
    and s': "abs_hart s' = h" "status s' = RV32_PAUSED" "debuggee B s'" "link_state l2 = RSP_WAIT_START"
    by (auto simp: set_breakpoint_abs)
  have turns: "length (break_and_continue ds kind) + n = (5 + length ?msg) + (5 + n)"
    by (simp add: break_and_continue_def bytes_def)
  have "gdb_turns junk (replicate ((5 + length ?msg) + (5 + n)) False) (break_and_continue ds kind) (l, (s, out))
      = Inr (Some ([], (l2, (s', ?out @ bytes ''+$S05#b8''))))"
    using l1(1) c unfolding replicate_add [of "5 + length ?msg"] gdb_turns_append
    by (simp add: reads_def break_and_continue_def) (simp add: bytes_def)
  then show ?thesis unfolding turns using s' by (intro exI [of _ l2] exI [of _ s']) (simp add: debuggee_def)
qed

text \<open>The witness: a breakpoint at 4 behind \<open>li x1, 5\<close>.\<close>

theorem breakpoint_session_witness:
  "\<exists>l' s'. gdb_turns RSP_PACKET_SENT (replicate 17 False) (break_and_continue [0x34] [0x34])
      (rsp_link_start, (stop RV32_PAUSED (boot (program [OpImm Addi 1 0 5])), []))
    = Inr (Some ([], (l', (s', bytes ''+$OK#9a+$S05#b8'')))) \<and> abs_gpr s' 1 = 5 \<and> pc s' = 4"
proof -
  let ?s = "stop RV32_PAUSED (boot (program [OpImm Addi 1 0 5]))"
  let ?h = "abs_hart (boot (program [OpImm Addi 1 0 5]))"
  let ?h1 = "next_instr (set_gpr 1 5 ?h)"
  have abs: "abs_hart ?s = ?h" by (simp add: stop_def)
  have wf: "wf_rv32 ?s" using same_shape_wf [OF stop_shape] boot_wf [of "program [OpImm Addi 1 0 5]"] by simp
  have none: "breakpoints ?s = {#}" by (simp add: breakpoints_def slots_def stop_def boot_def)
  have h: "gpr ?h 0 = 0" "ipc ?h = 0" "ipc ?h1 = 4" "csrs ?h1 = csrs ?h"
    by (simp_all add: abs_gpr_def boot_def next_instr_def goto_def set_gpr_def)
  have f: "fetches ?h (OpImm Addi 1 0 5)" by (rule boot_fetches) simp_all
  have c: "conformant (OpImm Addi 1 0 5) ?h" and i: "isa_step (OpImm Addi 1 0 5) ?h = Some ?h1"
    using h(1) by (simp_all add: conformant_def)
  have path: "hart_path (set_mset {#4#}) 1 (abs_hart ?s) ?h1"
    unfolding One_nat_def abs
    by (rule hart_path.onward [OF _ hart_step.intros [OF boot_quiet f c i] hart_path.arrived]) (simp add: h(2) del: abs_hart_simps)
  have quiet: "hart_quiet ?h1" using boot_quiet [of "program [OpImm Addi 1 0 5]"] by (simp only: hart_quiet_def h(4)) simp
  have start: "link_state rsp_link_start = RSP_WAIT_START" "length (in_buffer rsp_link_start) = RSP_BUFFER_SIZE"
    by (simp_all add: rsp_link_start_def)
  have packets: "[] @ bytes ''+'' @ rsp_frame (bytes ''OK'') @ bytes ''+$S05#b8'' = bytes ''+$OK#9a+$S05#b8''" by code_simp
  have len: "length (break_and_continue [0x34] [0x34]) + 1 = 17"
    by (simp add: break_and_continue_def breakpoint_message_def bytes_def)
  have bag: "{#4#} = add_mset (hex_value 0 [0x34]) (breakpoints ?s)" unfolding none by code_simp
  from breakpoint_session [OF start wf _ _ _ _ _ _ bag path quiet _, of "[0x34]" RSP_PACKET_SENT "[]"]
  obtain l' s' where ran: "gdb_turns RSP_PACKET_SENT (replicate 17 False) (break_and_continue [0x34] [0x34])
      (rsp_link_start, (?s, [])) = Inr (Some ([], (l', (s', bytes ''+$OK#9a+$S05#b8''))))" "abs_hart s' = ?h1"
    unfolding packets len using h(3) none
    by (auto simp: stop_def boot_def rsp_is_hex_digit_def)
  have "abs_gpr s' 1 = gpr ?h1 1" "pc s' = ipc ?h1" using ran(2) by (metis abs_hart_simps)+
  with ran(1) show ?thesis using h(3) by (intro exI conjI) (simp_all add: next_instr_def goto_def set_gpr_def)
qed

end
