(* ===== verification/Program_Ends.thy ===== *)
theory Program_Ends
  imports Program_Io Total_Cycle
begin

text \<open>
  Every way a program can go on the command-line emulator. \<open>env_turn\<close> is one turn of the main loop
  as the instruction set and the program's surroundings describe it, at every hart: interrupts that
  the program raises itself, the register of the interrupt controller, the console byte, and the word
  that an error report reads. A simulation in both directions then decides, for every program, whether
  \<open>main\<close> returns, what it returns and prints, and whether it runs on for ever or reads outside its
  memory.
\<close>

section \<open>The environment as a function\<close>

text \<open>
  The state beside the hart is the enable register \<open>k\<close> of the interrupt controller, and the bytes
  \<open>rest\<close> that \<open>malloc\<close> returned behind the RAM, which no instruction writes.
\<close>

datatype env_result = Goes string hart u32 | Ends u32 string | Hangs | Lost

text \<open>An interrupt with the exception code \<open>n\<close>.\<close>

definition take_trap :: "u32 \<Rightarrow> hart \<Rightarrow> hart" where
  "take_trap n h =
     (let m = csrs h 0x300; v = csrs h 0x305
      in goto (if bit v 0 then (v AND NOT 3) + 4 * n else v)
           (h\<lparr>csrs := (csrs h)(0x300 := (m AND NOT 8) OR 0x80, 0x341 := ipc h, 0x342 := 0x80000000 + n)\<rparr>))"

text \<open>
  The software and the timer interrupt, when the program has set the one pending bit and enabled it.
  An external interrupt is never taken: nothing raises a request, so there is none to claim.
\<close>

definition interrupted :: "hart \<Rightarrow> hart" where
  "interrupted h =
     (let active = csrs h 0x304 AND csrs h 0x344
      in if bit (csrs h 0x300) 3 \<and> active = 8 then take_trap 3 h
         else if bit (csrs h 0x300) 3 \<and> active = 0x80 then take_trap 7 h
         else h)"

text \<open>The word at the program counter: in RAM, or the controller's register.\<close>

definition env_fetch :: "u32 \<Rightarrow> hart \<Rightarrow> u32 option" where
  "env_fetch k h =
     (case fetched h of
        Some x \<Rightarrow> Some x
      | None \<Rightarrow> if ipc h = RV32_INTERRUPT_CONTROLLER_ADDRESS then Some k else None)"

text \<open>The word of the whole block at the program counter, which the report of an error prints.\<close>

definition block_byte :: "u8 list \<Rightarrow> hart \<Rightarrow> nat \<Rightarrow> u8 option" where
  "block_byte rest h a =
     (if a < unat emulator_ram_size then ram h (word_of_nat a)
      else if a < unat emulator_ram_size + length rest then Some (rest ! (a - unat emulator_ram_size))
      else None)"

definition block_word :: "u8 list \<Rightarrow> hart \<Rightarrow> u32 option" where
  "block_word rest h = map_option le_word (those (map (block_byte rest h) [unat (ipc h)..<unat (ipc h) + 4]))"

definition error_text :: "rv32_status \<Rightarrow> u32 \<Rightarrow> hart \<Rightarrow> string" where
  "error_text st x h =
     ''Error '' @ status_name st @ '' at pc='' @ format_08x (ipc h) @ newline
     @ ''instruction = 0x'' @ format_08x x @ newline"

definition env_fails :: "u8 list \<Rightarrow> rv32_status \<Rightarrow> hart \<Rightarrow> env_result" where
  "env_fails rest st h = (case block_word rest h of None \<Rightarrow> Lost | Some x \<Rightarrow> Ends 1 (error_text st x h))"

text \<open>An access outside RAM: the controller's register, the console byte, and nothing else.\<close>

definition env_device :: "u8 list \<Rightarrow> instr \<Rightarrow> hart \<Rightarrow> u32 \<Rightarrow> env_result" where
  "env_device rest i h k =
     (case i of
        Load f rd rs1 imm \<Rightarrow>
          if f = Lw \<and> target i h = RV32_INTERRUPT_CONTROLLER_ADDRESS then Goes [] (next_instr (set_gpr rd k h)) k
          else env_fails rest RV32_INVALID_MEMORY_ACCESS h
      | Store f rs1 rs2 imm \<Rightarrow>
          if f = Sw \<and> target i h = RV32_INTERRUPT_CONTROLLER_ADDRESS then Goes [] (next_instr h) (gpr h rs2)
          else if f = Sb \<and> target i h = 0x80000000 then Goes [char_of (unat (gpr h rs2) mod 256)] (next_instr h) k
          else env_fails rest RV32_INVALID_MEMORY_ACCESS h
      | _ \<Rightarrow> Lost)"

definition env_execute :: "u8 list \<Rightarrow> u32 \<Rightarrow> hart \<Rightarrow> u32 \<Rightarrow> env_result" where
  "env_execute rest x h k =
     (case read_word x of
        None \<Rightarrow> env_fails rest RV32_INVALID_INSTRUCTION h
      | Some Call \<Rightarrow>
          if gpr h 17 = 93 then Ends (gpr h 10) []
          else Goes (call_text (gpr h 17) (gpr h 10)) (next_instr h) k
      | Some Break \<Rightarrow> Ends 1 (''ebreak at pc='' @ format_08x (ipc h + 4) @ newline)
      | Some Wait \<Rightarrow> Hangs
      | Some (Do i) \<Rightarrow> (case machine_step i h of Some h' \<Rightarrow> Goes [] h' k | None \<Rightarrow> env_device rest i h k))"

definition env_turn :: "u8 list \<Rightarrow> hart \<Rightarrow> u32 \<Rightarrow> env_result" where
  "env_turn rest h k =
     (let h' = interrupted h
      in case env_fetch k h' of
           None \<Rightarrow> env_fails rest RV32_INVALID_MEMORY_ACCESS h'
         | Some x \<Rightarrow> env_execute rest x h' k)"

text \<open>What was printed and where the hart is after \<open>n\<close> turns, unless an earlier turn was the last.\<close>

primrec env_after :: "nat \<Rightarrow> u8 list \<Rightarrow> hart \<Rightarrow> u32 \<Rightarrow> (string \<times> hart \<times> u32) option" where
  "env_after 0 rest h k = Some ([], h, k)"
| "env_after (Suc n) rest h k =
     (case env_turn rest h k of
        Goes t h' k' \<Rightarrow> map_option (\<lambda>(u, x). (t @ u, x)) (env_after n rest h' k')
      | _ \<Rightarrow> None)"

section \<open>The machine behind a hart\<close>

definition mirrors :: "u8 list \<Rightarrow> hart \<Rightarrow> u32 \<Rightarrow> rv32 \<Rightarrow> bool" where
  "mirrors rest h k s \<longleftrightarrow> ready s \<and> bp_mask s = 0 \<and> mem_size s = emulator_ram_size \<and> beyond s = rest
     \<and> abs_hart s = h \<and> interrupt_controller s = \<lparr>ie = k, ip = 0\<rparr>"

lemma mirrors_frame:
  assumes "mirrors rest h k s" "frame s t"
  shows "mirrors rest (abs_hart t) k t"
proof -
  from assms(1) have "ready s" "bp_mask s = 0" by (simp_all add: mirrors_def)
  note next1 = ready_frame [OF this(1) assms(2) this(2)]
  have "same_shape s t" "interrupt_controller t = interrupt_controller s" "beyond t = beyond s"
    using assms(2) by (simp_all add: frame_def)
  with next1 assms(1) show ?thesis by (simp add: mirrors_def same_shape_def)
qed

lemma mirrors_ready:
  assumes "mirrors rest h k s"
  shows "wf_rv32 s" "status s = RV32_RUNNING" "wfi s = 0" "abs_hart s = h" "pc s = ipc h"
    "4 \<le> unat (mem_size s)" "pending s = 0" "ie (interrupt_controller s) = k"
  using assms by (auto simp: mirrors_def ready_def emulator_ram_size_def)

section \<open>Interrupts\<close>

lemma bit_constants: "bit (8 :: u32) j \<longleftrightarrow> j = 3" "bit (0x80 :: u32) j \<longleftrightarrow> j = 7"
  using bit_exp_iff [where ?'a = "32 word", of 3 j] bit_exp_iff [where ?'a = "32 word", of 7 j]
  by (auto simp: bit_imp_possible_bit)

lemma enter_trap_mstatus:
  "bit (mstatus s) 3 \<Longrightarrow> mstatus (enter_trap s) = (mstatus s AND NOT 8) OR 0x80"
  by (rule word32_eqI) (auto simp: bit_enter_trap_mstatus bit_or_iff bit_and_iff bit_not_iff bit_constants)

lemma abs_enter_trap:
  assumes "bit (mstatus s) 3" "n AND NOT (push_bit 31 1) = n"
    and "(0x80000000 + n) AND NOT (push_bit 31 1) = n"
  shows "abs_hart (enter_trap (s\<lparr>mcause := 0x80000000 + n\<rparr>)) = take_trap n (abs_hart s)"
proof (rule hart_eqI)
  let ?t = "enter_trap (s\<lparr>mcause := 0x80000000 + n\<rparr>)"
  have "mstatus ?t = (mstatus s AND NOT 8) OR 0x80" using assms(1) by (subst enter_trap_mstatus) simp_all
  then show "csrs (abs_hart ?t) = csrs (take_trap n (abs_hart s))"
    by (auto simp: rv32_read_csr_def take_trap_def goto_def enter_trap_fields Let_def fun_eq_iff)
  show "ipc (abs_hart ?t) = ipc (take_trap n (abs_hart s))"
    using assms(3) by (simp add: enter_trap_pc take_trap_def goto_def rv32_read_csr_def Let_def)
  have "r ?t = r s" by (simp add: enter_trap_fields)
  then have "abs_gpr ?t = abs_gpr s" by (simp add: abs_gpr_def fun_eq_iff)
  then show "gpr (abs_hart ?t) = gpr (take_trap n (abs_hart s))"
    by (simp add: take_trap_def goto_def Let_def)
  have "mem_size ?t = mem_size s" by (simp add: enter_trap_def Let_def)
  then show "ram (abs_hart ?t) = ram (take_trap n (abs_hart s))"
    by (simp add: take_trap_def goto_def abs_ram_def enter_trap_fields Let_def fun_eq_iff)
qed

lemma enter_trap_frame: "wfi s = 0 \<Longrightarrow> frame s (enter_trap (s\<lparr>mcause := c\<rparr>))"
  by (simp add: frame_def same_shape_def beyond_def enter_trap_fields) (simp add: enter_trap_def Let_def)

lemma deliver_cases:
  assumes "pending s = 0"
  shows "deliver_interrupt s =
    (if bit (mstatus s) 3 \<and> mie s AND mip s = 8 then enter_trap (s\<lparr>mcause := 0x80000000 + 3\<rparr>)
     else if bit (mstatus s) 3 \<and> mie s AND mip s = 0x80 then enter_trap (s\<lparr>mcause := 0x80000000 + 7\<rparr>)
     else s)"
proof -
  have "rv32_claim_irq s = None" using assms by (simp add: claim_irq_None)
  then show ?thesis
    by (auto simp: deliver_interrupt_def rv32_handle_interrupt_def Let_def csr_bit_defs)
qed

lemma deliver_interrupted:
  assumes "pending s = 0" "wfi s = 0"
  shows "abs_hart (deliver_interrupt s) = interrupted (abs_hart s)" "frame s (deliver_interrupt s)"
proof -
  have codes: "(3 :: u32) AND NOT (push_bit 31 1) = 3" "(0x80000000 + 3 :: u32) AND NOT (push_bit 31 1) = 3"
    "(7 :: u32) AND NOT (push_bit 31 1) = 7" "(0x80000000 + 7 :: u32) AND NOT (push_bit 31 1) = 7" by code_simp+
  have trap: "bit (mstatus s) 3 \<Longrightarrow> abs_hart (enter_trap (s\<lparr>mcause := 0x80000000 + 3\<rparr>)) = take_trap 3 (abs_hart s)"
    "bit (mstatus s) 3 \<Longrightarrow> abs_hart (enter_trap (s\<lparr>mcause := 0x80000000 + 7\<rparr>)) = take_trap 7 (abs_hart s)"
    by (rule abs_enter_trap; (assumption | rule codes))+
  have csrs: "rv32_read_csr s 0x300 = mstatus s" "rv32_read_csr s 0x304 = mie s" "rv32_read_csr s 0x344 = mip s"
    by (simp_all add: rv32_read_csr_def)
  show "abs_hart (deliver_interrupt s) = interrupted (abs_hart s)"
    unfolding deliver_cases [OF assms(1)] interrupted_def Let_def abs_hart_simps csrs
    by (simp only: if_distrib [of abs_hart] trap cong: if_cong conj_cong)
  show "frame s (deliver_interrupt s)"
    unfolding deliver_cases [OF assms(1)] using enter_trap_frame [OF assms(2)] by simp
qed

lemma undelivered_iff:
  assumes "pending s = 0"
  shows "deliver_interrupt s = s \<longleftrightarrow> \<not> (bit (mstatus s) 3 \<and> (mie s AND mip s = 8 \<or> mie s AND mip s = 0x80))"
proof -
  have "bit (mstatus s) 3 \<Longrightarrow> enter_trap (s\<lparr>mcause := c\<rparr>) \<noteq> s" for c
    using bit_enter_trap_mstatus [of "s\<lparr>mcause := c\<rparr>" 3] by auto
  then show ?thesis unfolding deliver_cases [OF assms] by auto
qed

lemma mirrors_delivered:
  "mirrors rest h k s \<Longrightarrow> mirrors rest (interrupted h) k (deliver_interrupt s)"
  using mirrors_frame [OF _ deliver_interrupted(2)] deliver_interrupted(1) mirrors_ready by metis

section \<open>What the report reads\<close>

lemma those_nth:
  "those (map (\<lambda>a. if a < length ms then Some (ms ! a) else None) [a..<a + n])
   = (if n = 0 \<or> a + n \<le> length ms then Some (take n (drop a ms)) else None)"
proof (induction n arbitrary: a)
  case (Suc n)
  have "[a..<a + Suc n] = a # [Suc a..<Suc a + n]" by (simp add: upt_conv_Cons)
  moreover have "a < length ms \<Longrightarrow> take (Suc n) (drop a ms) = ms ! a # take n (drop (Suc a) ms)"
    by (simp add: Cons_nth_drop_Suc [symmetric])
  ultimately show ?case using Suc.IH [of "Suc a"] by auto
qed simp

lemma block_word_mem:
  assumes "mirrors rest h k s"
  shows "mem_get 4 (mem s) (unat (pc s)) = block_word rest h"
proof -
  note s = mirrors_ready [OF assms]
  let ?n = "unat emulator_ram_size"
  from assms have size: "unat (mem_size s) = ?n" and rest: "rest = drop ?n (mem s)"
    by (auto simp: mirrors_def beyond_def)
  have len: "?n \<le> length (mem s)" using wf_rv32_mem [OF s(1)] size by simp
  have "block_byte rest h a = (if a < length (mem s) then Some (mem s ! a) else None)" for a
  proof (cases "a < ?n")
    case True
    moreover from this have "unat (word_of_nat a :: u32) = a"
      using unat_u32_less [of emulator_ram_size] by (intro word_of_nat_unat_less) simp
    ultimately show ?thesis
      using len by (simp add: block_byte_def size abs_ram_def flip: s(4))
  next
    case False
    then show ?thesis using len by (auto simp: block_byte_def rest)
  qed
  then have "block_byte rest h = (\<lambda>a. if a < length (mem s) then Some (mem s ! a) else None)" by (rule ext)
  then show ?thesis
    unfolding block_word_def mem_get_def s(5) by (simp only: those_nth) simp
qed

section \<open>One turn\<close>

definition turns_to :: "u8 list \<Rightarrow> host \<Rightarrow> host vm run \<Rightarrow> env_result \<Rightarrow> bool" where
  "turns_to rest w turn res \<longleftrightarrow>
     (case res of
        Goes t h k \<Rightarrow> \<exists>s. turn = Inr (s, print_out t w) \<and> mirrors rest h k s
      | Ends c e \<Rightarrow> \<exists>s. turn = Inr (s, print_err e w) \<and> status s \<noteq> RV32_RUNNING \<and> exit_code s = c
      | Lost \<Rightarrow> turn = Inl Out_Of_Bounds
      | Hangs \<Rightarrow> \<exists>s. turn = Inr (s, w) \<and> status s = RV32_RUNNING \<and> wfi s \<noteq> 0 \<and> deliver_interrupt s = s)"

lemma report_goes:
  "mirrors rest h k s \<Longrightarrow> turns_to rest w (emulator_report (s, print_out t w)) (Goes t h k)"
  using mirrors_ready(2) by (auto simp: turns_to_def emulator_report_def Let_def)

lemma report_fails:
  assumes "mirrors rest h k s" "st \<in> {RV32_INVALID_MEMORY_ACCESS, RV32_INVALID_INSTRUCTION}"
  shows "turns_to rest w (emulator_report (stop st s, w)) (env_fails rest st h)"
proof -
  have "mem_get 4 (mem (stop st s)) (unat (pc (stop st s))) = block_word rest h"
    using block_word_mem [OF assms(1)] by (simp add: stop_def)
  moreover have "pc (stop st s) = ipc h" "status (stop st s) = st"
    using mirrors_ready(5) [OF assms(1)] by (simp_all add: stop_def)
  ultimately show ?thesis
    using assms(2)
    by (cases "block_word rest h")
      (auto simp: turns_to_def env_fails_def emulator_report_def Let_def error_text_def exit_code_def)
qed

lemma low_byte_u8: "format_c (ucast (ucast (x :: u32) :: u8)) = [char_of (unat x mod 256)]"
proof -
  have "(ucast (ucast x :: u8) :: u32) = x AND 0xff" by (simp only: narrow_byte flip: ucast_low(1) [of x])
  then show ?thesis by (simp add: format_c_def low_byte)
qed

text \<open>The devices, at a machine whose \<open>x0\<close> holds zero.\<close>

lemma device_turns:
  assumes m: "mirrors rest h k s" and none: "machine_step i h = None"
  shows "turns_to rest w (bind_run (access_outside emulator_platform i (s, w)) emulator_report) (env_device rest i h k)"
proof -
  note s = mirrors_ready [OF m]
  let ?a = "target i h"
  have fails: "turns_to rest w (emulator_report (stop RV32_INVALID_MEMORY_ACCESS s, w)) (env_fails rest RV32_INVALID_MEMORY_ACCESS h)"
    using m by (rule report_fails) simp
  from none show ?thesis
  proof (cases rule: machine_step_NoneE)
    case (load f rd rs1 imm)
    let ?t = "advance 4 (write_reg (ucast rd) k s)"
    have "abs_hart ?t = next_instr (set_gpr rd k h)" using retire(1) [OF s(1), of rd k] s(4) by simp
    with mirrors_frame [OF m retire(2) [OF s(1), of rd k]] have "mirrors rest (next_instr (set_gpr rd k h)) k ?t" by simp
    from report_goes [OF this, of w "[]"] fails show ?thesis
      by (cases f) (simp_all add: load access_outside_def load_outside_def loaded_def env_device_def s(4,8) del: target.simps)
  next
    case (store f rs1 rs2 imm)
    have adv: "mirrors rest (next_instr h) k (advance 4 s)"
      using mirrors_frame [OF m advance_frame, of 4] by (simp add: abs_advance next_instr_def s(4,5))
    let ?u = "advance 4 (set_ie (gpr h rs2) s)"
    have "abs_hart (set_ie (gpr h rs2) s) = abs_hart s"
      by (rule hart_eqI) (simp_all add: set_ie_def abs_gpr_def abs_ram_def rv32_read_csr_def fun_eq_iff)
    moreover have "pc (set_ie (gpr h rs2) s) = ipc h" using s(5) by (simp add: set_ie_def)
    ultimately have "abs_hart ?u = next_instr h" by (simp add: abs_advance next_instr_def s(4))
    then have ctrl: "mirrors rest (next_instr h) (gpr h rs2) ?u"
      using m by (auto simp: mirrors_def ready_def breakpoint_hit_def beyond_def wf_rv32_def set_ie_def advance_def)
    from report_goes [OF ctrl, of w "[]"] report_goes [OF adv, of w "[char_of (unat (gpr h rs2) mod 256)]"] fails
    show ?thesis
      by (cases f) (simp_all add: store access_outside_def store_outside_def stored_def env_device_def s(4)
          emulator_store8_def low_byte_u8 del: target.simps)
  qed
qed

lemma ecall_emulator:
  assumes "status s = RV32_RUNNING" "abs_hart s = h"
  shows "exec_ecall emulator_platform (s, w) =
    (if gpr h 17 = 93 then (stop RV32_HALTED s, w)
     else (advance 4 s, print_out (call_text (gpr h 17) (gpr h 10)) w))"
  using assms
  by (auto simp: exec_ecall_def emulator_ecall_def Let_def abs_gpr_def stop_def simp flip: call_text_code)

lemma execute_turns:
  assumes m: "mirrors rest h k s" and zero: "r s ! 0 = 0" and quiet: "deliver_interrupt s = s"
  shows "turns_to rest w (bind_run (rv32_execute emulator_platform x (s, w)) emulator_report) (env_execute rest x h k)"
proof (cases "read_word x")
  case None
  with execute_word [OF mirrors_ready(1) [OF m] zero mirrors_ready(6) [OF m], where x = x and p = emulator_platform and w = w]
    report_fails [OF m, of RV32_INVALID_INSTRUCTION w]
  show ?thesis by (simp add: env_execute_def)
next
  case (Some op)
  note s = mirrors_ready [OF m]
  let ?res = "rv32_execute emulator_platform x (s, w)"
  have p: "performs emulator_platform s w op ?res"
    using execute_word [OF s(1) zero s(6), where x = x and p = emulator_platform and w = w] Some by simp
  have adv: "mirrors rest (next_instr h) k (advance 4 s)"
    using mirrors_frame [OF m advance_frame, of 4] by (simp add: abs_advance next_instr_def s(4,5))
  show ?thesis
  proof (cases op)
    case (Do i)
    show ?thesis
    proof (cases "machine_step i h")
      case None
      with p Do s(4) have "?res = access_outside emulator_platform i (s, w)" by (simp add: performs_def)
      with device_turns [OF m None] Some Do None show ?thesis by (simp add: env_execute_def)
    next
      case step: (Some h')
      with p Do s(4) obtain t where t: "?res = Inr (t, w)" "abs_hart t = h'" "frame s t"
        by (auto simp: performs_def)
      from mirrors_frame [OF m t(3)] t(2) have "mirrors rest h' k t" by simp
      from report_goes [OF this, of w "[]"] t(1) Some Do step show ?thesis by (simp add: env_execute_def)
    qed
  next
    case Call
    with p have res: "?res = Inr (exec_ecall emulator_platform (s, w))" by (simp add: performs_def)
    have "exit_code (stop RV32_HALTED s) = gpr h 10" "status (stop RV32_HALTED s) = RV32_HALTED"
      using s(4) by (auto simp: exit_code_def stop_def abs_gpr_def)
    then have "turns_to rest w (emulator_report (stop RV32_HALTED s, w)) (Ends (gpr h 10) [])"
      by (simp add: turns_to_def emulator_report_def)
    with report_goes [OF adv, of w] show ?thesis
      unfolding res by (simp add: ecall_emulator [OF s(2,4)] env_execute_def Some Call)
  next
    case Break
    let ?t = "advance 4 (stop RV32_EBREAK s)"
    have "status ?t = RV32_EBREAK" "pc ?t = ipc h + 4" by (simp_all add: advance_def stop_def s(5))
    then have "turns_to rest w (emulator_report (?t, w)) (Ends 1 (''ebreak at pc='' @ format_08x (ipc h + 4) @ newline))"
      by (simp add: turns_to_def emulator_report_def exit_code_def)
    with p Some Break show ?thesis by (simp add: performs_def env_execute_def)
  next
    case Wait
    let ?t = "advance 4 (s\<lparr>wfi := 1\<rparr>)"
    have t: "status ?t = RV32_RUNNING" "wfi ?t \<noteq> 0" "pending ?t = 0" using s by (simp_all add: advance_def)
    have "mstatus ?t = mstatus s" "mie ?t = mie s" "mip ?t = mip s" by (simp_all add: advance_def)
    then have "deliver_interrupt ?t = ?t" using quiet unfolding undelivered_iff [OF t(3)] undelivered_iff [OF s(7)] by simp
    with t have "turns_to rest w (emulator_report (?t, w)) Hangs"
      by (simp add: turns_to_def emulator_report_def)
    with p Some Wait show ?thesis by (simp add: performs_def env_execute_def)
  qed
qed

lemma mirrors_cleared:
  "mirrors rest h k s \<Longrightarrow> mirrors rest h k (write_reg 0 0 s)"
  using mirrors_frame [OF _ write_reg_frame, of rest h k s 0 0] mirrors_ready(4) [of rest h k s]
  by (simp add: abs_clear_zero)

lemma env_turn_turns_to:
  assumes "mirrors rest h k s"
  shows "turns_to rest w (emulator_turn (s, w)) (env_turn rest h k)"
proof -
  let ?t = "deliver_interrupt s" and ?h = "interrupted h"
  let ?u = "write_reg 0 0 ?t"
  have m: "mirrors rest ?h k ?t" by (rule mirrors_delivered [OF assms])
  note t = mirrors_ready [OF m]
  have settled: "deliver_interrupt ?t = ?t" by (rule deliver_settled)
  have rdy: "ready ?t" using m by (simp add: mirrors_def)
  have turn: "emulator_turn (s, w) = bind_run (rv32_cycle emulator_platform (?t, w)) emulator_report"
    by (simp only: emulator_turn_def cycle_delivers [of emulator_platform s w])
  show ?thesis
  proof (cases "env_fetch k ?h")
    case None
    then have "fetched (abs_hart ?t) = None" "pc ?t \<noteq> RV32_INTERRUPT_CONTROLLER_ADDRESS"
      by (auto simp: env_fetch_def t(4,5) split: option.splits if_splits)
    then have "rv32_cycle emulator_platform (?t, w) = Inr (stop RV32_INVALID_MEMORY_ACCESS ?t, w)"
      using t(6) by (intro cycle_not_fetched rdy settled) (simp_all add: no_load_def)
    with report_fails [OF m, of RV32_INVALID_MEMORY_ACCESS w] None show ?thesis
      unfolding turn by (simp add: env_turn_def Let_def)
  next
    case (Some x)
    have "rv32_cycle emulator_platform (?t, w) = rv32_execute emulator_platform x (?u, w)"
    proof (cases "fetched (abs_hart ?t)")
      case None
      then have "pc ?t = RV32_INTERRUPT_CONTROLLER_ADDRESS" "x = k"
        using Some by (auto simp: env_fetch_def t(4,5) split: if_splits)
      moreover have "\<not> in_ram 4 ?t (pc ?t)"
        using None t(1,6) by (simp add: fetched_def fetch_bytes_abs in_ram_iff split: if_splits)
      ultimately have "rv32_load32 emulator_platform (?t, w) (pc ?t) = Inr (RV32_OK x, (?t, w))"
        by (simp add: rv32_load32_def t(8))
      then show ?thesis using rdy by (simp add: rv32_cycle_def settled ready_def)
    next
      case word: (Some y)
      with Some have "y = x" by (simp add: env_fetch_def t(4))
      with cycle_fetched [OF rdy settled word] show ?thesis by simp
    qed
    moreover have "deliver_interrupt ?u = ?u"
    proof -
      have "pending ?u = 0" "mstatus ?u = mstatus ?t" "mie ?u = mie ?t" "mip ?u = mip ?t"
        using t(7) by (simp_all add: write_reg_def)
      with settled show ?thesis using undelivered_iff [of ?u] undelivered_iff [OF t(7)] by simp
    qed
    moreover have "r ?u ! 0 = 0" by (rule wf_clear_zero(2) [OF t(1)])
    ultimately show ?thesis
      using execute_turns [OF mirrors_cleared [OF m], of w x] unfolding turn
      by (simp add: env_turn_def Let_def Some)
  qed
qed

section \<open>Whole runs\<close>

lemma loop_turn:
  "mirrors rest h k s \<Longrightarrow> emulator_loop (s, w) = (case emulator_turn (s, w) of Inl e \<Rightarrow> Some (Inl e) | Inr v \<Rightarrow> emulator_loop v)"
  using mirrors_ready(2) by (simp add: emulator_loop.simps [of "(s, w)"])

lemma loop_goes:
  assumes "env_turn rest h k = Goes t h' k'" "mirrors rest h k s"
  shows "\<exists>s'. mirrors rest h' k' s' \<and> emulator_turn (s, w) = Inr (s', print_out t w)
    \<and> emulator_loop (s, w) = emulator_loop (s', print_out t w)"
  using env_turn_turns_to [OF assms(2), of w] loop_turn [OF assms(2), of w] assms(1)
  by (auto simp: turns_to_def)

lemma loop_follows:
  assumes "env_after n rest h k = Some (t, h', k')" "mirrors rest h k s"
  shows "\<exists>s'. mirrors rest h' k' s' \<and> emulator_loop (s, w) = emulator_loop (s', print_out t w)"
  using assms
proof (induction n arbitrary: h k s t w)
  case 0
  then show ?case by auto
next
  case (Suc n)
  from Suc.prems(1) obtain u h1 k1 v where u: "env_turn rest h k = Goes u h1 k1"
      "env_after n rest h1 k1 = Some (v, h', k')" "t = u @ v"
    by (auto split: env_result.splits)
  from loop_goes [OF u(1) Suc.prems(2)] obtain s1 where s1: "mirrors rest h1 k1 s1"
      "emulator_loop (s, w) = emulator_loop (s1, print_out u w)" by blast
  from Suc.IH [OF u(2) s1(1), of "print_out u w"] s1(2) show ?case by (auto simp: print_append u(3))
qed

text \<open>A machine that waits for an interrupt waits for ever: the emulator delivers none.\<close>

lemma sleeping_turns:
  assumes "status s = RV32_RUNNING" "wfi s \<noteq> 0" "deliver_interrupt s = s"
  shows "emulator_turns n (s, w) = None"
proof (induction n)
  case 0
  show ?case using assms(1) by (simp add: emulator_turns.simps [of 0])
next
  case (Suc n)
  have "rv32_cycle emulator_platform (s, w) = Inr (s, w)" using assms by (simp add: rv32_cycle_def)
  then have "emulator_turn (s, w) = Inr (s, w)" by (rule emulator_turn_cycle) (simp add: assms(1))
  then show ?case using Suc.IH assms(1) by (simp add: emulator_turns.simps [of "Suc n"])
qed

lemma loop_never: "(\<And>n. emulator_turns n v = None) \<Longrightarrow> emulator_loop v = None"
  using emulator_loop_turns [of v] by (cases "emulator_loop v") auto

lemma loop_last:
  assumes "mirrors rest h k s"
  shows "env_turn rest h k = Ends c e \<Longrightarrow> \<exists>s'. emulator_loop (s, w) = Some (Inr (s', print_err e w)) \<and> exit_code s' = c"
    and "env_turn rest h k = Lost \<Longrightarrow> emulator_loop (s, w) = Some (Inl Out_Of_Bounds)"
    and "env_turn rest h k = Hangs \<Longrightarrow> emulator_loop (s, w) = None"
proof -
  note turn = env_turn_turns_to [OF assms, of w] and loop = loop_turn [OF assms, of w]
  show "env_turn rest h k = Ends c e \<Longrightarrow> \<exists>s'. emulator_loop (s, w) = Some (Inr (s', print_err e w)) \<and> exit_code s' = c"
    using turn unfolding loop by (auto simp: turns_to_def emulator_loop.simps)
  show "env_turn rest h k = Lost \<Longrightarrow> emulator_loop (s, w) = Some (Inl Out_Of_Bounds)"
    using turn unfolding loop by (simp add: turns_to_def)
  assume "env_turn rest h k = Hangs"
  with turn obtain s' where s': "emulator_turn (s, w) = Inr (s', w)" "status s' = RV32_RUNNING"
      "wfi s' \<noteq> 0" "deliver_interrupt s' = s'" by (auto simp: turns_to_def)
  have "emulator_loop (s', w) = None" using s'(2-4) by (intro loop_never sleeping_turns)
  with s'(1) show "emulator_loop (s, w) = None" unfolding loop by simp
qed

lemma loop_runs_on:
  assumes "\<And>n. env_after n rest h k \<noteq> None" "mirrors rest h k s"
  shows "emulator_loop (s, w) = None"
proof (rule loop_never)
  fix n
  show "emulator_turns n (s, w) = None"
    using assms
  proof (induction n arbitrary: h k s w)
    case 0
    then show ?case using mirrors_ready(2) by (simp add: emulator_turns.simps [of 0])
  next
    case (Suc n)
    from Suc.prems(1) [of "Suc 0"] obtain u h1 k1 where u: "env_turn rest h k = Goes u h1 k1"
      by (auto split: env_result.splits)
    from loop_goes [OF u Suc.prems(2), of w] obtain s1
      where s1: "mirrors rest h1 k1 s1" "emulator_turn (s, w) = Inr (s1, print_out u w)" by blast
    have "env_after j rest h1 k1 \<noteq> None" for j using Suc.prems(1) [of "Suc j"] u by simp
    from Suc.IH [OF this s1(1)] have "emulator_turns n (s1, print_out u w) = None" .
    with s1(2) mirrors_ready(2) [OF Suc.prems(2)] show ?case by (simp add: emulator_turns.simps [of "Suc n"])
  qed
qed

text \<open>The fate of a program: what \<open>main\<close> returns, with \<open>None\<close> for a run without end.\<close>

inductive env_fate :: "u8 list \<Rightarrow> hart \<Rightarrow> u32 \<Rightarrow> host \<Rightarrow> (u32 \<times> host) run option \<Rightarrow> bool" where
  returns: "env_after n rest h k = Some (t, h', k') \<Longrightarrow> env_turn rest h' k' = Ends c e \<Longrightarrow>
    env_fate rest h k w (Some (Inr (c, print_err e (print_out t w))))"
| strays: "env_after n rest h k = Some (t, h', k') \<Longrightarrow> env_turn rest h' k' = Lost \<Longrightarrow>
    env_fate rest h k w (Some (Inl Out_Of_Bounds))"
| sleeps: "env_after n rest h k = Some (t, h', k') \<Longrightarrow> env_turn rest h' k' = Hangs \<Longrightarrow> env_fate rest h k w None"
| runs_on: "(\<And>n. env_after n rest h k \<noteq> None) \<Longrightarrow> env_fate rest h k w None"

lemma env_after_Suc:
  "env_after (Suc n) rest h k = (case env_after n rest h k of
     None \<Rightarrow> None
   | Some (t, h', k') \<Rightarrow> (case env_turn rest h' k' of Goes u h'' k'' \<Rightarrow> Some (t @ u, h'', k'') | _ \<Rightarrow> None))"
proof (induction n arbitrary: h k)
  case 0
  show ?case by (simp split: env_result.splits)
next
  case (Suc n)
  show ?case
  proof (cases "env_turn rest h k")
    case (Goes t h' k')
    then have step: "env_after (Suc m) rest h k = map_option (\<lambda>(u, x). (t @ u, x)) (env_after m rest h' k')" for m by simp
    show ?thesis
      unfolding step Suc.IH by (cases "env_after n rest h' k'") (auto split: env_result.splits)
  qed simp_all
qed

lemma some_fate: "\<exists>x. env_fate rest h k w x"
proof (cases "\<forall>n. env_after n rest h k \<noteq> None")
  case True
  have "env_fate rest h k w None" by (rule env_fate.runs_on) (rule True [THEN spec])
  then show ?thesis ..
next
  case False
  define n where "n = (LEAST n. env_after n rest h k = None)"
  from False have "\<exists>n. env_after n rest h k = None" by (simp only: not_all not_not)
  then have none: "env_after n rest h k = None" unfolding n_def by (rule LeastI_ex)
  then obtain j where j: "n = Suc j" by (cases n) simp_all
  have "env_after j rest h k \<noteq> None" using j not_less_Least [of j "\<lambda>n. env_after n rest h k = None"] by (simp add: n_def)
  then obtain t h' k' where at: "env_after j rest h k = Some (t, h', k')" by auto
  with none j show ?thesis
    by (cases "env_turn rest h' k'") (auto simp: env_after_Suc simp del: env_after.simps intro: env_fate.intros)
qed

lemma loop_fate:
  assumes "env_fate rest h k w x" "mirrors rest h k s"
  shows "map_option (\<lambda>res. bind_run res (\<lambda>(t, w'). Inr (exit_code t, w'))) (emulator_loop (s, w)) = x"
  using assms(1)
proof cases
  case (returns n t h' k' c e)
  with loop_follows [OF returns(2) assms(2), of w] loop_last(1) show ?thesis by fastforce
next
  case (strays n t h' k')
  with loop_follows [OF strays(2) assms(2), of w] loop_last(2) show ?thesis by fastforce
next
  case (sleeps n t h' k')
  with loop_follows [OF sleeps(2) assms(2), of w] loop_last(3) show ?thesis by fastforce
next
  case runs_on
  with loop_runs_on [OF _ assms(2), of w] show ?thesis by simp
qed

text \<open>The first hart: the file at the start of the RAM, everything else zero but the rest of the block.\<close>

definition env_start :: "u8 list \<Rightarrow> u8 list \<Rightarrow> hart" where
  "env_start file block =
     (let bytes = file @ drop (length file) (replicate 4 0 @ drop 4 block)
      in \<lparr>gpr = \<lambda>i. 0, ipc = 0,
          ram = \<lambda>a. if a < emulator_ram_size then Some (bytes ! unat a) else None, csrs = \<lambda>k. 0\<rparr>)"

lemma emulator_start_mirrors:
  assumes "malloced m emulator_ram_size" "length file \<le> unat emulator_ram_size"
  shows "mirrors (drop (unat emulator_ram_size) (mem m)) (env_start file (mem m)) 0 (emulator_start file m)"
proof -
  let ?s = "emulator_start file m"
  note lay = RV32_layout
  have ready: "ready ?s" "bp_mask ?s = 0" by (rule emulator_start_ready [OF assms])+
  have lens: "length (r m) = 32" "unat emulator_ram_size + 4 \<le> length (mem m)"
    using assms(1) by (simp_all add: malloced_def RV32_NEEDED_MEMORY_def lay)
  have mem: "mem ?s = file @ drop (length file) (replicate 4 0 @ drop 4 (mem m))"
    by (simp add: emulator_start_def zeroed_def lay numeral_eq_Suc)
  have size: "mem_size ?s = emulator_ram_size" by (simp add: emulator_start_def)
  have four: "4 \<le> unat emulator_ram_size" by (simp add: emulator_ram_size_def)
  have "beyond ?s = drop (unat emulator_ram_size) (mem m)"
    using assms(2) four by (cases "4 \<le> length file") (simp_all add: beyond_def mem size drop_append)
  moreover have "abs_hart ?s = env_start file (mem m)"
  proof (rule hart_eqI)
    show "gpr (abs_hart ?s) = gpr (env_start file (mem m))"
      using lens(1) by (auto simp: abs_gpr_def env_start_def emulator_start_def zeroed_def fun_eq_iff Let_def)
    show "ram (abs_hart ?s) = ram (env_start file (mem m))"
      by (auto simp: abs_ram_def env_start_def mem size word_less_nat_alt Let_def fun_eq_iff)
  qed (simp_all add: env_start_def emulator_start_def zeroed_def rv32_read_csr_def fun_eq_iff Let_def)
  moreover have "interrupt_controller ?s = \<lparr>ie = 0, ip = 0\<rparr>" by (simp add: emulator_start_def zeroed_def)
  ultimately show ?thesis using ready size by (simp add: mirrors_def)
qed

text \<open>
  C15. The command-line emulator, for every program file that fits: take the hart with the file at the
  start of its RAM and let it run in its environment, \<open>env_turn\<close>, which covers every instruction word,
  the interrupts that the program raises itself, the register of the interrupt controller and the
  console. \<open>main\<close> returns \<open>c\<close> and has printed what the environment says exactly when the run ends with
  \<open>c\<close>, by the exit call, an \<open>ebreak\<close>, a word that is no instruction, or an access to no memory; it reads
  outside the block that \<open>malloc\<close> returned exactly when such an error happens with the program counter
  outside that block; and it never returns exactly when the program runs on for ever or executes \<open>wfi\<close>.
  In an error with the program counter in the four bytes behind the RAM, the report prints those bytes.
\<close>

theorem emulator_decides:
  assumes "malloced m emulator_ram_size" "file \<noteq> []" "length file \<le> unat emulator_ram_size"
    and "files path = Some file"
  shows "emulator_main [name, path] files (Some m) w = x
    \<longleftrightarrow> env_fate (drop (unat emulator_ram_size) (mem m)) (env_start file (mem m)) 0 w x"
proof -
  let ?fate = "env_fate (drop (unat emulator_ram_size) (mem m)) (env_start file (mem m)) 0 w"
  have "emulator_main [name, path] files (Some m) w = y" if "?fate y" for y
    using loop_fate [OF that emulator_start_mirrors [OF assms(1,3)]]
      emulator_main_start [of m "file" files path, OF assms(1-4)] by simp
  with some_fate [of "drop (unat emulator_ram_size) (mem m)" "env_start file (mem m)" 0 w] show ?thesis by metis
qed

section \<open>A program that ends in an error\<close>

text \<open>
  It prints \<open>H\<close> and executes \<open>fence\<close>, an instruction of RV32I that the machine does not have.
\<close>

lemma those_fetch: "fetch_bytes n m a = Some bs \<Longrightarrow> those (map (\<lambda>b. m (word_of_nat b)) [a..<a + n]) = Some bs"
proof (induction n arbitrary: a bs)
  case (Suc n)
  have "[a..<a + Suc n] = a # [Suc a..<Suc a + n]" by (simp add: upt_conv_Cons)
  with Suc.prems Suc.IH [of "Suc a"] show ?case by (auto split: if_splits option.splits)
qed simp

lemma block_word_fetched:
  assumes "fetched h = Some x" "unat (ipc h) + 4 \<le> unat emulator_ram_size"
  shows "block_word rest h = Some x"
proof -
  obtain bs where bs: "fetch_bytes 4 (ram h) (unat (ipc h)) = Some bs" "x = le_word bs"
    using assms(1) by (auto simp: fetched_def)
  have "map (block_byte rest h) [unat (ipc h)..<unat (ipc h) + 4]
      = map (\<lambda>b. ram h (word_of_nat b)) [unat (ipc h)..<unat (ipc h) + 4]"
    using assms(2) by (simp add: block_byte_def)
  then show ?thesis unfolding block_word_def those_fetch [OF bs(1)] by (simp only: those_fetch [OF bs(1)] bs(2)) simp
qed

lemma straight_at:
  assumes "straight ws j h" "j < length ws"
  shows "fetched h = Some (ws ! j)" "interrupted h = h"
  using straight_word [OF assms] assms(1) by (simp_all add: at_word_def fetched_Some interrupted_def straight_def)

lemma straight_turn:
  assumes "straight ws j h" "j < length ws" "ws ! j = x"
  shows "env_turn rest h k = env_execute rest x h k"
  using straight_at [OF assms(1,2)] assms(3) by (simp add: env_turn_def env_fetch_def)

lemma straight_turn_instr:
  assumes "straight ws j h" "j < length ws" "ws ! j = encode i" "conformant i h" "isa_step i h = Some h1"
  shows "env_turn rest h k = Goes [] h1 k"
  using machine_step_conformant [OF assms(4)] assms(5)
  by (simp add: straight_turn [OF assms(1-3)] env_execute_def read_encoded_instr del: encode.simps)

definition fence_program :: "u32 list" where
  "fence_program = [encode (OpImm Addi 10 0 72), encode (OpImm Addi 17 0 1), 0x73, 0x0ff0000f]"

definition fence_text :: string where
  "fence_text = ''Error RV32_INVALID_INSTRUCTION at pc=0000000c'' @ newline
     @ ''instruction = 0x0ff0000f'' @ newline"

lemma fence_chars:
  "char_of (48 :: nat) = CHR ''0''" "char_of (99 :: nat) = CHR ''c''" "char_of (102 :: nat) = CHR ''f''"
  by code_simp+

lemma fence_program_runs:
  assumes start: "straight fence_program 0 h" and zero: "gpr h 0 = 0"
  shows "env_fate rest h k w (Some (Inr (1, print_err fence_text (print_out ''H'' w))))"
proof -
  let ?h1 = "next_instr (set_gpr 10 72 h)"
  let ?h2 = "next_instr (set_gpr 17 1 ?h1)"
  let ?h3 = "next_instr ?h2"
  note s1 = straight_next(2) [OF start, where d = 10 and x = 72]
  note s2 = straight_next(2) [OF s1, where d = 17 and x = 1]
  note s3 = straight_next(1) [OF s2]
  note words = fence_program_def conformant_def zero
  have t0: "env_turn rest h k = Goes [] ?h1 k"
    by (rule straight_turn_instr [OF start, of "OpImm Addi 10 0 72"]; simp add: words del: encode.simps)
  have t1: "env_turn rest ?h1 k = Goes [] ?h2 k"
    by (rule straight_turn_instr [OF s1, of "OpImm Addi 17 0 1"]; simp add: words del: encode.simps)
  have "read_word 0x73 = Some Call" using read_encoded [of Call] by (simp add: i_type_def)
  moreover have "call_text 1 72 = ''H''" by (rule hi_texts)
  ultimately have t2: "env_turn rest ?h2 k = Goes ''H'' ?h3 k"
    by (subst straight_turn [OF s2, of "0x73"]) (simp_all add: words env_execute_def del: encode.simps)
  have pc: "ipc ?h3 = 12" using start by (simp add: straight_def)
  have "fetched ?h3 = Some 0x0ff0000f" using straight_at(1) [OF s3] by (simp add: words del: encode.simps)
  then have "block_word rest ?h3 = Some 0x0ff0000f"
    by (rule block_word_fetched) (simp only: pc, simp add: emulator_ram_size_def)
  moreover have "error_text RV32_INVALID_INSTRUCTION 0x0ff0000f ?h3 = fence_text"
    unfolding error_text_def pc
    by (simp add: fence_text_def format_08x_def digit_char_def fence_chars status_name_def rv32_status_name_def)
  moreover have "read_word 0x0ff0000f = None" by code_simp
  ultimately have t3: "env_turn rest ?h3 k = Ends 1 fence_text"
    by (subst straight_turn [OF s3, of "0x0ff0000f"]) (simp_all add: words env_execute_def env_fails_def del: encode.simps)
  have "env_after (Suc (Suc (Suc 0))) rest h k = Some (''H'', ?h3, k)" by (simp add: t0 t1 t2)
  from env_fate.returns [OF this t3] show ?thesis .
qed

theorem emulator_decides_witness:
  "emulator_main [''emulator'', ''f.bin''] [''f.bin'' \<mapsto> words_bytes fence_program] (Some heap_block) silent
   = Some (Inr (1, \<lparr>std_out = ''H'', std_err = fence_text\<rparr>))"
proof -
  let ?file = "words_bytes fence_program"
  have "length ?file = 16" by (simp add: fence_program_def)
  then have fits: "?file \<noteq> []" "length ?file \<le> unat emulator_ram_size"
    by (simp_all add: emulator_ram_size_def flip: length_0_conv)
  have start: "abs_hart (emulator_start ?file heap_block) = env_start ?file (mem heap_block)"
    by (rule mirrors_ready(4) [OF emulator_start_mirrors [OF heap_block_malloced fits(2)]])
  have "4 * length fence_program + length [] \<le> unat emulator_ram_size"
    by (simp add: fence_program_def emulator_ram_size_def)
  from emulator_start_straight [OF heap_block_malloced this]
  have "straight fence_program 0 (env_start ?file (mem heap_block))" by (simp only: append_Nil2 start)
  moreover have "gpr (env_start ?file (mem heap_block)) 0 = 0" by (simp add: env_start_def Let_def)
  ultimately have fate: "env_fate rest (env_start ?file (mem heap_block)) 0 silent
      (Some (Inr (1, print_err fence_text (print_out ''H'' silent))))" for rest
    using fence_program_runs by blast
  from fate emulator_decides [OF heap_block_malloced fits, of "[''f.bin'' \<mapsto> ?file]" "''f.bin''"]
  show ?thesis by (simp add: print_err_def print_out_def silent_def)
qed

end
