(* ===== verification/Guest_Interrupts.thy ===== *)
theory Guest_Interrupts
  imports Guest_Asm
begin

text \<open>
  Interrupts in the guests of \<open>src/examples/fantasy-computer\<close> (\<open>example\<close> and
  \<open>example-interrupts\<close>), as far as their assembly says: the end of the handler, after whatever the
  compiler makes of its beginning, and the statements by which \<open>main\<close> turns interrupts on.
\<close>

section \<open>When nothing is delivered\<close>

lemma only_external: "(0x800 :: u32) AND x = (if bit x 11 then 0x800 else 0)"
proof -
  have e: "(0x800 :: u32) = 2 ^ 11" by simp
  show ?thesis unfolding e by (intro bit_word_eqI) (auto simp only: bit_and_iff bit_exp_iff if_distrib if_splits bit_0_eq split: if_split)
qed

lemma external_enabled:
  "mie s = 0x800 \<Longrightarrow> bit (mip s) CSR_MIP_MEIP \<Longrightarrow> external_only s"
  "mie s = 0x800 \<Longrightarrow> \<not> bit (mip s) CSR_MIP_MEIP \<Longrightarrow> mie s AND mip s = 0"
  by (simp_all add: external_only_def only_external csr_bit_defs)

lemma masked_undelivered: "mie s AND mip s = 0 \<Longrightarrow> deliver_interrupt s = s"
  by (simp add: deliver_interrupt_def)

lemma disabled_undelivered:
  assumes "mie s = 0x800" "enabled s AND pending s = 0"
  shows "deliver_interrupt s = s \<and> rv32_claim_irq s = None"
proof -
  have none: "rv32_claim_irq s = None" using assms(2) by (simp add: claim_irq_None)
  have "deliver_interrupt s = s"
  proof (cases "bit (mip s) CSR_MIP_MEIP")
    case True
    then show ?thesis
      using external_enabled(1) [OF assms(1)] none
      by (simp add: deliver_interrupt_def rv32_handle_interrupt_def external_only_def csr_bit_defs)
  next
    case False
    then show ?thesis using external_enabled(2) [OF assms(1)] by (simp add: masked_undelivered)
  qed
  with none show ?thesis by simp
qed

section \<open>The end of the handler\<close>

text \<open>
  C35. From an interrupted instruction back to it, through a handler that ends with the assembly of the
  guests. Whatever the compiler puts before it (an entry that makes a frame, the call that prints, or
  its body) runs \<open>n\<close> cycles on any embedder, with no other assumption than that it leaves \<open>mepc\<close>, \<open>mstatus\<close>
  and \<open>mie\<close> alone and reaches the assembly. Then four more cycles continue the interrupted program
  at its \<open>pc\<close> with interrupts on, and with the registers of the handler: \<open>t0\<close> is overwritten and all
  others, the stack pointer too, are what they were in the handler, since \<open>mret\<close> skips the exit of the
  function. The external bit of \<open>mip\<close> is clear whatever the controller still has pending, so that no
  machine with these \<open>mie\<close> and \<open>mip\<close> takes an interrupt: the other requests are lost until a new one
  is raised.
\<close>

theorem handler_returns:
  assumes "bit (mstatus s) CSR_MSTATUS_MIE" "mie s = 0x800" "bit (mip s) CSR_MIP_MEIP"
    and "enabled s AND pending s \<noteq> 0"
    and body: "rv32_run p n (deliver_interrupt s, w) = Inr (u, w')" "awake u"
    and kept: "mepc u = mepc (deliver_interrupt s)" "mstatus u = mstatus (deliver_interrupt s)" "mie u = mie s"
    and tail: "block_at u (pc u) interrupt_handler_tail"
  shows "\<exists>v. rv32_run p (n + 4) (s, w) = Inr (v, w')
    \<and> pc v = pc s \<and> bit (mstatus v) CSR_MSTATUS_MIE
    \<and> r v = (r u)[0 := 0, 5 := 0x800] \<and> mem v = mem u \<and> interrupt_controller v = interrupt_controller u
    \<and> (\<forall>x. mie x = mie v \<and> mip x = mip v \<longrightarrow> deliver_interrupt x = x)"
proof -
  define t where "t = deliver_interrupt s"
  obtain q c where c: "c = claim_pending s (unat q)"
    and "t = enter_trap (c\<lparr>mcause := CSR_MCAUSE_INTERRUPT OR (16 + q)\<rparr>)"
    unfolding t_def using trap_from_external [OF assms(1) external_enabled(1) [OF assms(2,3)] assms(4)] by metis
  then have t: "mepc t = pc s" "\<not> bit (mstatus t) CSR_MSTATUS_MIE" "bit (mstatus t) CSR_MSTATUS_MPIE"
    using assms(1) by (simp_all add: enter_trap_fields bit_enter_trap_mstatus claim_pending_fields csr_bit_defs)
  have u: "mepc u = pc s" "\<not> bit (mstatus u) CSR_MSTATUS_MIE" "bit (mstatus u) CSR_MSTATUS_MPIE" "mie u = 0x800"
    using kept t assms(2) by (simp_all add: t_def)
  have "deliver_interrupt t = t" using t(2) by (simp add: deliver_interrupt_def handle_interrupt_disabled)
  then have "rv32_run p (Suc (n + 3)) (s, w) = rv32_run p (Suc (n + 3)) (t, w)"
    by (intro run_delivered) (simp_all add: t_def)
  then have "rv32_run p (n + 4) (s, w) = rv32_run p (n + 4) (t, w)" by (simp add: eval_nat_numeral)
  also have "\<dots> = rv32_run p 4 (u, w')" using body(1) by (simp add: rv32_run_append t_def)
  also note tail_run [OF body(2) u(2) tail]
  finally have run: "rv32_run p (n + 4) (s, w)
      = Inr (exec_mret (u\<lparr>r := (r u)[0 := 0, 5 := 0x800], mip := mip u AND NOT 0x800, pc := pc u + 12\<rparr>), w')"
    (is "_ = Inr (?v, _)") .
  have "bit (mstatus ?v) CSR_MSTATUS_MIE" using u(3) by (simp add: bit_exec_mret_mstatus csr_bit_defs)
  moreover have "mie ?v AND mip ?v = 0" using u(4) only_external [of "mip ?v"] by (simp add: exec_mret_def bit_simps)
  ultimately show ?thesis
    using run u(1) by (intro exI [of _ ?v]) (auto simp: exec_mret_def intro: masked_undelivered)
qed

text \<open>
  A handler of one instruction, which makes a frame of 16 bytes, before the assembly; requests 0 and 1
  are pending. Afterwards the frame is still there and request 1 is pending, and not taken.
\<close>

definition frame_program :: "asm list" where
  "frame_program = Insn (OpImm Addi 2 2 0xff0) # interrupt_handler_tail"

definition interrupted :: rv32 where
  "interrupted = (boot (asm_program frame_program))\<lparr>pc := 64, mstatus := 8, mie := 0x800, mip := 0x800,
     r := (replicate 32 0)[2 := 0x1000], interrupt_controller := \<lparr>ie = 3, ip = 3\<rparr>\<rparr>"

lemma interrupted_delivered:
  "deliver_interrupt interrupted = interrupted\<lparr>pc := 0, mepc := 64, mcause := 0x80000010, mstatus := 0x80,
     interrupt_controller := \<lparr>ie = 3, ip = 2\<rparr>\<rparr>"
  by (simp add: interrupted_def boot_def deliver_interrupt_def rv32_handle_interrupt_def rv32_claim_irq_def
      claim_loop.simps claim_pending_def enter_trap_def CSR_SET_BIT_def CSR_GET_BIT_def csr_bit_defs)

text \<open>The handler at the assembly.\<close>

definition framed :: rv32 where
  "framed = (deliver_interrupt interrupted)\<lparr>pc := 4, r := (replicate 32 0)[2 := 0xff0]\<rparr>"

lemma frame_blocks:
  "word_at (boot (asm_program frame_program)) 0 (encode (OpImm Addi 2 2 0xff0))"
  "block_at (boot (asm_program frame_program)) 4 interrupt_handler_tail"
proof -
  have "length frame_program = 5" by (simp add: frame_program_def interrupt_handler_tail_def li_0x800_def)
  then have "block_at (boot (asm_program frame_program)) (word_of_nat 0) frame_program"
    by (intro boot_block) simp_all
  then show "word_at (boot (asm_program frame_program)) 0 (encode (OpImm Addi 2 2 0xff0))"
    "block_at (boot (asm_program frame_program)) 4 interrupt_handler_tail"
    by (simp_all add: frame_program_def del: encode.simps)
qed

lemma interrupted_awake: "awake (deliver_interrupt interrupted)" "awake framed"
proof -
  have "wf_rv32 (boot (asm_program frame_program))"
    by (rule boot_wf) (simp add: frame_program_def interrupt_handler_tail_def li_0x800_def)
  then show "awake (deliver_interrupt interrupted)" "awake framed"
    unfolding framed_def interrupted_delivered
    by (simp_all add: awake_def wf_rv32_def interrupted_def csr_bit_defs) (simp_all add: boot_def)
qed

lemma frame_made: "rv32_run p 1 (deliver_interrupt interrupted, w) = Inr (framed, w)"
proof -
  let ?t = "deliver_interrupt interrupted"
  have mem: "mem ?t = mem (boot (asm_program frame_program))" "mem_size ?t = mem_size (boot (asm_program frame_program))"
    and pc: "pc ?t = 0" and r: "r ?t = (replicate 32 0)[2 := 0x1000]"
    by (simp_all add: interrupted_delivered) (simp_all add: interrupted_def)
  have "word_at ?t (pc ?t) (encode (OpImm Addi 2 2 0xff0))"
    using frame_blocks(1) by (simp only: word_at_def mem pc)
  moreover have "(replicate 32 (0 :: u32))[2 := 0x1000, 0 := 0, 2 := 0xff0] = (replicate 32 0)[2 := 0xff0]"
    by code_simp
  then have made: "advance 4 (?t\<lparr>r := (replicate 32 0)[2 := 0x1000, 0 := 0, 2 := 0xff0]\<rparr>) = framed"
    by (intro rv32.equality) (simp_all add: advance_def framed_def pc)
  have "rv32_execute p (encode (OpImm Addi 2 2 0xff0)) (write_reg 0 0 ?t, w) = Inr (framed, w)"
    using execute_addi [of "write_reg 0 0 ?t" 2 "0x1000" p 2 "0xff0" w] made
    by (simp add: write_reg_def r del: encode.simps)
  ultimately show ?thesis using step_at [OF interrupted_awake(1), where n = 0] by (simp del: encode.simps)
qed

theorem handler_returns_witness:
  "\<forall>w. \<exists>v. rv32_run fantasy_platform 5 (interrupted, w) = Inr (v, w) \<and> pc v = pc interrupted
     \<and> r v ! 2 = r interrupted ! 2 - 16 \<and> ip (interrupt_controller v) = 2 \<and> deliver_interrupt v = v"
  (is "\<forall>w. ?P w")
proof
  fix w
  have "mem framed = mem (boot (asm_program frame_program))" "mem_size framed = mem_size (boot (asm_program frame_program))"
    and pc: "pc framed = 4" and r: "r framed = (replicate 32 0)[2 := 0xff0]" and c: "ip (interrupt_controller framed) = 2"
    by (simp_all add: framed_def interrupted_delivered) (simp_all add: interrupted_def)
  then have tail: "block_at framed (pc framed) interrupt_handler_tail"
    using frame_blocks(2) block_at_cong by metis
  have "bit (mstatus interrupted) CSR_MSTATUS_MIE" "mie interrupted = 0x800" "bit (mip interrupted) CSR_MIP_MEIP"
    "enabled interrupted AND pending interrupted \<noteq> 0" "r interrupted ! 2 = 0x1000"
    by (simp_all add: interrupted_def csr_bit_defs)
  moreover have "mepc framed = mepc (deliver_interrupt interrupted)" "mie framed = mie interrupted"
    "mstatus framed = mstatus (deliver_interrupt interrupted)"
    by (simp_all add: framed_def interrupted_delivered)
  moreover note handler_returns [OF _ _ _ _ frame_made interrupted_awake(2) _ _ _ tail, of fantasy_platform w]
  ultimately obtain v where v: "rv32_run fantasy_platform (1 + 4) (interrupted, w) = Inr (v, w)" "pc v = pc interrupted"
    "r v = (r framed)[0 := 0, 5 := 0x800]" "interrupt_controller v = interrupt_controller framed"
    "deliver_interrupt v = v" by blast
  then show "?P w" using c r \<open>r interrupted ! 2 = 0x1000\<close> by (intro exI [of _ v]) simp
qed

section \<open>Turning interrupts on\<close>

lemma trigger_keeps:
  "mie (fold (\<lambda>q y. rv32_trigger_external_interrupt y q) irqs t) = mie t"
  "enabled (fold (\<lambda>q y. rv32_trigger_external_interrupt y q) irqs t) = enabled t"
  by (induction irqs arbitrary: t) (simp_all add: rv32_trigger_external_interrupt_def)

text \<open>
  C32. The statements by which \<open>main\<close> turns interrupts on are not enough for them to arrive. Five
  cycles install the handler, enable external interrupts and set the interrupt enable of the hart, on any
  embedder; but they do not touch the enable register of the interrupt controller, which is zero in a new
  machine, and while it is zero no sequence of requests makes the hart take an interrupt.
\<close>

theorem enabled_but_never_taken:
  assumes "awake s" "\<not> bit (mstatus s) CSR_MSTATUS_MIE" "mie s = 0" "enabled s = 0"
    and "block_at s (pc s) (enable_interrupts_asm h)"
  shows "\<exists>t. rv32_run p 5 (s, w) = Inr (t, w) \<and> pc t = pc s + 20
    \<and> mtvec t = (r s)[0 := 0] ! unat h \<and> mie t = 0x800 \<and> bit (mstatus t) CSR_MSTATUS_MIE
    \<and> (\<forall>irqs. let x = fold (\<lambda>q y. rv32_trigger_external_interrupt y q) irqs t
         in deliver_interrupt x = x \<and> rv32_claim_irq x = None)"
proof -
  from enable_run [OF assms(1,2,5), of p w] obtain t where t: "rv32_run p 5 (s, w) = Inr (t, w)"
    "mtvec t = (r s)[0 := 0] ! unat h" "mie t = 0x800" "mstatus t = mstatus s OR 8" "pc t = pc s + 20"
    "enabled t = 0"
    using assms(3,4) by auto
  have "bit (8 :: u32) 3" by (simp add: bit_numeral_rec eval_nat_numeral)
  then have "bit (mstatus t) CSR_MSTATUS_MIE" by (simp add: t(4) bit_simps csr_bit_defs)
  moreover have "let x = fold (\<lambda>q y. rv32_trigger_external_interrupt y q) irqs t
      in deliver_interrupt x = x \<and> rv32_claim_irq x = None" for irqs
    unfolding Let_def by (rule disabled_undelivered) (simp_all add: trigger_keeps t(3,6))
  ultimately show ?thesis using t by blast
qed

theorem enabled_but_never_taken_witness:
  "\<forall>w. \<exists>t. rv32_run fantasy_platform 5 (boot (asm_program (enable_interrupts_asm 10)), w) = Inr (t, w) \<and> pc t = 20
     \<and> deliver_interrupt (rv32_trigger_external_interrupt t 2) = rv32_trigger_external_interrupt t 2"
  (is "\<forall>w. ?P w")
proof
  fix w
  let ?s = "boot (asm_program (enable_interrupts_asm 10))"
  have len: "length (enable_interrupts_asm 10) = 5" by (simp add: enable_interrupts_asm_def li_0x800_def)
  have "block_at ?s (word_of_nat 0) (enable_interrupts_asm 10)" by (rule boot_block) (simp_all add: len)
  then have block: "block_at ?s (pc ?s) (enable_interrupts_asm 10)" by (simp add: boot_def)
  have "awake ?s" by (rule boot_awake) (simp add: len)
  moreover have "\<not> bit (mstatus ?s) CSR_MSTATUS_MIE" "mie ?s = 0" "enabled ?s = 0" "pc ?s = 0"
    by (simp_all add: boot_def)
  ultimately obtain t where t: "rv32_run fantasy_platform 5 (?s, w) = Inr (t, w)" "pc t = 20"
    "\<forall>irqs. let x = fold (\<lambda>q y. rv32_trigger_external_interrupt y q) irqs t
       in deliver_interrupt x = x \<and> rv32_claim_irq x = None"
    using enabled_but_never_taken [OF _ _ _ _ block, of fantasy_platform w] by auto
  from t(3) [rule_format, of "[2]"] t show "?P w" by (auto simp: Let_def)
qed

end
