(* ===== verification/Spec2Isabelle.thy ===== *)
theory Spec2Isabelle
  imports Api_Properties Control_Properties Newlib_Properties Fantasy_Properties Sketch Loadelf
    Guest_Programs Guest_Assembly Gdb_Session Program_Ends Guest_Interrupts Elf_Relocs
begin

text \<open>
  A verification development for the \<open>rv32\<close> repository: a RISC-V emulator (RV32IM, Zicsr, machine
  mode interrupts) written as a single C header, \<open>src/src/rv32.h\<close>, and the programs that embed it.

  \<^bold>\<open>The program.\<close> An embedder allocates \<open>RV32_NEEDED_MEMORY(n)\<close> bytes, hands them to \<open>rv32_new\<close>
  and calls \<open>rv32_cycle\<close> in a loop. A cycle delivers an interrupt, honours \<open>wfi\<close>, the status and the
  breakpoints, fetches a word, decodes it and executes it. Addresses outside RAM go to callbacks of
  the embedder (\<open>mmio_*\<close>), and so do environment calls (\<open>ecall\<close>). The embedders are a command-line
  emulator (\<open>src/examples/embedding\<close>), a debugger stub that speaks the remote protocol of GDB
  (\<open>src/gdb_stub\<close>), a console with a screen (\<open>src/examples/fantasy-computer\<close>) and two boards that
  are debugged over a serial line (\<open>src/examples/arduino\<close>, one of them with a screen). Beside them
  there are an earlier copy of the emulator for guests linked with newlib
  (\<open>src/examples/c-newlib-nano\<close>), a dumper of ELF files (\<open>src/elf\<close>), and guests: programs that run
  inside the machine and reach the embedder by system calls, stores to the screen and interrupts.

  \<^bold>\<open>Theories of the machine.\<close>
  \<^item> \<open>Prelude\<close>: results with faults (\<open>run\<close>), bits of 32-bit words, little-endian byte strings.
  \<^item> \<open>Machine\<close>: the \<open>RV32\<close> structure, its layout, status and register names, \<open>rv32_new\<close>,
    \<open>rv32_reset\<close>, \<open>rv32_resume\<close>, the invariant \<open>wf_rv32\<close>.
  \<^item> \<open>Decode\<close>: the macros that take instructions apart, against an encoder of the formats.
  \<^item> \<open>Memory\<close>: \<open>rv32_load*\<close>, \<open>rv32_store*\<close>; the locale \<open>byte_cell\<close> (reads and writes of a fixed
    width, interpreted at the three widths) and the locale \<open>platform_contract\<close> (what the embedder's
    callbacks keep; every embedder interprets it).
  \<^item> \<open>Interrupts\<close>: CSRs (locale \<open>register_file\<close>), the interrupt controller, trap entry.
  \<^item> \<open>Execute\<close>: \<open>rv32_cycle\<close>, one definition per case of its switch.
  \<^item> \<open>Isa\<close>, \<open>Encode\<close>: the instruction set as a specification over integers, and its encoding.
    Nothing in them is translated from the source.
  \<^item> \<open>Alu\<close>, \<open>Safety\<close>, \<open>Refinement\<close>: the code's arithmetic is that of the instruction set; a cycle
    stays in the allocated memory; a cycle simulates a step of the instruction set.
  \<^item> \<open>Decoder\<close>: the whole space of instruction words, what the switch takes each of them for, and the
    words that it executes beyond the instruction set. \<open>Total_Cycle\<close>: the cycle at every hart, with its
    failures and what it hands to the embedder (\<open>hart_cycle\<close>).
  \<^item> \<open>World\<close>: what a cycle can do to the world of the embedder, for any preorder that its callbacks
    respect (locale \<open>world_order\<close>).
  \<^item> \<open>Delivery\<close>, \<open>Breakpoints\<close>: which request is claimed and when; the breakpoint slots as a bag
    (locale \<open>bounded_bag\<close>).
  \<^item> \<open>Api\<close>: the calls of the interface in any order, the type of the machines they hand around, and
    the contract of embedders that keep it (locale \<open>typed_platform\<close>, which extends
    \<open>platform_contract\<close>). \<open>Api_Properties\<close>: every embedder keeps it, and the interface is type-sound.
  \<^item> \<open>Machine_Properties\<close>, \<open>Control_Properties\<close>: the properties of the core and of the command-line
    emulator, with their witnesses. \<open>Program_Io\<close>: the environment of a guest over the instruction set
    (system calls, the console byte, the two regular ends of a program) and the runs of \<open>main\<close> that it
    describes. \<open>Program_Ends\<close>: an environment with interrupts and the controller's registers, as a
    function with all ends, errors included, and the fate of every program: what \<open>main\<close> returns and
    prints, that it never returns, or that it reads outside its block.

  \<^bold>\<open>Theories of the programs.\<close>
  \<^item> \<open>Emulator\<close>: the command-line emulator, \<open>emulator.c\<close> and \<open>ecall.c\<close> of \<open>src/examples/embedding\<close>.
  \<^item> \<open>Rsp_Packet\<close>: digits and packets of \<open>src/gdb_stub/rsp.h\<close> (locale \<open>byte_sink\<close>: what the
    functions that append to a packet write), and the protocol's receiver as the specification.
    \<open>Rsp_Commands\<close>: the handlers of the commands and their dispatch. \<open>Rsp_Server\<close>: the state
    machine \<open>rsp_handle_byte\<close> with its static variables. \<open>Rsp_Facts\<close>: what the handlers keep
    and what the messages of the commands mean. \<open>Rsp_Properties\<close>: the properties of the protocol.
  \<^item> \<open>Gdb_Stub\<close>: \<open>src/gdb_stub/main.c\<close>, over every interleaving of input and cycles.
    \<open>Gdb_Session\<close>: a session from the bytes of the debugger to the steps of the instruction set.
  \<^item> \<open>Newlib_Core\<close>: \<open>rv32.c\<close>, \<open>ecall.c\<close> and \<open>emulator.c\<close> of \<open>src/examples/c-newlib-nano\<close>;
    \<open>Newlib_Facts\<close>: the embedding \<open>upgrade\<close> into the current core, and what can go wrong in a step;
    \<open>Newlib_Stubs\<close>: the guest's side, \<open>stubs.c\<close>; \<open>Newlib_Properties\<close>.
  \<^item> \<open>Fantasy\<close>, \<open>Fantasy_Properties\<close>: the fantasy computer; \<open>Arduino\<close>: the board with a screen.
  \<^item> \<open>Stub_Host\<close>: what a program promises that keeps the protocol on a line of its own (locale
    \<open>stub_host\<close>, which extends \<open>platform_contract\<close> and \<open>world_order\<close>), and what a debugger can rely on
    from these promises alone. \<open>Sketch\<close>: \<open>rv32_gdb.ino\<close>; it and the board interpret the locale.
  \<^item> \<open>Elf\<close>, \<open>Loadelf\<close>: the structures of \<open>elf.h\<close>, placed as C places them, and \<open>loadelf.c\<close>.
    \<open>Elf_Relocs\<close>: the relocation codes of the header and the field that holds them.

  \<^bold>\<open>Theories of the guests.\<close>
  \<^item> \<open>Guest\<close>: the integer functions \<open>rgb565\<close> and \<open>fib\<close>. \<open>Guest_Math\<close>: the functions in floating point,
    over the operations of the compiler's library (record \<open>fp\<close>), and what that library is documented to
    do (\<open>double_library\<close>, IEEE double arithmetic).
  \<^item> \<open>Guest_Asm\<close>: the inline assembly as instructions, and the machine at such a block: the system
    calls, the last statements of the interrupt handler, and turning interrupts on.
  \<^item> \<open>Guest_Interrupts\<close>: an interrupt from the interrupted instruction through a handler that ends with
    those statements and back, and what the statements that turn interrupts on leave out.
  \<^item> \<open>Guest_Programs\<close>: the \<open>main\<close> functions as sequences of what they ask for (\<open>guest_action\<close>), played
    against the platforms: the picture of the example, the menu, the output of the program in C.
  \<^item> \<open>Guest_Assembly\<close>: \<open>src/examples/asm\<close>, assembled; their loops are walked with the lemmas on blocks,
    jumps and calls, and \<open>Program_Io\<close> turns the walks into runs of the emulator.

  \<^bold>\<open>Conventions.\<close> A machine is a record \<open>rv32\<close>; a machine with the embedder's world is a pair
  \<open>'w vm\<close>. Out-of-bounds accesses, other undefined behaviour and fatal errors are values \<open>Inl\<close> of
  the type \<open>'a run\<close>. Words have the width of the C types; \<open>size_t\<close> has 64 bits (LP64) and the host is
  little-endian, as the pointer casts of the source assume. The product of \<open>mul\<close> in \<open>rv32.h\<close>,
  which can overflow \<open>int64_t\<close>, is taken modulo \<open>2 ^ 64\<close>, as it is compiled; in the core of the newlib
  emulator, where the undefined cases are a property, the same overflow is a fault. Shifts of signed numbers
  have the meaning that gcc documents. The variable \<open>handler_result\<close> of the protocol, read before it is
  assigned, is a parameter with one value for a run. Libraries are arguments: the files, the result of \<open>malloc\<close>, whether a byte is available,
  the events and the clock of SDL, the drawing functions of \<open>TFT_eSPI\<close>. The stub, the fantasy
  computer and the board are written for an earlier \<open>rv32.h\<close>; their names for the callbacks'
  results and for the paused status are read as the current ones.

  \<^bold>\<open>What the properties show.\<close> The core executes the instruction set on all instructions but the ones
  that the properties delimit (long jumps, \<open>sltiu\<close> with a negative immediate, \<open>mret\<close>, which does not set
  \<open>MPIE\<close>), refuses or executes every other word as described, never leaves its memory, and delivers interrupts, traps and breakpoints as
  described; the emulator prints and returns what the program computes, and ends as it ends. The protocol's packets are read back by its receiver, the commands read and write
  the machine as their messages say within exact bounds, and a session keeps its invariant whatever
  arrives; setting a breakpoint and continuing stops the guest there in the state of the instruction set. The earlier core takes the steps of the current one where both agree, and is undefined in
  three cases only. The frame buffer stores are all or nothing. The interface can be called in any order
  without leaving the type of a machine. A guest's system call reaches the embedder with its
  arguments, an interrupt is entered and left as the assembly of the handler says, the statements that turn
  interrupts on do not enable the controller, the picture of the example is the one that its formula gives,
  and its square root is one within stated bounds, with any library of IEEE arithmetic. Several properties are exact
  characterisations of deviations: each is recorded as a finding beside the line that causes it.

  \<^bold>\<open>Bounds and fuel.\<close> The loops over interrupts, slots, digits and segments are bounded and terminate
  by a measure or by structure. The main loops of the two emulators need not end: each is a
  \<open>partial_function\<close>, and \<open>emulator_turns\<close> is the first one with a bound; \<open>emulator_turns_loop\<close> and
  \<open>emulator_loop_turns\<close> say that the loop returns exactly when some bound is enough. The loops of the
  stub, the board and the fantasy computer follow a list: one element for each answer of the
  environment, so that every finite run is one list.

  \<^bold>\<open>Not modelled.\<close> The trace output (off by default), \<open>free\<close> and \<open>fclose\<close>; drawing and initialisation
  calls of SDL and \<open>TFT_eSPI\<close> that have no effect on the machine; the constants of \<open>elf.h\<close>, of which the
  program uses one, other than the relocation codes; what the compiler makes of the guests between the statements of their inline
  assembly (register allocation, the entry and exit of functions), for which the calling convention is
  assumed at each block, and which the property of the interrupt handler leaves open; the guest \<open>hello.c\<close>, one call of the library; the guest in Zig, of which the repository
  holds no instructions, the start files \<open>crt0.s\<close>, and the instruction tests, which are input of the emulator.
  The assembler is taken to emit the instructions as written, without relaxation.
\<close>

end
